(* ===== verification/Prelude.thy ===== *)
theory Prelude
  imports Main "HOL-Library.AList" "HOL-Library.Word"
begin

text \<open>
  What every other theory of the development shares.

  A Go function that may return an error, may panic and may change state is a value of type
  \<open>('s, 'e, 'a) prog\<close>: from a state to an outcome and the new state. An outcome is the
  returned value, the returned non-nil \<open>error\<close>, or a run-time panic (nil dereference, index
  out of range, \<open>close\<close> of a closed channel). The combinators below are the control flow
  of the Go code: \<open>bindM\<close> is the usual
  \<^verbatim>\<open>if err != nil { return err }\<close>, \<open>catchM\<close> is an error branch that returns another
  error or recovers, \<open>attempt\<close> hands the error to the code that looks at it, \<open>dropErr\<close>
  is a call whose error is ignored (\<^verbatim>\<open>_ = f()\<close>), and \<open>deferM\<close> is \<^verbatim>\<open>defer\<close>: it runs
  after a return and after a panic alike.

  The locale \<open>effect\<close> is the interface of everything that is proved about all
  programs at once: a reflexive and transitive relation between the state before and the
  state after. Its lemmas carry the relation through the combinators.
\<close>

section \<open>Named collections\<close>

named_theorems run_simps "what a combinator's run from a state is"
named_theorems unchanged_intros "a program leaves a part of the state alone"

section \<open>Bytes and machine words\<close>

type_synonym byte = "8 word"
type_synonym bytes = "8 word list"
type_synonym u64 = "64 word"
type_synonym u32 = "32 word"

text \<open>Go's conversion \<^verbatim>\<open>int(x)\<close> of a 64-bit \<^verbatim>\<open>uint\<close>: the same bits read as signed.\<close>

definition int_of_uint :: "u64 \<Rightarrow> int" where
  "int_of_uint w = sint w"

lemma int_of_uint_inject [simp]: "int_of_uint a = int_of_uint b \<longleftrightarrow> a = b"
  unfolding int_of_uint_def by (auto dest: arg_cong [where f = "of_int :: int \<Rightarrow> u64"])

text \<open>\<open>copy\<close>-free overwriting of a byte slice with zeros.\<close>

definition zeroBytes :: "bytes \<Rightarrow> bytes" where
  "zeroBytes b = map (\<lambda>_. 0) b"

lemma length_zeroBytes [simp]: "length (zeroBytes b) = length b"
  by (simp add: zeroBytes_def)

lemma set_zeroBytes: "set (zeroBytes b) \<subseteq> {0}"
  by (auto simp: zeroBytes_def)

section \<open>Outcomes and programs\<close>

datatype ('e, 'a) outcome = Ok 'a | Err 'e | Panic string

type_synonym ('s, 'e, 'a) prog = "'s \<Rightarrow> ('e, 'a) outcome \<times> 's"

definition ret :: "'a \<Rightarrow> ('s, 'e, 'a) prog" where
  "ret x s = (Ok x, s)"

definition throw :: "'e \<Rightarrow> ('s, 'e, 'a) prog" where
  "throw e s = (Err e, s)"

definition panicM :: "string \<Rightarrow> ('s, 'e, 'a) prog" where
  "panicM p s = (Panic p, s)"

definition getsM :: "('s \<Rightarrow> 'a) \<Rightarrow> ('s, 'e, 'a) prog" where
  "getsM f s = (Ok (f s), s)"

definition modifyM :: "('s \<Rightarrow> 's) \<Rightarrow> ('s, 'e, unit) prog" where
  "modifyM f s = (Ok (), f s)"

definition bindM :: "('s, 'e, 'a) prog \<Rightarrow> ('a \<Rightarrow> ('s, 'e, 'b) prog) \<Rightarrow> ('s, 'e, 'b) prog" where
  "bindM m f s = (case m s of
     (Ok x, s') \<Rightarrow> f x s'
   | (Err e, s') \<Rightarrow> (Err e, s')
   | (Panic p, s') \<Rightarrow> (Panic p, s'))"

definition catchM :: "('s, 'e, 'a) prog \<Rightarrow> ('e \<Rightarrow> ('s, 'e, 'a) prog) \<Rightarrow> ('s, 'e, 'a) prog" where
  "catchM m h s = (case m s of
     (Ok x, s') \<Rightarrow> (Ok x, s')
   | (Err e, s') \<Rightarrow> h e s'
   | (Panic p, s') \<Rightarrow> (Panic p, s'))"

definition attempt :: "('s, 'e, 'a) prog \<Rightarrow> ('s, 'e, 'e + 'a) prog" where
  "attempt m s = (case m s of
     (Ok x, s') \<Rightarrow> (Ok (Inr x), s')
   | (Err e, s') \<Rightarrow> (Ok (Inl e), s')
   | (Panic p, s') \<Rightarrow> (Panic p, s'))"

definition deferM :: "(('e, 'a) outcome \<Rightarrow> 's \<Rightarrow> 's) \<Rightarrow> ('s, 'e, 'a) prog \<Rightarrow> ('s, 'e, 'a) prog" where
  "deferM d m s = (case m s of (r, s') \<Rightarrow> (r, d r s'))"

definition thenM :: "('s, 'e, 'a) prog \<Rightarrow> ('s, 'e, 'b) prog \<Rightarrow> ('s, 'e, 'b) prog" where
  "thenM m n = bindM m (\<lambda>_. n)"

definition dropErr :: "('s, 'e, 'a) prog \<Rightarrow> ('s, 'e, unit) prog" where
  "dropErr m = bindM (attempt m) (\<lambda>_. ret ())"

definition wrapErr :: "('e \<Rightarrow> 'e) \<Rightarrow> ('s, 'e, 'a) prog \<Rightarrow> ('s, 'e, 'a) prog" where
  "wrapErr w m = catchM m (\<lambda>e. throw (w e))"

definition guardM :: "bool \<Rightarrow> 'e \<Rightarrow> ('s, 'e, unit) prog" where
  "guardM b e = (if b then ret () else throw e)"

text \<open>\<^verbatim>\<open>x, err := m; if err != nil { h } else { f }\<close>, where both ways may go on.\<close>

definition tryM :: "('s, 'e, 'a) prog \<Rightarrow> ('e \<Rightarrow> ('s, 'e, 'b) prog) \<Rightarrow> ('a \<Rightarrow> ('s, 'e, 'b) prog) \<Rightarrow>
    ('s, 'e, 'b) prog" where
  "tryM m h f s = (case m s of
     (Ok x, s') \<Rightarrow> f x s'
   | (Err e, s') \<Rightarrow> h e s'
   | (Panic p, s') \<Rightarrow> (Panic p, s'))"

subsection \<open>Evaluation\<close>

lemma run_basic [run_simps]:
  "ret x s = (Ok x, s)"
  "throw e s = (Err e, s)"
  "panicM p s = (Panic p, s)"
  "getsM f s = (Ok (f s), s)"
  "modifyM g s = (Ok (), g s)"
  by (simp_all add: ret_def throw_def panicM_def getsM_def modifyM_def)

lemma run_guardM [run_simps]:
  "guardM b e s = (if b then (Ok (), s) else (Err e, s))"
  by (simp add: guardM_def run_basic)

lemma bindM_eq [simp]:
  "m s = (Ok x, t) \<Longrightarrow> bindM m f s = f x t"
  "m s = (Err e, t) \<Longrightarrow> bindM m f s = (Err e, t)"
  "m s = (Panic p, t) \<Longrightarrow> bindM m f s = (Panic p, t)"
  by (simp_all add: bindM_def)

lemma catchM_eq [simp]:
  "m s = (Ok x, t) \<Longrightarrow> catchM m h s = (Ok x, t)"
  "m s = (Err e, t) \<Longrightarrow> catchM m h s = h e t"
  "m s = (Panic p, t) \<Longrightarrow> catchM m h s = (Panic p, t)"
  by (simp_all add: catchM_def)

lemma tryM_eq [simp]:
  "m s = (Ok x, t) \<Longrightarrow> tryM m h f s = f x t"
  "m s = (Err e, t) \<Longrightarrow> tryM m h f s = h e t"
  "m s = (Panic p, t) \<Longrightarrow> tryM m h f s = (Panic p, t)"
  by (simp_all add: tryM_def)

lemma attempt_eq [simp]:
  "m s = (Ok x, t) \<Longrightarrow> attempt m s = (Ok (Inr x), t)"
  "m s = (Err e, t) \<Longrightarrow> attempt m s = (Ok (Inl e), t)"
  "m s = (Panic p, t) \<Longrightarrow> attempt m s = (Panic p, t)"
  by (simp_all add: attempt_def)

lemma deferM_eq [simp]: "m s = (r, t) \<Longrightarrow> deferM d m s = (r, d r t)"
  by (simp add: deferM_def)

lemma bindM_assoc: "bindM (bindM m f) g = bindM m (\<lambda>x. bindM (f x) g)"
  by (rule ext) (simp add: bindM_def split: prod.splits outcome.splits)

subsection \<open>Inversion: what a given outcome says of the parts\<close>

lemma bindM_Ok [run_simps]:
  "bindM m f s = (Ok y, t) \<longleftrightarrow> (\<exists>x u. m s = (Ok x, u) \<and> f x u = (Ok y, t))"
  by (auto simp: bindM_def split: prod.splits outcome.splits)

lemma bindM_Err [run_simps]:
  "bindM m f s = (Err e, t) \<longleftrightarrow> m s = (Err e, t) \<or> (\<exists>x u. m s = (Ok x, u) \<and> f x u = (Err e, t))"
  by (auto simp: bindM_def split: prod.splits outcome.splits)

lemma bindM_Panic [run_simps]:
  "bindM m f s = (Panic p, t) \<longleftrightarrow> m s = (Panic p, t) \<or> (\<exists>x u. m s = (Ok x, u) \<and> f x u = (Panic p, t))"
  by (auto simp: bindM_def split: prod.splits outcome.splits)

lemma catchM_Ok [run_simps]:
  "catchM m h s = (Ok y, t) \<longleftrightarrow> m s = (Ok y, t) \<or> (\<exists>e u. m s = (Err e, u) \<and> h e u = (Ok y, t))"
  by (auto simp: catchM_def split: prod.splits outcome.splits)

lemma catchM_Err [run_simps]:
  "catchM m h s = (Err e, t) \<longleftrightarrow> (\<exists>e' u. m s = (Err e', u) \<and> h e' u = (Err e, t))"
  by (auto simp: catchM_def split: prod.splits outcome.splits)

lemma catchM_Panic [run_simps]:
  "catchM m h s = (Panic p, t) \<longleftrightarrow> m s = (Panic p, t) \<or> (\<exists>e u. m s = (Err e, u) \<and> h e u = (Panic p, t))"
  by (auto simp: catchM_def split: prod.splits outcome.splits)

lemma tryM_iff [run_simps]:
  "tryM m h f s = (Ok y, t) \<longleftrightarrow>
     (\<exists>x u. m s = (Ok x, u) \<and> f x u = (Ok y, t)) \<or> (\<exists>e u. m s = (Err e, u) \<and> h e u = (Ok y, t))"
  "tryM m h f s = (Err e, t) \<longleftrightarrow>
     (\<exists>x u. m s = (Ok x, u) \<and> f x u = (Err e, t)) \<or> (\<exists>e' u. m s = (Err e', u) \<and> h e' u = (Err e, t))"
  "tryM m h f s = (Panic p, t) \<longleftrightarrow> m s = (Panic p, t) \<or>
     (\<exists>x u. m s = (Ok x, u) \<and> f x u = (Panic p, t)) \<or> (\<exists>e u. m s = (Err e, u) \<and> h e u = (Panic p, t))"
  by (auto simp: tryM_def split: prod.splits outcome.splits)

lemma tryM_attempt: "tryM m h f = bindM (attempt m) (\<lambda>r. case r of Inl e \<Rightarrow> h e | Inr x \<Rightarrow> f x)"
  by (rule ext) (simp add: tryM_def bindM_def attempt_def split: prod.splits outcome.splits)

lemma attempt_Ok [run_simps]:
  "attempt m s = (Ok (Inr x), t) \<longleftrightarrow> m s = (Ok x, t)"
  "attempt m s = (Ok (Inl e), t) \<longleftrightarrow> m s = (Err e, t)"
  by (auto simp: attempt_def split: prod.splits outcome.splits)

lemma attempt_Ok_iff:
  "attempt m s = (Ok r, t) \<longleftrightarrow>
     (case r of Inr x \<Rightarrow> m s = (Ok x, t) | Inl e \<Rightarrow> m s = (Err e, t))"
  by (auto simp: attempt_def split: prod.splits outcome.splits sum.splits)

lemma attempt_Err [run_simps]: "attempt m s = (Err e, t) \<longleftrightarrow> False"
  by (auto simp: attempt_def split: prod.splits outcome.splits)

lemma attempt_Panic [run_simps]: "attempt m s = (Panic p, t) \<longleftrightarrow> m s = (Panic p, t)"
  by (auto simp: attempt_def split: prod.splits outcome.splits)

lemma deferM_iff [run_simps]:
  "deferM d m s = (r, t) \<longleftrightarrow> (\<exists>u. m s = (r, u) \<and> t = d r u)"
  by (auto simp: deferM_def split: prod.splits)

lemma thenM_Ok [run_simps]:
  "thenM m n s = (Ok y, t) \<longleftrightarrow> (\<exists>x u. m s = (Ok x, u) \<and> n u = (Ok y, t))"
  by (simp add: thenM_def bindM_Ok)

lemma thenM_Err [run_simps]:
  "thenM m n s = (Err e, t) \<longleftrightarrow> m s = (Err e, t) \<or> (\<exists>x u. m s = (Ok x, u) \<and> n u = (Err e, t))"
  by (simp add: thenM_def bindM_Err)

lemma thenM_Panic [run_simps]:
  "thenM m n s = (Panic p, t) \<longleftrightarrow> m s = (Panic p, t) \<or> (\<exists>x u. m s = (Ok x, u) \<and> n u = (Panic p, t))"
  by (simp add: thenM_def bindM_Panic)

lemma dropErr_Ok [run_simps]:
  "dropErr m s = (Ok y, t) \<longleftrightarrow> (\<exists>x. m s = (Ok x, t)) \<or> (\<exists>e. m s = (Err e, t))"
  by (auto simp: dropErr_def attempt_def bindM_def ret_def split: prod.splits outcome.splits)

lemma dropErr_Err [run_simps]: "dropErr m s = (Err e, t) \<longleftrightarrow> False"
  by (auto simp: dropErr_def attempt_def bindM_def ret_def split: prod.splits outcome.splits)

lemma dropErr_Panic [run_simps]: "dropErr m s = (Panic p, t) \<longleftrightarrow> m s = (Panic p, t)"
  by (auto simp: dropErr_def attempt_def bindM_def ret_def split: prod.splits outcome.splits)

lemma wrapErr_Ok [run_simps]: "wrapErr w m s = (Ok y, t) \<longleftrightarrow> m s = (Ok y, t)"
  by (simp add: wrapErr_def catchM_Ok run_basic)

lemma wrapErr_Err [run_simps]:
  "wrapErr w m s = (Err e, t) \<longleftrightarrow> (\<exists>e'. m s = (Err e', t) \<and> e = w e')"
  by (auto simp: wrapErr_def catchM_Err run_basic)

lemma wrapErr_Panic [run_simps]: "wrapErr w m s = (Panic p, t) \<longleftrightarrow> m s = (Panic p, t)"
  by (simp add: wrapErr_def catchM_Panic run_basic)

text \<open>A program chosen by a case distinction.\<close>

lemma run_cases [run_simps]:
  "(if b then m else n) s = (r, t) \<longleftrightarrow> (b \<and> m s = (r, t)) \<or> (\<not> b \<and> n s = (r, t))"
  "(case v of None \<Rightarrow> m | Some x \<Rightarrow> f x) s = (r, t) \<longleftrightarrow>
     (v = None \<and> m s = (r, t)) \<or> (\<exists>x. v = Some x \<and> f x s = (r, t))"
  "(case v' of Inl x \<Rightarrow> g x | Inr y \<Rightarrow> h y) s = (r, t) \<longleftrightarrow>
     (\<exists>x. v' = Inl x \<and> g x s = (r, t)) \<or> (\<exists>y. v' = Inr y \<and> h y s = (r, t))"
  "(case p of (x, y) \<Rightarrow> k x y) s = (r, t) \<longleftrightarrow> (\<exists>x y. p = (x, y) \<and> k x y s = (r, t))"
  by (auto split: option.split sum.split prod.split)

section \<open>Relations a program stays within\<close>

definition within :: "('s \<Rightarrow> 's \<Rightarrow> bool) \<Rightarrow> ('s, 'e, 'a) prog \<Rightarrow> bool" where
  "within R m \<longleftrightarrow> (\<forall>s. R s (snd (m s)))"

lemma withinD: "within R m \<Longrightarrow> m s = (r, t) \<Longrightarrow> R s t"
  unfolding within_def by (metis snd_conv)

lemma withinI: "(\<And>s r t. m s = (r, t) \<Longrightarrow> R s t) \<Longrightarrow> within R m"
  unfolding within_def by (metis prod.collapse)

locale effect =
  fixes R :: "'s \<Rightarrow> 's \<Rightarrow> bool"
  assumes stay: "R s s"
    and chain: "R s t \<Longrightarrow> R t u \<Longrightarrow> R s u"
begin

lemma within_pure: "within R (ret x)" "within R (throw e)" "within R (panicM p)" "within R (getsM f)"
    "within R (guardM b e)"
  by (simp_all add: within_def run_basic run_guardM stay)

lemma within_bind:
  assumes "within R m" and "\<And>x. within R (f x)"
  shows "within R (bindM m f)"
proof (rule withinI)
  fix s r t
  assume run: "bindM m f s = (r, t)"
  obtain q u where m: "m s = (q, u)" by fastforce
  have su: "R s u" using assms(1) m by (rule withinD)
  show "R s t"
  proof (cases q)
    case (Ok x)
    then have "f x u = (r, t)" using run m by simp
    then have "R u t" by (rule withinD [OF assms(2)])
    with su show ?thesis by (rule chain)
  next
    case (Err e)
    then show ?thesis using run m su by simp
  next
    case (Panic p)
    then show ?thesis using run m su by simp
  qed
qed

lemma within_catch:
  assumes "within R m" and "\<And>e. within R (h e)"
  shows "within R (catchM m h)"
proof (rule withinI)
  fix s r t
  assume run: "catchM m h s = (r, t)"
  obtain q u where m: "m s = (q, u)" by fastforce
  have su: "R s u" using assms(1) m by (rule withinD)
  show "R s t"
  proof (cases q)
    case (Err e)
    then have "h e u = (r, t)" using run m by simp
    then have "R u t" by (rule withinD [OF assms(2)])
    with su show ?thesis by (rule chain)
  next
    case (Ok x)
    then show ?thesis using run m su by simp
  next
    case (Panic p)
    then show ?thesis using run m su by simp
  qed
qed

lemma within_attempt: "within R m \<Longrightarrow> within R (attempt m)"
  by (auto simp: within_def attempt_def split: prod.splits outcome.splits) (metis snd_conv)+

lemma within_try:
  assumes "within R m" and "\<And>e. within R (h e)" and "\<And>x. within R (f x)"
  shows "within R (tryM m h f)"
  unfolding tryM_attempt
  by (rule within_bind) (auto split: sum.split intro: within_attempt assms)

lemma within_defer:
  assumes "within R m" and "\<And>q s. R s (d q s)"
  shows "within R (deferM d m)"
proof (rule withinI)
  fix s r t
  assume "deferM d m s = (r, t)"
  then obtain u where m: "m s = (r, u)" and t: "t = d r u" by (auto simp: deferM_iff)
  have "R s u" using assms(1) m by (rule withinD)
  moreover have "R u t" unfolding t by (rule assms(2))
  ultimately show "R s t" by (rule chain)
qed

lemma within_then: "within R m \<Longrightarrow> within R n \<Longrightarrow> within R (thenM m n)"
  by (simp add: thenM_def within_bind)

lemma within_drop: "within R m \<Longrightarrow> within R (dropErr m)"
  by (simp add: dropErr_def within_bind within_attempt within_pure)

lemma within_wrap: "within R m \<Longrightarrow> within R (wrapErr w m)"
  by (simp add: wrapErr_def within_catch within_pure)

lemma within_modify: "(\<And>s. R s (g s)) \<Longrightarrow> within R (modifyM g)"
  by (simp add: within_def run_basic)

lemmas within_all = within_pure within_bind within_catch within_try within_attempt within_defer
  within_then within_drop within_wrap

end

subsection \<open>A part of the state is left alone\<close>

abbreviation unchanged :: "('s \<Rightarrow> 'b) \<Rightarrow> ('s, 'e, 'a) prog \<Rightarrow> bool" where
  "unchanged f \<equiv> within (\<lambda>s t. f t = f s)"

lemma effect_unchanged: "effect (\<lambda>s t. f t = f s)"
  by unfold_locales auto

interpretation same: effect "\<lambda>s t. f t = f s" for f :: "'s \<Rightarrow> 'b"
  by (rule effect_unchanged)

lemmas unchanged_pure [unchanged_intros] = same.within_pure
lemmas unchanged_bind [unchanged_intros] = same.within_bind
lemmas unchanged_catch [unchanged_intros] = same.within_catch
lemmas unchanged_try [unchanged_intros] = same.within_try
lemmas unchanged_attempt [unchanged_intros] = same.within_attempt
lemmas unchanged_defer [unchanged_intros] = same.within_defer
lemmas unchanged_then [unchanged_intros] = same.within_then
lemmas unchanged_drop [unchanged_intros] = same.within_drop
lemmas unchanged_wrap [unchanged_intros] = same.within_wrap
lemmas unchanged_modify [unchanged_intros] = same.within_modify

lemma within_if [unchanged_intros]:
  "(b \<Longrightarrow> within R m) \<Longrightarrow> (\<not> b \<Longrightarrow> within R n) \<Longrightarrow> within R (if b then m else n)"
  by simp

lemma within_option [unchanged_intros]:
  "within R m \<Longrightarrow> (\<And>x. within R (f x)) \<Longrightarrow> within R (case v of None \<Rightarrow> m | Some x \<Rightarrow> f x)"
  by (cases v) auto

lemma within_sum [unchanged_intros]:
  "(\<And>x. within R (f x)) \<Longrightarrow> (\<And>x. within R (g x)) \<Longrightarrow> within R (case v of Inl x \<Rightarrow> f x | Inr x \<Rightarrow> g x)"
  by (cases v) auto

lemma within_prod [unchanged_intros]:
  "(\<And>x y. within R (f x y)) \<Longrightarrow> within R (case p of (x, y) \<Rightarrow> f x y)"
  by (cases p) auto

lemma unchangedD: "unchanged f m \<Longrightarrow> m s = (r, t) \<Longrightarrow> f t = f s"
  by (rule withinD)

section \<open>Association lists\<close>

text \<open>A Go \<^verbatim>\<open>map[string]interface{}\<close> and \<^verbatim>\<open>map[int]T\<close>: an association list with one entry per key.\<close>

definition assoc_keys_distinct :: "('k \<times> 'v) list \<Rightarrow> bool" where
  "assoc_keys_distinct m \<longleftrightarrow> distinct (map fst m)"

lemma assoc_keys_distinct_update:
  "assoc_keys_distinct m \<Longrightarrow> assoc_keys_distinct (AList.update k v m)"
  by (simp add: assoc_keys_distinct_def distinct_update)

lemma map_of_update: "map_of (AList.update k v m) = (map_of m)(k \<mapsto> v)"
  by (rule update_conv')

section \<open>Lists\<close>

lemma find_Some_iff_filter:
  "List.find P xs = (case filter P xs of [] \<Rightarrow> None | x # _ \<Rightarrow> Some x)"
  by (induction xs) auto

lemma find_SomeD: "List.find P xs = Some x \<Longrightarrow> x \<in> set xs \<and> P x"
  by (induction xs) (auto split: if_splits)

lemma find_None_iff': "List.find P xs = None \<longleftrightarrow> (\<forall>x \<in> set xs. \<not> P x)"
  by (induction xs) auto

lemma find_append:
  "List.find P (xs @ ys) = (case List.find P xs of None \<Rightarrow> List.find P ys | Some x \<Rightarrow> Some x)"
  by (induction xs) auto

end
