(* ===== verification/Go_Strings.thy ===== *)
theory Go_Strings
  imports Prelude
begin

text \<open>
  The functions of Go's packages \<^verbatim>\<open>strings\<close>, \<^verbatim>\<open>strconv\<close>, \<^verbatim>\<open>fmt\<close> and
  \<^verbatim>\<open>math/big\<close> that the repository calls, on strings as lists of bytes
  (\<^verbatim>\<open>string\<close> in Go is a byte sequence, and \<open>length\<close> counts bytes as \<^verbatim>\<open>len\<close> does).
  White space is the ASCII white space of \<^verbatim>\<open>unicode.IsSpace\<close>.
\<close>

section \<open>Package strings\<close>

definition has_prefix :: "string \<Rightarrow> string \<Rightarrow> bool" where
  "has_prefix p s = (take (length p) s = p)"

definition trim_prefix :: "string \<Rightarrow> string \<Rightarrow> string" where
  "trim_prefix p s = (if has_prefix p s then drop (length p) s else s)"

fun contains :: "string \<Rightarrow> string \<Rightarrow> bool" where
  "contains [] p = (p = [])"
| "contains (c # s) p = (has_prefix p (c # s) \<or> contains s p)"

text \<open>\<^verbatim>\<open>strings.Replace(s, old, new, 1)\<close> for a non-empty \<^verbatim>\<open>old\<close>.\<close>

fun replace_first :: "string \<Rightarrow> string \<Rightarrow> string \<Rightarrow> string" where
  "replace_first [] p r = []"
| "replace_first (c # s) p r =
     (if has_prefix p (c # s) then r @ drop (length p) (c # s) else c # replace_first s p r)"

text \<open>\<^verbatim>\<open>strings.ReplaceAll(s, c, "")\<close> for a one-byte \<^verbatim>\<open>c\<close>.\<close>

definition remove_char :: "char \<Rightarrow> string \<Rightarrow> string" where
  "remove_char c s = filter (\<lambda>d. d \<noteq> c) s"

text \<open>\<^verbatim>\<open>strings.Split(s, c)\<close> for a one-byte separator: never empty.\<close>

fun split_char :: "char \<Rightarrow> string \<Rightarrow> string list" where
  "split_char c [] = [[]]"
| "split_char c (d # s) =
     (case split_char c s of
        [] \<Rightarrow> [[d]]
      | w # ws \<Rightarrow> if d = c then [] # w # ws else (d # w) # ws)"

definition is_space :: "char \<Rightarrow> bool" where
  "is_space c = (c \<in> {CHR '' '', CHR 0x09, CHR 0x0A, CHR 0x0B, CHR 0x0C, CHR 0x0D})"

definition trim_right_by :: "(char \<Rightarrow> bool) \<Rightarrow> string \<Rightarrow> string" where
  "trim_right_by P s = rev (dropWhile P (rev s))"

definition trim_by :: "(char \<Rightarrow> bool) \<Rightarrow> string \<Rightarrow> string" where
  "trim_by P s = trim_right_by P (dropWhile P s)"

definition trim_space :: "string \<Rightarrow> string" where
  "trim_space s = trim_by is_space s"

definition trim_cutset :: "string \<Rightarrow> string \<Rightarrow> string" where
  "trim_cutset cs s = trim_by (\<lambda>c. c \<in> set cs) s"

section \<open>Strings and byte slices\<close>

text \<open>The conversions \<^verbatim>\<open>string(b)\<close> and \<^verbatim>\<open>[]byte(s)\<close>.\<close>

definition string_of_bytes :: "bytes \<Rightarrow> string" where
  "string_of_bytes b = map (\<lambda>x. char_of (unat x)) b"

definition bytes_of_string :: "string \<Rightarrow> bytes" where
  "bytes_of_string s = map (\<lambda>c. of_nat (of_char c)) s"

section \<open>Numbers in a base\<close>

text \<open>Digit values 0 to 35 as \<^verbatim>\<open>0..9a..z\<close>, and back (either case, as \<^verbatim>\<open>big.Int.SetString\<close> reads them).\<close>

definition digit_char :: "nat \<Rightarrow> char" where
  "digit_char d = char_of (if d < 10 then 48 + d else 87 + d)"

definition digit_value :: "char \<Rightarrow> nat option" where
  "digit_value c =
     (let n = of_char c :: nat in
      if 48 \<le> n \<and> n \<le> 57 then Some (n - 48)
      else if 97 \<le> n \<and> n \<le> 122 then Some (n - 87)
      else if 65 \<le> n \<and> n \<le> 90 then Some (n - 55)
      else None)"

fun digits_rev :: "nat \<Rightarrow> nat \<Rightarrow> nat list" where
  "digits_rev b n = (if b < 2 \<or> n < b then [n] else (n mod b) # digits_rev b (n div b))"

declare digits_rev.simps [simp del]

definition text_base :: "nat \<Rightarrow> nat \<Rightarrow> string" where
  "text_base b n = map digit_char (rev (digits_rev b n))"

definition dec :: "nat \<Rightarrow> string" where
  "dec n = text_base 10 n"

definition dec_int :: "int \<Rightarrow> string" where
  "dec_int i = (if i < 0 then ''-'' @ dec (nat (- i)) else dec (nat i))"

definition num_of_digits :: "nat \<Rightarrow> nat list \<Rightarrow> nat" where
  "num_of_digits b ds = foldl (\<lambda>a d. a * b + d) 0 ds"

fun digit_values :: "nat \<Rightarrow> string \<Rightarrow> nat list option" where
  "digit_values b [] = Some []"
| "digit_values b (c # s) =
     (case digit_value c of
        None \<Rightarrow> None
      | Some d \<Rightarrow> if d < b then map_option (Cons d) (digit_values b s) else None)"

text \<open>
  \<^verbatim>\<open>SetString(s, b)\<close> on an unsigned numeral: \<open>None\<close> where it reports failure.
\<close>

definition parse_base :: "nat \<Rightarrow> string \<Rightarrow> nat option" where
  "parse_base b s = (if s = [] then None else map_option (num_of_digits b) (digit_values b s))"

text \<open>\<^verbatim>\<open>strconv.ParseUint(s, 10, 64)\<close>.\<close>

definition parse_uint64 :: "string \<Rightarrow> u64 option" where
  "parse_uint64 s =
     (case parse_base 10 s of
        None \<Rightarrow> None
      | Some n \<Rightarrow> if n < 2 ^ 64 then Some (of_nat n) else None)"

section \<open>Facts\<close>

lemma length_bytes_of_string [simp]: "length (bytes_of_string s) = length s"
  by (simp add: bytes_of_string_def)

lemma bytes_of_string_Nil_iff [simp]: "bytes_of_string s = [] \<longleftrightarrow> s = []"
  by (simp add: bytes_of_string_def)

lemma string_of_bytes_of_string [simp]: "string_of_bytes (bytes_of_string s) = s"
proof -
  have "unat (of_nat (of_char c :: nat) :: byte) = of_char c" for c :: char
    using nat_of_char_less_256 [of c] by (simp add: unsigned_of_nat take_bit_nat_eq_self)
  then show ?thesis
    by (simp add: string_of_bytes_def bytes_of_string_def comp_def map_idI)
qed

lemma has_prefix_iff: "has_prefix p s \<longleftrightarrow> (\<exists>r. s = p @ r)"
  unfolding has_prefix_def by (metis append_eq_conv_conj append_take_drop_id)

lemma has_prefix_append [simp]: "has_prefix p (p @ r)"
  by (auto simp: has_prefix_iff)

lemma trim_prefix_append [simp]: "trim_prefix p (p @ r) = r"
  by (simp add: trim_prefix_def)

lemma contains_iff: "contains s p \<longleftrightarrow> (\<exists>a b. s = a @ p @ b)"
proof (induction s)
  case Nil
  then show ?case by simp
next
  case (Cons c s)
  show ?case
  proof
    assume "contains (c # s) p"
    then consider "has_prefix p (c # s)" | "contains s p" by auto
    then show "\<exists>a b. c # s = a @ p @ b"
    proof cases
      case 1
      then show ?thesis by (metis append_Nil has_prefix_iff)
    next
      case 2
      then show ?thesis using Cons.IH by (metis append_Cons)
    qed
  next
    assume "\<exists>a b. c # s = a @ p @ b"
    then obtain a b where ab: "c # s = a @ p @ b" by blast
    show "contains (c # s) p"
    proof (cases a)
      case Nil
      with ab have "c # s = p @ b" by simp
      then have "has_prefix p (c # s)" by simp
      then show ?thesis by simp
    next
      case (Cons x xs)
      then show ?thesis using ab Cons.IH by auto
    qed
  qed
qed

lemma contains_append: "contains s p \<Longrightarrow> contains (a @ s @ b) p"
  unfolding contains_iff by (metis append.assoc)

lemma contains_append_left: "contains s p \<Longrightarrow> contains (s @ b) p"
  using contains_append [of s p "[]" b] by simp

lemma contains_append_right: "contains s p \<Longrightarrow> contains (a @ s) p"
  using contains_append [of s p a "[]"] by simp

lemma contains_self: "contains s s"
  unfolding contains_iff by (metis append.right_neutral append_Nil)

lemma split_char_ne [simp]: "split_char c s \<noteq> []"
  by (induction s) (auto split: list.splits)

text \<open>Joining the pieces gives the string back, and no piece holds the separator.\<close>

fun join_char :: "char \<Rightarrow> string list \<Rightarrow> string" where
  "join_char c [] = []"
| "join_char c [w] = w"
| "join_char c (w # ws) = w @ c # join_char c ws"

text \<open>
  \<^verbatim>\<open>filepath.Clean\<close> and \<^verbatim>\<open>filepath.Join\<close> where the separator is a slash. The kept elements are in reverse order.
\<close>

fun clean_elements :: "bool \<Rightarrow> string list \<Rightarrow> string list \<Rightarrow> string list" where
  "clean_elements rooted kept [] = rev kept"
| "clean_elements rooted kept (w # ws) =
     (if w = [] \<or> w = ''.'' then clean_elements rooted kept ws
      else if w = ''..'' then
        (if kept \<noteq> [] \<and> hd kept \<noteq> ''..'' then clean_elements rooted (tl kept) ws
         else if rooted then clean_elements rooted kept ws
         else clean_elements rooted (w # kept) ws)
      else clean_elements rooted (w # kept) ws)"

definition path_clean :: "string \<Rightarrow> string" where
  "path_clean p =
     (let rooted = (p \<noteq> [] \<and> hd p = CHR ''/'');
          body = join_char CHR ''/'' (clean_elements rooted [] (split_char CHR ''/'' p))
      in if rooted then CHR ''/'' # body else if body = [] then ''.'' else body)"

definition path_join :: "string list \<Rightarrow> string" where
  "path_join elems =
     (case dropWhile (\<lambda>w. w = []) elems of [] \<Rightarrow> [] | ws \<Rightarrow> path_clean (join_char CHR ''/'' ws))"

lemma path_join_examples:
  "path_join [''/root'', ''.kube'', ''config''] = ''/root/.kube/config''"
  "path_join [[], ''.kube'', ''config''] = ''.kube/config''"
  "path_join [''/a//b/./c/'', ''../d''] = ''/a/b/d''" "path_join [''/..'', ''a''] = ''/a''"
  "path_join [''../a'', ''..'', ''..''] = ''../..''" "path_join [''a'', ''..''] = ''.''"
  by code_simp+

lemma join_split_char: "join_char c (split_char c s) = s"
proof (induction s)
  case Nil
  then show ?case by simp
next
  case (Cons d s)
  obtain w ws where "split_char c s = w # ws" by (metis list.exhaust split_char_ne)
  with Cons show ?case by (cases ws) auto
qed

lemma split_char_hd: "hd (split_char c s) = takeWhile (\<lambda>d. d \<noteq> c) s"
  by (induction s) (auto split: list.splits)

lemma digit_value_char: "d < 36 \<Longrightarrow> digit_value (digit_char d) = Some d"
  by (auto simp: digit_value_def digit_char_def Let_def)

lemma digit_values_map:
  "\<forall>d \<in> set ds. d < b \<Longrightarrow> b \<le> 36 \<Longrightarrow> digit_values b (map digit_char ds) = Some ds"
  by (induction ds) (auto simp: digit_value_char)

lemma digits_rev_bound: "2 \<le> b \<Longrightarrow> \<forall>d \<in> set (digits_rev b n). d < b"
proof (induction b n rule: digits_rev.induct)
  case (1 b n)
  then show ?case by (subst digits_rev.simps) auto
qed

lemma digits_rev_ne [simp]: "digits_rev b n \<noteq> []"
  by (subst digits_rev.simps) simp

lemma num_of_digits_snoc [simp]: "num_of_digits b (ds @ [d]) = num_of_digits b ds * b + d"
  by (simp add: num_of_digits_def)

lemma num_of_digits_text: "2 \<le> b \<Longrightarrow> num_of_digits b (rev (digits_rev b n)) = n"
proof (induction b n rule: digits_rev.induct)
  case (1 b n)
  show ?case
  proof (cases "n < b")
    case True
    then show ?thesis by (subst digits_rev.simps) (simp add: num_of_digits_def)
  next
    case False
    with 1 have "num_of_digits b (rev (digits_rev b (n div b))) = n div b" by simp
    with False 1 show ?thesis by (subst digits_rev.simps) simp
  qed
qed

lemma parse_text_base:
  assumes "2 \<le> b" "b \<le> 36"
  shows "parse_base b (text_base b n) = Some n"
  using assms digits_rev_bound [of b n]
  by (simp add: parse_base_def text_base_def digit_values_map num_of_digits_text)

lemma text_base_inject:
  "2 \<le> b \<Longrightarrow> b \<le> 36 \<Longrightarrow> text_base b m = text_base b n \<Longrightarrow> m = n"
  by (metis option.inject parse_text_base)

lemma length_digits_rev: "2 \<le> b \<Longrightarrow> n < b ^ k \<Longrightarrow> 0 < k \<Longrightarrow> length (digits_rev b n) \<le> k"
proof (induction k arbitrary: n)
  case 0
  then show ?case by simp
next
  case (Suc k)
  show ?case
  proof (cases "n < b")
    case True
    then show ?thesis by (subst digits_rev.simps) simp
  next
    case False
    have "0 < k"
    proof (rule ccontr)
      assume "\<not> 0 < k"
      with Suc.prems False show False by simp
    qed
    moreover have "n div b < b ^ k"
      using Suc.prems by (simp add: less_mult_imp_div_less mult.commute)
    ultimately have "length (digits_rev b (n div b)) \<le> k" using Suc by simp
    with False show ?thesis by (subst digits_rev.simps) simp
  qed
qed

lemma length_text_base: "2 \<le> b \<Longrightarrow> n < b ^ k \<Longrightarrow> 0 < k \<Longrightarrow> length (text_base b n) \<le> k"
  by (simp add: text_base_def length_digits_rev)

lemma num_of_digits_bound:
  "2 \<le> b \<Longrightarrow> \<forall>d \<in> set ds. d < b \<Longrightarrow> num_of_digits b ds < b ^ length ds"
proof (induction ds rule: rev_induct)
  case Nil
  then show ?case by (simp add: num_of_digits_def)
next
  case (snoc d ds)
  then have IH: "num_of_digits b ds < b ^ length ds" and d: "d < b" by auto
  from IH have "Suc (num_of_digits b ds) * b \<le> b ^ length ds * b"
    by (intro mult_le_mono1) simp
  with d show ?case by (simp add: mult.commute)
qed

lemma digit_values_bound:
  "digit_values b s = Some ds \<Longrightarrow> length ds = length s \<and> (\<forall>d \<in> set ds. d < b)"
proof (induction s arbitrary: ds)
  case Nil
  then show ?case by simp
next
  case (Cons c s)
  then show ?case by (auto split: option.splits if_splits)
qed

lemma parse_base_bound:
  assumes "parse_base b s = Some n" "2 \<le> b"
  shows "n < b ^ length s"
  using assms digit_values_bound num_of_digits_bound
  by (fastforce simp: parse_base_def split: if_splits)

end
