(* ===== verification/Exceptions.thy ===== *)
theory Exceptions
  imports Go_Strings
begin

text \<open>
  Go errors and the package \<^verbatim>\<open>internal/domain/exceptions\<close> (\<^verbatim>\<open>domain_errors.go\<close>).

  A non-nil \<^verbatim>\<open>error\<close> is one of: a pointer to one of the package's predefined
  \<^verbatim>\<open>DomainErr...\<close> variables (\<open>PkgErr\<close>), a fresh \<^verbatim>\<open>*DomainError\<close> (\<open>NewErr\<close>), an error
  of \<^verbatim>\<open>errors.New\<close> or of \<^verbatim>\<open>fmt.Errorf\<close> without \<^verbatim>\<open>%w\<close> (\<open>PlainErr\<close>), one of
  \<^verbatim>\<open>fmt.Errorf\<close> with \<^verbatim>\<open>%w\<close> (\<open>WrapErr\<close>, its text and the wrapped error), or a
  \<^verbatim>\<open>pkcs11.Error\<close> (\<open>CkErr\<close>, the code and the text the binding renders).

  The predefined errors are shared by pointer and \<^verbatim>\<open>WithDetail\<close> writes into the map they
  hold, so their details are a store (\<open>err_store\<close>) that outlives the request that wrote it.
\<close>

section \<open>Error codes\<close>

datatype error_code =
  ErrInvalidKeyName
| ErrInvalidAlgorithm
| ErrInvalidKeySize
| ErrInvalidTenant
| ErrKeyNotFound
| ErrKeyInactive
| ErrInvalidKeyUsage
| ErrHSMOperationFailed
| ErrInvalidToken
| ErrSessionExpired
| ErrSessionNotFound
| ErrInvalidAuditAction
| ErrInvalidAuditActor
| ErrInvalidResourceType
| ErrNotImplemented
| ErrInvalidKeyAlgorithm
| ErrTenantNotFound
| ErrTenantRequired
| ErrInvalidInput
| ErrOwnerIdRequired
| ErrInvalidOwnerType
| ErrSlotNotFound
| ErrCreateSlotFailed
| ErrCreateHSMMetadataFailed
| ErrPKCS11LibraryNotFound
| ErrInvalidAESKeySize
| ErrAESCreateCipher
| ErrAESCreateGCM
| ErrAESCreateNonce
| ErrAESInvalidKey
| ErrAESDecryptFailed
| ErrInvalidBase64
| ErrKeyIDMismatch
| ErrWrappingKeyLength
| ErrWrappingKeyShort
| ErrKeyToWrapLengthInvalid
| ErrK8sSecretNotFound
| ErrK8sKeyNotFound
| ErrFailWrapKey
| ErrFailUUnwrapKey
| ErrFailCreateAESKey
| ErrFailEncryptData
| ErrFailDecryptData
| ErrorCodeOf string

fun code_string :: "error_code \<Rightarrow> string" where
  "code_string ErrInvalidKeyName = ''INVALID_KEY_NAME''"
| "code_string ErrInvalidAlgorithm = ''INVALID_ALGORITHM''"
| "code_string ErrInvalidKeySize = ''INVALID_KEY_SIZE''"
| "code_string ErrInvalidTenant = ''INVALID_TENANT''"
| "code_string ErrKeyNotFound = ''KEY_NOT_FOUND''"
| "code_string ErrKeyInactive = ''KEY_INACTIVE''"
| "code_string ErrInvalidKeyUsage = ''INVALID_KEY_USAGE''"
| "code_string ErrHSMOperationFailed = ''HSM_OPERATION_FAILED''"
| "code_string ErrInvalidToken = ''INVALID_TOKEN''"
| "code_string ErrSessionExpired = ''SESSION_EXPIRED''"
| "code_string ErrSessionNotFound = ''SESSION_NOT_FOUND''"
| "code_string ErrInvalidAuditAction = ''INVALID_AUDIT_ACTION''"
| "code_string ErrInvalidAuditActor = ''INVALID_AUDIT_ACTOR''"
| "code_string ErrInvalidResourceType = ''INVALID_RESOURCE_TYPE''"
| "code_string ErrNotImplemented = ''NOT_IMPLEMENTED''"
| "code_string ErrInvalidKeyAlgorithm = ''INVALID_KEY_ALGORITHM''"
| "code_string ErrTenantNotFound = ''TENANT_NOT_FOUND''"
| "code_string ErrTenantRequired = ''TENANT_REQUIRED''"
| "code_string ErrInvalidInput = ''INVALID_INPUT''"
| "code_string ErrOwnerIdRequired = ''OWNER_ID_REQUIRED''"
| "code_string ErrInvalidOwnerType = ''INVALID_OWNER_TYPE''"
| "code_string ErrSlotNotFound = ''SLOT_NOT_FOUND''"
| "code_string ErrCreateSlotFailed = ''CREATE_SLOT_FAILED''"
| "code_string ErrCreateHSMMetadataFailed = ''CREATE_HSM_METADATA_FAILED''"
| "code_string ErrPKCS11LibraryNotFound = ''PKCS11_LIBRARY_NOT_FOUND''"
| "code_string ErrInvalidAESKeySize = ''INVALID_AES_KEY_SIZE''"
| "code_string ErrAESCreateCipher = ''AES_CREATE_CIPHER_FAILED''"
| "code_string ErrAESCreateGCM = ''AES_CREATE_GCM_FAILED''"
| "code_string ErrAESCreateNonce = ''AES_CREATE_NONCE_FAILED''"
| "code_string ErrAESInvalidKey = ''AES_INVALID_KEY''"
| "code_string ErrAESDecryptFailed = ''AES_DECRYPT_FAILED''"
| "code_string ErrInvalidBase64 = ''INVALID_BASE64_DATA''"
| "code_string ErrKeyIDMismatch = ''KEY_ID_MISMATCH''"
| "code_string ErrWrappingKeyLength = ''WRAPPING_KEY_INVALID_LENGTH''"
| "code_string ErrWrappingKeyShort = ''WRAPPING_KEY_TOO_SHORT''"
| "code_string ErrKeyToWrapLengthInvalid = ''KEY_TO_WRAP_INVALID_LENGTH''"
| "code_string ErrK8sSecretNotFound = ''K8S_SECRET_NOT_FOUND''"
| "code_string ErrK8sKeyNotFound = ''K8S_KEY_NOT_FOUND''"
| "code_string ErrFailWrapKey = ''FAIL_WRAP_KEY''"
| "code_string ErrFailUUnwrapKey = ''FAIL_UNWRAP_KEY''"
| "code_string ErrFailCreateAESKey = ''FAIL_CREATE_AES_KEY''"
| "code_string ErrFailEncryptData = ''FAIL_ENCRYPT_DATA''"
| "code_string ErrFailDecryptData = ''FAIL_DECRYPT_DATA''"
| "code_string (ErrorCodeOf s) = s"

definition declared_codes :: "error_code list" where
  "declared_codes =
    [ErrInvalidKeyName, ErrInvalidAlgorithm, ErrInvalidKeySize, ErrInvalidTenant,
     ErrKeyNotFound, ErrKeyInactive, ErrInvalidKeyUsage, ErrHSMOperationFailed,
     ErrInvalidToken, ErrSessionExpired, ErrSessionNotFound, ErrInvalidAuditAction,
     ErrInvalidAuditActor, ErrInvalidResourceType, ErrNotImplemented, ErrInvalidKeyAlgorithm,
     ErrTenantNotFound, ErrTenantRequired, ErrInvalidInput, ErrOwnerIdRequired,
     ErrInvalidOwnerType, ErrSlotNotFound, ErrCreateSlotFailed, ErrCreateHSMMetadataFailed,
     ErrPKCS11LibraryNotFound, ErrInvalidAESKeySize, ErrAESCreateCipher, ErrAESCreateGCM,
     ErrAESCreateNonce, ErrAESInvalidKey, ErrAESDecryptFailed, ErrInvalidBase64,
     ErrKeyIDMismatch, ErrWrappingKeyLength, ErrWrappingKeyShort, ErrKeyToWrapLengthInvalid,
     ErrK8sSecretNotFound, ErrK8sKeyNotFound, ErrFailWrapKey, ErrFailUUnwrapKey,
     ErrFailCreateAESKey, ErrFailEncryptData, ErrFailDecryptData]"

text \<open>The message of the predefined variable of each code.\<close>

fun predef_message :: "error_code \<Rightarrow> string" where
  "predef_message ErrInvalidKeyName = ''The provided key name is invalid''"
| "predef_message ErrInvalidAlgorithm = ''The specified algorithm is not supported''"
| "predef_message ErrInvalidKeySize = ''The specified key size is not supported''"
| "predef_message ErrInvalidTenant = ''The tenant ID is invalid or missing''"
| "predef_message ErrKeyNotFound = ''The requested key was not found''"
| "predef_message ErrKeyInactive = ''The requested key is inactive''"
| "predef_message ErrInvalidKeyUsage = ''The key usage is invalid for this operation''"
| "predef_message ErrHSMOperationFailed = ''The HSM operation failed''"
| "predef_message ErrInvalidToken = ''The provided token is invalid''"
| "predef_message ErrSessionExpired = ''The session has expired''"
| "predef_message ErrSessionNotFound = ''The session was not found''"
| "predef_message ErrInvalidAuditAction = ''The audit event action is invalid''"
| "predef_message ErrInvalidAuditActor = ''The audit event actor is invalid''"
| "predef_message ErrInvalidResourceType = ''The audit event resource type is invalid''"
| "predef_message ErrNotImplemented = ''This feature is not yet implemented''"
| "predef_message ErrInvalidKeyAlgorithm = ''The specified key algorithm is not supported''"
| "predef_message ErrTenantNotFound = ''The specified tenant not found''"
| "predef_message ErrTenantRequired = ''The tenant required for this operation''"
| "predef_message ErrInvalidInput = ''The input provided is invalid''"
| "predef_message ErrOwnerIdRequired = ''The owner ID is required''"
| "predef_message ErrInvalidOwnerType = ''The owner type is invalid''"
| "predef_message ErrSlotNotFound = ''The specified slot was not found''"
| "predef_message ErrCreateSlotFailed = ''Failed to create HSM slot''"
| "predef_message ErrCreateHSMMetadataFailed = ''Failed to create HSM metadata''"
| "predef_message ErrPKCS11LibraryNotFound = ''The PKCS#11 library was not found''"
| "predef_message ErrInvalidAESKeySize = ''The AES key size is invalid''"
| "predef_message ErrAESCreateCipher = ''Failed to create AES cipher''"
| "predef_message ErrAESCreateGCM = ''Failed to create AES GCM instance''"
| "predef_message ErrAESCreateNonce = ''Failed to create AES nonce''"
| "predef_message ErrAESInvalidKey = ''The AES key is invalid''"
| "predef_message ErrAESDecryptFailed = ''AES decryption failed''"
| "predef_message ErrInvalidBase64 = ''The provided data is not valid base64''"
| "predef_message ErrKeyIDMismatch = ''The key ID does not match''"
| "predef_message ErrWrappingKeyLength = ''The wrapping key length is invalid''"
| "predef_message ErrWrappingKeyShort = ''The wrapping key is too short''"
| "predef_message ErrKeyToWrapLengthInvalid = ''The key to wrap length is invalid''"
| "predef_message ErrK8sSecretNotFound = ''The Kubernetes secret was not found''"
| "predef_message ErrK8sKeyNotFound = ''The key was not found in Kubernetes secret''"
| "predef_message ErrFailWrapKey = ''Failed to wrap the key''"
| "predef_message ErrFailUUnwrapKey = ''Failed to unwrap the key''"
| "predef_message ErrFailCreateAESKey = ''Failed to create AES key''"
| "predef_message ErrFailEncryptData = ''Failed to encrypt data''"
| "predef_message ErrFailDecryptData = ''Failed to decrypt data''"
| "predef_message (ErrorCodeOf s) = ''''"

section \<open>Errors\<close>

text \<open>The values the code puts into a \<^verbatim>\<open>map[string]interface{}\<close>.\<close>

datatype dval = DStr string | DInt int | DBool bool | DOptStr "string option" | DUint u64 | DList "dval list"

type_synonym details = "(string \<times> dval) list"

datatype go_error =
  PkgErr error_code
| NewErr error_code string details
| PlainErr string
| WrapErr string go_error
| CkErr nat string

type_synonym err_store = "error_code \<Rightarrow> details"

definition empty_store :: err_store where
  "empty_store = (\<lambda>_. [])"

fun error_text :: "go_error \<Rightarrow> string" where
  "error_text (PkgErr c) = code_string c @ '': '' @ predef_message c"
| "error_text (NewErr c m d) = code_string c @ '': '' @ m"
| "error_text (PlainErr s) = s"
| "error_text (WrapErr s e) = s"
| "error_text (CkErr n s) = s"

text \<open>\<^verbatim>\<open>fmt.Errorf(prefix + "%w", err)\<close>.\<close>

definition errorf_w :: "string \<Rightarrow> go_error \<Rightarrow> go_error" where
  "errorf_w prefix e = WrapErr (prefix @ error_text e) e"

definition NewDomainError :: "error_code \<Rightarrow> string \<Rightarrow> go_error" where
  "NewDomainError c m = NewErr c m []"

text \<open>\<^verbatim>\<open>WithDetail\<close> on an error the caller has just created.\<close>

fun WithDetail :: "string \<Rightarrow> dval \<Rightarrow> go_error \<Rightarrow> go_error" where
  "WithDetail k v (NewErr c m d) = NewErr c m (AList.update k v d)"
| "WithDetail k v e = e"

text \<open>\<^verbatim>\<open>WithDetail\<close> on a predefined error: the shared map is written, the pointer returned.\<close>

definition store_detail :: "error_code \<Rightarrow> string \<Rightarrow> dval \<Rightarrow> err_store \<Rightarrow> err_store" where
  "store_detail c k v st = st(c := AList.update k v (st c))"

definition NewFromError :: "error_code \<Rightarrow> go_error option \<Rightarrow> go_error" where
  "NewFromError c err =
     (case err of None \<Rightarrow> NewDomainError c '''' | Some e \<Rightarrow> NewErr c (error_text e) [])"

definition WrapError :: "error_code \<Rightarrow> string \<Rightarrow> go_error option \<Rightarrow> go_error" where
  "WrapError c m err =
     (let de = NewDomainError c m in
      case err of None \<Rightarrow> de
      | Some e \<Rightarrow> WithDetail ''original_error'' (DStr (error_text e)) de)"

text \<open>\<^verbatim>\<open>GetCode\<close> looks at the dynamic type of the error itself, not along its \<^verbatim>\<open>%w\<close> chain.\<close>

fun GetCode :: "go_error option \<Rightarrow> string" where
  "GetCode None = ''SUCCESS''"
| "GetCode (Some (PkgErr c)) = code_string c"
| "GetCode (Some (NewErr c m d)) = code_string c"
| "GetCode (Some e) = ''INTERNAL_ERROR''"

definition ErrToString :: "go_error option \<Rightarrow> string" where
  "ErrToString err = (case err of None \<Rightarrow> '''' | Some e \<Rightarrow> error_text e)"

text \<open>\<^verbatim>\<open>errors.As(err, &domainErr)\<close>: the first \<^verbatim>\<open>*DomainError\<close> on the \<^verbatim>\<open>%w\<close> chain.\<close>

fun as_domain_error :: "go_error \<Rightarrow> (error_code \<times> string \<times> details option) option" where
  "as_domain_error (PkgErr c) = Some (c, predef_message c, None)"
| "as_domain_error (NewErr c m d) = Some (c, m, Some d)"
| "as_domain_error (WrapErr s e) = as_domain_error e"
| "as_domain_error (PlainErr s) = None"
| "as_domain_error (CkErr n s) = None"

section \<open>Facts\<close>

text \<open>The declared codes have different strings: the string names the code.\<close>

definition parse_code :: "string \<Rightarrow> error_code option" where
  "parse_code s = List.find (\<lambda>c. code_string c = s) declared_codes"

lemma declared_code_strings_distinct: "distinct (map code_string declared_codes)"
  by (simp add: declared_codes_def)

lemma distinct_map_find:
  "distinct (map f xs) \<Longrightarrow> x \<in> set xs \<Longrightarrow> List.find (\<lambda>y. f y = f x) xs = Some x"
  by (induction xs) (auto simp: image_iff)

lemma parse_code_string: "c \<in> set declared_codes \<Longrightarrow> parse_code (code_string c) = Some c"
  unfolding parse_code_def by (rule distinct_map_find [OF declared_code_strings_distinct])

lemma declared_or_other: "c \<in> set declared_codes \<or> (\<exists>s. c = ErrorCodeOf s)"
  by (cases c) (simp_all add: declared_codes_def)

lemma error_text_errorf_w [simp]: "error_text (errorf_w p e) = p @ error_text e"
  by (simp add: errorf_w_def)

lemma as_domain_error_errorf_w [simp]: "as_domain_error (errorf_w p e) = as_domain_error e"
  by (simp add: errorf_w_def)

lemma GetCode_errorf_w [simp]: "GetCode (Some (errorf_w p e)) = ''INTERNAL_ERROR''"
  by (simp add: errorf_w_def)

lemma store_detail_same: "map_of (store_detail c k v st c) k = Some v"
  by (simp add: store_detail_def map_of_update)

lemma store_detail_other_key:
  "k \<noteq> k' \<Longrightarrow> map_of (store_detail c k v st c) k' = map_of (st c) k'"
  by (simp add: store_detail_def map_of_update)

lemma store_detail_other_code: "c \<noteq> c' \<Longrightarrow> store_detail c k v st c' = st c'"
  by (simp add: store_detail_def)

text \<open>A detail once written to a predefined error is never dropped again.\<close>

lemma store_detail_grows: "set (map fst (st c)) \<subseteq> set (map fst (store_detail c' k v st c))"
  by (auto simp: store_detail_def dom_update)

end
