(* ===== verification/Go_Crypto.thy ===== *)
theory Go_Crypto
  imports Exceptions
begin

text \<open>
  What the repository uses of Go's standard library for cryptography and encoding:
  AES with its three key sizes (\<^verbatim>\<open>crypto/aes\<close>, FIPS 197), the GCM mode with a 12-byte nonce, no additional data
  and a 16-byte tag (\<^verbatim>\<open>crypto/cipher\<close>, NIST SP 800-38D), and the standard base64 alphabet
  with padding (\<^verbatim>\<open>encoding/base64\<close>'s \<^verbatim>\<open>StdEncoding\<close>).

  The interface the clients rely on is the locale \<open>aead\<close>: opening what was sealed gives the
  plaintext back, and sealing adds a fixed overhead. It is interpreted on the GCM functions of
  this theory.
\<close>

unbundle bit_operations_syntax

section \<open>AES\<close>

definition sbox :: "nat list" where
  "sbox = [
    99, 124, 119, 123, 242, 107, 111, 197, 48, 1, 103, 43, 254, 215, 171, 118,
    202, 130, 201, 125, 250, 89, 71, 240, 173, 212, 162, 175, 156, 164, 114, 192,
    183, 253, 147, 38, 54, 63, 247, 204, 52, 165, 229, 241, 113, 216, 49, 21,
    4, 199, 35, 195, 24, 150, 5, 154, 7, 18, 128, 226, 235, 39, 178, 117,
    9, 131, 44, 26, 27, 110, 90, 160, 82, 59, 214, 179, 41, 227, 47, 132,
    83, 209, 0, 237, 32, 252, 177, 91, 106, 203, 190, 57, 74, 76, 88, 207,
    208, 239, 170, 251, 67, 77, 51, 133, 69, 249, 2, 127, 80, 60, 159, 168,
    81, 163, 64, 143, 146, 157, 56, 245, 188, 182, 218, 33, 16, 255, 243, 210,
    205, 12, 19, 236, 95, 151, 68, 23, 196, 167, 126, 61, 100, 93, 25, 115,
    96, 129, 79, 220, 34, 42, 144, 136, 70, 238, 184, 20, 222, 94, 11, 219,
    224, 50, 58, 10, 73, 6, 36, 92, 194, 211, 172, 98, 145, 149, 228, 121,
    231, 200, 55, 109, 141, 213, 78, 169, 108, 86, 244, 234, 101, 122, 174, 8,
    186, 120, 37, 46, 28, 166, 180, 198, 232, 221, 116, 31, 75, 189, 139, 138,
    112, 62, 181, 102, 72, 3, 246, 14, 97, 53, 87, 185, 134, 193, 29, 158,
    225, 248, 152, 17, 105, 217, 142, 148, 155, 30, 135, 233, 206, 85, 40, 223,
    140, 161, 137, 13, 191, 230, 66, 104, 65, 153, 45, 15, 176, 84, 187, 22]"

definition sub_byte :: "byte \<Rightarrow> byte" where
  "sub_byte b = of_nat (sbox ! unat b)"

definition xtime :: "byte \<Rightarrow> byte" where
  "xtime x = push_bit 1 x XOR (if bit x 7 then 0x1b else 0)"

text \<open>Bytewise exclusive or, as long as the shorter list.\<close>

definition xor_bytes :: "bytes \<Rightarrow> bytes \<Rightarrow> bytes" where
  "xor_bytes xs ys = map2 (XOR) xs ys"

fun mix_column :: "bytes \<Rightarrow> bytes" where
  "mix_column [a, b, c, d] =
     [xtime a XOR (xtime b XOR b) XOR c XOR d,
      a XOR xtime b XOR (xtime c XOR c) XOR d,
      a XOR b XOR xtime c XOR (xtime d XOR d),
      (xtime a XOR a) XOR b XOR c XOR xtime d]"
| "mix_column xs = xs"

fun chunks :: "nat \<Rightarrow> 'a list \<Rightarrow> 'a list list" where
  "chunks n xs = (if xs = [] \<or> n = 0 then [] else take n xs # chunks n (drop n xs))"

declare chunks.simps [simp del]

definition shift_rows :: "bytes \<Rightarrow> bytes" where
  "shift_rows s = map (\<lambda>i. s ! i) [0, 5, 10, 15, 4, 9, 14, 3, 8, 13, 2, 7, 12, 1, 6, 11]"

definition round_constants :: bytes where
  "round_constants = [0x00, 0x01, 0x02, 0x04, 0x08, 0x10, 0x20, 0x40, 0x80, 0x1b, 0x36]"

text \<open>
  The next word of the key schedule from the words so far, newest first; \<open>nk\<close> is the key's length in
  words: 4, 6 or 8.
\<close>

definition next_key_word :: "nat \<Rightarrow> bytes list \<Rightarrow> nat \<Rightarrow> bytes" where
  "next_key_word nk ws i =
     (let prev = ws ! 0;
          t = (if i mod nk = 0
               then xor_bytes (map sub_byte (rotate1 prev)) [round_constants ! (i div nk), 0, 0, 0]
               else if 6 < nk \<and> i mod nk = 4 then map sub_byte prev
               else prev)
      in xor_bytes (ws ! (nk - 1)) t)"

definition key_schedule :: "bytes \<Rightarrow> bytes list" where
  "key_schedule key =
     (let nk = length key div 4
      in rev (foldl (\<lambda>ws i. next_key_word nk ws i # ws) (rev (chunks 4 key)) [nk..<4 * (nk + 7)]))"

definition round_key :: "bytes list \<Rightarrow> nat \<Rightarrow> bytes" where
  "round_key ws r = concat (take 4 (drop (4 * r) ws))"

definition aes_round :: "bytes list \<Rightarrow> bytes \<Rightarrow> nat \<Rightarrow> bytes" where
  "aes_round ws s r =
     xor_bytes (concat (map mix_column (chunks 4 (shift_rows (map sub_byte s))))) (round_key ws r)"

definition aes_encrypt_block :: "bytes \<Rightarrow> bytes \<Rightarrow> bytes" where
  "aes_encrypt_block key block =
     (let ws = key_schedule key;
          nr = length key div 4 + 6;
          s = foldl (aes_round ws) (xor_bytes block (round_key ws 0)) [1..<nr]
      in xor_bytes (shift_rows (map sub_byte s)) (round_key ws nr))"

section \<open>GCM\<close>

type_synonym block128 = "128 word"

definition block_of_bytes :: "bytes \<Rightarrow> block128" where
  "block_of_bytes bs = of_nat (foldl (\<lambda>a b. a * 256 + unat b) 0 bs)"

definition bytes_of_block :: "block128 \<Rightarrow> bytes" where
  "bytes_of_block w = map (\<lambda>i. of_nat (unat (drop_bit (8 * (15 - i)) w) mod 256)) [0..<16]"

definition ghash_mult_step :: "block128 \<Rightarrow> block128 \<times> block128 \<Rightarrow> nat \<Rightarrow> block128 \<times> block128" where
  "ghash_mult_step x zv i =
     (case zv of (z, v) \<Rightarrow>
       (if bit x (127 - i) then z XOR v else z,
        if bit v 0 then drop_bit 1 v XOR push_bit 120 0xe1 else drop_bit 1 v))"

definition ghash_mult :: "block128 \<Rightarrow> block128 \<Rightarrow> block128" where
  "ghash_mult x y = fst (foldl (ghash_mult_step x) (0, y) [0..<128])"

text \<open>Blocks of 16 bytes, the last one padded with zeros.\<close>

definition pad_block :: "bytes \<Rightarrow> bytes" where
  "pad_block b = b @ replicate (16 - length b) 0"

definition ghash :: "block128 \<Rightarrow> bytes \<Rightarrow> block128" where
  "ghash h ct =
     (let y = foldl (\<lambda>y b. ghash_mult (y XOR block_of_bytes (pad_block b)) h) 0 (chunks 16 ct)
      in ghash_mult (y XOR of_nat (8 * length ct)) h)"

definition counter_block :: "bytes \<Rightarrow> nat \<Rightarrow> bytes" where
  "counter_block nonce i =
     nonce @ map (\<lambda>k. of_nat (i div 256 ^ (3 - k) mod 256)) [0..<4]"

definition key_stream :: "bytes \<Rightarrow> bytes \<Rightarrow> nat \<Rightarrow> bytes" where
  "key_stream key nonce n =
     take n (concat (map (\<lambda>i. pad_block (aes_encrypt_block key (counter_block nonce (i + 2))))
                         [0..<(n + 15) div 16]))"

definition gcm_tag :: "bytes \<Rightarrow> bytes \<Rightarrow> bytes \<Rightarrow> bytes" where
  "gcm_tag key nonce ct =
     (let h = block_of_bytes (aes_encrypt_block key (replicate 16 0));
          e = block_of_bytes (aes_encrypt_block key (counter_block nonce 1))
      in bytes_of_block (ghash h ct XOR e))"

definition gcm_overhead :: nat where
  "gcm_overhead = 16"

text \<open>\<^verbatim>\<open>aesgcm.Seal(nil, nonce, plaintext, nil)\<close>: the ciphertext with the tag at its end.\<close>

definition gcm_seal :: "bytes \<Rightarrow> bytes \<Rightarrow> bytes \<Rightarrow> bytes" where
  "gcm_seal key nonce pt =
     (let ct = xor_bytes pt (key_stream key nonce (length pt)) in ct @ gcm_tag key nonce ct)"

text \<open>\<^verbatim>\<open>aesgcm.Open(nil, nonce, ciphertext, nil)\<close>: \<open>None\<close> where authentication fails.\<close>

definition gcm_open :: "bytes \<Rightarrow> bytes \<Rightarrow> bytes \<Rightarrow> bytes option" where
  "gcm_open key nonce c =
     (if length c < gcm_overhead then None
      else let ct = take (length c - gcm_overhead) c;
               tag = drop (length c - gcm_overhead) c
           in if tag = gcm_tag key nonce ct
              then Some (xor_bytes ct (key_stream key nonce (length ct)))
              else None)"

text \<open>\<^verbatim>\<open>aes.NewCipher(key)\<close> reports an error for any other key size.\<close>

definition aes_key_size_ok :: "bytes \<Rightarrow> bool" where
  "aes_key_size_ok key = (length key \<in> {16, 24, 32})"

section \<open>The interface of an AEAD\<close>

locale aead =
  fixes sealf :: "bytes \<Rightarrow> bytes \<Rightarrow> bytes \<Rightarrow> bytes"
    and openf :: "bytes \<Rightarrow> bytes \<Rightarrow> bytes \<Rightarrow> bytes option"
    and overhead :: nat
  assumes open_seal: "openf k n (sealf k n p) = Some p"
    and length_seal: "length (sealf k n p) = length p + overhead"
begin

text \<open>The two layouts of the code: nonce in front, and tag split off.\<close>

lemma open_prefixed:
  "openf k (take (length n) (n @ sealf k n p)) (drop (length n) (n @ sealf k n p)) = Some p"
  by (simp add: open_seal)

lemma open_split:
  "openf k n (take (length (sealf k n p) - overhead) (sealf k n p)
              @ drop (length (sealf k n p) - overhead) (sealf k n p)) = Some p"
  by (simp add: open_seal)

lemma length_split:
  "length (take (length (sealf k n p) - overhead) (sealf k n p)) = length p"
  "length (drop (length (sealf k n p) - overhead) (sealf k n p)) = overhead"
  by (simp_all add: length_seal)

lemma length_prefixed: "length (n @ sealf k n p) = length n + length p + overhead"
  by (simp add: length_seal)

end

lemma length_xor_bytes [simp]: "length (xor_bytes xs ys) = min (length xs) (length ys)"
  by (simp add: xor_bytes_def)

lemma xor_bytes_cancel: "length xs \<le> length ys \<Longrightarrow> xor_bytes (xor_bytes xs ys) ys = xs"
proof (induction xs arbitrary: ys)
  case Nil
  then show ?case by (simp add: xor_bytes_def)
next
  case (Cons x xs)
  then show ?case by (cases ys) (auto simp: xor_bytes_def xor.assoc)
qed

lemma length_concat_const:
  "(\<And>x. x \<in> set xs \<Longrightarrow> k \<le> length (f x)) \<Longrightarrow> length xs * k \<le> length (concat (map f xs))"
  by (induction xs) (auto simp: add_mono)

lemma length_pad_block: "16 \<le> length (pad_block b)"
  by (simp add: pad_block_def)

lemma length_key_stream [simp]: "length (key_stream key nonce n) = n"
proof -
  let ?f = "\<lambda>i. pad_block (aes_encrypt_block key (counter_block nonce (i + 2)))"
  have "length [0..<(n + 15) div 16] * 16 \<le> length (concat (map ?f [0..<(n + 15) div 16]))"
    by (rule length_concat_const) (rule length_pad_block)
  then have "n \<le> length (concat (map ?f [0..<(n + 15) div 16]))" by simp
  then show ?thesis by (simp add: key_stream_def)
qed

lemma length_gcm_tag [simp]: "length (gcm_tag key nonce ct) = 16"
  by (simp add: gcm_tag_def Let_def bytes_of_block_def)

interpretation gcm: aead gcm_seal gcm_open gcm_overhead
proof unfold_locales
  fix k n p :: bytes
  show "gcm_open k n (gcm_seal k n p) = Some p"
    by (simp add: gcm_open_def gcm_seal_def gcm_overhead_def Let_def xor_bytes_cancel)
  show "length (gcm_seal k n p) = length p + gcm_overhead"
    by (simp add: gcm_seal_def gcm_overhead_def Let_def)
qed

section \<open>Base64\<close>

definition b64_char :: "nat \<Rightarrow> char" where
  "b64_char n = char_of (if n < 26 then 65 + n else if n < 52 then 71 + n
     else if n < 62 then n - 4 else if n = 62 then 43 else (47 :: nat))"

definition b64_value :: "char \<Rightarrow> nat option" where
  "b64_value c =
     (let n = of_char c :: nat in
      if 65 \<le> n \<and> n \<le> 90 then Some (n - 65)
      else if 97 \<le> n \<and> n \<le> 122 then Some (n - 71)
      else if 48 \<le> n \<and> n \<le> 57 then Some (n + 4)
      else if n = 43 then Some 62
      else if n = 47 then Some 63
      else None)"

abbreviation b64_pad :: char where "b64_pad \<equiv> CHR ''=''"

definition quad_of :: "nat \<Rightarrow> string" where
  "quad_of n = [b64_char (n div 262144 mod 64), b64_char (n div 4096 mod 64),
                b64_char (n div 64 mod 64), b64_char (n mod 64)]"

text \<open>\<^verbatim>\<open>base64.StdEncoding.EncodeToString\<close>.\<close>

fun base64_encode :: "bytes \<Rightarrow> string" where
  "base64_encode [] = []"
| "base64_encode [a] = take 2 (quad_of (unat a * 65536)) @ [b64_pad, b64_pad]"
| "base64_encode [a, b] = take 3 (quad_of (unat a * 65536 + unat b * 256)) @ [b64_pad]"
| "base64_encode (a # b # c # bs) =
     quad_of (unat a * 65536 + unat b * 256 + unat c) @ base64_encode bs"

definition sextets :: "string \<Rightarrow> nat option" where
  "sextets cs =
     (if list_all (\<lambda>c. b64_value c \<noteq> None) cs
      then Some (foldl (\<lambda>a c. a * 64 + the (b64_value c)) 0 cs) else None)"

definition bytes3 :: "nat \<Rightarrow> bytes" where
  "bytes3 n = [of_nat (n div 65536), of_nat (n div 256 mod 256), of_nat (n mod 256)]"

fun decode_quads :: "string \<Rightarrow> bytes option" where
  "decode_quads [] = Some []"
| "decode_quads (a # b # c # d # rest) =
     (if c = b64_pad
      then if d = b64_pad \<and> rest = []
           then map_option (\<lambda>n. take 1 (bytes3 (n * 4096))) (sextets [a, b]) else None
      else if d = b64_pad
      then if rest = [] then map_option (\<lambda>n. take 2 (bytes3 (n * 64))) (sextets [a, b, c]) else None
      else (case sextets [a, b, c, d] of
              None \<Rightarrow> None
            | Some n \<Rightarrow> map_option (\<lambda>bs. bytes3 n @ bs) (decode_quads rest)))"
| "decode_quads _ = None"

text \<open>
  The bytes \<^verbatim>\<open>DecodeString\<close> returns next to its error: those of the groups of four before
  the offending one (and of a padded group that something follows).
\<close>

fun decode_prefix :: "string \<Rightarrow> bytes" where
  "decode_prefix (a # b # c # d # rest) =
     (if c = b64_pad
      then if d = b64_pad
           then (case sextets [a, b] of None \<Rightarrow> [] | Some n \<Rightarrow> take 1 (bytes3 (n * 4096))) else []
      else if d = b64_pad
      then (case sextets [a, b, c] of None \<Rightarrow> [] | Some n \<Rightarrow> take 2 (bytes3 (n * 64)))
      else (case sextets [a, b, c, d] of None \<Rightarrow> [] | Some n \<Rightarrow> bytes3 n @ decode_prefix rest))"
| "decode_prefix _ = []"

definition base64_decode_bytes :: "string \<Rightarrow> bytes" where
  "base64_decode_bytes s = decode_prefix (filter (\<lambda>c. c \<noteq> CHR 0x0A \<and> c \<noteq> CHR 0x0D) s)"

text \<open>
  \<^verbatim>\<open>base64.StdEncoding.DecodeString\<close>: carriage returns and line feeds are skipped; \<open>None\<close>
  is any error (a byte outside the alphabet, a wrong length, wrong padding, text after it).
\<close>

definition base64_decode :: "string \<Rightarrow> bytes option" where
  "base64_decode s =
     decode_quads (filter (\<lambda>c. c \<noteq> CHR 0x0A \<and> c \<noteq> CHR 0x0D) s)"

text \<open>The round trip: what was encoded decodes to itself.\<close>

lemma b64_value_char [simp]: "n < 64 \<Longrightarrow> b64_value (b64_char n) = Some n"
  by (auto simp: b64_value_def b64_char_def Let_def)

lemma b64_char_plain:
  assumes "n < 64"
  shows "b64_char n \<noteq> b64_pad" "b64_char n \<noteq> CHR 0x0A" "b64_char n \<noteq> CHR 0x0D"
proof -
  have "b64_value (b64_char n) \<noteq> None" using assms by simp
  moreover have "b64_value b64_pad = None" "b64_value (CHR 0x0A) = None" "b64_value (CHR 0x0D) = None"
    by (simp_all add: b64_value_def)
  ultimately show "b64_char n \<noteq> b64_pad" "b64_char n \<noteq> CHR 0x0A" "b64_char n \<noteq> CHR 0x0D"
    by metis+
qed

lemma sextets_quad:
  assumes "n < 16777216"
  shows "sextets (quad_of n) = Some n"
    "sextets (take 3 (quad_of n)) = Some (n div 64)"
    "sextets (take 2 (quad_of n)) = Some (n div 4096)"
proof -
  have n: "n div 4096 = n div 64 div 64" "n div 262144 = n div 64 div 64 div 64"
    by (simp_all add: div_mult2_eq [symmetric])
  have "n div 64 div 64 div 64 < 64"
    using assms by (simp add: div_mult2_eq [symmetric] less_mult_imp_div_less)
  then have "n div 64 div 64 div 64 mod 64 * 64 + n div 64 div 64 mod 64 = n div 64 div 64"
    by (simp only: mod_less div_mult_mod_eq)
  then show "sextets (quad_of n) = Some n"
    "sextets (take 3 (quad_of n)) = Some (n div 64)"
    "sextets (take 2 (quad_of n)) = Some (n div 4096)"
    unfolding n quad_of_def by (simp_all add: sextets_def n)
qed

lemma unat_byte_bound: "unat (b :: byte) < 256"
  using unsigned_less [of b, where 'a = nat] by simp

lemma decode_quads_full:
  assumes "n < 16777216"
  shows "decode_quads (quad_of n @ rest) = map_option (\<lambda>bs. bytes3 n @ bs) (decode_quads rest)"
  using sextets_quad(1) [OF assms] by (simp add: quad_of_def b64_char_plain)

lemma bytes3_of: "bytes3 (unat a * 65536 + unat b * 256 + unat c) = [a, b, c]"
proof -
  let ?ab = "unat a * 256 + unat b"
  have n: "unat a * 65536 + unat b * 256 + unat c = ?ab * 256 + unat c" by simp
  have "?ab div 256 = unat a" "?ab mod 256 = unat b"
    using unat_byte_bound [of b] by simp_all
  moreover have "(?ab * 256 + unat c) div 256 = ?ab"
    using unat_byte_bound [of c] by simp
  moreover have "(?ab * 256 + unat c) mod 256 = unat c"
    using unat_byte_bound [of c] by (simp only: mod_mult_self3 mod_less)
  moreover have "m div 65536 = m div 256 div 256" for m :: nat
    by (simp add: div_mult2_eq [symmetric])
  ultimately show ?thesis unfolding bytes3_def n by simp
qed

lemma decode_encode_quads: "decode_quads (base64_encode bs) = Some bs"
proof (induction bs rule: base64_encode.induct)
  case 1
  then show ?case by simp
next
  case (2 a)
  let ?n = "unat a * 65536"
  have n: "?n < 16777216" using unat_byte_bound [of a] by simp
  have "4096 dvd ?n" by (simp add: dvd_mult)
  then have "?n div 4096 * 4096 = ?n + unat (0 :: byte) * 256 + unat (0 :: byte)" by simp
  then have "take 1 (bytes3 (?n div 4096 * 4096)) = [a]" by (simp only: bytes3_of) simp
  then show ?case using sextets_quad(3) [OF n] by (simp add: quad_of_def)
next
  case (3 a b)
  let ?n = "unat a * 65536 + unat b * 256"
  have n: "?n < 16777216" using unat_byte_bound [of a] unat_byte_bound [of b] by linarith
  have "64 dvd ?n" by (simp add: dvd_add dvd_mult)
  then have "?n div 64 * 64 = ?n + unat (0 :: byte)" by simp
  then have "take 2 (bytes3 (?n div 64 * 64)) = [a, b]" by (simp only: bytes3_of) simp
  moreover have "b64_char (?n div 64 mod 64) \<noteq> b64_pad" by (simp add: b64_char_plain)
  ultimately show ?case using sextets_quad(2) [OF n] by (simp add: quad_of_def)
next
  case (4 a b c bs)
  have "unat a * 65536 + unat b * 256 + unat c < 16777216"
    using unat_byte_bound [of a] unat_byte_bound [of b] unat_byte_bound [of c] by linarith
  then show ?case using 4 by (simp add: decode_quads_full bytes3_of)
qed

lemma base64_encode_no_newline:
  "c \<in> set (base64_encode bs) \<Longrightarrow> c \<noteq> CHR 0x0A \<and> c \<noteq> CHR 0x0D"
  by (induction bs rule: base64_encode.induct) (auto simp: quad_of_def b64_char_plain)

lemma base64_decode_encode: "base64_decode (base64_encode bs) = Some bs"
proof -
  have "filter (\<lambda>c. c \<noteq> CHR 0x0A \<and> c \<noteq> CHR 0x0D) (base64_encode bs) = base64_encode bs"
    using base64_encode_no_newline by (simp add: filter_id_conv)
  then show ?thesis by (simp add: base64_decode_def decode_encode_quads)
qed

lemma decode_prefix_quads: "decode_quads s = Some bs \<Longrightarrow> decode_prefix s = bs"
  by (induction s arbitrary: bs rule: decode_quads.induct) (auto split: if_splits option.splits)

lemma base64_decode_bytes_Some: "base64_decode s = Some bs \<Longrightarrow> base64_decode_bytes s = bs"
  by (simp add: base64_decode_def base64_decode_bytes_def decode_prefix_quads)

end
