(* ===== verification/Domain.thy ===== *)
theory Domain
  imports Exceptions
begin

text \<open>
  The value objects and entities of \<^verbatim>\<open>internal/domain\<close>: one record per struct, with the
  struct's fields in their order, and one definition per method. Go string types with declared
  constants (\<^verbatim>\<open>KeyAlgorithm\<close>, \<^verbatim>\<open>KeyUsage\<close>, \<^verbatim>\<open>OwnerType\<close>, ...) stay strings, since
  the code converts arbitrary request and database strings into them; the constants that only
  the code itself writes (the type, status and level of a key operation) are datatypes.
  Times are nanoseconds since the Unix epoch.
\<close>

section \<open>Value objects\<close>

type_synonym time = int

text \<open>Go's zero \<^verbatim>\<open>time.Time\<close>: 1 January of year 1.\<close>

definition zero_time :: time where
  "zero_time = -62135596800000000000"

type_synonym key_algorithm = string

abbreviation alg_RSA :: key_algorithm where "alg_RSA \<equiv> ''RSA''"
abbreviation alg_ECDSA :: key_algorithm where "alg_ECDSA \<equiv> ''ECDSA''"
abbreviation alg_Ed25519 :: key_algorithm where "alg_Ed25519 \<equiv> ''Ed25519''"

definition KeyAlgorithm_IsValid :: "key_algorithm \<Rightarrow> bool" where
  "KeyAlgorithm_IsValid a = (a \<in> {alg_RSA, alg_ECDSA, alg_Ed25519})"

text \<open>The name of an algorithm for the adapter of the HSM, which knows no Ed25519.\<close>

definition mapKeyAlgorithm :: "key_algorithm \<Rightarrow> string" where
  "mapKeyAlgorithm algorithm =
     (if algorithm = alg_RSA then ''RSA'' else if algorithm = alg_ECDSA then ''ECDSA'' else ''UNKNOWN'')"

type_synonym key_usage = string

abbreviation KeyUsageSigning :: key_usage where "KeyUsageSigning \<equiv> ''SIGNING''"
abbreviation KeyUsageEncryption :: key_usage where "KeyUsageEncryption \<equiv> ''ENCRYPTION''"
abbreviation KeyUsageBoth :: key_usage where "KeyUsageBoth \<equiv> ''BOTH''"

definition KeyUsage_IsValid :: "key_usage \<Rightarrow> bool" where
  "KeyUsage_IsValid u = (u \<in> {KeyUsageSigning, KeyUsageEncryption, KeyUsageBoth})"

definition CanSign :: "key_usage \<Rightarrow> bool" where
  "CanSign u = (u = KeyUsageSigning \<or> u = KeyUsageBoth)"

definition CanEncrypt :: "key_usage \<Rightarrow> bool" where
  "CanEncrypt u = (u = KeyUsageEncryption \<or> u = KeyUsageBoth)"

type_synonym key_type = string

abbreviation KeyTypeRSA :: key_type where "KeyTypeRSA \<equiv> ''RSA''"
abbreviation KeyTypeECDSA :: key_type where "KeyTypeECDSA \<equiv> ''ECDSA''"
abbreviation KeyTypeUnknown :: key_type where "KeyTypeUnknown \<equiv> ''UNKNOWN''"

definition KeyType_IsValid :: "key_type \<Rightarrow> bool" where
  "KeyType_IsValid t = (t \<in> {KeyTypeRSA, KeyTypeECDSA})"

type_synonym owner_type = string

abbreviation OwnerTypeTenant :: owner_type where "OwnerTypeTenant \<equiv> ''TENANT''"
abbreviation OwnerTypeUser :: owner_type where "OwnerTypeUser \<equiv> ''USER''"
abbreviation OwnerTypeOrganization :: owner_type where "OwnerTypeOrganization \<equiv> ''ORGANIZATION''"

definition OwnerType_IsValid :: "owner_type \<Rightarrow> bool" where
  "OwnerType_IsValid t = (t \<in> {OwnerTypeTenant, OwnerTypeUser, OwnerTypeOrganization})"

definition AuditStrategy_IsValid :: "string \<Rightarrow> bool" where
  "AuditStrategy_IsValid s = (s \<in> {''database'', ''http'', ''hybrid'', ''mock'', ''async''})"

definition AESKeyManagerStrategy_IsValid :: "string \<Rightarrow> bool" where
  "AESKeyManagerStrategy_IsValid s = (s \<in> {''local'', ''k8s'', ''vault''})"

datatype operation_key_type =
  OperationKeyTypeGenerate | OperationKeyTypeRotate | OperationKeyTypeDelete
| OperationKeyTypeImport | OperationKeyTypeExport | OperationKeyTypeSigning
| OperationKeyTypeVerify | OperationKeyTypeEncryption | OperationKeyTypeDecryption

datatype operation_key_status =
  OperationKeyStatusSuccess | OperationKeyStatusFailed
| OperationKeyStatusPending | OperationKeyStatusCancelled

datatype operation_key_level =
  OperationKeyLevelLow | OperationKeyLevelMedium | OperationKeyLevelHigh

text \<open>\<^verbatim>\<open>NewTenantID\<close>; \<open>uuid_ok\<close> is \<^verbatim>\<open>uuid.Parse\<close> of google/uuid reporting no error.\<close>

record tenant_id = tid_value :: string

definition NewTenantID :: "(string \<Rightarrow> bool) \<Rightarrow> string \<Rightarrow> go_error + tenant_id" where
  "NewTenantID uuid_ok v =
     (if v = '''' then Inl (PlainErr ''tenant ID cannot be empty'')
      else if \<not> uuid_ok v then Inl (PlainErr ''invalid tenant ID format'')
      else Inr \<lparr>tid_value = v\<rparr>)"

definition TenantID_Equals :: "tenant_id \<Rightarrow> tenant_id \<Rightarrow> bool" where
  "TenantID_Equals t u = (tid_value t = tid_value u)"

subsection \<open>Identity of the caller\<close>

record identity_context =
  id_TenantID :: string
  id_OwnerType :: owner_type
  id_OwnerID :: string
  id_OrganizationID :: "string option"
  id_ParentKeyID :: "string option"
  id_UserID :: string
  id_CertLevel :: int
  id_MaxCertLevel :: int
  id_CanCertify :: bool
  id_CertificationPath :: string
  id_Permissions :: details

text \<open>The composite literal \<^verbatim>\<open>&IdentityContext{}\<close>.\<close>

definition zero_identity :: identity_context where
  "zero_identity = \<lparr>id_TenantID = '''', id_OwnerType = '''', id_OwnerID = '''',
     id_OrganizationID = None, id_ParentKeyID = None, id_UserID = '''', id_CertLevel = 0,
     id_MaxCertLevel = 0, id_CanCertify = False, id_CertificationPath = '''', id_Permissions = []\<rparr>"

definition Identity_Validate :: "identity_context \<Rightarrow> go_error option" where
  "Identity_Validate i =
     (if id_TenantID i = '''' then Some (PkgErr ErrTenantRequired)
      else if id_OwnerID i = '''' then Some (PkgErr ErrOwnerIdRequired)
      else if \<not> OwnerType_IsValid (id_OwnerType i) then Some (PkgErr ErrInvalidOwnerType)
      else None)"

definition CanCertifyLevel :: "identity_context \<Rightarrow> int \<Rightarrow> bool" where
  "CanCertifyLevel i level = (id_CanCertify i \<and> level \<le> id_MaxCertLevel i)"

subsection \<open>AES-GCM data\<close>

record encrypt_aes_gcm =
  en_IV :: bytes
  en_Ciphertext :: bytes
  en_Tag :: bytes
  en_Algorithm :: string
  en_KeyID :: string

definition Encrypt_IsValid :: "encrypt_aes_gcm \<Rightarrow> bool" where
  "Encrypt_IsValid e = (length (en_IV e) = 12 \<and> length (en_Tag e) = 16
     \<and> 0 < length (en_Ciphertext e) \<and> en_Algorithm e = ''AES-256-GCM'')"

definition ToBytes :: "encrypt_aes_gcm \<Rightarrow> bytes" where
  "ToBytes e = en_IV e @ en_Ciphertext e @ en_Tag e"

definition NewEncryptedDataFromBytes :: "bytes \<Rightarrow> go_error + encrypt_aes_gcm" where
  "NewEncryptedDataFromBytes data =
     (if length data < 28 then Inl (PlainErr ''invalid encrypted data length'')
      else Inr \<lparr>en_IV = take 12 data,
                en_Ciphertext = drop 12 (take (length data - 16) data),
                en_Tag = drop (length data - 16) data,
                en_Algorithm = ''AES-256-GCM'', en_KeyID = ''''\<rparr>)"

subsection \<open>Audit data\<close>

record audit_data =
  ad_ServiceName :: string
  ad_EventType :: string
  ad_Operation :: string
  ad_ResourceID :: string
  ad_ResourceType :: string
  ad_ActorType :: string
  ad_Success :: bool
  ad_StatusCode :: string
  ad_ErrMsg :: string
  ad_DurationMs :: int
  ad_Metadata :: details

section \<open>Entities\<close>

record cryptographic_key =
  k_ID :: string
  k_TenantID :: string
  k_OwnerType :: owner_type
  k_OwnerID :: string
  k_ParentKeyID :: "string option"
  k_CertLevel :: int
  k_Name :: string
  k_Alias :: string
  k_Algorithm :: key_algorithm
  k_KeySize :: int
  k_Purpose :: key_usage
  k_PublicKey :: bytes
  k_KeyHandle :: string
  k_KeyLabel :: string
  k_IsHardwareBacked :: bool
  k_HSMSlotID :: string
  k_IsActive :: bool
  k_Version :: int
  k_RotationDate :: time
  k_ExpirationDate :: time
  k_CreatedAt :: time
  k_Metadata :: "(string \<times> string) list"

definition zero_key :: cryptographic_key where
  "zero_key = \<lparr>k_ID = '''', k_TenantID = '''', k_OwnerType = '''', k_OwnerID = '''',
     k_ParentKeyID = None, k_CertLevel = 0, k_Name = '''', k_Alias = '''', k_Algorithm = '''',
     k_KeySize = 0, k_Purpose = '''', k_PublicKey = [], k_KeyHandle = '''', k_KeyLabel = '''',
     k_IsHardwareBacked = False, k_HSMSlotID = '''', k_IsActive = False, k_Version = 0,
     k_RotationDate = zero_time, k_ExpirationDate = zero_time, k_CreatedAt = zero_time,
     k_Metadata = []\<rparr>"

text \<open>The map of valid sizes per algorithm; \<open>None\<close> where the algorithm is no key of it.\<close>

definition valid_sizes :: "key_algorithm \<Rightarrow> int list option" where
  "valid_sizes a =
     map_of [(alg_RSA, [2048, 3072, 4096]), (alg_ECDSA, [256, 384, 521]), (alg_Ed25519, [256])] a"

definition isValidKeySize :: "cryptographic_key \<Rightarrow> bool" where
  "isValidKeySize k =
     (case valid_sizes (k_Algorithm k) of
        None \<Rightarrow> False
      | Some sizes \<Rightarrow> k_KeySize k \<in> set sizes)"

definition Key_Validate :: "cryptographic_key \<Rightarrow> go_error option" where
  "Key_Validate k =
     (if k_Name k = '''' then Some (PlainErr (code_string ErrInvalidKeyName))
      else if \<not> KeyAlgorithm_IsValid (k_Algorithm k) then Some (PlainErr (code_string ErrInvalidAlgorithm))
      else if \<not> isValidKeySize k then Some (PlainErr (code_string ErrInvalidKeySize))
      else if k_TenantID k = '''' then Some (PlainErr (code_string ErrInvalidTenant))
      else if \<not> KeyUsage_IsValid (k_Purpose k) then Some (PlainErr (code_string ErrInvalidKeyUsage))
      else None)"

definition Deactivate :: "cryptographic_key \<Rightarrow> cryptographic_key" where
  "Deactivate k = k\<lparr>k_IsActive := False\<rparr>"

record hsm_key =
  hk_Label :: string
  hk_Type :: key_type
  hk_Size :: u32
  hk_TenantID :: string
  hk_PublicKey :: bytes
  hk_KeyHandle :: string
  hk_CreatedAt :: time
  hk_IsActive :: bool
  hk_Usage :: key_usage

record hsm_slot =
  sl_ID :: string
  sl_Label :: string
  sl_SlotNumber :: u64
  sl_IsTemporaryID :: bool
  sl_PIN_IV :: bytes
  sl_Pin_ciphertext :: bytes
  sl_Pin_auth_tag :: bytes
  sl_KeyMetadataID :: string
  sl_EncryptionContext :: details
  sl_CreatedAt :: time
  sl_UpdatedAt :: time

record key_operation =
  op_ID :: string
  op_KeyID :: string
  op_TenantID :: string
  op_OrganizationID :: "string option"
  op_OperationType :: operation_key_type
  op_Status :: operation_key_status
  op_Level :: operation_key_level
  op_InitializedBy :: string
  op_SessionID :: u64
  op_RequestID :: string
  op_InputSizeBytes :: int
  op_OutputSizeBytes :: int
  op_DurationMs :: int
  op_ResultSummary :: string
  op_ErrorDetails :: string
  op_CreatedAt :: int

record aes_key_metadata =
  md_ID :: string
  md_HSMSlotID :: string
  md_VersionID :: string
  md_Active :: bool
  md_Algorithm :: string
  md_Source :: string
  md_Description :: string
  md_WrappedDataKey :: bytes
  md_WrappedKeyVersion :: string
  md_LastRewrapAt :: "time option"
  md_CreatedAt :: time
  md_UpdatedAt :: time

record tenant =
  tn_ID :: string
  tn_Name :: string
  tn_ContactEmail :: string
  tn_PlanType :: string
  tn_Status :: string
  tn_Config :: details
  tn_HSMSlotID :: "string option"
  tn_CreatedAt :: time
  tn_UpdatedAt :: time

record session =
  se_ID :: string
  se_TenantID :: string
  se_OwnerType :: owner_type
  se_OwnerID :: string
  se_OrganizationID :: "string option"
  se_ParentKeyID :: "string option"
  se_CertLevel :: int
  se_CertificationPath :: string
  se_CanCertify :: bool
  se_MaxCertLevel :: int
  se_Permissions :: details
  se_UserID :: string
  se_CreatedAt :: time
  se_ExpiresAt :: time
  se_IsActive :: bool
  se_TokenID :: string

definition zero_session :: session where
  "zero_session = \<lparr>se_ID = '''', se_TenantID = '''', se_OwnerType = '''', se_OwnerID = '''',
     se_OrganizationID = None, se_ParentKeyID = None, se_CertLevel = 0, se_CertificationPath = '''',
     se_CanCertify = False, se_MaxCertLevel = 0, se_Permissions = [], se_UserID = '''',
     se_CreatedAt = zero_time, se_ExpiresAt = zero_time, se_IsActive = False, se_TokenID = ''''\<rparr>"

definition IsExpired :: "time \<Rightarrow> session \<Rightarrow> bool" where
  "IsExpired now s = (se_ExpiresAt s < now)"

text \<open>
  The loop of \<^verbatim>\<open>HasPermission\<close> ranges over the map's \<^emph>\<open>values\<close> and compares each,
  an \<^verbatim>\<open>interface{}\<close>, with the string: equal only to a value that is that string.
\<close>

definition HasPermission :: "session \<Rightarrow> string \<Rightarrow> bool" where
  "HasPermission s p = (\<exists>(k, v) \<in> set (se_Permissions s). v = DStr p)"

record audit_event =
  ev_ID :: string
  ev_CorrelationID :: string
  ev_SessionID :: string
  ev_RequestID :: string
  ev_ServiceName :: string
  ev_EventType :: string
  ev_EventAction :: string
  ev_OrganizationID :: "string option"
  ev_UserID :: string
  ev_TenantID :: string
  ev_ResourceID :: string
  ev_ResourceType :: string
  ev_ActorType :: string
  ev_ActorID :: string
  ev_Success :: bool
  ev_StatusCode :: string
  ev_ErrorMessage :: string
  ev_DurationMs :: int
  ev_IPAddress :: string
  ev_UserAgent :: string
  ev_Metadata :: details
  ev_Timestamp :: time

definition SetError :: "go_error option \<Rightarrow> audit_event \<Rightarrow> audit_event" where
  "SetError err e =
     (case err of
        None \<Rightarrow> e\<lparr>ev_Success := False\<rparr>
      | Some x \<Rightarrow> e\<lparr>ev_Success := False, ev_ErrorMessage := error_text x\<rparr>)"

text \<open>\<^verbatim>\<open>time.Since(start).Milliseconds()\<close>: whole milliseconds, truncated toward zero.\<close>

definition millis_since :: "time \<Rightarrow> time \<Rightarrow> int" where
  "millis_since start now = sgn (now - start) * (\<bar>now - start\<bar> div 1000000)"

definition SetDuration :: "time \<Rightarrow> time \<Rightarrow> audit_event \<Rightarrow> audit_event" where
  "SetDuration start now e = e\<lparr>ev_DurationMs := millis_since start now\<rparr>"

section \<open>Facts\<close>

lemma Key_Validate_None_iff:
  "Key_Validate k = None \<longleftrightarrow>
     k_Name k \<noteq> '''' \<and> k_TenantID k \<noteq> '''' \<and> isValidKeySize k \<and> KeyUsage_IsValid (k_Purpose k)"
  by (auto simp: Key_Validate_def isValidKeySize_def valid_sizes_def KeyAlgorithm_IsValid_def
      split: if_splits option.splits)

lemma isValidKeySize_cases:
  "isValidKeySize k \<longleftrightarrow>
     (k_Algorithm k = alg_RSA \<and> k_KeySize k \<in> {2048, 3072, 4096}) \<or>
     (k_Algorithm k = alg_ECDSA \<and> k_KeySize k \<in> {256, 384, 521}) \<or>
     (k_Algorithm k = alg_Ed25519 \<and> k_KeySize k = 256)"
  by (auto simp: isValidKeySize_def valid_sizes_def split: if_splits)

lemma CanSign_CanEncrypt_IsValid: "CanSign u \<or> CanEncrypt u \<longleftrightarrow> KeyUsage_IsValid u"
  by (auto simp: CanSign_def CanEncrypt_def KeyUsage_IsValid_def)

lemma Identity_Validate_None_iff:
  "Identity_Validate i = None \<longleftrightarrow>
     id_TenantID i \<noteq> '''' \<and> id_OwnerID i \<noteq> '''' \<and> OwnerType_IsValid (id_OwnerType i)"
  by (simp add: Identity_Validate_def)

lemma ToBytes_length:
  "Encrypt_IsValid e \<Longrightarrow> length (ToBytes e) = 28 + length (en_Ciphertext e)"
  by (simp add: Encrypt_IsValid_def ToBytes_def)

end
