(* ===== verification/Crypto.thy ===== *)
theory Crypto
  imports Go_Crypto Domain
begin

text \<open>
  The package \<^verbatim>\<open>pkg/crypto\<close>: authenticated encryption (\<^verbatim>\<open>aesgcm.go\<close>) and key wrapping
  (\<^verbatim>\<open>keywrap.go\<close>). The functions are pure: what a read of \<^verbatim>\<open>crypto/rand\<close> yields is their
  first argument, an error text or a stream whose first bytes are the ones read. The proofs use
  AES-GCM only through the interpretation \<open>gcm\<close> of the locale \<open>aead\<close>.

  \<^verbatim>\<open>cipher.NewGCM\<close> reports no error on an AES block cipher (its block size is 16), so its
  error branch has no value of its own here.
\<close>

section \<open>Randomness\<close>

type_synonym rand_read = "string + (nat \<Rightarrow> byte)"

definition read_full :: "rand_read \<Rightarrow> nat \<Rightarrow> string + bytes" where
  "read_full r n = (case r of Inl err \<Rightarrow> Inl err | Inr f \<Rightarrow> Inr (map f [0..<n]))"

lemma read_full_length: "read_full r n = Inr bs \<Longrightarrow> length bs = n"
  by (auto simp: read_full_def split: sum.splits)

section \<open>aesgcm.go\<close>

definition AESGCMIVSize :: nat where "AESGCMIVSize = 12"
definition AESGCMTagSize :: nat where "AESGCMTagSize = 16"
definition AES256KeySize :: nat where "AES256KeySize = 32"

definition GenerateAES256Key :: "rand_read \<Rightarrow> go_error + bytes" where
  "GenerateAES256Key r =
     (case read_full r AES256KeySize of
        Inl err \<Rightarrow> Inl (PlainErr err)
      | Inr key \<Rightarrow> Inr key)"

definition EncryptAESGCM :: "rand_read \<Rightarrow> bytes \<Rightarrow> bytes \<Rightarrow> go_error + encrypt_aes_gcm" where
  "EncryptAESGCM r key plaintext =
     (if length key \<noteq> AES256KeySize then Inl (PkgErr ErrInvalidAESKeySize)
      else if \<not> aes_key_size_ok key then Inl (PkgErr ErrAESCreateCipher)
      else case read_full r AESGCMIVSize of
        Inl err \<Rightarrow> Inl (PkgErr ErrAESCreateNonce)
      | Inr nonce \<Rightarrow>
          let ciphertext = gcm_seal key nonce plaintext;
              tagStart = length ciphertext - gcm_overhead
          in Inr \<lparr>en_IV = nonce, en_Ciphertext = take tagStart ciphertext,
                  en_Tag = drop tagStart ciphertext, en_Algorithm = ''AES-256-GCM'', en_KeyID = ''''\<rparr>)"

definition DecryptAESGCM :: "bytes \<Rightarrow> encrypt_aes_gcm \<Rightarrow> go_error + bytes" where
  "DecryptAESGCM key encrypted =
     (if length key \<noteq> AES256KeySize then Inl (PkgErr ErrInvalidAESKeySize)
      else if \<not> Encrypt_IsValid encrypted then Inl (PkgErr ErrAESInvalidKey)
      else if \<not> aes_key_size_ok key then Inl (PkgErr ErrAESCreateCipher)
      else case gcm_open key (en_IV encrypted) (en_Ciphertext encrypted @ en_Tag encrypted) of
        None \<Rightarrow> Inl (PkgErr ErrAESDecryptFailed)
      | Some plaintext \<Rightarrow> Inr plaintext)"

definition EncryptAESGCMBase64 :: "rand_read \<Rightarrow> string \<Rightarrow> bytes \<Rightarrow> go_error + encrypt_aes_gcm" where
  "EncryptAESGCMBase64 r keyBase64 plaintext =
     (case base64_decode keyBase64 of
        None \<Rightarrow> Inl (PkgErr ErrInvalidBase64)
      | Some key \<Rightarrow> EncryptAESGCM r key plaintext)"

definition DecryptAESGCMBase64 :: "string \<Rightarrow> encrypt_aes_gcm \<Rightarrow> go_error + bytes" where
  "DecryptAESGCMBase64 keyBase64 encrypted =
     (case base64_decode keyBase64 of
        None \<Rightarrow> Inl (PkgErr ErrInvalidBase64)
      | Some key \<Rightarrow> DecryptAESGCM key encrypted)"

section \<open>keywrap.go\<close>

definition WrapKey :: "rand_read \<Rightarrow> bytes \<Rightarrow> bytes \<Rightarrow> go_error + bytes" where
  "WrapKey r wrappingKey keyToWrap =
     (if length wrappingKey \<noteq> AES256KeySize then Inl (PkgErr ErrWrappingKeyLength)
      else if length keyToWrap = 0 \<or> length keyToWrap > 1024 then Inl (PkgErr ErrKeyToWrapLengthInvalid)
      else if \<not> aes_key_size_ok wrappingKey
        then Inl (PlainErr (''crypto/aes: invalid key size '' @ dec (length wrappingKey)))
      else case read_full r AESGCMIVSize of
        Inl err \<Rightarrow> Inl (PlainErr err)
      | Inr iv \<Rightarrow> Inr (iv @ gcm_seal wrappingKey iv keyToWrap))"

definition UnwrapKey :: "bytes \<Rightarrow> bytes \<Rightarrow> go_error + bytes" where
  "UnwrapKey wrappingKey wrappedKey =
     (if length wrappingKey \<noteq> AES256KeySize then Inl (PkgErr ErrWrappingKeyLength)
      else if length wrappedKey < AESGCMIVSize + 16 then Inl (PkgErr ErrWrappingKeyShort)
      else if \<not> aes_key_size_ok wrappingKey
        then Inl (PlainErr (''crypto/aes: invalid key size '' @ dec (length wrappingKey)))
      else case gcm_open wrappingKey (take AESGCMIVSize wrappedKey) (drop AESGCMIVSize wrappedKey) of
        None \<Rightarrow> Inl (PlainErr ''cipher: message authentication failed'')
      | Some key \<Rightarrow> Inr key)"

section \<open>Facts\<close>

lemmas aes_sizes = AESGCMIVSize_def AESGCMTagSize_def AES256KeySize_def gcm_overhead_def

lemma aes_key_size_ok_256: "length key = AES256KeySize \<Longrightarrow> aes_key_size_ok key"
  by (simp add: aes_key_size_ok_def AES256KeySize_def)

lemma EncryptAESGCM_Inr_iff:
  "EncryptAESGCM r key pt = Inr e \<longleftrightarrow>
     length key = AES256KeySize \<and>
     (\<exists>nonce. read_full r AESGCMIVSize = Inr nonce \<and>
        e = \<lparr>en_IV = nonce,
             en_Ciphertext = take (length (gcm_seal key nonce pt) - gcm_overhead) (gcm_seal key nonce pt),
             en_Tag = drop (length (gcm_seal key nonce pt) - gcm_overhead) (gcm_seal key nonce pt),
             en_Algorithm = ''AES-256-GCM'', en_KeyID = ''''\<rparr>)"
  by (auto simp: EncryptAESGCM_def aes_key_size_ok_256 Let_def split: sum.splits)

lemma EncryptAESGCM_parts:
  assumes "EncryptAESGCM r key pt = Inr e"
  shows "length (en_IV e) = 12" "length (en_Ciphertext e) = length pt" "length (en_Tag e) = 16"
    "en_Algorithm e = ''AES-256-GCM''" "length key = 32"
  using assms
  by (auto simp: EncryptAESGCM_Inr_iff gcm.length_seal dest!: read_full_length simp: aes_sizes)

lemma EncryptAESGCM_IsValid:
  "EncryptAESGCM r key pt = Inr e \<Longrightarrow> Encrypt_IsValid e \<longleftrightarrow> pt \<noteq> []"
  using EncryptAESGCM_parts [of r key pt e] by (auto simp: Encrypt_IsValid_def)

lemma DecryptAESGCM_Encrypt:
  assumes "EncryptAESGCM r key pt = Inr e" and "pt \<noteq> []"
  shows "DecryptAESGCM key (e\<lparr>en_KeyID := kid\<rparr>) = Inr pt"
proof -
  have "Encrypt_IsValid (e\<lparr>en_KeyID := kid\<rparr>)"
    using EncryptAESGCM_IsValid [OF assms(1)] assms(2) by (simp add: Encrypt_IsValid_def)
  then show ?thesis
    using assms(1)
    by (auto simp: EncryptAESGCM_Inr_iff DecryptAESGCM_def aes_key_size_ok_256 gcm.open_seal)
qed

lemma DecryptAESGCM_only_AES_fields:
  "en_IV e = en_IV f \<Longrightarrow> en_Ciphertext e = en_Ciphertext f \<Longrightarrow> en_Tag e = en_Tag f \<Longrightarrow>
   en_Algorithm e = en_Algorithm f \<Longrightarrow> DecryptAESGCM key e = DecryptAESGCM key f"
  by (simp add: DecryptAESGCM_def Encrypt_IsValid_def)

lemma EncryptAESGCM_total:
  "length key = 32 \<Longrightarrow> \<exists>e. EncryptAESGCM (Inr f) key pt = Inr e"
  by (simp add: EncryptAESGCM_Inr_iff AES256KeySize_def read_full_def)

lemma WrapKey_Inr_iff:
  "WrapKey r wk k = Inr w \<longleftrightarrow>
     length wk = AES256KeySize \<and> k \<noteq> [] \<and> length k \<le> 1024 \<and>
     (\<exists>iv. read_full r AESGCMIVSize = Inr iv \<and> w = iv @ gcm_seal wk iv k)"
  by (auto simp: WrapKey_def aes_key_size_ok_256 split: sum.splits if_splits)

lemma UnwrapKey_WrapKey:
  assumes "WrapKey r wk k = Inr w"
  shows "UnwrapKey wk w = Inr k" and "length w = length k + 28"
proof -
  from assms obtain iv where iv: "read_full r AESGCMIVSize = Inr iv" and wk: "length wk = AES256KeySize"
    and w: "w = iv @ gcm_seal wk iv k" by (auto simp: WrapKey_Inr_iff)
  from iv have len: "length iv = AESGCMIVSize" by (rule read_full_length)
  then show "length w = length k + 28" using w by (simp add: gcm.length_seal aes_sizes)
  then show "UnwrapKey wk w = Inr k"
    using wk w len gcm.open_prefixed [of wk iv k]
    by (simp add: UnwrapKey_def aes_key_size_ok_256 AESGCMIVSize_def gcm.length_seal gcm_overhead_def)
qed

lemma WrapKey_total:
  "length wk = 32 \<Longrightarrow> k \<noteq> [] \<Longrightarrow> length k \<le> 1024 \<Longrightarrow> \<exists>w. WrapKey (Inr f) wk k = Inr w"
  by (auto simp: WrapKey_Inr_iff AES256KeySize_def read_full_def)

lemma NewEncryptedDataFromBytes_ToBytes:
  assumes "length (en_IV e) = 12" and "length (en_Tag e) = 16"
  shows "NewEncryptedDataFromBytes (ToBytes e) =
     Inr \<lparr>en_IV = en_IV e, en_Ciphertext = en_Ciphertext e, en_Tag = en_Tag e,
          en_Algorithm = ''AES-256-GCM'', en_KeyID = ''''\<rparr>"
  using assms by (simp add: NewEncryptedDataFromBytes_def ToBytes_def)

lemma ToBytes_NewEncryptedDataFromBytes:
  assumes "NewEncryptedDataFromBytes data = Inr e"
  shows "ToBytes e = data"
proof -
  have "28 \<le> length data"
    and e: "e = \<lparr>en_IV = take 12 data, en_Ciphertext = drop 12 (take (length data - 16) data),
                en_Tag = drop (length data - 16) data, en_Algorithm = ''AES-256-GCM'', en_KeyID = ''''\<rparr>"
    using assms by (auto simp: NewEncryptedDataFromBytes_def split: if_splits)
  then have "12 \<le> length data - 16" by arith
  then have "take 12 data = take 12 (take (length data - 16) data)" by (simp add: min_absorb1)
  then have "take 12 data @ drop 12 (take (length data - 16) data) = take (length data - 16) data"
    by (simp only: append_take_drop_id)
  then show ?thesis by (simp add: ToBytes_def e flip: append_assoc)
qed

section \<open>Properties\<close>

text \<open>
  C9. What \<^verbatim>\<open>EncryptAESGCM\<close> returns for a non-empty plaintext decrypts to that plaintext with
  the same key, whatever key id the manager stamps on it, also after the journey through the
  byte form (\<^verbatim>\<open>ToBytes\<close>, \<^verbatim>\<open>NewEncryptedDataFromBytes\<close>); replacing the tag by any other
  tag of 16 bytes is refused with \<^verbatim>\<open>AES_DECRYPT_FAILED\<close>.
\<close>

theorem aes_gcm_round_trip:
  assumes "EncryptAESGCM r key plaintext = Inr e" and "plaintext \<noteq> []"
  shows "DecryptAESGCM key (e\<lparr>en_KeyID := kid\<rparr>) = Inr plaintext
    \<and> (\<exists>f. NewEncryptedDataFromBytes (ToBytes e) = Inr f \<and> DecryptAESGCM key f = Inr plaintext)
    \<and> (length t = 16 \<longrightarrow> t \<noteq> en_Tag e \<longrightarrow>
         DecryptAESGCM key (e\<lparr>en_Tag := t\<rparr>) = Inl (PkgErr ErrAESDecryptFailed))"
proof (intro conjI impI)
  show "DecryptAESGCM key (e\<lparr>en_KeyID := kid\<rparr>) = Inr plaintext"
    using assms by (rule DecryptAESGCM_Encrypt)
  have "DecryptAESGCM key e = Inr plaintext"
    using DecryptAESGCM_Encrypt [OF assms, of "en_KeyID e"] by simp
  then show "\<exists>f. NewEncryptedDataFromBytes (ToBytes e) = Inr f \<and> DecryptAESGCM key f = Inr plaintext"
    using EncryptAESGCM_parts [OF assms(1)]
    by (simp add: NewEncryptedDataFromBytes_ToBytes)
      (subst DecryptAESGCM_only_AES_fields [where f = e], simp_all)
  assume t: "length t = 16" "t \<noteq> en_Tag e"
  have "gcm_open key (en_IV e) (en_Ciphertext e @ t) = None"
    using assms(1) t
    by (auto simp: EncryptAESGCM_Inr_iff gcm_seal_def gcm_open_def gcm_overhead_def Let_def)
  then show "DecryptAESGCM key (e\<lparr>en_Tag := t\<rparr>) = Inl (PkgErr ErrAESDecryptFailed)"
    using EncryptAESGCM_parts [OF assms(1)] t assms(2)
    by (simp add: DecryptAESGCM_def Encrypt_IsValid_def AES256KeySize_def aes_key_size_ok_def)
qed

theorem aes_gcm_round_trip_witness:
  "\<exists>e. EncryptAESGCM (Inr (\<lambda>i. of_nat i)) (replicate 32 7) [1, 2, 3] = Inr e
     \<and> DecryptAESGCM (replicate 32 7) (e\<lparr>en_KeyID := ''k1''\<rparr>) = Inr [1, 2, 3]"
proof -
  obtain e where e: "EncryptAESGCM (Inr (\<lambda>i. of_nat i)) (replicate 32 7) [1, 2, 3] = Inr e"
    using EncryptAESGCM_total [of "replicate 32 7"] by auto
  with aes_gcm_round_trip [OF e, of "''k1''" "[]"] show ?thesis by simp
qed

text \<open>
  C13. Wrapping: \<^verbatim>\<open>WrapKey\<close> succeeds exactly with a 32-byte wrapping key, a key of 1 to 1024
  bytes and 12 random bytes; then the result is 28 bytes longer than the key and
  \<^verbatim>\<open>UnwrapKey\<close> under the same wrapping key gives the key back.
\<close>

theorem wrap_key_round_trip:
  assumes "WrapKey r wrappingKey key = Inr wrapped"
  shows "UnwrapKey wrappingKey wrapped = Inr key
    \<and> length wrapped = length key + 28
    \<and> length wrappingKey = 32 \<and> 1 \<le> length key \<and> length key \<le> 1024"
  using UnwrapKey_WrapKey [OF assms] assms
  by (auto simp: WrapKey_Inr_iff AES256KeySize_def Suc_le_eq)

theorem wrap_key_round_trip_witness:
  "\<exists>w. WrapKey (Inr (\<lambda>i. of_nat i)) (replicate 32 9) (replicate 32 5) = Inr w
     \<and> UnwrapKey (replicate 32 9) w = Inr (replicate 32 5) \<and> length w = 60"
proof -
  obtain w where w: "WrapKey (Inr (\<lambda>i. of_nat i)) (replicate 32 9) (replicate 32 5) = Inr w"
    using WrapKey_total [of "replicate 32 9" "replicate 32 5"] by auto
  with wrap_key_round_trip [OF w] show ?thesis by simp
qed

text \<open>
  An empty plaintext is encrypted without an error, but its ciphertext is refused by
  \<^verbatim>\<open>IsValid\<close>: decryption always answers \<^verbatim>\<open>AES_INVALID_KEY\<close>.
\<close>

theorem empty_plaintext_never_decrypts:
  assumes "EncryptAESGCM r key [] = Inr e"
  shows "DecryptAESGCM key (e\<lparr>en_KeyID := kid\<rparr>) = Inl (PkgErr ErrAESInvalidKey)"
  using EncryptAESGCM_parts [OF assms]
  by (simp add: DecryptAESGCM_def Encrypt_IsValid_def AES256KeySize_def)

theorem empty_plaintext_never_decrypts_witness:
  "\<exists>e. EncryptAESGCM (Inr (\<lambda>i. of_nat i)) (replicate 32 7) [] = Inr e
     \<and> DecryptAESGCM (replicate 32 7) (e\<lparr>en_KeyID := ''k1''\<rparr>) = Inl (PkgErr ErrAESInvalidKey)"
proof -
  obtain e where e: "EncryptAESGCM (Inr (\<lambda>i. of_nat i)) (replicate 32 7) [] = Inr e"
    using EncryptAESGCM_total [of "replicate 32 7"] by auto
  with empty_plaintext_never_decrypts [OF e, of "''k1''"] show ?thesis by simp
qed

end
