(* ===== verification/World.thy ===== *)
theory World
  imports Crypto
begin

text \<open>
  The state the service's components share and the outside world they read.

  The record \<open>world\<close> holds the MySQL tables, the process-wide PKCS#11 context variables of
  \<^verbatim>\<open>pkcs11_context.go\<close>, the clients of the one \<^verbatim>\<open>HSMManager\<close>, the details of the
  predefined errors, the key cache of the Kubernetes key manager, and the log of the calls made
  to the audit dispatcher. What is not Go code of the repository is a parameter: the record
  \<open>env\<close> has the readings of the clock, of \<^verbatim>\<open>crypto/rand\<close>, \<^verbatim>\<open>math/rand\<close> and
  \<^verbatim>\<open>uuid.New\<close>, the failures of the database driver and the answers of the Kubernetes API, each
  by the number of the call (\<open>w_tick\<close> counts them), and the operations of the PKCS#11 library
  (\<^verbatim>\<open>github.com/miekg/pkcs11\<close> with SoftHSM behind it) on a token state of any type
  \<open>'t\<close>. A theorem about all environments holds for all of their behaviours.
\<close>

section \<open>context.Context\<close>

text \<open>A key is its Go type and its value: keys of different types differ though they read alike.\<close>

type_synonym ctx_key = "string \<times> string"

datatype ctx_val = CStr string | CInt int | CIdent identity_context

type_synonym gctx = "(ctx_key \<times> ctx_val) list"

definition Background :: gctx where
  "Background = []"

definition WithValue :: "gctx \<Rightarrow> ctx_key \<Rightarrow> ctx_val \<Rightarrow> gctx" where
  "WithValue ctx k v = (k, v) # ctx"

definition ctx_value :: "gctx \<Rightarrow> ctx_key \<Rightarrow> ctx_val option" where
  "ctx_value ctx k = map_of ctx k"

text \<open>The type assertions \<^verbatim>\<open>ctx.Value(k).(string)\<close> and \<^verbatim>\<open>.(int64)\<close>, zero where they fail.\<close>

definition ctx_string :: "gctx \<Rightarrow> ctx_key \<Rightarrow> string" where
  "ctx_string ctx k = (case ctx_value ctx k of Some (CStr s) \<Rightarrow> s | _ \<Rightarrow> '''')"

definition ctx_int :: "gctx \<Rightarrow> ctx_key \<Rightarrow> int" where
  "ctx_int ctx k = (case ctx_value ctx k of Some (CInt i) \<Rightarrow> i | _ \<Rightarrow> 0)"

lemma ctx_value_WithValue [simp]:
  "ctx_value (WithValue ctx k v) k' = (if k' = k then Some v else ctx_value ctx k')"
  by (simp add: ctx_value_def WithValue_def)

section \<open>The PKCS#11 library\<close>

datatype attr_value = AVUlong nat | AVBool bool | AVStr string | AVBytes bytes

type_synonym template = "(nat \<times> attr_value) list"
type_synonym handle = u64
type_synonym ('t, 'a) ck_call = "'t \<Rightarrow> (go_error + 'a) \<times> 't"

text \<open>
  The calls of \<^verbatim>\<open>*pkcs11.Ctx\<close> the repository makes. An error is any \<open>go_error\<close>, since a
  \<^verbatim>\<open>pkcs11.Error\<close> is a \<open>CkErr\<close>.
\<close>

record 't ck =
  ck_New :: "string \<Rightarrow> 't \<Rightarrow> bool \<times> 't"
  ck_Initialize :: "('t, unit) ck_call"
  ck_Finalize :: "('t, unit) ck_call"
  ck_Destroy :: "'t \<Rightarrow> 't"
  ck_GetSlotList :: "bool \<Rightarrow> ('t, u64 list) ck_call"
  ck_GetTokenLabel :: "u64 \<Rightarrow> ('t, string) ck_call"
  ck_InitToken :: "u64 \<Rightarrow> string \<Rightarrow> string \<Rightarrow> ('t, unit) ck_call"
  ck_OpenSession :: "u64 \<Rightarrow> nat \<Rightarrow> ('t, handle) ck_call"
  ck_CloseSession :: "handle \<Rightarrow> ('t, unit) ck_call"
  ck_GetSessionState :: "handle \<Rightarrow> ('t, nat) ck_call"
  ck_Login :: "handle \<Rightarrow> nat \<Rightarrow> string \<Rightarrow> ('t, unit) ck_call"
  ck_Logout :: "handle \<Rightarrow> ('t, unit) ck_call"
  ck_InitPIN :: "handle \<Rightarrow> string \<Rightarrow> ('t, unit) ck_call"
  ck_FindObjectsInit :: "handle \<Rightarrow> template \<Rightarrow> ('t, unit) ck_call"
  ck_FindObjects :: "handle \<Rightarrow> nat \<Rightarrow> ('t, handle list) ck_call"
  ck_FindObjectsFinal :: "handle \<Rightarrow> ('t, unit) ck_call"
  ck_GetAttributeValue :: "handle \<Rightarrow> handle \<Rightarrow> nat list \<Rightarrow> ('t, (nat \<times> bytes) list) ck_call"
  ck_GenerateKeyPair :: "handle \<Rightarrow> nat \<Rightarrow> template \<Rightarrow> template \<Rightarrow> ('t, handle \<times> handle) ck_call"
  ck_DestroyObject :: "handle \<Rightarrow> handle \<Rightarrow> ('t, unit) ck_call"
  ck_SignInit :: "handle \<Rightarrow> nat \<Rightarrow> handle \<Rightarrow> ('t, unit) ck_call"
  ck_Sign :: "handle \<Rightarrow> bytes \<Rightarrow> ('t, bytes) ck_call"
  ck_VerifyInit :: "handle \<Rightarrow> nat \<Rightarrow> handle \<Rightarrow> ('t, unit) ck_call"
  ck_Verify :: "handle \<Rightarrow> bytes \<Rightarrow> bytes \<Rightarrow> ('t, unit) ck_call"
  ck_EncryptInit :: "handle \<Rightarrow> nat \<Rightarrow> handle \<Rightarrow> ('t, unit) ck_call"
  ck_Encrypt :: "handle \<Rightarrow> bytes \<Rightarrow> ('t, bytes) ck_call"
  ck_DecryptInit :: "handle \<Rightarrow> nat \<Rightarrow> handle \<Rightarrow> ('t, unit) ck_call"
  ck_Decrypt :: "handle \<Rightarrow> bytes \<Rightarrow> ('t, bytes) ck_call"

text \<open>The constants of the PKCS#11 header that the code names.\<close>

abbreviation (input) CKA_CLASS :: nat where "CKA_CLASS \<equiv> 0"
abbreviation (input) CKA_TOKEN :: nat where "CKA_TOKEN \<equiv> 1"
abbreviation (input) CKA_LABEL :: nat where "CKA_LABEL \<equiv> 3"
abbreviation (input) CKA_KEY_TYPE :: nat where "CKA_KEY_TYPE \<equiv> 0x100"
abbreviation (input) CKA_ID :: nat where "CKA_ID \<equiv> 0x102"
abbreviation (input) CKA_SENSITIVE :: nat where "CKA_SENSITIVE \<equiv> 0x103"
abbreviation (input) CKA_ENCRYPT :: nat where "CKA_ENCRYPT \<equiv> 0x104"
abbreviation (input) CKA_DECRYPT :: nat where "CKA_DECRYPT \<equiv> 0x105"
abbreviation (input) CKA_SIGN :: nat where "CKA_SIGN \<equiv> 0x108"
abbreviation (input) CKA_VERIFY :: nat where "CKA_VERIFY \<equiv> 0x10A"
abbreviation (input) CKA_MODULUS :: nat where "CKA_MODULUS \<equiv> 0x120"
abbreviation (input) CKA_MODULUS_BITS :: nat where "CKA_MODULUS_BITS \<equiv> 0x121"
abbreviation (input) CKA_PUBLIC_EXPONENT :: nat where "CKA_PUBLIC_EXPONENT \<equiv> 0x122"
abbreviation (input) CKA_EXTRACTABLE :: nat where "CKA_EXTRACTABLE \<equiv> 0x162"
abbreviation (input) CKA_EC_PARAMS :: nat where "CKA_EC_PARAMS \<equiv> 0x180"
abbreviation (input) CKA_EC_POINT :: nat where "CKA_EC_POINT \<equiv> 0x181"
abbreviation (input) CKO_PUBLIC_KEY :: nat where "CKO_PUBLIC_KEY \<equiv> 2"
abbreviation (input) CKO_PRIVATE_KEY :: nat where "CKO_PRIVATE_KEY \<equiv> 3"
abbreviation (input) CKK_RSA :: nat where "CKK_RSA \<equiv> 0"
abbreviation (input) CKK_EC :: nat where "CKK_EC \<equiv> 3"
abbreviation (input) CKM_RSA_PKCS_KEY_PAIR_GEN :: nat where "CKM_RSA_PKCS_KEY_PAIR_GEN \<equiv> 0"
abbreviation (input) CKM_RSA_PKCS :: nat where "CKM_RSA_PKCS \<equiv> 1"
abbreviation (input) CKM_SHA256_RSA_PKCS :: nat where "CKM_SHA256_RSA_PKCS \<equiv> 0x40"
abbreviation (input) CKM_EC_KEY_PAIR_GEN :: nat where "CKM_EC_KEY_PAIR_GEN \<equiv> 0x1040"
abbreviation (input) CKF_SERIAL_RW :: nat where "CKF_SERIAL_RW \<equiv> 6"
abbreviation (input) CKU_SO :: nat where "CKU_SO \<equiv> 0"
abbreviation (input) CKU_USER :: nat where "CKU_USER \<equiv> 1"
abbreviation (input) CKS_RO_USER_FUNCTIONS :: nat where "CKS_RO_USER_FUNCTIONS \<equiv> 1"
abbreviation (input) CKS_RW_USER_FUNCTIONS :: nat where "CKS_RW_USER_FUNCTIONS \<equiv> 3"
abbreviation (input) CKR_SIGNATURE_INVALID :: nat where "CKR_SIGNATURE_INVALID \<equiv> 0xC0"
abbreviation (input) CKR_USER_ALREADY_LOGGED_IN :: nat where "CKR_USER_ALREADY_LOGGED_IN \<equiv> 0x100"

text \<open>
  \<^verbatim>\<open>err == pkcs11.Error(code)\<close> and the test after a type assertion: the error is itself a
  \<^verbatim>\<open>pkcs11.Error\<close> with this code.
\<close>

fun is_ck_error :: "nat \<Rightarrow> go_error \<Rightarrow> bool" where
  "is_ck_error code (CkErr n s) = (n = code)"
| "is_ck_error code err = False"

section \<open>Configuration of the key managers\<close>

record local_config =
  lc_MasterKeyKey :: string
  lc_KeyID :: string

record k8s_config =
  kc_SecretName :: string
  kc_SecretNamespace :: string
  kc_KeyID :: string
  kc_MasterKeyKey :: string
  kc_OldMasterKeyKey :: string
  kc_KubeconfigPath :: string
  kc_InCluster :: bool

section \<open>The outside world\<close>

record 't env =
  now_at :: "nat \<Rightarrow> time"
  rand_at :: "nat \<Rightarrow> rand_read"
  intn_at :: "nat \<Rightarrow> nat"
  uuid_at :: "nat \<Rightarrow> string"
  db_err_at :: "nat \<Rightarrow> string option"
  db_unique :: "string option"
  db_temp_default :: bool
  db_time :: "time \<Rightarrow> time"
  k8s_secret_at :: "nat \<Rightarrow> string + (string \<times> bytes) list"
  pkcs11 :: "'t ck"
  audit_on :: bool
  track_on :: bool
  LibraryPath :: string
  SO_Pin :: string

section \<open>The state\<close>

record hsm_client =
  cl_session :: handle
  cl_audit :: bool
  cl_closed :: bool

text \<open>A row of \<^verbatim>\<open>hsm_slots\<close>: its \<^verbatim>\<open>key_metadata_id\<close> may be NULL.\<close>

record slot_row =
  row_slot :: hsm_slot
  row_metadata_id :: "string option"

type_synonym audit_call = "gctx \<times> audit_data \<times> identity_context option"

record 't world =
  w_tick :: nat
  w_errs :: err_store
  w_keys :: "cryptographic_key list"
  w_tenants :: "tenant list"
  w_slots :: "slot_row list"
  w_meta :: "aes_key_metadata list"
  w_ops :: "key_operation list"
  w_tok :: 't
  w_shared :: bool
  w_once :: bool
  w_initerr :: "go_error option"
  w_libpath :: string
  w_clients :: "(int \<times> hsm_client) list"
  w_audit :: "audit_call list"
  w_kcache :: "(string \<times> bytes) list"

type_synonym ('t, 'a) wprog = "('t world, go_error, 'a) prog"

text \<open>A process that has just started over the given token, with an empty database.\<close>

definition fresh_world :: "'t \<Rightarrow> 't world" where
  "fresh_world tok = \<lparr>w_tick = 0, w_errs = empty_store, w_keys = [], w_tenants = [], w_slots = [],
     w_meta = [], w_ops = [], w_tok = tok, w_shared = False, w_once = False, w_initerr = None,
     w_libpath = '''', w_clients = [], w_audit = [], w_kcache = []\<rparr>"

section \<open>Reading the outside world\<close>

definition tickM :: "('t, nat) wprog" where
  "tickM w = (Ok (w_tick w), w\<lparr>w_tick := Suc (w_tick w)\<rparr>)"

definition nowM :: "'t env \<Rightarrow> ('t, time) wprog" where
  "nowM e = bindM tickM (\<lambda>k. ret (now_at e k))"

definition uuidM :: "'t env \<Rightarrow> ('t, string) wprog" where
  "uuidM e = bindM tickM (\<lambda>k. ret (uuid_at e k))"

definition randM :: "'t env \<Rightarrow> ('t, rand_read) wprog" where
  "randM e = bindM tickM (\<lambda>k. ret (rand_at e k))"

text \<open>\<^verbatim>\<open>rand.Intn(n)\<close>: some number below \<^verbatim>\<open>n\<close>.\<close>

definition intnM :: "'t env \<Rightarrow> nat \<Rightarrow> ('t, nat) wprog" where
  "intnM e n = bindM tickM (\<lambda>k. ret (intn_at e k mod n))"

text \<open>A database call: the driver or the server may refuse it with any error.\<close>

definition dbM :: "'t env \<Rightarrow> ('t, unit) wprog" where
  "dbM e = bindM tickM (\<lambda>k. case db_err_at e k of
     None \<Rightarrow> ret () | Some msg \<Rightarrow> throw (PlainErr msg))"

definition liftSum :: "go_error + 'a \<Rightarrow> ('t, 'a) wprog" where
  "liftSum r = (case r of Inl err \<Rightarrow> throw err | Inr x \<Rightarrow> ret x)"

text \<open>
  A call on a \<^verbatim>\<open>*pkcs11.Ctx\<close>: \<open>ok\<close> says that the pointer is not nil; a method of the binding
  dereferences it.
\<close>

definition ckM :: "bool \<Rightarrow> ('t, 'a) ck_call \<Rightarrow> ('t, 'a) wprog" where
  "ckM ok f w =
     (if \<not> ok then (Panic ''invalid memory address or nil pointer dereference'', w)
      else case f (w_tok w) of
        (Inl err, t) \<Rightarrow> (Err err, w\<lparr>w_tok := t\<rparr>)
      | (Inr x, t) \<Rightarrow> (Ok x, w\<lparr>w_tok := t\<rparr>))"

definition ck0M :: "('t \<Rightarrow> 'a \<times> 't) \<Rightarrow> ('t, 'a) wprog" where
  "ck0M f w = (case f (w_tok w) of (x, t) \<Rightarrow> (Ok x, w\<lparr>w_tok := t\<rparr>))"

text \<open>Failing with a predefined error after \<^verbatim>\<open>WithDetail\<close> wrote into its shared map.\<close>

definition failPkg :: "error_code \<Rightarrow> (string \<times> dval) list \<Rightarrow> ('t, 'a) wprog" where
  "failPkg c kvs = bindM (modifyM (\<lambda>w. w\<lparr>w_errs := fold (\<lambda>(k, v). store_detail c k v) kvs (w_errs w)\<rparr>))
     (\<lambda>_. throw (PkgErr c))"

section \<open>Auditing\<close>

text \<open>\<^verbatim>\<open>if s.auditDispatcher != nil { s.auditDispatcher.AuditOperation(ctx, data, identity) }\<close>.\<close>

definition AuditOperation_call ::
  "bool \<Rightarrow> gctx \<Rightarrow> audit_data \<Rightarrow> identity_context option \<Rightarrow> 't world \<Rightarrow> 't world" where
  "AuditOperation_call on ctx data identity w =
     (if on then w\<lparr>w_audit := w_audit w @ [(ctx, data, identity)]\<rparr> else w)"

text \<open>The error of a deferred function's named result: nil while a panic unwinds.\<close>

definition outcome_error :: "(go_error, 'a) outcome \<Rightarrow> go_error option" where
  "outcome_error r = (case r of Err err \<Rightarrow> Some err | _ \<Rightarrow> None)"

definition op_audit :: "string \<Rightarrow> string \<Rightarrow> string \<Rightarrow> string \<Rightarrow> details \<Rightarrow> go_error option \<Rightarrow> int \<Rightarrow> audit_data" where
  "op_audit service operation actor resource metadata err d =
     \<lparr>ad_ServiceName = service, ad_EventType = ''HSM_OPERATION'', ad_Operation = operation,
      ad_ResourceID = resource, ad_ResourceType = '''', ad_ActorType = actor,
      ad_Success = (err = None), ad_StatusCode = GetCode err, ad_ErrMsg = ErrToString err,
      ad_DurationMs = d, ad_Metadata = metadata\<rparr>"

text \<open>
  The frame of most operations: \<^verbatim>\<open>start := time.Now()\<close>, then a deferred function that builds
  the audit data from the outcome and the time since \<^verbatim>\<open>start\<close> and hands it to the dispatcher.
\<close>

definition audited :: "'t env \<Rightarrow> bool \<Rightarrow> gctx \<Rightarrow> identity_context option \<Rightarrow>
    ((go_error, 'a) outcome \<Rightarrow> int \<Rightarrow> audit_data) \<Rightarrow> ('t, 'a) wprog \<Rightarrow> ('t, 'a) wprog" where
  "audited e on ctx identity mk m =
     bindM (nowM e) (\<lambda>start. deferM (\<lambda>r w.
       (case tickM w of (_, w') \<Rightarrow>
          AuditOperation_call on ctx (mk r (millis_since start (now_at e (w_tick w)))) identity w')) m)"

section \<open>Facts\<close>

lemma run_tick [run_simps]:
  "tickM w = (Ok (w_tick w), w\<lparr>w_tick := Suc (w_tick w)\<rparr>)"
  "nowM e w = (Ok (now_at e (w_tick w)), w\<lparr>w_tick := Suc (w_tick w)\<rparr>)"
  "uuidM e w = (Ok (uuid_at e (w_tick w)), w\<lparr>w_tick := Suc (w_tick w)\<rparr>)"
  "randM e w = (Ok (rand_at e (w_tick w)), w\<lparr>w_tick := Suc (w_tick w)\<rparr>)"
  "intnM e n w = (Ok (intn_at e (w_tick w) mod n), w\<lparr>w_tick := Suc (w_tick w)\<rparr>)"
  by (simp_all add: tickM_def nowM_def uuidM_def randM_def intnM_def bindM_def run_basic)

lemma run_dbM:
  "dbM e w = (case db_err_at e (w_tick w) of
     None \<Rightarrow> (Ok (), w\<lparr>w_tick := Suc (w_tick w)\<rparr>)
   | Some msg \<Rightarrow> (Err (PlainErr msg), w\<lparr>w_tick := Suc (w_tick w)\<rparr>))"
  by (simp add: dbM_def bindM_def run_tick run_basic split: option.splits)

lemma dbM_iff [run_simps]:
  "dbM e w = (Ok x, w') \<longleftrightarrow> db_err_at e (w_tick w) = None \<and> w' = w\<lparr>w_tick := Suc (w_tick w)\<rparr>"
  "dbM e w = (Err err, w') \<longleftrightarrow>
     (\<exists>msg. db_err_at e (w_tick w) = Some msg \<and> err = PlainErr msg \<and> w' = w\<lparr>w_tick := Suc (w_tick w)\<rparr>)"
  "dbM e w \<noteq> (Panic p, w')"
  by (auto simp: run_dbM split: option.splits)

lemma run_liftSum:
  "liftSum r w = (case r of Inl err \<Rightarrow> (Err err, w) | Inr x \<Rightarrow> (Ok x, w))"
  by (simp add: liftSum_def run_basic split: sum.splits)

lemma liftSum_iff [run_simps]:
  "liftSum r w = (Ok x, w') \<longleftrightarrow> r = Inr x \<and> w' = w"
  "liftSum r w = (Err err, w') \<longleftrightarrow> r = Inl err \<and> w' = w"
  "liftSum r w \<noteq> (Panic p, w')"
  by (auto simp: run_liftSum split: sum.splits)

lemma ckM_iff [run_simps]:
  "ckM ok f w = (Ok x, w') \<longleftrightarrow> ok \<and> (\<exists>t. f (w_tok w) = (Inr x, t) \<and> w' = w\<lparr>w_tok := t\<rparr>)"
  "ckM ok f w = (Err err, w') \<longleftrightarrow> ok \<and> (\<exists>t. f (w_tok w) = (Inl err, t) \<and> w' = w\<lparr>w_tok := t\<rparr>)"
  "ckM ok f w = (Panic p, w') \<longleftrightarrow>
     \<not> ok \<and> p = ''invalid memory address or nil pointer dereference'' \<and> w' = w"
  by (auto simp: ckM_def split: prod.splits sum.splits)

lemma run_failPkg [run_simps]:
  "failPkg c kvs w = (Err (PkgErr c), w\<lparr>w_errs := fold (\<lambda>(k, v). store_detail c k v) kvs (w_errs w)\<rparr>)"
  by (simp add: failPkg_def bindM_def run_basic)

lemma audited_run:
  "audited e on ctx identity mk m w = (r, w') \<longleftrightarrow>
     (\<exists>u. m (w\<lparr>w_tick := Suc (w_tick w)\<rparr>) = (r, u)
        \<and> w' = AuditOperation_call on ctx
                 (mk r (millis_since (now_at e (w_tick w)) (now_at e (w_tick u)))) identity
                 (u\<lparr>w_tick := Suc (w_tick u)\<rparr>))"
  by (auto simp: audited_def bindM_def run_tick deferM_def split: prod.splits)

lemma AuditOperation_call_fields [simp]:
  "w_tick (AuditOperation_call on c d i w) = w_tick w"
  "w_errs (AuditOperation_call on c d i w) = w_errs w"
  "w_keys (AuditOperation_call on c d i w) = w_keys w"
  "w_tenants (AuditOperation_call on c d i w) = w_tenants w"
  "w_slots (AuditOperation_call on c d i w) = w_slots w"
  "w_meta (AuditOperation_call on c d i w) = w_meta w"
  "w_ops (AuditOperation_call on c d i w) = w_ops w"
  "w_tok (AuditOperation_call on c d i w) = w_tok w"
  "w_shared (AuditOperation_call on c d i w) = w_shared w"
  "w_once (AuditOperation_call on c d i w) = w_once w"
  "w_initerr (AuditOperation_call on c d i w) = w_initerr w"
  "w_libpath (AuditOperation_call on c d i w) = w_libpath w"
  "w_clients (AuditOperation_call on c d i w) = w_clients w"
  "w_kcache (AuditOperation_call on c d i w) = w_kcache w"
  "w_audit (AuditOperation_call on c d i w) = (if on then w_audit w @ [(c, d, i)] else w_audit w)"
  by (simp_all add: AuditOperation_call_def)

subsection \<open>Parts of the state a call leaves alone\<close>

lemma unchanged_tick [unchanged_intros]:
  assumes "\<And>w k. f (w\<lparr>w_tick := k\<rparr>) = f w"
  shows "unchanged f tickM" "unchanged f (nowM e)" "unchanged f (uuidM e)" "unchanged f (randM e)"
    "unchanged f (intnM e n)"
  by (simp_all add: within_def run_tick assms)

lemma unchanged_dbM [unchanged_intros]:
  assumes "\<And>w k. f (w\<lparr>w_tick := k\<rparr>) = f w"
  shows "unchanged f (dbM e)"
  by (simp add: within_def run_dbM assms split: option.split)

lemma unchanged_liftSum [unchanged_intros]: "unchanged f (liftSum r)"
  by (simp add: within_def run_liftSum split: sum.split)

lemma unchanged_failPkg [unchanged_intros]:
  assumes "\<And>w st. f (w\<lparr>w_errs := st\<rparr>) = f w"
  shows "unchanged f (failPkg c kvs)"
  by (simp add: within_def run_failPkg assms)

lemma unchanged_ckM [unchanged_intros]:
  assumes "\<And>w t. f (w\<lparr>w_tok := t\<rparr>) = f w"
  shows "unchanged f (ckM ok g)"
  by (simp add: within_def ckM_def assms split: prod.split sum.split)

lemma unchanged_ck0M [unchanged_intros]:
  assumes "\<And>w t. f (w\<lparr>w_tok := t\<rparr>) = f w"
  shows "unchanged f (ck0M g)"
  by (simp add: within_def ck0M_def assms split: prod.split)

lemma unchanged_audited [unchanged_intros]:
  assumes "unchanged f m"
    and "\<And>w k. f (w\<lparr>w_tick := k\<rparr>) = f w" and "\<And>w a. f (w\<lparr>w_audit := a\<rparr>) = f w"
  shows "unchanged f (audited e on ctx identity mk m)"
proof (rule withinI)
  fix w r w'
  assume "audited e on ctx identity mk m w = (r, w')"
  then obtain u where u: "m (w\<lparr>w_tick := Suc (w_tick w)\<rparr>) = (r, u)"
    and w': "w' = AuditOperation_call on ctx
        (mk r (millis_since (now_at e (w_tick w)) (now_at e (w_tick u)))) identity
        (u\<lparr>w_tick := Suc (w_tick u)\<rparr>)"
    by (auto simp: audited_run)
  from assms(1) u have "f u = f (w\<lparr>w_tick := Suc (w_tick w)\<rparr>)" by (rule unchangedD)
  then show "f w' = f w" using assms(2,3) by (simp add: w' AuditOperation_call_def)
qed

subsection \<open>The audit log only grows\<close>

definition audit_grows :: "'t world \<Rightarrow> 't world \<Rightarrow> bool" where
  "audit_grows w w' \<longleftrightarrow> (\<exists>more. w_audit w' = w_audit w @ more)"

interpretation grows: effect audit_grows
  by unfold_locales (auto simp: audit_grows_def)

lemma within_audit_unchanged: "unchanged w_audit m \<Longrightarrow> within audit_grows m"
  by (auto simp: within_def audit_grows_def)

lemma grows_audited: "within audit_grows m \<Longrightarrow> within audit_grows (audited e on ctx identity mk m)"
proof (rule withinI)
  fix w r w'
  assume m: "within audit_grows m" and "audited e on ctx identity mk m w = (r, w')"
  then obtain u where u: "m (w\<lparr>w_tick := Suc (w_tick w)\<rparr>) = (r, u)"
    and w': "w_audit w' = w_audit u \<or> (\<exists>x. w_audit w' = w_audit u @ [x])"
    by (auto simp: audited_run)
  from m u have "audit_grows (w\<lparr>w_tick := Suc (w_tick w)\<rparr>) u" by (rule withinD)
  then show "audit_grows w w'" using w' by (auto simp: audit_grows_def)
qed

text \<open>An audited operation whose body is silent adds one entry, and it reports the outcome.\<close>

lemma audited_log:
  assumes "audited e True ctx identity mk m w = (r, w')"
  obtains u where "m (w\<lparr>w_tick := Suc (w_tick w)\<rparr>) = (r, u)"
    and "w_audit w' = w_audit u @
           [(ctx, mk r (millis_since (now_at e (w_tick w)) (now_at e (w_tick u))), identity)]"
  using assms by (auto simp: audited_run)

lemma op_audit_fields [simp]:
  "ad_Success (op_audit sv op ac rs md err d) = (err = None)"
  "ad_StatusCode (op_audit sv op ac rs md err d) = GetCode err"
  "ad_Operation (op_audit sv op ac rs md err d) = op"
  "ad_ServiceName (op_audit sv op ac rs md err d) = sv"
  "ad_Metadata (op_audit sv op ac rs md err d) = md"
  "ad_ErrMsg (op_audit sv op ac rs md err d) = ErrToString err"
  by (simp_all add: op_audit_def)

lemma outcome_error_simps [simp]:
  "outcome_error (Ok x) = None" "outcome_error (Err err) = Some err" "outcome_error (Panic p) = None"
  by (simp_all add: outcome_error_def)

lemma outcome_error_None: "outcome_error r = None \<longleftrightarrow> (\<forall>err. r \<noteq> Err err)"
  by (cases r) auto

end
