(* ===== verification/Sample.thy ===== *)
theory Sample
  imports World
begin

text \<open>
  A concrete token for the witnesses: a small software token that does what the PKCS#11 standard
  documents of the calls the repository makes (slots with a label and a user PIN, sessions,
  objects found by class and label, a signature that verifies exactly the data signed), with an
  environment around it in which the clock runs, the random bytes are counters and no database
  call fails. No theorem rests on it; it shows that hypotheses about an environment can hold.
\<close>

record sample_obj =
  so_handle :: nat
  so_slot :: u64
  so_class :: nat
  so_label :: string

record sample_token =
  sa_slots :: "(u64 \<times> string \<times> string) list"
  sa_sessions :: "(u64 \<times> u64) list"
  sa_next :: nat
  sa_objs :: "sample_obj list"
  sa_found :: "handle list"
  sa_init :: bool

definition ck_ok :: "'a \<Rightarrow> 't \<Rightarrow> (go_error + 'a) \<times> 't" where
  "ck_ok x t = (Inr x, t)"

definition ck_fail :: "nat \<Rightarrow> string \<Rightarrow> 't \<Rightarrow> (go_error + 'a) \<times> 't" where
  "ck_fail n s t = (Inl (CkErr n s), t)"

fun template_value :: "nat \<Rightarrow> template \<Rightarrow> attr_value option" where
  "template_value k tm = map_of tm k"

definition matches :: "template \<Rightarrow> sample_obj \<Rightarrow> bool" where
  "matches tm x =
     ((case template_value CKA_CLASS tm of Some (AVUlong n) \<Rightarrow> so_class x = n | _ \<Rightarrow> True) \<and>
      (case template_value CKA_LABEL tm of Some (AVStr l) \<Rightarrow> so_label x = l | _ \<Rightarrow> True))"

definition template_label :: "template \<Rightarrow> string" where
  "template_label tm = (case template_value CKA_LABEL tm of Some (AVStr l) \<Rightarrow> l | _ \<Rightarrow> '''')"

definition session_slot :: "sample_token \<Rightarrow> handle \<Rightarrow> u64" where
  "session_slot t h = (case map_of (sa_sessions t) h of Some s \<Rightarrow> s | None \<Rightarrow> 0)"

definition sample_attr :: "sample_obj \<Rightarrow> nat \<Rightarrow> nat \<times> bytes" where
  "sample_attr x k = (k,
     if k = CKA_CLASS then [of_nat (so_class x)]
     else if k = CKA_LABEL then bytes_of_string (so_label x)
     else if k = CKA_KEY_TYPE then [0]
     else if k = CKA_MODULUS then [0xC5, 0x01]
     else if k = CKA_PUBLIC_EXPONENT then [1, 0, 1]
     else [])"

definition sample_ck :: "sample_token ck" where
  "sample_ck = \<lparr>
     ck_New = (\<lambda>p t. (True, t)),
     ck_Initialize = (\<lambda>t. (Inr (), t\<lparr>sa_init := True\<rparr>)),
     ck_Finalize = (\<lambda>t. (Inr (), t\<lparr>sa_init := False\<rparr>)),
     ck_Destroy = (\<lambda>t. t),
     ck_GetSlotList = (\<lambda>p t. if sa_init t then ck_ok (map fst (sa_slots t)) t
                              else ck_fail 0x190 ''CKR_CRYPTOKI_NOT_INITIALIZED'' t),
     ck_GetTokenLabel = (\<lambda>s t. case map_of (sa_slots t) s of
        None \<Rightarrow> ck_fail 3 ''CKR_SLOT_ID_INVALID'' t | Some (l, p) \<Rightarrow> ck_ok l t),
     ck_InitToken = (\<lambda>s pin l t. ck_ok () (t\<lparr>sa_slots := AList.update s (l, '''') (sa_slots t)\<rparr>)),
     ck_OpenSession = (\<lambda>s f t.
        if map_of (sa_slots t) s = None then ck_fail 3 ''CKR_SLOT_ID_INVALID'' t
        else ck_ok (of_nat (sa_next t))
               (t\<lparr>sa_sessions := (of_nat (sa_next t), s) # sa_sessions t, sa_next := Suc (sa_next t)\<rparr>)),
     ck_CloseSession = (\<lambda>h t. ck_ok () (t\<lparr>sa_sessions := filter (\<lambda>(a, b). a \<noteq> h) (sa_sessions t)\<rparr>)),
     ck_GetSessionState = (\<lambda>h t. if map_of (sa_sessions t) h = None
        then ck_fail 0xB3 ''CKR_SESSION_HANDLE_INVALID'' t else ck_ok 2 t),
     ck_Login = (\<lambda>h u pin t. case map_of (sa_slots t) (session_slot t h) of
        None \<Rightarrow> ck_fail 3 ''CKR_SLOT_ID_INVALID'' t
      | Some (l, p) \<Rightarrow> if u = CKU_SO \<or> p = pin then ck_ok () t else ck_fail 0xA0 ''CKR_PIN_INCORRECT'' t),
     ck_Logout = (\<lambda>h t. ck_ok () t),
     ck_InitPIN = (\<lambda>h pin t. case map_of (sa_slots t) (session_slot t h) of
        None \<Rightarrow> ck_fail 3 ''CKR_SLOT_ID_INVALID'' t
      | Some (l, p) \<Rightarrow>
          ck_ok () (t\<lparr>sa_slots := AList.update (session_slot t h) (l, pin) (sa_slots t)\<rparr>)),
     ck_FindObjectsInit = (\<lambda>h tm t. ck_ok () (t\<lparr>sa_found :=
        map (of_nat \<circ> so_handle) (filter (\<lambda>x. so_slot x = session_slot t h \<and> matches tm x) (sa_objs t))\<rparr>)),
     ck_FindObjects = (\<lambda>h n t. ck_ok (take n (sa_found t)) t),
     ck_FindObjectsFinal = (\<lambda>h t. ck_ok () (t\<lparr>sa_found := []\<rparr>)),
     ck_GetAttributeValue = (\<lambda>h x ks t.
        case List.find (\<lambda>y. of_nat (so_handle y) = x) (sa_objs t) of
          None \<Rightarrow> ck_fail 0x82 ''CKR_OBJECT_HANDLE_INVALID'' t
        | Some y \<Rightarrow> ck_ok (map (sample_attr y) ks) t),
     ck_GenerateKeyPair = (\<lambda>h m pub priv t.
        ck_ok (of_nat (sa_next t), of_nat (Suc (sa_next t)))
          (t\<lparr>sa_objs := sa_objs t @
               [\<lparr>so_handle = sa_next t, so_slot = session_slot t h, so_class = CKO_PUBLIC_KEY,
                 so_label = template_label pub\<rparr>,
                \<lparr>so_handle = Suc (sa_next t), so_slot = session_slot t h, so_class = CKO_PRIVATE_KEY,
                 so_label = template_label priv\<rparr>],
             sa_next := Suc (Suc (sa_next t))\<rparr>)),
     ck_DestroyObject = (\<lambda>h x t.
        ck_ok () (t\<lparr>sa_objs := filter (\<lambda>y. of_nat (so_handle y) \<noteq> x) (sa_objs t)\<rparr>)),
     ck_SignInit = (\<lambda>h m x t. ck_ok () t),
     ck_Sign = (\<lambda>h d t. ck_ok (0x5A # d) t),
     ck_VerifyInit = (\<lambda>h m x t. ck_ok () t),
     ck_Verify = (\<lambda>h d s t. if s = 0x5A # d then ck_ok () t
                              else ck_fail CKR_SIGNATURE_INVALID ''CKR_SIGNATURE_INVALID'' t),
     ck_EncryptInit = (\<lambda>h m x t. ck_ok () t),
     ck_Encrypt = (\<lambda>h d t. ck_ok (rev d) t),
     ck_DecryptInit = (\<lambda>h m x t. ck_ok () t),
     ck_Decrypt = (\<lambda>h d t. ck_ok (rev d) t)\<rparr>"

definition sample_token :: sample_token where
  "sample_token = \<lparr>sa_slots = [(7, '''', '''')], sa_sessions = [], sa_next = 1, sa_objs = [],
     sa_found = [], sa_init = False\<rparr>"

definition sample_uuid :: "nat \<Rightarrow> string" where
  "sample_uuid n = ''00000000-0000-4000-8000-'' @ text_base 10 (100000000000 + n)"

definition sample_env :: "sample_token env" where
  "sample_env = \<lparr>now_at = (\<lambda>n. int n * 1000000), rand_at = (\<lambda>n. Inr (\<lambda>i. of_nat (n + i))),
     intn_at = (\<lambda>n. n), uuid_at = sample_uuid, db_err_at = (\<lambda>n. None), db_unique = Some ''Error 1062 (23000): Duplicate entry'', db_temp_default = False, db_time = (\<lambda>t. t),
     k8s_secret_at = (\<lambda>n. Inr [(''master-aes-key-v1'', replicate 32 65)]), pkcs11 = sample_ck,
     audit_on = True, track_on = True, LibraryPath = ''/usr/lib/softhsm/libsofthsm2.so'',
     SO_Pin = ''0000''\<rparr>"

lemma sample_env_simps [simp]:
  "now_at sample_env n = int n * 1000000"
  "rand_at sample_env n = Inr (\<lambda>i. of_nat (n + i))"
  "intn_at sample_env n = n"
  "uuid_at sample_env n = sample_uuid n"
  "db_err_at sample_env n = None"
  "db_unique sample_env = Some ''Error 1062 (23000): Duplicate entry''"
  "db_temp_default sample_env = False"
  "db_time sample_env t = t"
  "k8s_secret_at sample_env n = Inr [(''master-aes-key-v1'', replicate 32 65)]"
  "pkcs11 sample_env = sample_ck"
  "audit_on sample_env"
  "track_on sample_env"
  "SO_Pin sample_env = ''0000''"
  by (simp_all add: sample_env_def)

end
