(* ===== verification/Jwt.thy ===== *)
theory Jwt
  imports Sample
begin

text \<open>
  \<^verbatim>\<open>internal/interfaces/auth\<close>: the public keys that tokens are verified with, read from a PEM file in the mode
  \<^verbatim>\<open>development\<close> and fetched as a JWK set otherwise, and the validator of the callers' tokens.

  The state is the world with the key manager's two fields beside it. Parameters are the files and the answers
  of the identity service (\<open>auth_io\<close>) and \<^verbatim>\<open>jwt.ParseWithClaims\<close> of golang-jwt. What the code relies on of the
  latter is the hypothesis \<open>jwt_parse_sound\<close>: a token it returns as valid is signed under the key that the key
  function returned for the token's header, by one of the given algorithms.
\<close>

section \<open>The state\<close>

record ('t, 'k) app =
  app_world :: "'t world"
  km_keys :: "(string \<times> 'k) list"
  km_lastFetch :: time

type_synonym ('t, 'k, 'a) app_prog = "(('t, 'k) app, go_error, 'a) prog"

text \<open>A program over the world, run in the larger state.\<close>

definition on_world :: "('t, 'a) wprog \<Rightarrow> ('t, 'k, 'a) app_prog" where
  "on_world m s = (case m (app_world s) of (r, w) \<Rightarrow> (r, s\<lparr>app_world := w\<rparr>))"

record auth_config =
  ac_Mode :: string
  ac_PublicKeyPath :: string
  ac_JWKSUrl :: string
  ac_JWKSCacheMinutes :: int

text \<open>
  A key of a fetched set has an id and, when it is an RSA public key, a key. \<open>io_pem\<close> is a file read and PEM
  decoded (\<open>Inr None\<close> where it has no block), \<open>io_pkcs1\<close> and \<open>io_pkix\<close> the parsers of \<^verbatim>\<open>crypto/x509\<close>, and
  \<open>io_time\<close> prints a time in the local zone.
\<close>

record 'k auth_io =
  io_pem :: "string \<Rightarrow> string + (string \<times> bytes) option"
  io_pkcs1 :: "bytes \<Rightarrow> string + 'k"
  io_pkix :: "bytes \<Rightarrow> string + 'k option"
  io_jwks :: "nat \<Rightarrow> string + (nat \<times> (string + (string \<times> 'k option) list))"
  io_time :: "time \<Rightarrow> string"

section \<open>key_manager.go\<close>

definition plain :: "string \<Rightarrow> string \<Rightarrow> go_error" where
  "plain prefix s = errorf_w prefix (PlainErr s)"

definition set_key :: "string \<Rightarrow> 'k \<Rightarrow> ('t, 'k, unit) app_prog" where
  "set_key kid k = modifyM (\<lambda>s. s\<lparr>km_keys := AList.update kid k (km_keys s)\<rparr>)"

definition loadFromPEMFile :: "'k auth_io \<Rightarrow> string \<Rightarrow> string \<Rightarrow> ('t, 'k, unit) app_prog" where
  "loadFromPEMFile io filepath keyID =
     (case io_pem io filepath of
        Inl err \<Rightarrow> throw (plain ''failed to read PEM file: '' err)
      | Inr None \<Rightarrow> throw (PlainErr ''failed to parse PEM block'')
      | Inr (Some (blockType, blockBytes)) \<Rightarrow>
          if blockType = ''RSA PUBLIC KEY'' then
            (case io_pkcs1 io blockBytes of
               Inl err \<Rightarrow> throw (plain ''failed to parse PKCS1 public key: '' err)
             | Inr k \<Rightarrow> set_key keyID k)
          else if blockType = ''PUBLIC KEY'' then
            (case io_pkix io blockBytes of
               Inl err \<Rightarrow> throw (plain ''failed to parse PKIX public key: '' err)
             | Inr None \<Rightarrow> throw (PlainErr ''not an RSA public key'')
             | Inr (Some k) \<Rightarrow> set_key keyID k)
          else throw (PlainErr (''unsupported PEM type: '' @ blockType)))"

text \<open>The keys of a set that have an id and are RSA keys; a later one replaces an earlier one of its id.\<close>

definition usable_jwks :: "(string \<times> 'k option) list \<Rightarrow> (string \<times> 'k) list" where
  "usable_jwks jwks =
     fold (\<lambda>(kid, k) keys. case k of None \<Rightarrow> keys | Some x \<Rightarrow> if kid = '''' then keys else AList.update kid x keys) jwks []"

definition fetchJWKS :: "'t env \<Rightarrow> 'k auth_io \<Rightarrow> auth_config \<Rightarrow> ('t, 'k, unit) app_prog" where
  "fetchJWKS e io cfg =
     (if ac_JWKSUrl cfg = '''' then throw (PlainErr ''JWKS URL not configured'')
      else bindM (on_world tickM) (\<lambda>n.
        case io_jwks io n of
          Inl err \<Rightarrow> throw (plain ''failed to fetch JWKS: '' err)
        | Inr (status, body) \<Rightarrow>
            if status \<noteq> 200 then throw (PlainErr (''JWKS endpoint returned status: '' @ dec status))
            else (case body of
              Inl err \<Rightarrow> throw (plain ''failed to decode JWKS response: '' err)
            | Inr jwks \<Rightarrow>
                bindM (on_world (nowM e)) (\<lambda>now.
                modifyM (\<lambda>s. s\<lparr>km_keys := usable_jwks jwks, km_lastFetch := now\<rparr>)))))"

definition loadInitialKeys :: "'t env \<Rightarrow> 'k auth_io \<Rightarrow> auth_config \<Rightarrow> ('t, 'k, unit) app_prog" where
  "loadInitialKeys e io cfg =
     (if ac_Mode cfg = ''development'' then loadFromPEMFile io (ac_PublicKeyPath cfg) ''dev-key'' else fetchJWKS e io cfg)"

definition NewKeyManager :: "'t env \<Rightarrow> 'k auth_io \<Rightarrow> auth_config \<Rightarrow> ('t, 'k, unit) app_prog" where
  "NewKeyManager e io cfg =
     bindM (modifyM (\<lambda>s. s\<lparr>km_keys := [], km_lastFetch := zero_time\<rparr>)) (\<lambda>_.
     wrapErr (errorf_w ''failed to load initial keys: '') (loadInitialKeys e io cfg))"

text \<open>\<^verbatim>\<open>time.Since\<close> saturates at the ends of a \<^verbatim>\<open>Duration\<close>; an hour has 3600000000000 nanoseconds.\<close>

definition time_since :: "time \<Rightarrow> time \<Rightarrow> int" where
  "time_since start now = max (- (2 ^ 63)) (min (2 ^ 63 - 1) (now - start))"

definition cacheTime :: "auth_config \<Rightarrow> int" where
  "cacheTime cfg = sint (word_of_int (ac_JWKSCacheMinutes cfg * 60000000000) :: 64 word)"

definition GetPublicKey :: "'t env \<Rightarrow> 'k auth_io \<Rightarrow> auth_config \<Rightarrow> string \<Rightarrow> ('t, 'k, 'k) app_prog" where
  "GetPublicKey e io cfg kid =
     bindM (if ac_Mode cfg = ''production''
            then bindM (on_world (nowM e)) (\<lambda>now. bindM (getsM km_lastFetch) (\<lambda>last.
                 if cacheTime cfg < time_since last now then dropErr (fetchJWKS e io cfg) else ret ()))
            else ret ()) (\<lambda>_.
     bindM (getsM (\<lambda>s. map_of (km_keys s) kid)) (\<lambda>key.
     case key of
       None \<Rightarrow> throw (PlainErr (''public key not found for kid: '' @ kid))
     | Some k \<Rightarrow> ret k))"

text \<open>
  A token's header: the text of its algorithm, whether its method is one of the three RSA PKCS#1 methods, and
  its \<^verbatim>\<open>kid\<close> when that is a string.
\<close>

record jwt_header =
  jh_alg :: string
  jh_rsa :: bool
  jh_kid :: "string option"

definition GetKeyFunc :: "'t env \<Rightarrow> 'k auth_io \<Rightarrow> auth_config \<Rightarrow> jwt_header \<Rightarrow> ('t, 'k, 'k) app_prog" where
  "GetKeyFunc e io cfg header =
     (if \<not> jh_rsa header then throw (PlainErr (''unexpected signing method: '' @ jh_alg header))
      else case jh_kid header of
        None \<Rightarrow> throw (PlainErr ''kid not found in token header'')
      | Some kid \<Rightarrow> GetPublicKey e io cfg kid)"

section \<open>jwt_validator.go\<close>

record custom_claims =
  cc_TenantID :: string
  cc_OwnerType :: string
  cc_OwnerID :: string
  cc_OrganizationID :: "string option"
  cc_ParentKeyID :: "string option"
  cc_UserID :: string
  cc_CertLevel :: int
  cc_MaxCertLevel :: int
  cc_CanCertify :: bool
  cc_CertificationPath :: string
  cc_Permissions :: details
  cc_Issuer :: string
  cc_Audience :: "string list"
  cc_ExpiresAt :: "time option"
  cc_NotBefore :: "time option"
  cc_ID :: string

record validator =
  va_issuer :: string
  va_audience :: string

text \<open>
  \<^verbatim>\<open>jwt.ParseWithClaims\<close> on a token, with the valid methods and a key function: the token's \<^verbatim>\<open>Valid\<close> and its
  claims.
\<close>

type_synonym ('t, 'k) jwt_parser =
  "string \<Rightarrow> string list \<Rightarrow> (jwt_header \<Rightarrow> ('t, 'k, 'k) app_prog) \<Rightarrow> ('t, 'k, bool \<times> custom_claims) app_prog"

definition validateClaims :: "'t env \<Rightarrow> 'k auth_io \<Rightarrow> validator \<Rightarrow> custom_claims \<Rightarrow> ('t, 'k, unit) app_prog" where
  "validateClaims e io v claims =
     (if cc_Issuer claims \<noteq> va_issuer v
      then throw (PlainErr (''invalid issuer: expected '' @ va_issuer v @ '', got '' @ cc_Issuer claims))
      else if va_audience v \<notin> set (cc_Audience claims)
      then throw (PlainErr (''token not intended for this audience: '' @ va_audience v))
      else bindM (on_world (nowM e)) (\<lambda>now.
      bindM (case cc_ExpiresAt claims of
          Some x \<Rightarrow> guardM (now \<le> x) (PlainErr (''token expired at '' @ io_time io x))
        | None \<Rightarrow> ret ()) (\<lambda>_.
      bindM (case cc_NotBefore claims of
          Some x \<Rightarrow> guardM (x \<le> now) (PlainErr (''token not valid until '' @ io_time io x))
        | None \<Rightarrow> ret ()) (\<lambda>_.
      if cc_TenantID claims = '''' then throw (PlainErr ''tenant_id is required'')
      else if cc_OwnerID claims = '''' then throw (PlainErr ''owner_id is required'')
      else ret ()))))"

definition valid_methods :: "string list" where
  "valid_methods = [''RS256'', ''RS384'', ''RS512'']"

definition ValidateToken ::
  "'t env \<Rightarrow> 'k auth_io \<Rightarrow> auth_config \<Rightarrow> ('t, 'k) jwt_parser \<Rightarrow> validator \<Rightarrow> string \<Rightarrow> ('t, 'k, custom_claims) app_prog" where
  "ValidateToken e io cfg parse v tokenString =
     bindM (wrapErr (errorf_w ''failed to parse token: '') (parse tokenString valid_methods (GetKeyFunc e io cfg)))
       (\<lambda>(valid, claims).
     if \<not> valid then throw (PlainErr ''invalid token'')
     else bindM (validateClaims e io v claims) (\<lambda>_. ret claims))"

text \<open>
  What is relied on of the parser: it calls the key function once and changes nothing itself (it may look at
  the clock), and a token it calls valid was \<open>carries\<close>: it carries this header and these claims under a
  signature that verifies with the key the function returned, by an algorithm among the given ones.
\<close>

definition jwt_parse_sound ::
  "('t, 'k) jwt_parser \<Rightarrow> (string \<Rightarrow> jwt_header \<Rightarrow> custom_claims \<Rightarrow> 'k \<Rightarrow> bool) \<Rightarrow> bool" where
  "jwt_parse_sound parse carries \<longleftrightarrow>
     (\<forall>tok ms kf s claims s'. parse tok ms kf s = (Ok (True, claims), s') \<longrightarrow>
        (\<exists>h k u n. kf h s = (Ok k, u) \<and> s' = u\<lparr>app_world := (app_world u)\<lparr>w_tick := n\<rparr>\<rparr>
           \<and> jh_alg h \<in> set ms \<and> carries tok h claims k))"

section \<open>Facts\<close>

lemma on_world_iff [run_simps]:
  "on_world m s = (r, s') \<longleftrightarrow> (\<exists>w. m (app_world s) = (r, w) \<and> s' = s\<lparr>app_world := w\<rparr>)"
  by (auto simp: on_world_def split: prod.splits)

lemma on_world_eq [simp]: "m (app_world s) = (r, w) \<Longrightarrow> on_world m s = (r, s\<lparr>app_world := w\<rparr>)"
  by (simp add: on_world_def)

lemma GetPublicKey_Ok:
  assumes "GetPublicKey e io cfg kid s = (Ok k, s')"
  shows "map_of (km_keys s') kid = Some k"
  using assms by (auto simp: GetPublicKey_def run_simps split: option.split_asm)

lemma GetKeyFunc_Ok:
  assumes "GetKeyFunc e io cfg h s = (Ok k, s')"
  shows "jh_rsa h \<and> (\<exists>kid. jh_kid h = Some kid \<and> map_of (km_keys s') kid = Some k)"
  using assms GetPublicKey_Ok by (auto simp: GetKeyFunc_def run_simps split: if_split_asm option.split_asm)

lemma validateClaims_Ok:
  assumes "validateClaims e io v claims s = (Ok (), s')"
  shows "cc_Issuer claims = va_issuer v \<and> va_audience v \<in> set (cc_Audience claims)
    \<and> (\<forall>x. cc_ExpiresAt claims = Some x \<longrightarrow> now_at e (w_tick (app_world s)) \<le> x)
    \<and> (\<forall>x. cc_NotBefore claims = Some x \<longrightarrow> x \<le> now_at e (w_tick (app_world s)))
    \<and> cc_TenantID claims \<noteq> '''' \<and> cc_OwnerID claims \<noteq> '''' \<and> km_keys s' = km_keys s"
  using assms
  by (auto simp: validateClaims_def run_simps split: if_split_asm option.split_asm)

lemma usable_jwks_sound:
  assumes "map_of (usable_jwks jwks) kid = Some k"
  shows "kid \<noteq> '''' \<and> (kid, Some k) \<in> set jwks"
proof -
  define keep where "keep = (\<lambda>(kid :: string, k :: 'a option) keys. case k of None \<Rightarrow> keys | Some x \<Rightarrow> if kid = '''' then keys else AList.update kid x keys)"
  have "map_of (fold keep jwks keys) kid = Some k \<Longrightarrow> map_of keys kid = Some k \<or> (kid \<noteq> '''' \<and> (kid, Some k) \<in> set jwks)" for keys
  proof (induction jwks arbitrary: keys)
    case (Cons j js)
    have "map_of (keep j keys) kid = Some k \<or> (kid \<noteq> '''' \<and> (kid, Some k) \<in> set js)"
      using Cons.IH [of "keep j keys"] Cons.prems by simp
    then show ?case
      by (cases j) (auto simp: keep_def map_of_update split: option.split_asm if_split_asm)
  qed simp
  from this [of "[]"] show ?thesis using assms by (simp add: usable_jwks_def keep_def)
qed

text \<open>In the mode \<^verbatim>\<open>development\<close> one key is known, under one id, and it is never fetched again.\<close>

lemma development_key:
  assumes "NewKeyManager e io cfg s = (Ok (), s')" and "ac_Mode cfg = ''development''"
  shows "map fst (km_keys s') = [''dev-key'']" and "snd (GetPublicKey e io cfg kid s') = s'"
  using assms
  by (auto simp: NewKeyManager_def loadInitialKeys_def loadFromPEMFile_def set_key_def run_simps
      split: sum.split_asm option.split_asm if_split_asm)
    (auto simp: GetPublicKey_def bindM_def run_basic split: option.split)

text \<open>After a refresh that succeeds only keys of the fetched set are known; after one that fails, the old ones.\<close>

lemma fetchJWKS_keys:
  assumes "fetchJWKS e io cfg s = (r, s')"
  shows "(r = Ok () \<and> (\<exists>n jwks. io_jwks io n = Inr (200, Inr jwks) \<and> km_keys s' = usable_jwks jwks))
    \<or> (\<exists>err. r = Err err \<and> km_keys s' = km_keys s \<and> km_lastFetch s' = km_lastFetch s)"
  using assms
  by (cases r)
    (auto simp: fetchJWKS_def run_simps split: if_split_asm sum.split_asm prod.split_asm, blast)

section \<open>Properties\<close>

text \<open>
  C10. \<^verbatim>\<open>ValidateToken\<close> returns claims only of a token that is signed with an RSA algorithm under a key the key
  manager knows by the token's \<^verbatim>\<open>kid\<close>, whose issuer is the configured one, whose audience includes this service,
  whose dates include the present, and which names a tenant and an owner.
\<close>

theorem validated_claims_are_signed_and_current:
  assumes "jwt_parse_sound parse carries" and "ValidateToken e io cfg parse v tok s = (Ok claims, s')"
  shows "(\<exists>h kid k. jh_rsa h \<and> jh_alg h \<in> {''RS256'', ''RS384'', ''RS512''} \<and> jh_kid h = Some kid
       \<and> map_of (km_keys s') kid = Some k \<and> carries tok h claims k)
    \<and> cc_Issuer claims = va_issuer v \<and> va_audience v \<in> set (cc_Audience claims)
    \<and> (\<exists>n. (\<forall>x. cc_ExpiresAt claims = Some x \<longrightarrow> now_at e n \<le> x) \<and> (\<forall>x. cc_NotBefore claims = Some x \<longrightarrow> x \<le> now_at e n))
    \<and> cc_TenantID claims \<noteq> '''' \<and> cc_OwnerID claims \<noteq> ''''"
proof -
  obtain u where parse: "parse tok valid_methods (GetKeyFunc e io cfg) s = (Ok (True, claims), u)"
    and claims: "validateClaims e io v claims u = (Ok (), s')"
    using assms(2) by (auto simp: ValidateToken_def run_simps split: if_split_asm)
  obtain h k x where key: "GetKeyFunc e io cfg h s = (Ok k, x)" "km_keys u = km_keys x"
    and carried: "jh_alg h \<in> set valid_methods" "carries tok h claims k"
    using assms(1) parse unfolding jwt_parse_sound_def by fastforce
  show ?thesis
    using GetKeyFunc_Ok [OF key(1)] key(2) carried validateClaims_Ok [OF claims]
    by (intro conjI) (auto simp: valid_methods_def)
qed

text \<open>For the witnesses: a parser that knows one token, signed under whatever key the key manager has.\<close>

definition sample_claims :: custom_claims where
  "sample_claims = \<lparr>cc_TenantID = ''T'', cc_OwnerType = ''USER'', cc_OwnerID = ''o'', cc_OrganizationID = None,
     cc_ParentKeyID = None, cc_UserID = ''u'', cc_CertLevel = 0, cc_MaxCertLevel = 0, cc_CanCertify = False,
     cc_CertificationPath = '''', cc_Permissions = [], cc_Issuer = ''identification-service'',
     cc_Audience = [''hsm-service''], cc_ExpiresAt = None, cc_NotBefore = None, cc_ID = ''j''\<rparr>"

definition sample_header :: jwt_header where
  "sample_header = \<lparr>jh_alg = ''RS256'', jh_rsa = True, jh_kid = Some ''dev-key''\<rparr>"

definition sample_parse :: "('t, 'k) jwt_parser" where
  "sample_parse tok ms kf = bindM (kf sample_header) (\<lambda>k. ret (tok = ''good'' \<and> jh_alg sample_header \<in> set ms, sample_claims))"

lemma sample_parse_sound: "jwt_parse_sound sample_parse (\<lambda>tok h claims k. tok = ''good'' \<and> claims = sample_claims)"
  unfolding jwt_parse_sound_def
proof (intro allI impI)
  fix tok ms kf s claims s'
  assume "sample_parse tok ms kf s = (Ok (True, claims), s')"
  then obtain k u where "kf sample_header s = (Ok k, u)" "s' = u" "tok = ''good''" "claims = sample_claims" "jh_alg sample_header \<in> set ms"
    by (auto simp: sample_parse_def run_simps)
  then show "\<exists>h k u n. kf h s = (Ok k, u) \<and> s' = u\<lparr>app_world := (app_world u)\<lparr>w_tick := n\<rparr>\<rparr>
      \<and> jh_alg h \<in> set ms \<and> tok = ''good'' \<and> claims = sample_claims"
    by (intro exI [of _ sample_header] exI [of _ k] exI [of _ u] exI [of _ "w_tick (app_world u)"]) simp
qed

definition sample_auth :: auth_config where
  "sample_auth = \<lparr>ac_Mode = ''development'', ac_PublicKeyPath = ''p'', ac_JWKSUrl = '''', ac_JWKSCacheMinutes = 60\<rparr>"

definition sample_validator :: validator where
  "sample_validator = \<lparr>va_issuer = ''identification-service'', va_audience = ''hsm-service''\<rparr>"

definition sample_io :: "nat auth_io" where
  "sample_io = \<lparr>io_pem = \<lambda>_. Inl ''no such file'', io_pkcs1 = \<lambda>_. Inl '''', io_pkix = \<lambda>_. Inl '''',
     io_jwks = \<lambda>_. Inl ''connection refused'', io_time = \<lambda>_. ''''\<rparr>"

lemma sample_validate:
  "km_keys s = [(''dev-key'', 0)] \<Longrightarrow>
     ValidateToken e sample_io sample_auth sample_parse sample_validator ''good'' s =
       (Ok sample_claims, s\<lparr>app_world := (app_world s)\<lparr>w_tick := Suc (w_tick (app_world s))\<rparr>\<rparr>)"
  by (simp add: ValidateToken_def sample_parse_def GetKeyFunc_def GetPublicKey_def validateClaims_def sample_header_def
      sample_auth_def sample_validator_def sample_claims_def valid_methods_def bindM_def wrapErr_def catchM_def
      run_tick run_basic)

theorem validated_claims_are_signed_and_current_witness:
  "\<exists>s'. ValidateToken sample_env sample_io sample_auth sample_parse sample_validator ''good''
       \<lparr>app_world = fresh_world sample_token, km_keys = [(''dev-key'', 0)], km_lastFetch = 0\<rparr> = (Ok sample_claims, s')
     \<and> map_of (km_keys s') ''dev-key'' = Some 0 \<and> cc_Issuer sample_claims = ''identification-service''"
proof -
  let ?s = "\<lparr>app_world = fresh_world sample_token, km_keys = [(''dev-key'', 0)], km_lastFetch = 0\<rparr>"
  obtain s' where run: "ValidateToken sample_env sample_io sample_auth sample_parse sample_validator ''good'' ?s
      = (Ok sample_claims, s')" and keys: "km_keys s' = [(''dev-key'', 0)]"
    by (simp add: sample_validate)
  show ?thesis
    using validated_claims_are_signed_and_current [OF sample_parse_sound run] run keys by (auto simp: sample_validator_def)
qed

end
