(* ===== verification/Go_Net.thy ===== *)
theory Go_Net
  imports Go_Strings
begin

text \<open>
  What the request package takes from \<^verbatim>\<open>net\<close>, \<^verbatim>\<open>net/http\<close> and \<^verbatim>\<open>net/url\<close>: whether \<^verbatim>\<open>net.ParseIP\<close>
  accepts an address, the host of \<^verbatim>\<open>net.SplitHostPort\<close>, reading a header under its canonical name, and the
  query of a URL.
\<close>

section \<open>Strings cut at a byte\<close>

text \<open>\<^verbatim>\<open>strings.Cut(s, c)\<close> for a one-byte separator: before and after its first occurrence.\<close>

definition cut_char :: "char \<Rightarrow> string \<Rightarrow> string \<times> string" where
  "cut_char c s = (takeWhile (\<lambda>d. d \<noteq> c) s, drop 1 (dropWhile (\<lambda>d. d \<noteq> c) s))"

text \<open>The index of the first and of the last occurrence, as \<^verbatim>\<open>IndexByte\<close> and \<^verbatim>\<open>LastIndexByte\<close>.\<close>

definition index_of :: "char \<Rightarrow> string \<Rightarrow> nat option" where
  "index_of c s = (if c \<in> set s then Some (length (takeWhile (\<lambda>d. d \<noteq> c) s)) else None)"

definition last_index_of :: "char \<Rightarrow> string \<Rightarrow> nat option" where
  "last_index_of c s =
     (if c \<in> set s then Some (length s - Suc (length (takeWhile (\<lambda>d. d \<noteq> c) (rev s)))) else None)"

section \<open>net.ParseIP\<close>

definition is_digit :: "char \<Rightarrow> bool" where
  "is_digit c = (case digit_value c of Some d \<Rightarrow> d < 10 | None \<Rightarrow> False)"

definition is_hex_digit :: "char \<Rightarrow> bool" where
  "is_hex_digit c = (case digit_value c of Some d \<Rightarrow> d < 16 | None \<Rightarrow> False)"

text \<open>One field of a dotted address: decimal, at most 255, without a leading zero.\<close>

definition ipv4_field :: "string \<Rightarrow> bool" where
  "ipv4_field s =
     (s \<noteq> [] \<and> list_all is_digit s \<and> (length s = 1 \<or> hd s \<noteq> CHR ''0'')
      \<and> (case parse_base 10 s of Some n \<Rightarrow> n \<le> 255 | None \<Rightarrow> False))"

definition valid_ipv4 :: "string \<Rightarrow> bool" where
  "valid_ipv4 s = (length (split_char CHR ''.'' s) = 4 \<and> list_all ipv4_field (split_char CHR ''.'' s))"

text \<open>At the end eight groups have been read, or fewer and a double colon stands for the rest.\<close>

definition ipv6_end :: "nat \<Rightarrow> bool \<Rightarrow> bool" where
  "ipv6_end groups ellipsis = (if groups < 8 then ellipsis else \<not> ellipsis)"

text \<open>
  The loop over the hexadecimal groups; \<open>groups\<close> have been read and \<open>ellipsis\<close> says whether a double colon
  has been met.
\<close>

function ipv6_groups :: "nat \<Rightarrow> bool \<Rightarrow> string \<Rightarrow> bool" where
  "ipv6_groups groups ellipsis s =
     (let ds = takeWhile is_hex_digit s; rest = dropWhile is_hex_digit s in
      if ds = [] \<or> 4 < length ds then False
      else case rest of
        [] \<Rightarrow> ipv6_end (Suc groups) ellipsis
      | c # r \<Rightarrow>
          if c = CHR ''.'' then
            (ellipsis \<or> groups = 6) \<and> groups + 2 \<le> 8 \<and> valid_ipv4 s \<and> ipv6_end (groups + 2) ellipsis
          else if c \<noteq> CHR '':'' \<or> r = [] then False
          else if hd r = CHR '':'' then
            (if ellipsis then False
             else if tl r = [] then ipv6_end (Suc groups) True
             else if 8 \<le> Suc groups then False
             else ipv6_groups (Suc groups) True (tl r))
          else if 8 \<le> Suc groups then False
          else ipv6_groups (Suc groups) ellipsis r)"
  by pat_completeness auto

termination
proof (relation "measure (\<lambda>(g, e, s). 8 - g)")
qed auto

declare ipv6_groups.simps [simp del]

definition valid_ipv6 :: "string \<Rightarrow> bool" where
  "valid_ipv6 s =
     (if has_prefix ''::'' s then drop 2 s = [] \<or> ipv6_groups 0 True (drop 2 s) else ipv6_groups 0 False s)"

text \<open>
  The first dot, colon or percent sign decides how the address is read. An address with a zone is none for
  \<^verbatim>\<open>net.ParseIP\<close>.
\<close>

definition ParseIP_ok :: "string \<Rightarrow> bool" where
  "ParseIP_ok s =
     (case List.find (\<lambda>c. c \<in> {CHR ''.'', CHR '':'', CHR ''%''}) s of
        None \<Rightarrow> False
      | Some c \<Rightarrow>
          if c = CHR ''.'' then valid_ipv4 s
          else if c = CHR '':'' then CHR ''%'' \<notin> set s \<and> valid_ipv6 s
          else False)"

section \<open>net.SplitHostPort\<close>

definition split_host :: "string \<Rightarrow> string option" where
  "split_host s =
     (case last_index_of CHR '':'' s of
        None \<Rightarrow> None
      | Some i \<Rightarrow>
          if hd s = CHR ''['' then
            (case index_of CHR '']'' s of
               None \<Rightarrow> None
             | Some e \<Rightarrow>
                 if e + 1 \<noteq> i \<or> CHR ''['' \<in> set (drop 1 s) \<or> CHR '']'' \<in> set (drop (e + 1) s) then None
                 else Some (take (e - 1) (drop 1 s)))
          else if CHR '':'' \<in> set (take i s) \<or> CHR ''['' \<in> set s \<or> CHR '']'' \<in> set s then None
          else Some (take i s))"

section \<open>Headers\<close>

definition upper :: "char \<Rightarrow> char" where
  "upper c = (let n = of_char c :: nat in if 97 \<le> n \<and> n \<le> 122 then char_of (n - 32) else c)"

definition lower :: "char \<Rightarrow> char" where
  "lower c = (let n = of_char c :: nat in if 65 \<le> n \<and> n \<le> 90 then char_of (n + 32) else c)"

definition is_token_char :: "char \<Rightarrow> bool" where
  "is_token_char c = (digit_value c \<noteq> None \<or> c \<in> set ''!#$%&*+-.^_`|~'' \<or> c = CHR 0x27)"

fun canonical_from :: "bool \<Rightarrow> string \<Rightarrow> string" where
  "canonical_from up [] = []"
| "canonical_from up (c # s) = (if up then upper c else lower c) # canonical_from (c = CHR ''-'') s"

text \<open>\<^verbatim>\<open>CanonicalMIMEHeaderKey\<close>: a key with a byte outside the token set is left alone.\<close>

definition canonical_key :: "string \<Rightarrow> string" where
  "canonical_key s = (if list_all is_token_char s then canonical_from True s else s)"

type_synonym http_header = "(string \<times> string list) list"

text \<open>\<^verbatim>\<open>Header.Get\<close>: the first value under the canonical key.\<close>

definition header_get :: "http_header \<Rightarrow> string \<Rightarrow> string" where
  "header_get h k = (case map_of h (canonical_key k) of Some (v # _) \<Rightarrow> v | _ \<Rightarrow> '''')"

definition header_set :: "string \<Rightarrow> string \<Rightarrow> http_header \<Rightarrow> http_header" where
  "header_set k v h = AList.update (canonical_key k) [v] h"

section \<open>Queries\<close>

text \<open>\<^verbatim>\<open>url.QueryUnescape\<close>.\<close>

fun query_unescape :: "string \<Rightarrow> string option" where
  "query_unescape [] = Some []"
| "query_unescape (c # s) =
     (if c = CHR ''%'' then
        (case s of
           a # b # r \<Rightarrow>
             if is_hex_digit a \<and> is_hex_digit b
             then map_option (Cons (char_of (16 * the (digit_value a) + the (digit_value b)))) (query_unescape r)
             else None
         | _ \<Rightarrow> None)
      else map_option (Cons (if c = CHR ''+'' then CHR '' '' else c)) (query_unescape s))"

definition query_pair :: "string \<Rightarrow> (string \<times> string) option" where
  "query_pair p =
     (if p = [] \<or> CHR '';'' \<in> set p then None
      else case cut_char CHR ''='' p of (k, v) \<Rightarrow>
        (case (query_unescape k, query_unescape v) of (Some k', Some v') \<Rightarrow> Some (k', v') | _ \<Rightarrow> None))"

text \<open>\<^verbatim>\<open>u.Query().Get(k)\<close>: pairs that cannot be read are left out.\<close>

definition query_get :: "string \<Rightarrow> string \<Rightarrow> string" where
  "query_get raw k =
     (case map_of (List.map_filter query_pair (split_char CHR ''&'' raw)) k of Some v \<Rightarrow> v | None \<Rightarrow> '''')"

section \<open>Facts\<close>

lemma header_get_set [simp]: "header_get (header_set k v h) k = v"
  by (simp add: header_get_def header_set_def map_of_update)

lemma header_get_set_other:
  "canonical_key j \<noteq> canonical_key k \<Longrightarrow> header_get (header_set k v h) j = header_get h j"
  by (simp add: header_get_def header_set_def map_of_update)

text \<open>Header names are read without regard to case.\<close>

lemma canonical_request_names:
  "canonical_key ''X-Forwarded-For'' = ''X-Forwarded-For''" "canonical_key ''X-Real-IP'' = ''X-Real-Ip''"
  "canonical_key ''x-request-id'' = canonical_key ''X-Request-ID''"
  by code_simp+

lemma ParseIP_examples:
  "ParseIP_ok ''10.0.0.1''" "\<not> ParseIP_ok ''10.0.0.256''" "\<not> ParseIP_ok ''10.0.01.1''" "\<not> ParseIP_ok ''1.2.3''"
  "ParseIP_ok ''::1''" "ParseIP_ok ''2001:db8::7''" "\<not> ParseIP_ok ''fe80::1%eth0''" "ParseIP_ok ''::ffff:1.2.3.4''"
  "\<not> ParseIP_ok ''1::2::3''" "\<not> ParseIP_ok ''unknown''" "ParseIP_ok ''::''" "ParseIP_ok ''1:2:3:4:5:6:7:8''"
  by code_simp+

lemma split_host_examples:
  "split_host ''10.0.0.1:443'' = Some ''10.0.0.1''" "split_host ''[::1]:80'' = Some ''::1''"
  "split_host ''::1'' = None" "split_host ''10.0.0.1'' = None"
  by (simp_all add: split_host_def last_index_of_def index_of_def)

lemma query_examples:
  "query_get ''a=1&token=x%2By+z'' ''token'' = ''x+y z''" "query_get ''token;=1'' ''token'' = ''''"
  by code_simp+

end
