(* ===== verification/Request.thy ===== *)
theory Request
  imports World Go_Net
begin

text \<open>
  \<^verbatim>\<open>pkg/request\<close>: what the service takes from an HTTP request for its audit events. The middleware puts six
  values into the request's context under keys of a type of its own, and \<^verbatim>\<open>ContextValuesFromContext\<close> reads
  them back wherever an event is built. Credentials are masked before they are kept.
\<close>

section \<open>context.go\<close>

definition contextKey :: "string \<Rightarrow> ctx_key" where
  "contextKey k = (''request.contextKey'', k)"

text \<open>The constants \<^verbatim>\<open>duration\<close> and \<^verbatim>\<open>tenantID\<close> are untyped: as arguments of \<^verbatim>\<open>Value\<close> they are strings.\<close>

definition string_key :: "string \<Rightarrow> ctx_key" where
  "string_key k = (''string'', k)"

abbreviation correlationIDKey :: ctx_key where "correlationIDKey \<equiv> contextKey ''correlation_id''"
abbreviation sessionIDKey :: ctx_key where "sessionIDKey \<equiv> contextKey ''session_id''"
abbreviation ipAddressKey :: ctx_key where "ipAddressKey \<equiv> contextKey ''ip_address''"
abbreviation userAgentKey :: ctx_key where "userAgentKey \<equiv> contextKey ''user_agent''"
abbreviation requestIDKey :: ctx_key where "requestIDKey \<equiv> contextKey ''request_id''"
abbreviation actorKey :: ctx_key where "actorKey \<equiv> contextKey ''actor''"
abbreviation identityContextKey :: ctx_key where "identityContextKey \<equiv> contextKey ''identity_context''"

record context_values =
  cv_CorrelationID :: string
  cv_SessionID :: string
  cv_IPAddress :: string
  cv_UserAgent :: string
  cv_RequestID :: string
  cv_Actor :: string
  cv_Duration :: int
  cv_TenantID :: string

definition WithIdentityContext :: "gctx \<Rightarrow> identity_context \<Rightarrow> gctx" where
  "WithIdentityContext ctx identity = WithValue ctx identityContextKey (CIdent identity)"

definition GetIdentityContext :: "gctx \<Rightarrow> identity_context option" where
  "GetIdentityContext ctx = (case ctx_value ctx identityContextKey of Some (CIdent i) \<Rightarrow> Some i | _ \<Rightarrow> None)"

definition MustGetIdentityContext :: "gctx \<Rightarrow> ('s, 'e, identity_context) prog" where
  "MustGetIdentityContext ctx =
     (case GetIdentityContext ctx of
        None \<Rightarrow> panicM ''identity context not found in context''
      | Some i \<Rightarrow> ret i)"

definition GetCorrelationID :: "gctx \<Rightarrow> string" where
  "GetCorrelationID ctx = ctx_string ctx correlationIDKey"

definition GetSessionID :: "gctx \<Rightarrow> string" where
  "GetSessionID ctx = ctx_string ctx sessionIDKey"

definition IPAddressFromContext :: "gctx \<Rightarrow> string" where
  "IPAddressFromContext ctx = ctx_string ctx ipAddressKey"

definition UserAgentFromContext :: "gctx \<Rightarrow> string" where
  "UserAgentFromContext ctx = ctx_string ctx userAgentKey"

definition RequestIDFromContext :: "gctx \<Rightarrow> string" where
  "RequestIDFromContext ctx = ctx_string ctx requestIDKey"

definition ActorFromContext :: "gctx \<Rightarrow> string" where
  "ActorFromContext ctx = ctx_string ctx actorKey"

definition DurationFromContext :: "gctx \<Rightarrow> int" where
  "DurationFromContext ctx = ctx_int ctx (string_key ''duration_ms'')"

definition TenantIDFromContext :: "gctx \<Rightarrow> string" where
  "TenantIDFromContext ctx = ctx_string ctx (string_key ''tenant_id'')"

definition ContextValuesFromContext :: "gctx \<Rightarrow> context_values" where
  "ContextValuesFromContext ctx =
     \<lparr>cv_CorrelationID = GetCorrelationID ctx, cv_SessionID = GetSessionID ctx,
      cv_IPAddress = IPAddressFromContext ctx, cv_UserAgent = UserAgentFromContext ctx,
      cv_RequestID = RequestIDFromContext ctx, cv_Actor = ActorFromContext ctx,
      cv_Duration = DurationFromContext ctx, cv_TenantID = TenantIDFromContext ctx\<rparr>"

section \<open>extractor.go\<close>

record http_request =
  rq_Method :: string
  rq_Path :: string
  rq_RawQuery :: string
  rq_Header :: http_header
  rq_RemoteAddr :: string
  rq_Context :: gctx

definition ExtractCorrelationID :: "'t env \<Rightarrow> http_request \<Rightarrow> ('t, string) wprog" where
  "ExtractCorrelationID e r =
     (let correlationID = header_get (rq_Header r) ''X-Correlation-ID'' in
      if correlationID = '''' then uuidM e else ret correlationID)"

definition isValidIP :: "string \<Rightarrow> bool" where
  "isValidIP ip = ParseIP_ok ip"

definition ExtractClientIP :: "http_request \<Rightarrow> string" where
  "ExtractClientIP r =
     (let forwarded = header_get (rq_Header r) ''X-Forwarded-For'';
          clientIP = trim_space (hd (split_char CHR '','' forwarded));
          realIP = header_get (rq_Header r) ''X-Real-IP''
      in if forwarded \<noteq> '''' \<and> isValidIP clientIP then clientIP
         else if realIP \<noteq> '''' \<and> isValidIP realIP then realIP
         else case split_host (rq_RemoteAddr r) of
           None \<Rightarrow> rq_RemoteAddr r
         | Some host \<Rightarrow> host)"

definition ExtractUserAgent :: "http_request \<Rightarrow> string" where
  "ExtractUserAgent r = header_get (rq_Header r) ''User-Agent''"

definition ExtractRequestID :: "http_request \<Rightarrow> string" where
  "ExtractRequestID r = header_get (rq_Header r) ''X-Request-ID''"

definition last_bytes :: "nat \<Rightarrow> string \<Rightarrow> string" where
  "last_bytes n s = drop (length s - n) s"

definition maskAPIKey :: "string \<Rightarrow> string" where
  "maskAPIKey apiKey = (if length apiKey \<le> 8 then ''***'' else take 4 apiKey @ ''...'' @ last_bytes 4 apiKey)"

definition maskToken :: "string \<Rightarrow> string" where
  "maskToken token = (if length token \<le> 10 then ''***'' else take 3 token @ ''...'' @ last_bytes 3 token)"

definition ExtractActor :: "http_request \<Rightarrow> string" where
  "ExtractActor r =
     (let apiKey = header_get (rq_Header r) ''X-API-Key'';
          authHeader = header_get (rq_Header r) ''Authorization'';
          token = query_get (rq_RawQuery r) ''token''
      in if apiKey \<noteq> '''' then ''api-key:'' @ maskAPIKey apiKey
         else if authHeader \<noteq> '''' \<and> has_prefix ''Bearer '' authHeader
              then ''jwt:'' @ maskToken (trim_prefix ''Bearer '' authHeader)
         else if token \<noteq> '''' then ''jwt-query:'' @ maskToken token
         else ''anonymous'')"

section \<open>middleware.go\<close>

definition generateRequestID :: "'t env \<Rightarrow> ('t, string) wprog" where
  "generateRequestID e = uuidM e"

text \<open>The request id, and the response header that is set when it had to be generated.\<close>

definition request_id :: "'t env \<Rightarrow> http_request \<Rightarrow> ('t, string \<times> http_header) wprog" where
  "request_id e r =
     (let requestID = ExtractRequestID r in
      if requestID = '''' then bindM (generateRequestID e) (\<lambda>i. ret (i, header_set ''X-Request-ID'' i []))
      else ret (requestID, []))"

definition request_context :: "gctx \<Rightarrow> http_request \<Rightarrow> string \<Rightarrow> string \<Rightarrow> gctx" where
  "request_context ctx r correlationID requestID =
     WithValue (WithValue (WithValue (WithValue (WithValue (WithValue ctx
       correlationIDKey (CStr correlationID))
       sessionIDKey (CStr (header_get (rq_Header r) ''X-Session-ID'')))
       ipAddressKey (CStr (ExtractClientIP r)))
       userAgentKey (CStr (ExtractUserAgent r)))
       requestIDKey (CStr requestID))
       actorKey (CStr (ExtractActor r))"

text \<open>
  The request that the next handler sees, the response headers, and what \<^verbatim>\<open>c.Set\<close> leaves in gin's own keys.
\<close>

definition GinMiddleware :: "'t env \<Rightarrow> http_request \<Rightarrow> ('t, http_request \<times> http_header \<times> (string \<times> string) list) wprog" where
  "GinMiddleware e r =
     bindM (request_id e r) (\<lambda>(requestID, response).
     bindM (ExtractCorrelationID e r) (\<lambda>correlationID.
     ret (r\<lparr>rq_Context := request_context (rq_Context r) r correlationID requestID\<rparr>, response,
          [(''correlation_id'', correlationID)])))"

text \<open>For \<^verbatim>\<open>net/http\<close> the two ids are made in the other order.\<close>

definition HTTPMiddleware :: "'t env \<Rightarrow> http_request \<Rightarrow> ('t, http_request \<times> http_header) wprog" where
  "HTTPMiddleware e r =
     bindM (ExtractCorrelationID e r) (\<lambda>correlationID.
     bindM (request_id e r) (\<lambda>(requestID, response).
     ret (r\<lparr>rq_Context := request_context (rq_Context r) r correlationID requestID\<rparr>, response)))"

section \<open>Facts\<close>

lemmas context_getters = GetCorrelationID_def GetSessionID_def IPAddressFromContext_def UserAgentFromContext_def
  RequestIDFromContext_def ActorFromContext_def DurationFromContext_def TenantIDFromContext_def

lemma request_context_values:
  "ContextValuesFromContext (request_context ctx r c q) =
     \<lparr>cv_CorrelationID = c, cv_SessionID = header_get (rq_Header r) ''X-Session-ID'',
      cv_IPAddress = ExtractClientIP r, cv_UserAgent = ExtractUserAgent r, cv_RequestID = q,
      cv_Actor = ExtractActor r, cv_Duration = DurationFromContext ctx, cv_TenantID = TenantIDFromContext ctx\<rparr>"
  by (simp add: ContextValuesFromContext_def request_context_def context_getters ctx_string_def ctx_int_def
      contextKey_def string_key_def)

lemma identity_survives_middleware:
  "GetIdentityContext (request_context (WithIdentityContext ctx i) r c q) = Some i"
  by (simp add: GetIdentityContext_def request_context_def WithIdentityContext_def contextKey_def)

lemma request_id_Ok:
  "\<exists>w'. request_id e r w = (Ok (if ExtractRequestID r = '''' then uuid_at e (w_tick w) else ExtractRequestID r,
     if ExtractRequestID r = '''' then header_set ''X-Request-ID'' (uuid_at e (w_tick w)) [] else []), w')"
  by (simp add: request_id_def Let_def generateRequestID_def bindM_def run_tick run_basic)

text \<open>The bytes between the ends of a credential do not reach its mask.\<close>

lemma last_bytes_append: "n \<le> length z \<Longrightarrow> last_bytes n (x @ z) = last_bytes n z"
  by (simp add: last_bytes_def)

lemma maskAPIKey_parts:
  assumes "length a = 4" "length z = 4" "m \<noteq> ''''"
  shows "maskAPIKey (a @ m @ z) = a @ ''...'' @ z"
  using assms last_bytes_append [of 4 z "a @ m"] by (cases m) (auto simp: maskAPIKey_def last_bytes_def)

lemma maskToken_parts:
  assumes "length a = 3" "length z = 3" "4 < length m"
  shows "maskToken (a @ m @ z) = a @ ''...'' @ z"
  using assms last_bytes_append [of 3 z "a @ m"] by (auto simp: maskToken_def last_bytes_def)

lemma last_bytes_suffix: "m + n \<le> length s \<Longrightarrow> last_bytes n (drop m s) = last_bytes n s"
  by (simp add: last_bytes_def)

end
