(* ===== verification/Storage.thy ===== *)
theory Storage
  imports Sample
begin

text \<open>
  The repositories of \<^verbatim>\<open>internal/infrastructure/storage/mysql\<close>: one definition per method, each
  the meaning of its SQL statement on the table's rows followed by what the method makes of the
  scanned columns. A table is the list of its rows in insertion order; values are compared as
  equal strings. What the repository does not hold is a parameter of the environment: whether
  and how the deployed schema rejects a second row with the same primary key (\<open>db_unique\<close>, the
  error's text), the default of \<^verbatim>\<open>is_temporary_id\<close>, what a time column keeps of a time
  (\<open>db_time\<close>), and which calls fail. Columns other than \<^verbatim>\<open>key_metadata_id\<close>,
  \<^verbatim>\<open>hsm_slot_id\<close>, \<^verbatim>\<open>parent_key_id\<close> and \<^verbatim>\<open>last_rewrap_at\<close> are taken as NOT NULL, and tables as
  without triggers.

  The locale \<open>key_repository\<close> is the contract of the port \<^verbatim>\<open>output.KeyRepository\<close> that the
  services rely on, interpreted on the MySQL storage.
\<close>

section \<open>database/sql\<close>

abbreviation ErrNoRows :: go_error where
  "ErrNoRows \<equiv> PlainErr ''sql: no rows in result set''"

text \<open>An INSERT of a row with identifier \<open>i\<close> where the rows with identifiers \<open>is\<close> are there.\<close>

definition insertM :: "'t env \<Rightarrow> string list \<Rightarrow> string \<Rightarrow> ('t world \<Rightarrow> 't world) \<Rightarrow> ('t, unit) wprog" where
  "insertM e is i f =
     bindM (dbM e) (\<lambda>_.
     case db_unique e of
       Some msg \<Rightarrow> if i \<in> set is then throw (PlainErr msg) else modifyM f
     | None \<Rightarrow> modifyM f)"

definition queryM :: "'t env \<Rightarrow> ('t world \<Rightarrow> 'a) \<Rightarrow> ('t, 'a) wprog" where
  "queryM e f = bindM (dbM e) (\<lambda>_. getsM f)"

text \<open>\<^verbatim>\<open>QueryRowContext(...).Scan(...)\<close>: the first row, or \<^verbatim>\<open>sql.ErrNoRows\<close>.\<close>

definition queryRowM :: "'t env \<Rightarrow> ('t world \<Rightarrow> 'r list) \<Rightarrow> ('r \<Rightarrow> bool) \<Rightarrow> ('t, 'r) wprog" where
  "queryRowM e rows P =
     bindM (queryM e (\<lambda>w. List.find P (rows w))) (\<lambda>r.
     case r of None \<Rightarrow> throw ErrNoRows | Some x \<Rightarrow> ret x)"

section \<open>crypto\_keys\<close>

definition key_row :: "'t env \<Rightarrow> time \<Rightarrow> cryptographic_key \<Rightarrow> cryptographic_key" where
  "key_row e now k = k\<lparr>k_IsHardwareBacked := True, k_ExpirationDate := db_time e (k_ExpirationDate k),
     k_RotationDate := zero_time, k_CreatedAt := db_time e now, k_Metadata := []\<rparr>"

definition Keys_Save :: "'t env \<Rightarrow> cryptographic_key \<Rightarrow> ('t, unit) wprog" where
  "Keys_Save e k =
     bindM (nowM e) (\<lambda>now.
     bindM (getsM (\<lambda>w. map k_ID (w_keys w))) (\<lambda>ids.
     wrapErr (errorf_w ''failed to get last insert id: '')
       (insertM e ids (k_ID k) (\<lambda>w. w\<lparr>w_keys := w_keys w @ [key_row e now k]\<rparr>))))"

text \<open>
  \<^verbatim>\<open>FindByID\<close> scans six columns and then overwrites the expiration date and the active flag
  with variables nothing was scanned into.
\<close>

definition scan_by_id :: "cryptographic_key \<Rightarrow> cryptographic_key" where
  "scan_by_id r =
     (let key = zero_key\<lparr>k_ID := k_ID r, k_Name := k_Name r, k_PublicKey := k_PublicKey r,
                  k_ExpirationDate := k_ExpirationDate r, k_IsActive := k_IsActive r\<rparr>;
          algorithmStr = ''''; usageStr = ''''; expiredAt = zero_time; isActive = False
      in key\<lparr>k_Algorithm := algorithmStr, k_Purpose := usageStr, k_CreatedAt := k_CreatedAt r,
             k_ExpirationDate := expiredAt, k_IsActive := isActive\<rparr>)"

definition Keys_FindByID :: "'t env \<Rightarrow> string \<Rightarrow> ('t, cryptographic_key) wprog" where
  "Keys_FindByID e i =
     tryM (queryRowM e w_keys (\<lambda>r. k_ID r = i))
       (\<lambda>err.
         if err = ErrNoRows
         then throw (WithDetail ''original_error'' (DStr (error_text err))
                (NewDomainError ErrKeyNotFound ''key not found''))
         else throw (WithDetail ''original_error'' (DStr (error_text err))
                (NewDomainError ErrKeyNotFound ''Error finding key'')))
       (\<lambda>r. ret (scan_by_id r))"

definition scan_by_tenant :: "cryptographic_key \<Rightarrow> cryptographic_key" where
  "scan_by_tenant r = zero_key\<lparr>k_ID := k_ID r, k_Name := k_Name r, k_Algorithm := k_Algorithm r,
     k_KeySize := k_KeySize r, k_Purpose := k_Purpose r, k_PublicKey := k_PublicKey r,
     k_KeyHandle := k_KeyHandle r, k_KeyLabel := k_KeyLabel r, k_TenantID := k_TenantID r,
     k_Version := k_Version r, k_CreatedAt := k_CreatedAt r, k_IsActive := k_IsActive r\<rparr>"

definition Keys_FindByIDAndTenant :: "'t env \<Rightarrow> string \<Rightarrow> string \<Rightarrow> ('t, cryptographic_key) wprog" where
  "Keys_FindByIDAndTenant e i tn =
     tryM (queryRowM e w_keys (\<lambda>r. k_ID r = i \<and> k_TenantID r = tn))
       (\<lambda>err.
         if err = ErrNoRows then throw (PlainErr (code_string ErrKeyNotFound))
         else throw (errorf_w ''failed to find key: '' err))
       (\<lambda>r. ret (scan_by_tenant r))"

text \<open>
  The two listing queries: \<^verbatim>\<open>purpose\<close> is scanned into the key and then overwritten with the
  never scanned \<^verbatim>\<open>usageStr\<close>.
\<close>

definition scan_listed :: "cryptographic_key \<Rightarrow> cryptographic_key" where
  "scan_listed r =
     (let usageStr = '''' in
      zero_key\<lparr>k_ID := k_ID r, k_Name := k_Name r, k_Alias := k_Alias r,
       k_KeySize := k_KeySize r, k_PublicKey := k_PublicKey r, k_KeyHandle := k_KeyHandle r,
       k_KeyLabel := k_KeyLabel r, k_TenantID := k_TenantID r, k_Version := k_Version r,
       k_IsActive := k_IsActive r, k_Algorithm := k_Algorithm r, k_Purpose := usageStr,
       k_CreatedAt := k_CreatedAt r, k_ExpirationDate := k_ExpirationDate r\<rparr>)"

definition newest_first :: "cryptographic_key list \<Rightarrow> cryptographic_key list" where
  "newest_first ks = sort_key (\<lambda>k. - k_CreatedAt k) ks"

definition list_keys :: "'t env \<Rightarrow> (cryptographic_key \<Rightarrow> bool) \<Rightarrow> ('t, cryptographic_key list) wprog" where
  "list_keys e P =
     bindM (wrapErr (errorf_w ''failed to query keys: '')
       (queryM e (\<lambda>w. newest_first (filter P (w_keys w))))) (\<lambda>rows.
     bindM (wrapErr (errorf_w ''rows error: '') (dbM e)) (\<lambda>_.
     ret (map scan_listed rows)))"

definition Keys_FindByTenant :: "'t env \<Rightarrow> string \<Rightarrow> ('t, cryptographic_key list) wprog" where
  "Keys_FindByTenant e tn = list_keys e (\<lambda>r. k_TenantID r = tn)"

definition Keys_FindByOwnerType :: "'t env \<Rightarrow> string \<Rightarrow> ('t, cryptographic_key list) wprog" where
  "Keys_FindByOwnerType e ot = list_keys e (\<lambda>r. k_OwnerType r = ot)"

definition scan_by_owner :: "cryptographic_key \<Rightarrow> cryptographic_key" where
  "scan_by_owner r = (scan_by_tenant r)\<lparr>k_KeyLabel := ''''\<rparr>"

definition Keys_FindByOwner :: "'t env \<Rightarrow> string \<Rightarrow> ('t, cryptographic_key) wprog" where
  "Keys_FindByOwner e ow =
     tryM (queryRowM e w_keys (\<lambda>r. k_OwnerID r = ow))
       (\<lambda>err.
         if err = ErrNoRows then throw (PlainErr (code_string ErrKeyNotFound))
         else throw (errorf_w ''failed to find key: '' err))
       (\<lambda>r. ret (scan_by_owner r))"

definition Keys_Delete :: "'t env \<Rightarrow> string \<Rightarrow> ('t, unit) wprog" where
  "Keys_Delete e i =
     bindM (wrapErr (errorf_w ''failed to delete key: '') (dbM e)) (\<lambda>_.
     bindM (getsM (\<lambda>w. length (filter (\<lambda>r. k_ID r = i) (w_keys w)))) (\<lambda>rowsAffected.
     bindM (modifyM (\<lambda>w. w\<lparr>w_keys := filter (\<lambda>r. k_ID r \<noteq> i) (w_keys w)\<rparr>)) (\<lambda>_.
     if rowsAffected = 0 then throw (PlainErr (code_string ErrKeyNotFound)) else ret ())))"

section \<open>hsm\_slots\<close>

definition set_row :: "string \<Rightarrow> (slot_row \<Rightarrow> slot_row) \<Rightarrow> slot_row list \<Rightarrow> slot_row list" where
  "set_row i f rows = map (\<lambda>r. if sl_ID (row_slot r) = i then f r else r) rows"

text \<open>\<^verbatim>\<open>key_metadata_id\<close> is inserted as NULL, whatever the entity holds.\<close>

definition Slots_CreateSlot :: "'t env \<Rightarrow> hsm_slot \<Rightarrow> ('t, unit) wprog" where
  "Slots_CreateSlot e s =
     bindM (nowM e) (\<lambda>now.
     bindM (getsM (\<lambda>w. map (sl_ID \<circ> row_slot) (w_slots w))) (\<lambda>ids.
     wrapErr (errorf_w ''failed to create HSM slot: '')
       (insertM e ids (sl_ID s) (\<lambda>w. w\<lparr>w_slots := w_slots w @
          [\<lparr>row_slot = s\<lparr>sl_IsTemporaryID := db_temp_default e, sl_KeyMetadataID := '''',
                         sl_CreatedAt := db_time e now, sl_UpdatedAt := db_time e now\<rparr>,
            row_metadata_id = None\<rparr>]\<rparr>))))"

definition Slots_DeleteSlot :: "'t env \<Rightarrow> string \<Rightarrow> ('t, unit) wprog" where
  "Slots_DeleteSlot e i =
     bindM (wrapErr (errorf_w ''failed to delete HSM slot: '') (dbM e)) (\<lambda>_.
     modifyM (\<lambda>w. w\<lparr>w_slots := filter (\<lambda>r. sl_ID (row_slot r) \<noteq> i) (w_slots w)\<rparr>))"

text \<open>Scanning a NULL into a Go string is an error of \<^verbatim>\<open>database/sql\<close>.\<close>

definition scan_slot :: "slot_row \<Rightarrow> go_error + hsm_slot" where
  "scan_slot r =
     (case row_metadata_id r of
        None \<Rightarrow> Inl (PlainErr (''sql: Scan error on column index 7, name \"key_metadata_id\": '' @
                  ''converting NULL to string is unsupported''))
      | Some m \<Rightarrow> Inr ((row_slot r)\<lparr>sl_KeyMetadataID := m, sl_EncryptionContext := []\<rparr>))"

fun scan_slots :: "slot_row list \<Rightarrow> go_error + hsm_slot list" where
  "scan_slots [] = Inr []"
| "scan_slots (r # rs) =
     (case scan_slot r of
        Inl err \<Rightarrow> Inl err
      | Inr s \<Rightarrow> (case scan_slots rs of Inl err \<Rightarrow> Inl err | Inr ss \<Rightarrow> Inr (s # ss)))"

definition Slots_GetAllSlots :: "'t env \<Rightarrow> ('t, hsm_slot list) wprog" where
  "Slots_GetAllSlots e =
     bindM (wrapErr (errorf_w ''failed to get HSM slots: '') (queryM e w_slots)) (\<lambda>rows.
     bindM (wrapErr (errorf_w ''failed to scan HSM slot: '') (liftSum (scan_slots rows))) (\<lambda>slots.
     bindM (wrapErr (errorf_w ''rows error: '') (dbM e)) (\<lambda>_.
     ret slots)))"

definition Slots_GetSlotByID :: "'t env \<Rightarrow> string \<Rightarrow> ('t, hsm_slot) wprog" where
  "Slots_GetSlotByID e i =
     wrapErr (errorf_w ''failed to get HSM slot by ID: '')
       (bindM (queryRowM e w_slots (\<lambda>r. sl_ID (row_slot r) = i)) (\<lambda>r. liftSum (scan_slot r)))"

definition Slots_UpdateSlot :: "'t env \<Rightarrow> hsm_slot \<Rightarrow> ('t, unit) wprog" where
  "Slots_UpdateSlot e s =
     bindM (wrapErr (errorf_w ''failed to update HSM slot: '') (dbM e)) (\<lambda>_.
     modifyM (\<lambda>w. w\<lparr>w_slots := set_row (sl_ID s)
       (\<lambda>r. r\<lparr>row_slot := (row_slot r)\<lparr>sl_Label := sl_Label s, sl_SlotNumber := sl_SlotNumber s\<rparr>,
              row_metadata_id := Some (sl_KeyMetadataID s)\<rparr>) (w_slots w)\<rparr>))"

definition Slots_UpdateSlotNumber :: "'t env \<Rightarrow> string \<Rightarrow> u64 \<Rightarrow> ('t, unit) wprog" where
  "Slots_UpdateSlotNumber e i n =
     bindM (wrapErr (errorf_w ''failed to update HSM slot: '') (dbM e)) (\<lambda>_.
     modifyM (\<lambda>w. w\<lparr>w_slots := set_row i
       (\<lambda>r. r\<lparr>row_slot := (row_slot r)\<lparr>sl_SlotNumber := n, sl_IsTemporaryID := False\<rparr>\<rparr>) (w_slots w)\<rparr>))"

text \<open>
  \<^verbatim>\<open>GetSlotsWithTemporaryIDs\<close> asks for the rows \<^verbatim>\<open>WHERE is_temporary = true\<close>, while every other statement calls the
  column \<^verbatim>\<open>is_temporary_id\<close>. Whether the deployed table has a column of that name is \<open>is_temporary\<close>: the
  server's error where it has none, else which rows carry it. The flag is not selected, so it stays false.
\<close>

definition scan_temporary :: "slot_row \<Rightarrow> go_error + hsm_slot" where
  "scan_temporary r =
     (case row_metadata_id r of
        None \<Rightarrow> Inl (PlainErr (''sql: Scan error on column index 6, name \"key_metadata_id\": '' @
                  ''converting NULL to string is unsupported''))
      | Some m \<Rightarrow> Inr ((row_slot r)\<lparr>sl_IsTemporaryID := False, sl_KeyMetadataID := m, sl_EncryptionContext := []\<rparr>))"

fun scan_temporaries :: "slot_row list \<Rightarrow> go_error + hsm_slot list" where
  "scan_temporaries [] = Inr []"
| "scan_temporaries (r # rs) =
     (case scan_temporary r of
        Inl err \<Rightarrow> Inl err
      | Inr s \<Rightarrow> (case scan_temporaries rs of Inl err \<Rightarrow> Inl err | Inr ss \<Rightarrow> Inr (s # ss)))"

definition Slots_GetSlotsWithTemporaryIDs ::
  "'t env \<Rightarrow> string + (slot_row \<Rightarrow> bool) \<Rightarrow> ('t, hsm_slot list) wprog" where
  "Slots_GetSlotsWithTemporaryIDs e is_temporary =
     bindM (wrapErr (errorf_w ''failed to get HSM slots with temporary IDs: '')
       (case is_temporary of
          Inl err \<Rightarrow> bindM (dbM e) (\<lambda>_. throw (PlainErr err))
        | Inr P \<Rightarrow> queryM e (\<lambda>w. filter P (w_slots w)))) (\<lambda>rows.
     bindM (wrapErr (errorf_w ''failed to scan HSM slot: '') (liftSum (scan_temporaries rows))) (\<lambda>slots.
     bindM (wrapErr (errorf_w ''rows error: '') (dbM e)) (\<lambda>_.
     ret slots)))"

section \<open>tenants\<close>

definition Tenants_FindByID :: "'t env \<Rightarrow> string \<Rightarrow> ('t, tenant) wprog" where
  "Tenants_FindByID e i =
     tryM (queryRowM e w_tenants (\<lambda>r. tn_ID r = i))
       (\<lambda>err.
         if err = ErrNoRows then throw (PlainErr (code_string ErrTenantNotFound))
         else throw (errorf_w ''failed to query tenant by ID: '' err))
       (\<lambda>r. ret (r\<lparr>tn_Config := []\<rparr>))"

definition Tenants_Exists :: "'t env \<Rightarrow> string \<Rightarrow> ('t, bool) wprog" where
  "Tenants_Exists e i =
     bindM (wrapErr (errorf_w ''failed to check tenant existence: '')
       (queryM e (\<lambda>w. length (filter (\<lambda>r. tn_ID r = i) (w_tenants w))))) (\<lambda>count.
     ret (0 < count))"

text \<open>
  \<^verbatim>\<open>FindByHSMSlot\<close> compares the column \<^verbatim>\<open>hsm_slot_id\<close>, which elsewhere holds the identifier of a slot's row, with
  the number of a slot: \<open>same\<close> is the server's comparison of a text with a number.
\<close>

definition Tenants_FindByHSMSlot :: "'t env \<Rightarrow> (string \<Rightarrow> u64 \<Rightarrow> bool) \<Rightarrow> u64 \<Rightarrow> ('t, tenant) wprog" where
  "Tenants_FindByHSMSlot e same slot =
     tryM (queryRowM e w_tenants (\<lambda>r. case tn_HSMSlotID r of None \<Rightarrow> False | Some i \<Rightarrow> same i slot))
       (\<lambda>err.
         if err = ErrNoRows then throw (PlainErr (code_string ErrTenantNotFound))
         else throw (errorf_w ''failed to query tenant by HSM slot: '' err))
       (\<lambda>r. ret (r\<lparr>tn_Config := []\<rparr>))"

section \<open>aes\_key\_metadata\<close>

text \<open>
  \<^verbatim>\<open>CreateMetadata\<close> is one transaction: its statements see and write a copy of the tables that
  becomes the tables when \<^verbatim>\<open>Commit\<close> reports no error; every other exit rolls back.
\<close>

definition Meta_CreateMetadata :: "'t env \<Rightarrow> aes_key_metadata \<Rightarrow> ('t, unit) wprog" where
  "Meta_CreateMetadata e m =
     bindM (dbM e) (\<lambda>_.
     bindM (wrapErr (errorf_w ''failed to set skip flag: '') (dbM e)) (\<lambda>_.
     bindM (nowM e) (\<lambda>now.
     bindM (getsM (\<lambda>w. map md_ID (w_meta w))) (\<lambda>ids.
     bindM (insertM e ids (md_ID m) id) (\<lambda>_.
     bindM (wrapErr (errorf_w ''failed to update hsm_slot with metadata_id: '') (dbM e)) (\<lambda>_.
     bindM (wrapErr (errorf_w ''failed to reset skip flag: '') (dbM e)) (\<lambda>_.
     bindM (wrapErr (errorf_w ''failed to commit transaction: '') (dbM e)) (\<lambda>_.
     modifyM (\<lambda>w. w\<lparr>
       w_meta := w_meta w @ [m\<lparr>md_CreatedAt := db_time e now, md_UpdatedAt := db_time e now\<rparr>],
       w_slots := set_row (md_HSMSlotID m) (\<lambda>r. r\<lparr>row_metadata_id := Some (md_ID m)\<rparr>) (w_slots w)\<rparr>)))))))))"

definition Meta_DeleteMetadata :: "'t env \<Rightarrow> string \<Rightarrow> ('t, unit) wprog" where
  "Meta_DeleteMetadata e i =
     bindM (dbM e) (\<lambda>_. modifyM (\<lambda>w. w\<lparr>w_meta := filter (\<lambda>r. md_ID r \<noteq> i) (w_meta w)\<rparr>))"

definition Meta_GetAllMetadata :: "'t env \<Rightarrow> ('t, aes_key_metadata list) wprog" where
  "Meta_GetAllMetadata e = queryM e w_meta"

definition Meta_GetMetadataByID :: "'t env \<Rightarrow> string \<Rightarrow> ('t, aes_key_metadata) wprog" where
  "Meta_GetMetadataByID e i = queryRowM e w_meta (\<lambda>r. md_ID r = i)"

definition Meta_DisableMetadata :: "'t env \<Rightarrow> string \<Rightarrow> ('t, unit) wprog" where
  "Meta_DisableMetadata e i =
     bindM (dbM e) (\<lambda>_. modifyM (\<lambda>w. w\<lparr>w_meta :=
       map (\<lambda>r. if md_ID r = i then r\<lparr>md_Active := False\<rparr> else r) (w_meta w)\<rparr>))"

section \<open>key\_operations\<close>

text \<open>
  The row of a key operation: the columns that are inserted (the identifier and the creation time
  are the database's own).
\<close>

definition Ops_Save :: "'t env \<Rightarrow> key_operation \<Rightarrow> ('t, unit) wprog" where
  "Ops_Save e op =
     bindM (wrapErr (errorf_w ''failed to save key operation: '') (dbM e)) (\<lambda>_.
     modifyM (\<lambda>w. w\<lparr>w_ops := w_ops w @ [op]\<rparr>))"

section \<open>What the repositories read and write\<close>

lemmas storage_defs = insertM_def queryM_def queryRowM_def
  Keys_Save_def Keys_FindByID_def Keys_FindByIDAndTenant_def list_keys_def Keys_FindByTenant_def
  Keys_FindByOwnerType_def Keys_FindByOwner_def Keys_Delete_def
  Slots_CreateSlot_def Slots_DeleteSlot_def Slots_GetAllSlots_def Slots_GetSlotByID_def
  Slots_UpdateSlot_def Slots_UpdateSlotNumber_def Tenants_FindByID_def Tenants_Exists_def
  Meta_CreateMetadata_def Meta_DeleteMetadata_def Meta_GetAllMetadata_def Meta_GetMetadataByID_def
  Meta_DisableMetadata_def Ops_Save_def

text \<open>Queries change nothing but the call counter.\<close>

lemma unchanged_queries [unchanged_intros]:
  assumes f: "\<And>w k. f (w\<lparr>w_tick := k\<rparr>) = f w"
  shows "unchanged f (queryM e g)" "unchanged f (queryRowM e rows P)"
    "unchanged f (Keys_FindByID e i)" "unchanged f (Keys_FindByIDAndTenant e i tn)"
    "unchanged f (Keys_FindByTenant e tn)" "unchanged f (Keys_FindByOwnerType e ot)"
    "unchanged f (Keys_FindByOwner e ow)" "unchanged f (Slots_GetAllSlots e)"
    "unchanged f (Slots_GetSlotByID e i)" "unchanged f (Tenants_FindByID e i)"
    "unchanged f (Tenants_Exists e i)" "unchanged f (Meta_GetAllMetadata e)"
    "unchanged f (Meta_GetMetadataByID e i)"
  unfolding storage_defs by (intro unchanged_intros f)+

lemma unchanged_further_queries [unchanged_intros]:
  assumes f: "\<And>w k. f (w\<lparr>w_tick := k\<rparr>) = f w"
  shows "unchanged f (Slots_GetSlotsWithTemporaryIDs e temp)" "unchanged f (Tenants_FindByHSMSlot e same slot)"
  unfolding Slots_GetSlotsWithTemporaryIDs_def Tenants_FindByHSMSlot_def by (intro unchanged_intros f)+

lemma queryRowM_Ok:
  "queryRowM e rows P w = (Ok r, w') \<longleftrightarrow>
     db_err_at e (w_tick w) = None \<and> w' = w\<lparr>w_tick := Suc (w_tick w)\<rparr>
     \<and> List.find P (rows (w\<lparr>w_tick := Suc (w_tick w)\<rparr>)) = Some r"
  by (auto simp: queryRowM_def queryM_def run_simps split: option.split_asm)

lemma insertM_Ok:
  "insertM e is i f w = (Ok x, w') \<longleftrightarrow>
     db_err_at e (w_tick w) = None \<and> (db_unique e = None \<or> i \<notin> set is)
     \<and> w' = f (w\<lparr>w_tick := Suc (w_tick w)\<rparr>)"
  by (auto simp: insertM_def run_simps split: option.split_asm if_split_asm option.splits)

lemma insertM_not_Ok:
  "insertM e is i f w = (r, w') \<Longrightarrow> r \<noteq> Ok () \<Longrightarrow> w' = w\<lparr>w_tick := Suc (w_tick w)\<rparr>"
  by (cases r) (auto simp: insertM_def run_simps split: option.split_asm if_split_asm)

lemma Keys_FindByIDAndTenant_Ok:
  "Keys_FindByIDAndTenant e i tn w = (Ok k, w') \<longleftrightarrow>
     db_err_at e (w_tick w) = None \<and> w' = w\<lparr>w_tick := Suc (w_tick w)\<rparr>
     \<and> (\<exists>r. List.find (\<lambda>r. k_ID r = i \<and> k_TenantID r = tn) (w_keys w) = Some r \<and> k = scan_by_tenant r)"
  by (auto simp: Keys_FindByIDAndTenant_def run_simps queryRowM_Ok split: if_split_asm)

lemma Keys_FindByIDAndTenant_not_Panic [simp]: "Keys_FindByIDAndTenant e i tn w \<noteq> (Panic p, w')"
  by (auto simp: Keys_FindByIDAndTenant_def queryRowM_def queryM_def run_simps
      split: if_split_asm option.split_asm)

lemma Tenants_FindByID_Ok:
  "Tenants_FindByID e i w = (Ok k, w') \<longleftrightarrow>
     db_err_at e (w_tick w) = None \<and> w' = w\<lparr>w_tick := Suc (w_tick w)\<rparr>
     \<and> (\<exists>r. List.find (\<lambda>r. tn_ID r = i) (w_tenants w) = Some r \<and> k = r\<lparr>tn_Config := []\<rparr>)"
  by (auto simp: Tenants_FindByID_def run_simps queryRowM_Ok split: if_split_asm)

lemma Slots_GetSlotByID_Ok:
  "Slots_GetSlotByID e i w = (Ok s, w') \<longleftrightarrow>
     db_err_at e (w_tick w) = None \<and> w' = w\<lparr>w_tick := Suc (w_tick w)\<rparr>
     \<and> (\<exists>r. List.find (\<lambda>r. sl_ID (row_slot r) = i) (w_slots w) = Some r \<and> scan_slot r = Inr s)"
  by (auto simp: Slots_GetSlotByID_def run_simps queryRowM_Ok)

lemma Keys_Save_Ok:
  "Keys_Save e k w = (Ok x, w') \<longleftrightarrow>
     db_err_at e (Suc (w_tick w)) = None \<and> (db_unique e = None \<or> k_ID k \<notin> k_ID ` set (w_keys w))
     \<and> w' = w\<lparr>w_tick := w_tick w + 2, w_keys := w_keys w @ [key_row e (now_at e (w_tick w)) k]\<rparr>"
  by (auto simp: Keys_Save_def run_simps insertM_Ok)

lemma Keys_Save_not_Ok:
  "Keys_Save e k w = (r, w') \<Longrightarrow> r \<noteq> Ok () \<Longrightarrow> w' = w\<lparr>w_tick := w_tick w + 2\<rparr>"
  by (cases r) (auto simp: Keys_Save_def run_simps dest!: insertM_not_Ok)

lemma Keys_Delete_iff:
  "Keys_Delete e i w = (Ok x, w') \<longleftrightarrow>
     db_err_at e (w_tick w) = None \<and> (\<exists>r \<in> set (w_keys w). k_ID r = i)
     \<and> w' = w\<lparr>w_tick := Suc (w_tick w), w_keys := filter (\<lambda>r. k_ID r \<noteq> i) (w_keys w)\<rparr>"
  by (auto simp: Keys_Delete_def run_simps filter_empty_conv split: if_split_asm)

lemma Keys_Delete_not_Ok:
  "Keys_Delete e i w = (r, w') \<Longrightarrow> r \<noteq> Ok () \<Longrightarrow> w_keys w' = w_keys w"
  by (cases r) (auto simp: Keys_Delete_def run_simps filter_empty_conv filter_id_conv split: if_split_asm)

section \<open>The contract of the key repository\<close>

text \<open>The columns \<^verbatim>\<open>Save\<close> writes as the entity has them.\<close>

definition stored_as :: "cryptographic_key \<Rightarrow> cryptographic_key \<Rightarrow> bool" where
  "stored_as r k \<longleftrightarrow> k_ID r = k_ID k \<and> k_TenantID r = k_TenantID k \<and> k_OwnerType r = k_OwnerType k
     \<and> k_OwnerID r = k_OwnerID k \<and> k_ParentKeyID r = k_ParentKeyID k \<and> k_CertLevel r = k_CertLevel k
     \<and> k_Name r = k_Name k \<and> k_Alias r = k_Alias k \<and> k_Algorithm r = k_Algorithm k
     \<and> k_KeySize r = k_KeySize k \<and> k_Purpose r = k_Purpose k \<and> k_PublicKey r = k_PublicKey k
     \<and> k_KeyHandle r = k_KeyHandle k \<and> k_KeyLabel r = k_KeyLabel k \<and> k_HSMSlotID r = k_HSMSlotID k
     \<and> k_IsActive r = k_IsActive k \<and> k_Version r = k_Version k"

locale key_repository =
  fixes save :: "cryptographic_key \<Rightarrow> ('s, go_error, unit) prog"
    and find :: "string \<Rightarrow> string \<Rightarrow> ('s, go_error, cryptographic_key) prog"
    and delete :: "string \<Rightarrow> ('s, go_error, unit) prog"
    and rows :: "'s \<Rightarrow> cryptographic_key list"
  assumes find_Ok: "find i tn s = (Ok k, t) \<Longrightarrow>
        \<exists>r \<in> set (rows s). k_ID r = i \<and> k_TenantID r = tn \<and> k = scan_by_tenant r"
    and find_rows: "find i tn s = (found, t) \<Longrightarrow> rows t = rows s"
    and save_Ok: "save k s = (Ok (), t) \<Longrightarrow> \<exists>r. rows t = rows s @ [r] \<and> stored_as r k"
    and save_fails: "save k s = (r, t) \<Longrightarrow> r \<noteq> Ok () \<Longrightarrow> rows t = rows s"
    and delete_Ok: "delete i s = (Ok (), t) \<Longrightarrow>
        rows t = filter (\<lambda>r. k_ID r \<noteq> i) (rows s) \<and> (\<exists>r \<in> set (rows s). k_ID r = i)"
    and delete_fails: "delete i s = (r, t) \<Longrightarrow> r \<noteq> Ok () \<Longrightarrow> rows t = rows s"
begin

definition rows_of :: "string \<Rightarrow> 's \<Rightarrow> cryptographic_key list" where
  "rows_of tn s = filter (\<lambda>r. k_TenantID r = tn) (rows s)"

lemma find_own: "find i tn s = (Ok k, t) \<Longrightarrow> k_ID k = i \<and> k_TenantID k = tn"
  using find_Ok [of i tn s k t] by (auto simp: scan_by_tenant_def)

lemma find_in_rows_of:
  "find i tn s = (Ok k, t) \<Longrightarrow> \<exists>r \<in> set (rows_of tn s). k_ID r = i \<and> k = scan_by_tenant r"
  using find_Ok [of i tn s k t] by (auto simp: rows_of_def)

lemma save_leaves_others:
  assumes "save k s = (r, t)" and "tn \<noteq> k_TenantID k"
  shows "rows_of tn t = rows_of tn s"
proof (cases "r = Ok ()")
  case True
  then show ?thesis using save_Ok [of k s t] assms by (auto simp: rows_of_def stored_as_def)
next
  case False
  then show ?thesis using save_fails [OF assms(1)] by (simp add: rows_of_def)
qed

lemma save_keeps_rows: "save k s = (r, t) \<Longrightarrow> set (rows s) \<subseteq> set (rows t)"
  by (cases "r = Ok ()") (auto dest: save_Ok save_fails)

lemma delete_leaves_others:
  assumes "delete i s = (r, t)" and "\<forall>x \<in> set (rows s). k_ID x = i \<longrightarrow> k_TenantID x = k_TenantID k"
    and "tn \<noteq> k_TenantID k"
  shows "rows_of tn t = rows_of tn s"
proof (cases "r = Ok ()")
  case True
  then have "rows t = filter (\<lambda>r. k_ID r \<noteq> i) (rows s)" using delete_Ok assms(1) by blast
  then show ?thesis using assms(2,3)
    by (auto simp: rows_of_def intro!: filter_cong)
next
  case False
  then show ?thesis using delete_fails [OF assms(1)] by (simp add: rows_of_def)
qed

lemma deleted_is_gone:
  "delete i s = (Ok (), t) \<Longrightarrow> find i tn t \<noteq> (Ok k, u)"
  using delete_Ok [of i s t] find_Ok [of i tn t k u] by auto

end

interpretation mysql_keys:
  key_repository "Keys_Save e" "Keys_FindByIDAndTenant e" "Keys_Delete e" w_keys
  for e :: "'t env"
proof unfold_locales
  fix i tn k and s t :: "'t world"
  assume "Keys_FindByIDAndTenant e i tn s = (Ok k, t)"
  then show "\<exists>r \<in> set (w_keys s). k_ID r = i \<and> k_TenantID r = tn \<and> k = scan_by_tenant r"
    by (auto simp: Keys_FindByIDAndTenant_Ok dest!: find_SomeD)
next
  fix i tn r and s t :: "'t world"
  assume "Keys_FindByIDAndTenant e i tn s = (r, t)"
  then show "w_keys t = w_keys s" by (rule unchangedD [rotated]) (intro unchanged_intros, simp)
next
  fix k and s t :: "'t world"
  assume "Keys_Save e k s = (Ok (), t)"
  then show "\<exists>r. w_keys t = w_keys s @ [r] \<and> stored_as r k"
    by (auto simp: Keys_Save_Ok key_row_def stored_as_def)
qed (auto dest: Keys_Save_not_Ok Keys_Delete_not_Ok simp: Keys_Delete_iff)

text \<open>Where the table has no such column, the listing of the temporary slots fails whenever it is called.\<close>

lemma temporary_slots_need_their_column:
  "fst (Slots_GetSlotsWithTemporaryIDs e (Inl err) w) \<noteq> Ok slots"
  by (simp add: Slots_GetSlotsWithTemporaryIDs_def wrapErr_def catchM_def bindM_def run_dbM run_basic split: option.split)

lemma temporary_slots_are_rows:
  assumes "Slots_GetSlotsWithTemporaryIDs e (Inr P) w = (Ok slots, w')"
  shows "map sl_ID slots = map (sl_ID \<circ> row_slot) (filter P (w_slots w)) \<and> w_slots w' = w_slots w"
proof -
  have scanned: "scan_temporaries rows = Inr slots \<Longrightarrow> map sl_ID slots = map (sl_ID \<circ> row_slot) rows" for rows
    by (induction rows arbitrary: slots)
      (auto simp: scan_temporary_def split: sum.split_asm option.split_asm)
  show ?thesis using assms scanned by (auto simp: Slots_GetSlotsWithTemporaryIDs_def queryM_def run_simps)
qed

end
