(* ===== verification/Pkcs11.thy ===== *)
theory Pkcs11
  imports Storage
begin

text \<open>
  \<^verbatim>\<open>internal/infrastructure/hsm/pkcs11_context.go\<close>, the process-wide PKCS#11 context behind
  a \<^verbatim>\<open>sync.Once\<close>, and \<^verbatim>\<open>session_pool.go\<close>, the pool of sessions behind a weighted semaphore.
  The package variables are the fields \<open>w_shared\<close> (whether \<^verbatim>\<open>sharedPKCS11Ctx\<close> is not nil),
  \<open>w_once\<close>, \<open>w_initerr\<close> and \<open>w_libpath\<close> of the world. A \<^verbatim>\<open>*pkcs11.Ctx\<close> is a Boolean: not nil.
\<close>

section \<open>pkcs11\_context.go\<close>

definition once_init :: "'t env \<Rightarrow> string \<Rightarrow> ('t, unit) wprog" where
  "once_init e path =
     bindM (modifyM (\<lambda>w. w\<lparr>w_once := True, w_libpath := path\<rparr>)) (\<lambda>_.
     bindM (ck0M (ck_New (pkcs11 e) path)) (\<lambda>ok.
     bindM (modifyM (\<lambda>w. w\<lparr>w_shared := ok\<rparr>)) (\<lambda>_.
     if \<not> ok
     then modifyM (\<lambda>w. w\<lparr>w_initerr :=
            Some (PlainErr (''failed to create PKCS#11 context from library: '' @ path))\<rparr>)
     else tryM (ckM ok (ck_Initialize (pkcs11 e)))
            (\<lambda>err. modifyM (\<lambda>w. w\<lparr>w_shared := False, w_libpath := '''',
                      w_initerr := Some (errorf_w ''failed to initialize PKCS#11: '' err)\<rparr>))
            (\<lambda>_. ret ()))))"

definition GetOrInitPKCS11Context :: "'t env \<Rightarrow> string \<Rightarrow> ('t, bool) wprog" where
  "GetOrInitPKCS11Context e path =
     bindM (getsM (\<lambda>w. (w_shared w, w_libpath w, w_once w))) (\<lambda>(shared, current, once).
     if shared \<and> current \<noteq> path
     then throw (PlainErr (''PKCS#11 already initialized with different library: '' @ current
                  @ '' (requested: '' @ path @ '')''))
     else bindM (if once then ret () else once_init e path) (\<lambda>_.
          bindM (getsM (\<lambda>w. (w_shared w, w_initerr w))) (\<lambda>(ok, err).
          case err of Some x \<Rightarrow> throw x | None \<Rightarrow> ret ok)))"

definition FinalizePKCS11Context :: "'t env \<Rightarrow> ('t, unit) wprog" where
  "FinalizePKCS11Context e =
     bindM (getsM w_shared) (\<lambda>shared.
     if \<not> shared then ret ()
     else bindM (wrapErr (errorf_w ''failed to finalize PKCS#11: '') (ckM shared (ck_Finalize (pkcs11 e))))
            (\<lambda>_. modifyM (\<lambda>w. w\<lparr>w_shared := False, w_libpath := ''''\<rparr>)))"

definition IsInitialized :: "'t world \<Rightarrow> bool" where
  "IsInitialized w = w_shared w"

definition GetLibraryPath :: "'t world \<Rightarrow> string" where
  "GetLibraryPath w = w_libpath w"

definition GetFreshSlotList :: "'t env \<Rightarrow> string \<Rightarrow> ('t, u64 list) wprog" where
  "GetFreshSlotList e path =
     bindM (GetOrInitPKCS11Context e path) (\<lambda>ctx.
     wrapErr (errorf_w ''failed to get slot list: '') (ckM ctx (ck_GetSlotList (pkcs11 e) True)))"

definition destroyM :: "'t env \<Rightarrow> ('t, unit) wprog" where
  "destroyM e = ck0M (\<lambda>t. ((), ck_Destroy (pkcs11 e) t))"

definition GetFreshPKCS11Context :: "'t env \<Rightarrow> string \<Rightarrow> ('t, bool) wprog" where
  "GetFreshPKCS11Context e path =
     bindM (ck0M (ck_New (pkcs11 e) path)) (\<lambda>ok.
     if \<not> ok
     then throw (PlainErr (''failed to create new PKCS#11 context from library: '' @ path))
     else tryM (ckM ok (ck_Initialize (pkcs11 e)))
            (\<lambda>err. bindM (destroyM e) (\<lambda>_.
                     throw (errorf_w ''failed to initialize new PKCS#11 context: '' err)))
            (\<lambda>_. ret ok))"

definition ClosePKCS11Context :: "'t env \<Rightarrow> bool \<Rightarrow> ('t, unit) wprog" where
  "ClosePKCS11Context e ctx =
     (if \<not> ctx then ret ()
      else bindM (wrapErr (errorf_w ''failed to finalize PKCS#11 context: '')
                   (ckM ctx (ck_Finalize (pkcs11 e)))) (\<lambda>_. destroyM e))"

section \<open>session\_pool.go\<close>

record hsm_config =
  hc_LibraryPath :: string
  hc_TokenLabel :: string
  hc_Pin :: string
  hc_MaxSessions :: int

text \<open>
  The pool: the buffered channel of idle sessions and its capacity, and the free permits of the
  semaphore.
\<close>

record session_pool =
  sp_slotID :: u64
  sp_pin :: string
  sp_sessions :: "handle list"
  sp_permits :: nat
  sp_maxSessions :: nat
  sp_initialized :: bool

type_synonym ('t, 'a) pprog = "('t world \<times> session_pool, go_error, 'a) prog"

text \<open>A program on the world alone, run beside the pool.\<close>

definition onWorld :: "('t, 'a) wprog \<Rightarrow> ('t, 'a) pprog" where
  "onWorld m s = (case m (fst s) of (r, w) \<Rightarrow> (r, (w, snd s)))"

definition setPool :: "(session_pool \<Rightarrow> session_pool) \<Rightarrow> ('t, unit) pprog" where
  "setPool f = modifyM (\<lambda>(w, p). (w, f p))"

definition createSession :: "'t env \<Rightarrow> u64 \<Rightarrow> string \<Rightarrow> ('t, handle) wprog" where
  "createSession e slot pin =
     bindM (wrapErr (errorf_w ''failed to open session: '')
       (ckM True (ck_OpenSession (pkcs11 e) slot CKF_SERIAL_RW))) (\<lambda>session.
     tryM (ckM True (ck_Login (pkcs11 e) session CKU_USER pin))
       (\<lambda>err. if is_ck_error CKR_USER_ALREADY_LOGGED_IN err then ret session
              else bindM (dropErr (ckM True (ck_CloseSession (pkcs11 e) session))) (\<lambda>_.
                   throw (errorf_w ''failed to login: '' err)))
       (\<lambda>_. ret session))"

text \<open>The first slot whose token has exactly the configured label.\<close>

fun find_token :: "'t env \<Rightarrow> string \<Rightarrow> u64 list \<Rightarrow> ('t, u64 option) wprog" where
  "find_token e label [] = ret None"
| "find_token e label (s # ss) =
     tryM (ckM True (ck_GetTokenLabel (pkcs11 e) s))
       (\<lambda>_. find_token e label ss)
       (\<lambda>l. if l = label then ret (Some s) else find_token e label ss)"

text \<open>Up to \<open>n\<close> sessions for the new pool; a session that cannot be made is left out.\<close>

fun prewarm :: "'t env \<Rightarrow> u64 \<Rightarrow> string \<Rightarrow> nat \<Rightarrow> ('t, handle list) wprog" where
  "prewarm e slot pin 0 = ret []"
| "prewarm e slot pin (Suc n) =
     tryM (createSession e slot pin)
       (\<lambda>_. prewarm e slot pin n)
       (\<lambda>h. bindM (prewarm e slot pin n) (\<lambda>hs. ret (h # hs)))"

definition NewSessionPool :: "'t env \<Rightarrow> hsm_config \<Rightarrow> ('t, session_pool) wprog" where
  "NewSessionPool e cfg =
     bindM (ck0M (ck_New (pkcs11 e) (hc_LibraryPath cfg))) (\<lambda>ok.
     if \<not> ok then throw (PlainErr (''failed to load PKCS#11 library from '' @ hc_LibraryPath cfg))
     else
     bindM (wrapErr (errorf_w ''failed to initialize PKCS#11: '') (ckM ok (ck_Initialize (pkcs11 e)))) (\<lambda>_.
     bindM (wrapErr (errorf_w ''failed to get slot list: '') (ckM ok (ck_GetSlotList (pkcs11 e) True))) (\<lambda>slots.
     if slots = [] then throw (PlainErr ''no slots found'')
     else
     bindM (find_token e (hc_TokenLabel cfg) slots) (\<lambda>found.
     case found of
       None \<Rightarrow> throw (PlainErr (''token with label '' @ hc_TokenLabel cfg @ '' not found''))
     | Some slot \<Rightarrow>
         if hc_MaxSessions cfg < 0 then panicM ''makechan: size out of range''
         else bindM (prewarm e slot (hc_Pin cfg) (nat (min 2 (hc_MaxSessions cfg)))) (\<lambda>hs.
              ret \<lparr>sp_slotID = slot, sp_pin = hc_Pin cfg, sp_sessions = hs,
                   sp_permits = nat (hc_MaxSessions cfg), sp_maxSessions = nat (hc_MaxSessions cfg),
                   sp_initialized = True\<rparr>)))))"

text \<open>
  What the scheduler decides in \<^verbatim>\<open>GetSession\<close>: whether the caller's context is done, whether
  the semaphore then still grants a free permit, and which ready case the \<^verbatim>\<open>select\<close> takes.
\<close>

record pool_choice =
  ch_done :: bool
  ch_refused :: bool
  ch_takes_done :: bool

definition GetSession :: "'t env \<Rightarrow> pool_choice \<Rightarrow> ('t, handle) pprog" where
  "GetSession e ch =
     bindM (getsM snd) (\<lambda>p.
     if \<not> sp_initialized p then throw (PlainErr ''session pool not initialized'')
     else if sp_permits p = 0 \<or> (ch_done ch \<and> ch_refused ch)
     then throw (errorf_w ''failed to acquire semaphore: '' (PlainErr
            (if ch_done ch then ''context canceled'' else ''context deadline exceeded'')))
     else bindM (setPool (\<lambda>p. p\<lparr>sp_permits := sp_permits p - 1\<rparr>)) (\<lambda>_.
       if sp_sessions p \<noteq> [] \<and> \<not> (ch_done ch \<and> ch_takes_done ch)
       then bindM (setPool (\<lambda>p. p\<lparr>sp_sessions := tl (sp_sessions p)\<rparr>)) (\<lambda>_. ret (hd (sp_sessions p)))
       else if ch_done ch
       then bindM (setPool (\<lambda>p. p\<lparr>sp_permits := Suc (sp_permits p)\<rparr>)) (\<lambda>_.
              throw (PlainErr ''context canceled''))
       else onWorld (createSession e (sp_slotID p) (sp_pin p))))"

definition ReturnSession :: "'t env \<Rightarrow> handle \<Rightarrow> ('t, unit) pprog" where
  "ReturnSession e h =
     bindM (getsM snd) (\<lambda>p.
     if \<not> sp_initialized p then ret ()
     else bindM (if length (sp_sessions p) < sp_maxSessions p
                 then setPool (\<lambda>p. p\<lparr>sp_sessions := sp_sessions p @ [h]\<rparr>)
                 else onWorld (dropErr (ckM True (ck_CloseSession (pkcs11 e) h)))) (\<lambda>_.
          if sp_permits p = sp_maxSessions p then panicM ''semaphore: released more than held''
          else setPool (\<lambda>p. p\<lparr>sp_permits := Suc (sp_permits p)\<rparr>)))"

fun drain :: "'t env \<Rightarrow> handle list \<Rightarrow> ('t, unit) wprog" where
  "drain e [] = ret ()"
| "drain e (h # hs) =
     bindM (dropErr (ckM True (ck_Logout (pkcs11 e) h))) (\<lambda>_.
     bindM (dropErr (ckM True (ck_CloseSession (pkcs11 e) h))) (\<lambda>_. drain e hs))"

definition Pool_Close :: "'t env \<Rightarrow> ('t, unit) pprog" where
  "Pool_Close e =
     bindM (getsM snd) (\<lambda>p.
     if \<not> sp_initialized p then ret ()
     else bindM (onWorld (drain e (sp_sessions p))) (\<lambda>_.
          bindM (onWorld (dropErr (ckM True (ck_Finalize (pkcs11 e))))) (\<lambda>_.
          bindM (onWorld (destroyM e)) (\<lambda>_.
          setPool (\<lambda>p. p\<lparr>sp_sessions := [], sp_initialized := False\<rparr>)))))"

definition Pool_HealthCheck :: "'t env \<Rightarrow> pool_choice \<Rightarrow> ('t, unit) pprog" where
  "Pool_HealthCheck e ch =
     bindM (getsM snd) (\<lambda>p.
     if \<not> sp_initialized p then throw (PlainErr ''session pool not initialized'')
     else bindM (wrapErr (errorf_w ''failed to get session for health check: '') (GetSession e ch)) (\<lambda>h.
          bindM (attempt (onWorld (ckM True (ck_GetSessionState (pkcs11 e) h)))) (\<lambda>info.
          bindM (ReturnSession e h) (\<lambda>_.
          case info of
            Inl err \<Rightarrow> throw (errorf_w ''session is not active: '' err)
          | Inr _ \<Rightarrow> ret ()))))"

section \<open>The life of the shared context\<close>

text \<open>The calls that touch the package variables, in any order and with any library paths.\<close>

datatype ctx_op = OpGet string | OpFinalize

definition ctx_do :: "'t env \<Rightarrow> ctx_op \<Rightarrow> 't world \<Rightarrow> 't world" where
  "ctx_do e op w =
     (case op of
        OpGet path \<Rightarrow> snd (GetOrInitPKCS11Context e path w)
      | OpFinalize \<Rightarrow> snd (FinalizePKCS11Context e w))"

inductive ctx_reach :: "'t env \<Rightarrow> 't world \<Rightarrow> 't world \<Rightarrow> bool" for e w0 where
  ctx_start: "ctx_reach e w0 w0"
| ctx_step: "ctx_reach e w0 w \<Longrightarrow> ctx_reach e w0 (ctx_do e op w)"

text \<open>A context that is there was initialised without an error, under the path it was asked for.\<close>

definition ctx_inv :: "'t world \<Rightarrow> bool" where
  "ctx_inv w \<longleftrightarrow> (w_shared w \<longrightarrow> w_once w \<and> w_initerr w = None)
     \<and> (\<not> w_once w \<longrightarrow> w_initerr w = None)"

definition after_init :: "'t env \<Rightarrow> string \<Rightarrow> 't world \<Rightarrow> 't world" where
  "after_init e path w = snd (once_init e path w)"

lemma once_init_run: "once_init e path w = (Ok (), after_init e path w)"
  by (auto simp: after_init_def once_init_def bindM_def tryM_def ckM_def ck0M_def run_basic
      split: prod.splits sum.splits if_splits outcome.splits)

lemma after_init_fields:
  "w_once (after_init e path w)"
  "w_shared (after_init e path w) \<Longrightarrow> w_initerr (after_init e path w) = w_initerr w"
  "w_shared (after_init e path w) \<Longrightarrow> w_libpath (after_init e path w) = path"
  "w_tok (after_init e path w) \<in>
     {snd (ck_New (pkcs11 e) path (w_tok w)),
      snd (ck_Initialize (pkcs11 e) (snd (ck_New (pkcs11 e) path (w_tok w))))}"
  by (auto simp: after_init_def once_init_def bindM_def tryM_def ckM_def ck0M_def run_basic
      split: prod.splits sum.splits if_splits outcome.splits)

text \<open>\<^verbatim>\<open>GetOrInitPKCS11Context\<close> as one case distinction.\<close>

lemma GetOrInit_eq:
  "GetOrInitPKCS11Context e path w =
     (if w_shared w \<and> w_libpath w \<noteq> path
      then (Err (PlainErr (''PKCS#11 already initialized with different library: '' @ w_libpath w
              @ '' (requested: '' @ path @ '')'')), w)
      else let u = (if w_once w then w else after_init e path w)
           in case w_initerr u of Some x \<Rightarrow> (Err x, u) | None \<Rightarrow> (Ok (w_shared u), u))"
  by (simp add: GetOrInitPKCS11Context_def bindM_def run_basic once_init_run Let_def split: option.split)

lemma GetOrInit_once: "w_once w \<Longrightarrow> snd (GetOrInitPKCS11Context e path w) = w"
  by (simp add: GetOrInit_eq split: option.split)

lemma GetOrInit_Ok:
  assumes "GetOrInitPKCS11Context e path w = (Ok ok, w')"
  shows "w_once w' \<and> w_shared w' = ok \<and> w_initerr w' = None \<and> (w_shared w' \<longrightarrow> w_libpath w' = path)"
  using assms after_init_fields(1-3) [of e path w]
  by (auto simp: GetOrInit_eq Let_def split: if_split_asm option.split_asm)

lemma GetOrInit_ctx_inv:
  assumes "ctx_inv w"
  shows "ctx_inv (snd (GetOrInitPKCS11Context e path w))"
  using assms after_init_fields(1-3) [of e path w]
  by (auto simp: GetOrInit_eq Let_def ctx_inv_def split: option.split)

lemma Finalize_eq:
  "FinalizePKCS11Context e w =
     (if \<not> w_shared w then (Ok (), w)
      else case ck_Finalize (pkcs11 e) (w_tok w) of
        (Inl err, t) \<Rightarrow> (Err (errorf_w ''failed to finalize PKCS#11: '' err), w\<lparr>w_tok := t\<rparr>)
      | (Inr _, t) \<Rightarrow> (Ok (), w\<lparr>w_tok := t, w_shared := False, w_libpath := ''''\<rparr>))"
  by (simp add: FinalizePKCS11Context_def wrapErr_def catchM_def bindM_def ckM_def run_basic
      split: prod.splits sum.splits)

lemma Finalize_effect:
  assumes "FinalizePKCS11Context e w = (r, w')"
  shows "w_once w' = w_once w" "w_initerr w' = w_initerr w" "w_shared w' \<Longrightarrow> w_shared w"
    "r = Ok () \<Longrightarrow> \<not> w_shared w'"
    "w_tok w' = w_tok w \<or> w_tok w' = snd (ck_Finalize (pkcs11 e) (w_tok w))"
  using assms unfolding Finalize_eq by (auto split: if_split_asm prod.split_asm sum.split_asm)

lemma Finalize_ctx_inv: "ctx_inv w \<Longrightarrow> ctx_inv (snd (FinalizePKCS11Context e w))"
  using Finalize_effect(1-3) [of e w, OF surjective_pairing] by (simp add: ctx_inv_def)

lemma ctx_reach_inv: "ctx_reach e w0 w \<Longrightarrow> ctx_inv w0 \<Longrightarrow> ctx_inv w"
  by (induction rule: ctx_reach.induct)
    (simp_all add: ctx_do_def GetOrInit_ctx_inv Finalize_ctx_inv split: ctx_op.split)

text \<open>How often the library was initialised: \<open>count\<close> is any reading of the token that only
  \<^verbatim>\<open>Initialize\<close> moves, and moves by at most one.\<close>

definition counts_inits :: "('t \<Rightarrow> nat) \<Rightarrow> 't env \<Rightarrow> bool" where
  "counts_inits count e \<longleftrightarrow>
     (\<forall>t p. count (snd (ck_New (pkcs11 e) p t)) = count t)
   \<and> (\<forall>t. count (snd (ck_Finalize (pkcs11 e) t)) = count t)
   \<and> (\<forall>t. count (snd (ck_Initialize (pkcs11 e) t)) \<le> Suc (count t))"

lemma ctx_do_once: "w_once w \<Longrightarrow> w_once (ctx_do e op w)"
  using Finalize_effect(1) [of e w, OF surjective_pairing]
  by (cases op) (simp_all add: ctx_do_def GetOrInit_once)

lemma Finalize_count:
  assumes "counts_inits count e"
  shows "count (w_tok (snd (FinalizePKCS11Context e w))) = count (w_tok w)"
proof -
  have "w_tok (snd (FinalizePKCS11Context e w)) = w_tok w \<or>
      w_tok (snd (FinalizePKCS11Context e w)) = snd (ck_Finalize (pkcs11 e) (w_tok w))"
    by (rule Finalize_effect(5) [OF surjective_pairing])
  then show ?thesis using assms unfolding counts_inits_def by metis
qed

lemma ctx_do_count:
  assumes "counts_inits count e"
  shows "count (w_tok (ctx_do e op w)) \<le> count (w_tok w) + (if w_once w \<or> \<not> w_once (ctx_do e op w) then 0 else 1)"
proof (cases op)
  case (OpGet path)
  have "count (w_tok (after_init e path w)) \<le> Suc (count (w_tok w))"
    using after_init_fields(4) [of e path w] assms
    unfolding counts_inits_def insert_iff empty_iff by (metis le_SucI order_refl)
  then show ?thesis using after_init_fields(1) [of e path w]
    by (simp add: OpGet ctx_do_def GetOrInit_eq Let_def split: option.split)
next
  case OpFinalize
  then show ?thesis using Finalize_count [OF assms, of w] by (simp add: ctx_do_def)
qed

lemma ctx_reach_count:
  assumes "counts_inits count e" and "ctx_reach e w0 w"
  shows "count (w_tok w) \<le> count (w_tok w0) + (if w_once w0 \<or> \<not> w_once w then 0 else 1)
    \<and> (w_once w0 \<longrightarrow> w_once w)"
  using assms(2)
proof (induction rule: ctx_reach.induct)
  case ctx_start
  then show ?case by simp
next
  case (ctx_step w op)
  then show ?case using ctx_do_count [OF assms(1), of op w] ctx_do_once [of w e op]
    by (simp split: if_split_asm)
qed

section \<open>Accounts of the session pool\<close>

definition pool_ok :: "session_pool \<Rightarrow> bool" where
  "pool_ok p \<longleftrightarrow> length (sp_sessions p) \<le> sp_maxSessions p \<and> sp_permits p \<le> sp_maxSessions p"

definition no_cancel :: pool_choice where
  "no_cancel = \<lparr>ch_done = False, ch_refused = False, ch_takes_done = False\<rparr>"

text \<open>\<^verbatim>\<open>GetSession\<close> as one case distinction on the pool.\<close>

lemma GetSession_eq:
  "GetSession e ch (w, p) =
     (if \<not> sp_initialized p then (Err (PlainErr ''session pool not initialized''), (w, p))
      else if sp_permits p = 0 \<or> (ch_done ch \<and> ch_refused ch)
      then (Err (errorf_w ''failed to acquire semaphore: '' (PlainErr
              (if ch_done ch then ''context canceled'' else ''context deadline exceeded''))), (w, p))
      else if sp_sessions p \<noteq> [] \<and> \<not> (ch_done ch \<and> ch_takes_done ch)
      then (Ok (hd (sp_sessions p)),
            (w, p\<lparr>sp_permits := sp_permits p - 1, sp_sessions := tl (sp_sessions p)\<rparr>))
      else if ch_done ch then (Err (PlainErr ''context canceled''), (w, p))
      else (fst (createSession e (sp_slotID p) (sp_pin p) w),
            (snd (createSession e (sp_slotID p) (sp_pin p) w), p\<lparr>sp_permits := sp_permits p - 1\<rparr>)))"
  by (simp add: GetSession_def bindM_def run_basic setPool_def onWorld_def split: prod.split)

lemma ReturnSession_pool:
  assumes "ReturnSession e h (w, p) = (r, (w', p'))"
  shows "sp_maxSessions p' = sp_maxSessions p" "pool_ok p \<Longrightarrow> pool_ok p'"
    "r = Ok () \<Longrightarrow> sp_initialized p \<Longrightarrow> sp_permits p' = Suc (sp_permits p)"
proof -
  have "\<exists>u. dropErr (ckM True (ck_CloseSession (pkcs11 e) h)) w = (Ok (), u)"
    by (auto simp: dropErr_def attempt_def bindM_def ckM_def run_basic split: prod.splits sum.splits)
  then show "sp_maxSessions p' = sp_maxSessions p" "pool_ok p \<Longrightarrow> pool_ok p'"
    "r = Ok () \<Longrightarrow> sp_initialized p \<Longrightarrow> sp_permits p' = Suc (sp_permits p)"
    using assms
    by (auto simp: ReturnSession_def bindM_def run_basic setPool_def onWorld_def pool_ok_def
        split: if_split_asm)
qed

lemma GetSession_pool:
  assumes "GetSession e ch (w, p) = (r, (w', p'))"
  shows "sp_maxSessions p' = sp_maxSessions p" "pool_ok p \<Longrightarrow> pool_ok p'"
    "sp_permits p' \<le> sp_permits p"
  using assms by (auto simp: GetSession_eq pool_ok_def split: if_split_asm)

text \<open>Asking for a session \<open>n\<close> times, and never giving one back.\<close>

fun ask :: "'t env \<Rightarrow> nat \<Rightarrow> 't world \<times> session_pool \<Rightarrow> 't world \<times> session_pool" where
  "ask e 0 s = s"
| "ask e (Suc n) s = ask e n (snd (GetSession e no_cancel s))"

definition open_always_fails :: "'t env \<Rightarrow> bool" where
  "open_always_fails e \<longleftrightarrow> (\<forall>slot fl t. \<exists>err t'. ck_OpenSession (pkcs11 e) slot fl t = (Inl err, t'))"

lemma createSession_fails:
  assumes "open_always_fails e"
  shows "\<exists>err. fst (createSession e slot pin w) = Err err"
proof -
  obtain err t' where "ck_OpenSession (pkcs11 e) slot CKF_SERIAL_RW (w_tok w) = (Inl err, t')"
    using assms unfolding open_always_fails_def by blast
  then show ?thesis by (simp add: createSession_def wrapErr_def catchM_def bindM_def ckM_def run_basic)
qed

lemma ask_leaks:
  assumes "open_always_fails e" and "sp_initialized p" and "sp_sessions p = []"
  shows "\<exists>w'. ask e n (w, p) = (w', p\<lparr>sp_permits := sp_permits p - n\<rparr>)"
  using assms(2,3)
proof (induction n arbitrary: w p)
  case 0
  then show ?case by simp
next
  case (Suc n)
  have step: "\<exists>u. snd (GetSession e no_cancel (w, p)) = (u, p\<lparr>sp_permits := sp_permits p - 1\<rparr>)"
    using Suc.prems by (auto simp: GetSession_eq no_cancel_def)
  then obtain u where "snd (GetSession e no_cancel (w, p)) = (u, p\<lparr>sp_permits := sp_permits p - 1\<rparr>)" by blast
  then show ?case using Suc.IH [of "p\<lparr>sp_permits := sp_permits p - 1\<rparr>" u] Suc.prems by simp
qed

section \<open>Properties\<close>

text \<open>
  C29. In any sequence of \<^verbatim>\<open>GetOrInitPKCS11Context\<close> (with any paths) and
  \<^verbatim>\<open>FinalizePKCS11Context\<close> calls from the start of the process the library is initialised at
  most once, and a context that is handed out was initialised without an error under the
  requested path.
\<close>

theorem pkcs11_initialised_at_most_once:
  assumes "counts_inits count e" and "ctx_reach e (fresh_world tok) w"
  shows "count (w_tok w) \<le> count tok + 1
    \<and> (\<forall>path w'. GetOrInitPKCS11Context e path w = (Ok True, w') \<longrightarrow>
         w_shared w' \<and> w_libpath w' = path \<and> w_initerr w' = None \<and> count (w_tok w') \<le> count tok + 1)"
proof (intro conjI allI impI)
  have reach: "count (w_tok v) \<le> count tok + 1" if "ctx_reach e (fresh_world tok) v" for v
    using ctx_reach_count [OF assms(1) that]
    by (simp add: fresh_world_def split: if_split_asm)
  show "count (w_tok w) \<le> count tok + 1" using assms(2) by (rule reach)
  fix path w'
  assume get: "GetOrInitPKCS11Context e path w = (Ok True, w')"
  then have "w' = ctx_do e (OpGet path) w" by (simp add: ctx_do_def)
  then have "ctx_reach e (fresh_world tok) w'" using assms(2) by (simp add: ctx_step)
  then show "count (w_tok w') \<le> count tok + 1" by (rule reach)
  show "w_shared w'" "w_libpath w' = path" "w_initerr w' = None" using GetOrInit_Ok [OF get] by auto
qed

theorem pkcs11_initialised_at_most_once_witness:
  "\<exists>w. ctx_reach (sample_env\<lparr>pkcs11 := sample_ck\<lparr>ck_Initialize := (\<lambda>t. (Inr (), t\<lparr>sa_next := Suc (sa_next t)\<rparr>)),
        ck_Finalize := (\<lambda>t. (Inr (), t))\<rparr>\<rparr>) (fresh_world sample_token) w
     \<and> sa_next sample_token = 1 \<and> sa_next (w_tok w) \<le> 2"
proof -
  let ?e = "sample_env\<lparr>pkcs11 := sample_ck\<lparr>ck_Initialize := (\<lambda>t. (Inr (), t\<lparr>sa_next := Suc (sa_next t)\<rparr>)),
        ck_Finalize := (\<lambda>t. (Inr (), t))\<rparr>\<rparr>"
  let ?w = "ctx_do ?e (OpGet ''/b'') (ctx_do ?e OpFinalize (ctx_do ?e (OpGet ''/a'') (fresh_world sample_token)))"
  have c: "counts_inits sa_next ?e" by (simp add: counts_inits_def sample_ck_def)
  have r: "ctx_reach ?e (fresh_world sample_token) ?w" by (intro ctx_step ctx_start)
  have "sa_next (w_tok ?w) \<le> sa_next sample_token + 1"
    using pkcs11_initialised_at_most_once [OF c r] by blast
  then show ?thesis using r by (intro exI [of _ ?w]) (simp add: sample_token_def)
qed

text \<open>
  After a successful \<^verbatim>\<open>FinalizePKCS11Context\<close> the accessor no longer fails but returns a nil
  context with a nil error, for every path and forever, so that the next call of a method on it
  panics.
\<close>

theorem finalized_context_is_nil_without_error:
  assumes "GetOrInitPKCS11Context e path w = (Ok True, w1)" and "FinalizePKCS11Context e w1 = (Ok (), w2)"
  shows "GetOrInitPKCS11Context e other w2 = (Ok False, w2)
    \<and> (\<exists>p. GetFreshSlotList e other w2 = (Panic p, w2))"
proof -
  have "w_once w2" "w_initerr w2 = None" "\<not> w_shared w2"
    using GetOrInit_Ok [OF assms(1)] Finalize_effect [OF assms(2)] by auto
  then have "GetOrInitPKCS11Context e other w2 = (Ok False, w2)" by (simp add: GetOrInit_eq Let_def)
  then show ?thesis by (simp add: GetFreshSlotList_def bindM_def wrapErr_def catchM_def ckM_def)
qed

theorem finalized_context_is_nil_without_error_witness:
  "\<exists>w1 w2. GetOrInitPKCS11Context sample_env ''/lib'' (fresh_world sample_token) = (Ok True, w1)
     \<and> FinalizePKCS11Context sample_env w1 = (Ok (), w2)
     \<and> GetOrInitPKCS11Context sample_env ''/lib'' w2 = (Ok False, w2)"
proof -
  obtain w1 where w1: "GetOrInitPKCS11Context sample_env ''/lib'' (fresh_world sample_token) = (Ok True, w1)"
    and sh: "w_shared w1"
    by (simp add: GetOrInit_eq after_init_def once_init_def bindM_def tryM_def ckM_def ck0M_def run_basic
        fresh_world_def sample_ck_def Let_def)
  obtain w2 where w2: "FinalizePKCS11Context sample_env w1 = (Ok (), w2)"
    using sh by (simp add: Finalize_eq sample_ck_def)
  show ?thesis using finalized_context_is_nil_without_error [OF w1 w2, of "''/lib''"] w1 w2 by blast
qed

text \<open>
  C40. \<^verbatim>\<open>GetSession\<close> keeps the permit it acquired when the session cannot be created: while
  opening fails, every call loses one permit for good, and once they are gone every further call
  fails at the semaphore although no session is in use, also after the token has recovered.
\<close>

theorem session_pool_leaks_permits:
  assumes "open_always_fails e" and "sp_initialized p" and "sp_sessions p = []"
  shows "sp_permits (snd (ask e n (w, p))) = sp_permits p - n
    \<and> (sp_permits p \<le> n \<longrightarrow>
         fst (GetSession healthy no_cancel (ask e n (w, p))) =
           Err (errorf_w ''failed to acquire semaphore: '' (PlainErr ''context deadline exceeded'')))"
proof -
  obtain w' where "ask e n (w, p) = (w', p\<lparr>sp_permits := sp_permits p - n\<rparr>)"
    using ask_leaks [OF assms] by blast
  then show ?thesis using assms(2) by (simp add: GetSession_eq no_cancel_def)
qed

theorem session_pool_leaks_permits_witness:
  "fst (GetSession sample_env no_cancel
      (ask (sample_env\<lparr>pkcs11 := sample_ck\<lparr>ck_OpenSession := (\<lambda>s f t. (Inl (CkErr 5 ''CKR_GENERAL_ERROR''), t))\<rparr>\<rparr>) 2
        (fresh_world sample_token, \<lparr>sp_slotID = 7, sp_pin = ''1234'', sp_sessions = [], sp_permits = 2,
           sp_maxSessions = 2, sp_initialized = True\<rparr>))) =
     Err (errorf_w ''failed to acquire semaphore: '' (PlainErr ''context deadline exceeded''))"
proof -
  let ?p = "\<lparr>sp_slotID = 7, sp_pin = ''1234'', sp_sessions = [], sp_permits = 2,
     sp_maxSessions = 2, sp_initialized = True\<rparr>"
  let ?e = "sample_env\<lparr>pkcs11 := sample_ck\<lparr>ck_OpenSession := (\<lambda>s f t. (Inl (CkErr 5 ''CKR_GENERAL_ERROR''), t))\<rparr>\<rparr>"
  have "open_always_fails ?e" by (simp add: open_always_fails_def)
  from session_pool_leaks_permits [OF this, of ?p 2 "fresh_world sample_token" sample_env]
  show ?thesis by simp
qed

end
