(* ===== verification/Go_Der.thy ===== *)
theory Go_Der
  imports Go_Crypto
begin

text \<open>
  What \<^verbatim>\<open>client_export.go\<close> uses of Go's \<^verbatim>\<open>encoding/asn1\<close>, \<^verbatim>\<open>math/big\<close>,
  \<^verbatim>\<open>crypto/elliptic\<close> and \<^verbatim>\<open>crypto/x509\<close>: DER lengths, integers and object identifiers, the
  curve equations of P-256, P-384 and P-521, and \<^verbatim>\<open>MarshalPKIXPublicKey\<close> for RSA and ECDSA
  keys. The texts of the package's parse errors are not told apart.
\<close>

section \<open>Big-endian numbers\<close>

definition nat_of_bytes :: "bytes \<Rightarrow> nat" where
  "nat_of_bytes bs = foldl (\<lambda>a b. a * 256 + unat b) 0 bs"

text \<open>\<^verbatim>\<open>big.Int.Bytes\<close>: no leading zero, nothing for zero.\<close>

fun be_bytes :: "nat \<Rightarrow> bytes" where
  "be_bytes n = (if n = 0 then [] else be_bytes (n div 256) @ [of_nat (n mod 256)])"

declare be_bytes.simps [simp del]

text \<open>A number in exactly \<open>k\<close> bytes.\<close>

definition fill_bytes :: "nat \<Rightarrow> nat \<Rightarrow> bytes" where
  "fill_bytes k n = map (\<lambda>i. of_nat (n div 256 ^ (k - 1 - i) mod 256)) [0..<k]"

section \<open>DER\<close>

definition der_length :: "nat \<Rightarrow> bytes" where
  "der_length n = (if n < 128 then [of_nat n] else of_nat (128 + length (be_bytes n)) # be_bytes n)"

definition der_tlv :: "byte \<Rightarrow> bytes \<Rightarrow> bytes" where
  "der_tlv tag content = tag # der_length (length content) @ content"

text \<open>Two's complement, as short as possible.\<close>

definition der_int_content :: "int \<Rightarrow> bytes" where
  "der_int_content i =
     (let pad = (\<lambda>b. if b = [] \<or> bit (hd b) 7 then 0 # b else b)
      in if 0 \<le> i then pad (be_bytes (nat i)) else map not (pad (be_bytes (nat (- i - 1)))))"

definition der_integer :: "int \<Rightarrow> bytes" where
  "der_integer i = der_tlv 0x02 (der_int_content i)"

definition der_sequence :: "bytes list \<Rightarrow> bytes" where
  "der_sequence parts = der_tlv 0x30 (concat parts)"

definition der_bit_string :: "bytes \<Rightarrow> bytes" where
  "der_bit_string b = der_tlv 0x03 (0 # b)"

definition der_null :: bytes where
  "der_null = [0x05, 0x00]"

fun base128 :: "nat \<Rightarrow> bytes" where
  "base128 n = (if n < 128 then [of_nat n]
     else map (\<lambda>b. b OR 128) (base128 (n div 128)) @ [of_nat (n mod 128)])"

declare base128.simps [simp del]

fun der_oid :: "nat list \<Rightarrow> bytes" where
  "der_oid (a # b # rest) = der_tlv 0x06 (base128 (a * 40 + b) @ concat (map base128 rest))"
| "der_oid _ = []"

text \<open>The length field: definite form, minimal, at most four length bytes.\<close>

definition parse_length :: "bytes \<Rightarrow> (nat \<times> bytes) option" where
  "parse_length bs =
     (case bs of
        [] \<Rightarrow> None
      | b # rest \<Rightarrow>
          if \<not> bit b 7 then Some (unat b, rest)
          else let k = unat (b AND 0x7F) in
            if k = 0 \<or> 4 < k \<or> length rest < k then None
            else let n = nat_of_bytes (take k rest) in
              if hd rest = 0 \<or> n < 128 \<or> 2 ^ 31 \<le> n then None else Some (n, drop k rest))"

text \<open>One element with the given tag: its content and the bytes after it.\<close>

definition parse_tlv :: "byte \<Rightarrow> bytes \<Rightarrow> (bytes \<times> bytes) option" where
  "parse_tlv tag bs =
     (case bs of
        [] \<Rightarrow> None
      | t # rest \<Rightarrow>
          if t \<noteq> tag then None
          else case parse_length rest of
            None \<Rightarrow> None
          | Some (n, body) \<Rightarrow> if length body < n then None else Some (take n body, drop n body))"

text \<open>Base-128 numbers: minimal, at most five bytes, below $2^{31}$.\<close>

fun parse_base128 :: "nat \<Rightarrow> nat \<Rightarrow> bytes \<Rightarrow> (nat \<times> bytes) option" where
  "parse_base128 k acc [] = None"
| "parse_base128 k acc (b # bs) =
     (if k = 5 \<or> (k = 0 \<and> b = 0x80) then None
      else let acc' = acc * 128 + unat (b AND 0x7F) in
        if bit b 7 then parse_base128 (Suc k) acc' bs
        else if 2 ^ 31 \<le> acc' then None else Some (acc', bs))"

lemma parse_base128_shorter:
  "parse_base128 k acc bs = Some (n, rest) \<Longrightarrow> length rest < length bs"
  by (induction k acc bs rule: parse_base128.induct) (auto simp: Let_def split: if_splits)

function parse_arcs :: "bytes \<Rightarrow> nat list option" where
  "parse_arcs bs =
     (if bs = [] then Some []
      else case parse_base128 0 0 bs of
        None \<Rightarrow> None
      | Some (n, rest) \<Rightarrow> map_option (Cons n) (parse_arcs rest))"
  by pat_completeness auto
termination by (relation "measure length") (auto dest: parse_base128_shorter)

declare parse_arcs.simps [simp del]

text \<open>\<^verbatim>\<open>asn1.Unmarshal(b, &oid)\<close> with the trailing bytes ignored.\<close>

definition parse_oid :: "bytes \<Rightarrow> nat list option" where
  "parse_oid bs =
     (case parse_tlv 0x06 bs of
        None \<Rightarrow> None
      | Some (content, _) \<Rightarrow>
          if content = [] then None
          else case parse_arcs content of
            Some (v # rest) \<Rightarrow> Some (if v < 80 then v div 40 # v mod 40 # rest else 2 # (v - 80) # rest)
          | _ \<Rightarrow> None)"

definition oid_text :: "nat list \<Rightarrow> string" where
  "oid_text oid = join_char (CHR ''.'') (map dec oid)"

section \<open>Elliptic curves\<close>

record ec_curve =
  cu_p :: nat
  cu_b :: nat
  cu_bits :: nat
  cu_oid :: "nat list"

definition P256 :: ec_curve where
  "P256 = \<lparr>cu_p = 0xffffffff00000001000000000000000000000000ffffffffffffffffffffffff,
     cu_b = 0x5ac635d8aa3a93e7b3ebbd55769886bc651d06b0cc53b0f63bce3c3e27d2604b,
     cu_bits = 256, cu_oid = [1, 2, 840, 10045, 3, 1, 7]\<rparr>"

definition P384 :: ec_curve where
  "P384 = \<lparr>cu_p = 2 ^ 384 - 2 ^ 128 - 2 ^ 96 + 2 ^ 32 - 1,
     cu_b = 0xb3312fa7e23ee7e4988e056be3f82d19181d9c6efe8141120314088f5013875ac656398d8a2ed19d2a85c8edd3ec2aef,
     cu_bits = 384, cu_oid = [1, 3, 132, 0, 34]\<rparr>"

definition P521 :: ec_curve where
  "P521 = \<lparr>cu_p = 2 ^ 521 - 1,
     cu_b = 0x0051953eb9618e1c9a1f929a21a0b68540eea2da725b99b315f3b8b489918ef109e156193951ec7e937b1652c0bd3bb1bf073573df883d2c34f1ef451fd46b503f00,
     cu_bits = 521, cu_oid = [1, 3, 132, 0, 35]\<rparr>"

definition IsOnCurve :: "ec_curve \<Rightarrow> nat \<Rightarrow> nat \<Rightarrow> bool" where
  "IsOnCurve c x y = (x < cu_p c \<and> y < cu_p c \<and>
     (y * y + 3 * x) mod cu_p c = (x * x * x + cu_b c) mod cu_p c)"

section \<open>x509.MarshalPKIXPublicKey\<close>

definition pkix :: "bytes \<Rightarrow> bytes \<Rightarrow> bytes \<Rightarrow> bytes" where
  "pkix algorithm parameters key =
     der_sequence [der_sequence [algorithm, parameters], der_bit_string key]"

definition MarshalPKIX_RSA :: "nat \<Rightarrow> int \<Rightarrow> bytes" where
  "MarshalPKIX_RSA n e =
     pkix (der_oid [1, 2, 840, 113549, 1, 1, 1]) der_null
       (der_sequence [der_integer (int n), der_integer e])"

definition uncompressed_point :: "ec_curve \<Rightarrow> nat \<Rightarrow> nat \<Rightarrow> bytes" where
  "uncompressed_point c x y =
     (let k = (cu_bits c + 7) div 8 in 0x04 # fill_bytes k x @ fill_bytes k y)"

text \<open>\<open>None\<close> is the error for a point off the curve.\<close>

definition MarshalPKIX_ECDSA :: "ec_curve \<Rightarrow> nat \<Rightarrow> nat \<Rightarrow> bytes option" where
  "MarshalPKIX_ECDSA c x y =
     (if IsOnCurve c x y
      then Some (pkix (der_oid [1, 2, 840, 10045, 2, 1]) (der_oid (cu_oid c)) (uncompressed_point c x y))
      else None)"

section \<open>Facts\<close>

lemma parse_length_der_length_short:
  "n < 128 \<Longrightarrow> parse_length (der_length n @ rest) = Some (n, rest)"
proof -
  assume n: "n < 128"
  then have u: "unat (of_nat n :: byte) = n" by (simp add: unsigned_of_nat take_bit_nat_eq_self)
  have "bit (of_nat n :: byte) 7 \<longleftrightarrow> bit (unat (of_nat n :: byte)) 7" by (simp add: bit_unsigned_iff)
  then have "\<not> bit (of_nat n :: byte) 7" using n by (simp add: u bit_iff_odd)
  then show ?thesis using n u by (simp add: parse_length_def der_length_def)
qed

lemma parse_tlv_der_tlv:
  "length content < 128 \<Longrightarrow> parse_tlv tag (der_tlv tag content @ rest) = Some (content, rest)"
  using parse_length_der_length_short [of "length content" "content @ rest"]
  by (simp add: parse_tlv_def der_tlv_def)

lemma length_fill_bytes [simp]: "length (fill_bytes k n) = k"
  by (simp add: fill_bytes_def)

end
