(* ===== verification/Hsm_Client.thy ===== *)
theory Hsm_Client
  imports Pkcs11 Go_Der
begin

text \<open>
  \<^verbatim>\<open>SoftHSMClient\<close>: \<^verbatim>\<open>client.go\<close>, \<^verbatim>\<open>client_helpers.go\<close>, \<^verbatim>\<open>client_crypto.go\<close>,
  \<^verbatim>\<open>client_export.go\<close>, \<^verbatim>\<open>client_inventory.go\<close> and \<^verbatim>\<open>client_keygen.go\<close>. A method takes the
  client as it is when the method is called; a client's context is never nil, since it was used
  to make the client. The mutex orders whole calls and has no counterpart; log output neither.
\<close>

section \<open>client\_helpers.go\<close>

definition hsmClosedMsg :: string where "hsmClosedMsg = ''HSM client is closed''"

definition quoted :: "string \<Rightarrow> string" where
  "quoted s = CHR 0x27 # s @ [CHR 0x27]"

abbreviation (input) ckc :: "('t, 'a) ck_call \<Rightarrow> ('t, 'a) wprog" where
  "ckc \<equiv> ckM True"

text \<open>\<^verbatim>\<open>FindObjectsInit\<close>, then \<^verbatim>\<open>body\<close> with \<^verbatim>\<open>FindObjectsFinal\<close> deferred.\<close>

definition searching :: "'t env \<Rightarrow> hsm_client \<Rightarrow> string \<Rightarrow> template \<Rightarrow> ('t, 'a) wprog \<Rightarrow> ('t, 'a) wprog" where
  "searching e c initMsg tm body =
     bindM (wrapErr (errorf_w initMsg) (ckc (ck_FindObjectsInit (pkcs11 e) (cl_session c) tm))) (\<lambda>_.
     deferM (\<lambda>r w. snd (dropErr (ckc (ck_FindObjectsFinal (pkcs11 e) (cl_session c))) w)) body)"

definition findByLabel :: "'t env \<Rightarrow> hsm_client \<Rightarrow> nat \<Rightarrow> string \<Rightarrow> string \<Rightarrow> ('t, handle) wprog" where
  "findByLabel e c cls kind label =
     searching e c ''failed to initialize object search: ''
       [(CKA_CLASS, AVUlong cls), (CKA_LABEL, AVStr label)]
       (bindM (wrapErr (errorf_w ''failed to find objects: '')
          (ckc (ck_FindObjects (pkcs11 e) (cl_session c) 1))) (\<lambda>objects.
        if objects = []
        then throw (PlainErr (kind @ '' key with label '' @ quoted label @ '' not found in HSM''))
        else ret (hd objects)))"

definition findPrivateKeyByLabel :: "'t env \<Rightarrow> hsm_client \<Rightarrow> string \<Rightarrow> ('t, handle) wprog" where
  "findPrivateKeyByLabel e c label = findByLabel e c CKO_PRIVATE_KEY ''private'' label"

definition findPublicKeyByLabel :: "'t env \<Rightarrow> hsm_client \<Rightarrow> string \<Rightarrow> ('t, handle) wprog" where
  "findPublicKeyByLabel e c label = findByLabel e c CKO_PUBLIC_KEY ''public'' label"

definition errToString :: "go_error option \<Rightarrow> string" where
  "errToString err = (case err of None \<Rightarrow> '''' | Some x \<Rightarrow> error_text x)"

text \<open>\<open>quote\<close> is \<^verbatim>\<open>strconv.Quote\<close>, which the error of \<^verbatim>\<open>ParseUint\<close> uses. No caller is left: keys are found by label.\<close>

definition parseKeyHandle :: "(string \<Rightarrow> string) \<Rightarrow> string \<Rightarrow> go_error + handle" where
  "parseKeyHandle quote keyHandle =
     (case parse_uint64 keyHandle of
        Some handle \<Rightarrow> Inr handle
      | None \<Rightarrow> Inl (errorf_w ''invalid key handle: '' (PlainErr (''strconv.ParseUint: parsing '' @ quote keyHandle @ '': '' @
          (case parse_base 10 (takeWhile (\<lambda>c. parse_base 10 [c] \<noteq> None) keyHandle) of
             Some n \<Rightarrow> if 2 ^ 64 \<le> n then ''value out of range'' else ''invalid syntax''
           | None \<Rightarrow> ''invalid syntax'')))))"

definition mapKeyType :: "byte \<Rightarrow> key_type" where
  "mapKeyType b = (if unat b = CKK_RSA then KeyTypeRSA
     else if unat b = CKK_EC then KeyTypeECDSA else KeyTypeUnknown)"

section \<open>client.go\<close>

definition NewSoftHSMClient ::
  "'t env \<Rightarrow> string \<Rightarrow> string \<Rightarrow> u64 \<Rightarrow> bool \<Rightarrow> ('t, hsm_client) wprog" where
  "NewSoftHSMClient e modulePath pin slot audit =
     bindM (wrapErr (errorf_w ''failed to get PKCS#11 context: '')
       (GetOrInitPKCS11Context e modulePath)) (\<lambda>ctx.
     bindM (wrapErr (\<lambda>err. PlainErr (''failed to get slots: '' @ error_text err))
       (ckM ctx (ck_GetSlotList (pkcs11 e) False))) (\<lambda>slots.
     if slots = [] then throw (PlainErr ''no PKCS#11 slots available'')
     else
     bindM (wrapErr (errorf_w (''failed to open session on slot '' @ dec (unat slot) @ '': ''))
       (ckM ctx (ck_OpenSession (pkcs11 e) slot CKF_SERIAL_RW))) (\<lambda>session.
     bindM (catchM (ckM ctx (ck_GetSessionState (pkcs11 e) session)) (\<lambda>err.
       bindM (dropErr (ckM ctx (ck_CloseSession (pkcs11 e) session))) (\<lambda>_.
       throw (errorf_w (''failed to get session info for slot '' @ dec (unat slot) @ '': '') err)))) (\<lambda>state.
     bindM (if state \<noteq> CKS_RO_USER_FUNCTIONS \<and> state \<noteq> CKS_RW_USER_FUNCTIONS
            then catchM (ckM ctx (ck_Login (pkcs11 e) session CKU_USER pin)) (\<lambda>err.
              if is_ck_error CKR_USER_ALREADY_LOGGED_IN err then ret ()
              else bindM (dropErr (ckM ctx (ck_CloseSession (pkcs11 e) session))) (\<lambda>_.
                   throw (errorf_w (''failed to login to slot '' @ dec (unat slot) @ '': '') err)))
            else ret ()) (\<lambda>_.
     ret \<lparr>cl_session = session, cl_audit = audit, cl_closed = False\<rparr>)))))"

definition client_audit :: "string \<Rightarrow> string \<Rightarrow> details \<Rightarrow> (go_error, 'a) outcome \<Rightarrow> int \<Rightarrow> audit_data" where
  "client_audit operation actor metadata r d =
     (op_audit ''soft-hsm-client'' operation actor '''' metadata (outcome_error r) d)
       \<lparr>ad_ErrMsg := errToString (outcome_error r)\<rparr>"

definition Client_HealthCheck :: "'t env \<Rightarrow> hsm_client \<Rightarrow> gctx \<Rightarrow> ('t, unit) wprog" where
  "Client_HealthCheck e c ctx =
     (if cl_closed c then throw (PlainErr hsmClosedMsg)
      else audited e (cl_audit c) ctx None (client_audit ''HEALTH_CHECK'' ''EXTERNAL'' [])
        (bindM (ckc (ck_GetSessionState (pkcs11 e) (cl_session c))) (\<lambda>_. ret ())))"

text \<open>Closing gives the closed client back; what \<^verbatim>\<open>Logout\<close> and \<^verbatim>\<open>CloseSession\<close> report is ignored.\<close>

definition Client_Close :: "'t env \<Rightarrow> hsm_client \<Rightarrow> ('t, hsm_client) wprog" where
  "Client_Close e c =
     (if cl_closed c then ret c
      else bindM (dropErr (ckc (ck_Logout (pkcs11 e) (cl_session c)))) (\<lambda>_.
           bindM (dropErr (ckc (ck_CloseSession (pkcs11 e) (cl_session c)))) (\<lambda>_.
           ret (c\<lparr>cl_closed := True\<rparr>))))"

section \<open>client\_crypto.go\<close>

definition not_found_msg :: "string \<Rightarrow> string" where
  "not_found_msg label = ''failed to find key with label '' @ quoted label @ '': ''"

definition hsm_tenantIDKey :: ctx_key where
  "hsm_tenantIDKey = (''hsm.contextKey'', ''tenant_id'')"

definition Client_SignHash ::
  "'t env \<Rightarrow> hsm_client \<Rightarrow> gctx \<Rightarrow> string \<Rightarrow> bytes \<Rightarrow> identity_context \<Rightarrow> ('t, bytes) wprog" where
  "Client_SignHash e c ctx keyHandle hash identity =
     audited e (cl_audit c) (WithValue ctx hsm_tenantIDKey (CStr (id_TenantID identity))) None
       (client_audit ''SIGN_HASH'' ''SERVICE''
         [(''handle'', DStr keyHandle), (''hash_length'', DInt (int (length hash)))])
       (bindM (wrapErr (errorf_w (not_found_msg keyHandle)) (findPrivateKeyByLabel e c keyHandle)) (\<lambda>handle.
        if cl_closed c then throw (PlainErr hsmClosedMsg)
        else
        bindM (wrapErr (errorf_w (''key with label '' @ quoted keyHandle @ '' not accessible: ''))
          (ckc (ck_GetAttributeValue (pkcs11 e) (cl_session c) handle [CKA_CLASS]))) (\<lambda>_.
        bindM (wrapErr (errorf_w ''failed to initialize signing operation: '')
          (ckc (ck_SignInit (pkcs11 e) (cl_session c) CKM_SHA256_RSA_PKCS handle))) (\<lambda>_.
        wrapErr (errorf_w ''failed to sign: '')
          (ckc (ck_Sign (pkcs11 e) (cl_session c) hash))))))"

definition outcome_bool :: "(go_error, bool) outcome \<Rightarrow> bool" where
  "outcome_bool r = (case r of Ok b \<Rightarrow> b | _ \<Rightarrow> False)"

definition verify_with :: "'t env \<Rightarrow> hsm_client \<Rightarrow> string \<Rightarrow> bytes \<Rightarrow> bytes \<Rightarrow> handle \<Rightarrow> ('t, bool) wprog" where
  "verify_with e c keyHandle hash signature handle =
     (if cl_closed c then throw (PlainErr hsmClosedMsg)
      else
      bindM (wrapErr (errorf_w (''public key with label '' @ quoted keyHandle @ '' not accessible: ''))
        (ckc (ck_GetAttributeValue (pkcs11 e) (cl_session c) handle [CKA_CLASS]))) (\<lambda>_.
      bindM (wrapErr (errorf_w ''failed to initialize verification operation: '')
        (ckc (ck_VerifyInit (pkcs11 e) (cl_session c) CKM_SHA256_RSA_PKCS handle))) (\<lambda>_.
      tryM (ckc (ck_Verify (pkcs11 e) (cl_session c) hash signature))
        (\<lambda>err. if is_ck_error CKR_SIGNATURE_INVALID err then ret False
               else throw (errorf_w ''failed to verify signature: '' err))
        (\<lambda>_. ret True))))"

definition Client_VerifySignature ::
  "'t env \<Rightarrow> hsm_client \<Rightarrow> gctx \<Rightarrow> string \<Rightarrow> bytes \<Rightarrow> bytes \<Rightarrow> ('t, bool) wprog" where
  "Client_VerifySignature e c ctx keyHandle hash signature =
     audited e (cl_audit c) ctx None
       (\<lambda>r. client_audit ''VERIFY_SIGNATURE'' ''SERVICE''
         [(''handle'', DStr keyHandle), (''hash_length'', DInt (int (length hash))),
          (''signature_length'', DInt (int (length signature))), (''is_valid'', DBool (outcome_bool r))] r)
       (bindM (wrapErr (errorf_w (not_found_msg keyHandle)) (findPublicKeyByLabel e c keyHandle))
         (verify_with e c keyHandle hash signature))"

definition Client_Encrypt :: "'t env \<Rightarrow> hsm_client \<Rightarrow> string \<Rightarrow> bytes \<Rightarrow> ('t, bytes) wprog" where
  "Client_Encrypt e c keyHandle plaintext =
     bindM (wrapErr (errorf_w (not_found_msg keyHandle)) (findPublicKeyByLabel e c keyHandle)) (\<lambda>handle.
     if cl_closed c then throw (PlainErr hsmClosedMsg)
     else
     bindM (wrapErr (errorf_w ''failed to initialize encryption: '')
       (ckc (ck_EncryptInit (pkcs11 e) (cl_session c) CKM_RSA_PKCS handle))) (\<lambda>_.
     wrapErr (errorf_w ''failed to encrypt: '') (ckc (ck_Encrypt (pkcs11 e) (cl_session c) plaintext))))"

definition Client_Decrypt :: "'t env \<Rightarrow> hsm_client \<Rightarrow> string \<Rightarrow> bytes \<Rightarrow> ('t, bytes) wprog" where
  "Client_Decrypt e c keyHandle ciphertext =
     bindM (wrapErr (errorf_w (not_found_msg keyHandle)) (findPrivateKeyByLabel e c keyHandle)) (\<lambda>handle.
     if cl_closed c then throw (PlainErr hsmClosedMsg)
     else
     bindM (wrapErr (errorf_w ''failed to initialize decryption: '')
       (ckc (ck_DecryptInit (pkcs11 e) (cl_session c) CKM_RSA_PKCS handle))) (\<lambda>_.
     wrapErr (errorf_w ''failed to decrypt: '') (ckc (ck_Decrypt (pkcs11 e) (cl_session c) ciphertext))))"

section \<open>client\_export.go\<close>

text \<open>The value of the last returned attribute of a type; empty when there is none.\<close>

definition attr_bytes :: "nat \<Rightarrow> (nat \<times> bytes) list \<Rightarrow> bytes" where
  "attr_bytes k attrs = (case map_of (rev attrs) k of None \<Rightarrow> [] | Some v \<Rightarrow> v)"

definition exportRSAPublicKey :: "'t env \<Rightarrow> hsm_client \<Rightarrow> handle \<Rightarrow> ('t, bytes) wprog" where
  "exportRSAPublicKey e c h =
     bindM (wrapErr (errorf_w ''failed to get RSA attributes: '')
       (ckc (ck_GetAttributeValue (pkcs11 e) (cl_session c) h [CKA_MODULUS, CKA_PUBLIC_EXPONENT]))) (\<lambda>attrs.
     let modulusBytes = attr_bytes CKA_MODULUS attrs;
         exponentBytes = attr_bytes CKA_PUBLIC_EXPONENT attrs
     in if modulusBytes = [] \<or> exponentBytes = [] then throw (PlainErr ''RSA attributes missing'')
        else ret (MarshalPKIX_RSA (nat_of_bytes modulusBytes)
                    (sint (of_nat (nat_of_bytes exponentBytes) :: u64))))"

definition asn1_error :: go_error where
  "asn1_error = PlainErr ''asn1: structure error''"

definition curve_of_oid :: "nat list \<Rightarrow> ec_curve option" where
  "curve_of_oid oid = List.find (\<lambda>c. cu_oid c = oid) [P256, P384, P521]"

definition unwrap_point :: "bytes \<Rightarrow> bytes" where
  "unwrap_point ecPoint =
     (case parse_tlv 0x04 ecPoint of Some (raw, []) \<Rightarrow> raw | _ \<Rightarrow> ecPoint)"

definition ec_public_key :: "bytes \<Rightarrow> bytes \<Rightarrow> go_error + bytes" where
  "ec_public_key ecPoint ecParams =
     (let rawPoint = unwrap_point ecPoint in
      case parse_oid ecParams of
        None \<Rightarrow> Inl (errorf_w ''failed to unmarshal EC params: '' asn1_error)
      | Some oid \<Rightarrow>
          (case curve_of_oid oid of
             None \<Rightarrow> Inl (PlainErr (''unsupported EC curve OID: '' @ oid_text oid))
           | Some curve \<Rightarrow>
               if rawPoint = [] \<or> hd rawPoint \<noteq> 0x04 then Inl (PlainErr ''unexpected EC point format'')
               else let coordLen = (length rawPoint - 1) div 2;
                        x = nat_of_bytes (take coordLen (drop 1 rawPoint));
                        y = nat_of_bytes (drop (1 + coordLen) rawPoint)
                    in case MarshalPKIX_ECDSA curve x y of
                         None \<Rightarrow> Inl (PlainErr ''x509: invalid elliptic curve public key'')
                       | Some der \<Rightarrow> Inr der))"

definition exportECPublicKey :: "'t env \<Rightarrow> hsm_client \<Rightarrow> handle \<Rightarrow> ('t, bytes) wprog" where
  "exportECPublicKey e c h =
     bindM (wrapErr (errorf_w ''failed to get EC attributes: '')
       (ckc (ck_GetAttributeValue (pkcs11 e) (cl_session c) h [CKA_EC_POINT, CKA_EC_PARAMS]))) (\<lambda>attrs.
     let ecPoint = attr_bytes CKA_EC_POINT attrs; ecParams = attr_bytes CKA_EC_PARAMS attrs
     in if ecPoint = [] \<or> ecParams = [] then throw (PlainErr ''EC attributes missing'')
        else liftSum (ec_public_key ecPoint ecParams))"

definition exportPublicKey :: "'t env \<Rightarrow> hsm_client \<Rightarrow> handle \<Rightarrow> ('t, bytes) wprog" where
  "exportPublicKey e c h =
     bindM (wrapErr (errorf_w ''failed to get key type: '')
       (ckc (ck_GetAttributeValue (pkcs11 e) (cl_session c) h [CKA_KEY_TYPE]))) (\<lambda>attrs.
     if attrs = [] \<or> snd (hd attrs) = [] then throw (PlainErr ''cannot determine key type'')
     else if unat (hd (snd (hd attrs))) = CKK_RSA then exportRSAPublicKey e c h
     else if unat (hd (snd (hd attrs))) = CKK_EC then exportECPublicKey e c h
     else throw (PlainErr ''unsupported key type''))"

section \<open>client\_inventory.go\<close>

definition first_nonempty :: "(nat \<times> bytes) list \<Rightarrow> bytes option" where
  "first_nonempty attrs = map_option snd (List.find (\<lambda>a. snd a \<noteq> []) attrs)"

text \<open>Neither this method nor \<^verbatim>\<open>ListKeys\<close> looks at the closed flag.\<close>

definition Client_GetPublicKey :: "'t env \<Rightarrow> hsm_client \<Rightarrow> gctx \<Rightarrow> string \<Rightarrow> ('t, bytes) wprog" where
  "Client_GetPublicKey e c ctx keyHandle =
     audited e (cl_audit c) ctx None (client_audit ''GET_PUBLIC_KEY'' ''SERVICE'' [])
       (bindM (wrapErr (errorf_w (''failed to find public key with label '' @ quoted keyHandle @ '': ''))
          (findPublicKeyByLabel e c keyHandle)) (\<lambda>handle.
        bindM (wrapErr (errorf_w ''failed to get public key attributes: '')
          (ckc (ck_GetAttributeValue (pkcs11 e) (cl_session c) handle [CKA_MODULUS, CKA_EC_POINT]))) (\<lambda>attrs.
        case first_nonempty attrs of
          None \<Rightarrow> throw (PlainErr ''public key not found'')
        | Some v \<Rightarrow> ret v)))"

definition Client_DeleteKey :: "'t env \<Rightarrow> hsm_client \<Rightarrow> gctx \<Rightarrow> string \<Rightarrow> ('t, unit) wprog" where
  "Client_DeleteKey e c ctx keyHandle =
     audited e (cl_audit c) ctx None (client_audit ''DELETE_KEY'' ''SERVICE'' [])
       (bindM (catchM (findPrivateKeyByLabel e c keyHandle) (\<lambda>_.
          wrapErr (errorf_w (''failed to find key with label '' @ quoted keyHandle @ '': ''))
            (findPublicKeyByLabel e c keyHandle))) (\<lambda>handle.
        if cl_closed c then throw (PlainErr hsmClosedMsg)
        else ckc (ck_DestroyObject (pkcs11 e) (cl_session c) handle)))"

text \<open>What \<^verbatim>\<open>getKeyInfo\<close> reads off an attribute; an empty key type is an index out of range.\<close>

fun set_attribute :: "nat \<times> bytes \<Rightarrow> hsm_key \<Rightarrow> hsm_key option" where
  "set_attribute (k, v) key =
     (if k = CKA_LABEL
      then Some (key\<lparr>hk_Label := string_of_bytes v, hk_KeyHandle := string_of_bytes v\<rparr>)
      else if k = CKA_KEY_TYPE
      then (case v of [] \<Rightarrow> None | b # _ \<Rightarrow> Some (key\<lparr>hk_Type := mapKeyType b\<rparr>))
      else if k = CKA_ID
      then Some (if v = [] then key else key\<lparr>hk_TenantID := string_of_bytes v\<rparr>)
      else Some key)"

fun set_attributes :: "(nat \<times> bytes) list \<Rightarrow> hsm_key \<Rightarrow> hsm_key option" where
  "set_attributes [] key = Some key"
| "set_attributes (a # as) key =
     (case set_attribute a key of None \<Rightarrow> None | Some key' \<Rightarrow> set_attributes as key')"

definition getKeyInfo :: "'t env \<Rightarrow> hsm_client \<Rightarrow> handle \<Rightarrow> ('t, hsm_key) wprog" where
  "getKeyInfo e c h =
     bindM (wrapErr (errorf_w ''failed to get key attributes: '')
       (ckc (ck_GetAttributeValue (pkcs11 e) (cl_session c) h [CKA_LABEL, CKA_KEY_TYPE, CKA_ID]))) (\<lambda>attrs.
     bindM (nowM e) (\<lambda>now.
     case set_attributes attrs \<lparr>hk_Label = '''', hk_Type = '''', hk_Size = 0, hk_TenantID = '''',
            hk_PublicKey = [], hk_KeyHandle = '''', hk_CreatedAt = now, hk_IsActive = True,
            hk_Usage = KeyUsageBoth\<rparr> of
       None \<Rightarrow> panicM ''index out of range [0] with length 0''
     | Some key \<Rightarrow>
         tryM (Client_GetPublicKey e c Background (hk_KeyHandle key))
           (\<lambda>_. ret key)
           (\<lambda>pk. ret (key\<lparr>hk_PublicKey := pk\<rparr>))))"

text \<open>A key whose information cannot be read is skipped.\<close>

fun collect_keys :: "'t env \<Rightarrow> hsm_client \<Rightarrow> handle list \<Rightarrow> ('t, hsm_key list) wprog" where
  "collect_keys e c [] = ret []"
| "collect_keys e c (h # hs) =
     tryM (getKeyInfo e c h)
       (\<lambda>_. collect_keys e c hs)
       (\<lambda>k. bindM (collect_keys e c hs) (\<lambda>ks. ret (k # ks)))"

definition objectBatchSize :: nat where "objectBatchSize = 100"

definition Client_ListKeys :: "'t env \<Rightarrow> hsm_client \<Rightarrow> gctx \<Rightarrow> ('t, hsm_key list) wprog" where
  "Client_ListKeys e c ctx =
     audited e (cl_audit c) ctx None (client_audit ''LIST_KEYS'' ''SERVICE'' [])
       (searching e c ''failed to initialize key search: '' [(CKA_CLASS, AVUlong CKO_PRIVATE_KEY)]
         (bindM (wrapErr (errorf_w ''failed to find keys: '')
            (ckc (ck_FindObjects (pkcs11 e) (cl_session c) objectBatchSize))) (\<lambda>handles.
          collect_keys e c handles)))"

definition Client_FindKeysByLabel :: "'t env \<Rightarrow> hsm_client \<Rightarrow> gctx \<Rightarrow> string \<Rightarrow> ('t, hsm_key list) wprog" where
  "Client_FindKeysByLabel e c ctx labelPattern =
     bindM (Client_ListKeys e c ctx) (\<lambda>allKeys.
     ret (filter (\<lambda>k. contains (hk_Label k) labelPattern) allKeys))"

section \<open>client\_keygen.go\<close>

definition rsa_templates :: "int \<Rightarrow> string \<Rightarrow> template \<times> template" where
  "rsa_templates ksize label =
     ([(CKA_CLASS, AVUlong CKO_PUBLIC_KEY), (CKA_KEY_TYPE, AVUlong CKK_RSA),
       (CKA_MODULUS_BITS, AVUlong (nat ksize)), (CKA_PUBLIC_EXPONENT, AVBytes [0x01, 0x00, 0x01]),
       (CKA_VERIFY, AVBool True), (CKA_ENCRYPT, AVBool True), (CKA_TOKEN, AVBool True),
       (CKA_LABEL, AVStr label)],
      [(CKA_CLASS, AVUlong CKO_PRIVATE_KEY), (CKA_KEY_TYPE, AVUlong CKK_RSA),
       (CKA_SIGN, AVBool True), (CKA_DECRYPT, AVBool True), (CKA_TOKEN, AVBool True),
       (CKA_SENSITIVE, AVBool True), (CKA_EXTRACTABLE, AVBool False), (CKA_LABEL, AVStr label)])"

definition generateRSAKeyPair :: "'t env \<Rightarrow> hsm_client \<Rightarrow> int \<Rightarrow> string \<Rightarrow> ('t, handle \<times> handle) wprog" where
  "generateRSAKeyPair e c ksize label =
     (if ksize \<noteq> 2048 \<and> ksize \<noteq> 3072 \<and> ksize \<noteq> 4096
      then throw (PlainErr (''unsupported RSA key size: '' @ dec_int ksize))
      else ckc (ck_GenerateKeyPair (pkcs11 e) (cl_session c) CKM_RSA_PKCS_KEY_PAIR_GEN
             (fst (rsa_templates ksize label)) (snd (rsa_templates ksize label))))"

definition curve_of_size :: "int \<Rightarrow> ec_curve option" where
  "curve_of_size ksize = map_of [(256, P256), (384, P384), (521, P521)] ksize"

definition ec_templates :: "bytes \<Rightarrow> string \<Rightarrow> template \<times> template" where
  "ec_templates ecParams label =
     ([(CKA_CLASS, AVUlong CKO_PUBLIC_KEY), (CKA_KEY_TYPE, AVUlong CKK_EC),
       (CKA_EC_PARAMS, AVBytes ecParams), (CKA_VERIFY, AVBool True), (CKA_TOKEN, AVBool True),
       (CKA_LABEL, AVStr label)],
      [(CKA_CLASS, AVUlong CKO_PRIVATE_KEY), (CKA_KEY_TYPE, AVUlong CKK_EC),
       (CKA_SIGN, AVBool True), (CKA_TOKEN, AVBool True), (CKA_SENSITIVE, AVBool True),
       (CKA_EXTRACTABLE, AVBool False), (CKA_LABEL, AVStr label)])"

definition generateECDSAKeyPair :: "'t env \<Rightarrow> hsm_client \<Rightarrow> int \<Rightarrow> string \<Rightarrow> ('t, handle \<times> handle) wprog" where
  "generateECDSAKeyPair e c ksize label =
     (case curve_of_size ksize of
        None \<Rightarrow> throw (PkgErr ErrInvalidKeySize)
      | Some curve \<Rightarrow>
          ckc (ck_GenerateKeyPair (pkcs11 e) (cl_session c) CKM_EC_KEY_PAIR_GEN
            (fst (ec_templates (der_oid (cu_oid curve)) label))
            (snd (ec_templates (der_oid (cu_oid curve)) label))))"

definition outcome_key_length :: "(go_error, bytes \<times> string) outcome \<Rightarrow> nat" where
  "outcome_key_length r = (case r of Ok (pk, h) \<Rightarrow> length pk | _ \<Rightarrow> 0)"

text \<open>
  The metadata's \<^verbatim>\<open>duration_ms\<close> and the event's duration are two readings of the clock in a
  row; they are taken as one.
\<close>

definition Client_GenerateKeyPair ::
  "'t env \<Rightarrow> hsm_client \<Rightarrow> gctx \<Rightarrow> key_algorithm \<Rightarrow> int \<Rightarrow> string \<Rightarrow> ('t, bytes \<times> string) wprog" where
  "Client_GenerateKeyPair e c ctx algorithm ksize label =
     audited e (cl_audit c) ctx None
       (\<lambda>r d. client_audit ''GENERATE_KEY_PAIR'' ''SERVICE''
         [(''duration_ms'', DInt d), (''public_key_length'', DInt (int (outcome_key_length r))),
          (''algorithm'', DStr algorithm), (''key_size'', DInt ksize), (''label'', DStr label)] r d)
       (if label = '''' then throw (PlainErr ''key label cannot be empty'')
        else if cl_closed c then throw (PlainErr hsmClosedMsg)
        else
        bindM (wrapErr (errorf_w ''HSM_OPERATION_FAILED: operation=generate_key_pair: '')
          (if algorithm = alg_RSA then generateRSAKeyPair e c ksize label
           else if algorithm = alg_ECDSA then generateECDSAKeyPair e c ksize label
           else if algorithm = alg_Ed25519 then throw (PlainErr ''Ed25519 not supported by SoftHSMv2'')
           else throw (PkgErr ErrInvalidAlgorithm))) (\<lambda>(pubHandle, privHandle).
        bindM (catchM (exportPublicKey e c pubHandle) (\<lambda>err.
          bindM (dropErr (ckc (ck_DestroyObject (pkcs11 e) (cl_session c) pubHandle))) (\<lambda>_.
          bindM (dropErr (ckc (ck_DestroyObject (pkcs11 e) (cl_session c) privHandle))) (\<lambda>_.
          throw err)))) (\<lambda>publicKey.
        ret (publicKey, label))))"

definition Client_GenerateKeyPairWithLabel ::
  "'t env \<Rightarrow> hsm_client \<Rightarrow> gctx \<Rightarrow> key_algorithm \<Rightarrow> int \<Rightarrow> string \<Rightarrow> string \<Rightarrow> ('t, bytes \<times> string) wprog" where
  "Client_GenerateKeyPairWithLabel e c ctx algorithm ksize label tenantID =
     Client_GenerateKeyPair e c ctx algorithm ksize (tenantID @ ''_'' @ label)"

section \<open>What a client call leaves alone\<close>

text \<open>
  A call of the library moves the call counter and the token (\<open>token_frame f\<close>: \<open>f\<close> reads neither);
  a method of the client also the audit log (\<open>client_frame f\<close>).
\<close>

definition token_frame :: "('t world \<Rightarrow> 'b) \<Rightarrow> bool" where
  "token_frame f \<longleftrightarrow> (\<forall>w k t. f (w\<lparr>w_tick := k\<rparr>) = f w \<and> f (w\<lparr>w_tok := t\<rparr>) = f w)"

definition client_frame :: "('t world \<Rightarrow> 'b) \<Rightarrow> bool" where
  "client_frame f \<longleftrightarrow> token_frame f \<and> (\<forall>w a. f (w\<lparr>w_audit := a\<rparr>) = f w)"

lemma client_frame_fields [simp, intro]:
  "client_frame w_keys" "client_frame w_tenants" "client_frame w_slots" "client_frame w_meta"
  "client_frame w_ops" "client_frame w_clients" "client_frame w_errs" "client_frame w_shared"
  "client_frame w_once" "client_frame w_initerr" "client_frame w_libpath" "client_frame w_kcache"
  by (simp_all add: client_frame_def token_frame_def)

lemma token_frame_audit [simp, intro]: "token_frame w_audit"
  by (simp add: token_frame_def)

lemma client_frame_token [simp, intro]: "client_frame f \<Longrightarrow> token_frame f"
  by (simp add: client_frame_def)

lemma frame_basic:
  assumes "token_frame f"
  shows "unchanged f tickM" "unchanged f (nowM e)" "unchanged f (uuidM e)" "unchanged f (randM e)"
    "unchanged f (dbM e)" "unchanged f (ckM ok g)" "unchanged f (liftSum r)"
  using assms unfolding token_frame_def by (auto intro!: unchanged_intros)

lemma frame_audited:
  assumes "client_frame f"
  shows "unchanged f m \<Longrightarrow> unchanged f (audited e on ctx identity mk m)"
  using assms unfolding client_frame_def token_frame_def by (auto intro!: unchanged_intros)

lemma frame_searching:
  fixes f :: "'t world \<Rightarrow> 'b"
  assumes f: "token_frame f" and body: "unchanged f body"
  shows "unchanged f (searching e c msg tm body)"
proof -
  have "unchanged f (dropErr (ckM True g))" for g :: "('t, unit) ck_call"
    by (intro unchanged_drop frame_basic f)
  then have "f (snd (dropErr (ckM True g) w)) = f w" for w and g :: "('t, unit) ck_call"
    by (simp add: within_def)
  then show ?thesis
    unfolding searching_def by (intro unchanged_intros frame_basic f body)
qed

lemmas frame_steps = unchanged_intros frame_basic frame_searching

lemma frame_find:
  assumes "token_frame f"
  shows "unchanged f (findByLabel e c cls kind label)"
    "unchanged f (findPrivateKeyByLabel e c label)" "unchanged f (findPublicKeyByLabel e c label)"
  unfolding findPrivateKeyByLabel_def findPublicKeyByLabel_def findByLabel_def
  by (intro frame_steps assms)+

lemma frame_export:
  assumes "token_frame f"
  shows "unchanged f (exportPublicKey e c h)"
  unfolding exportPublicKey_def exportRSAPublicKey_def exportECPublicKey_def Let_def
  by (intro frame_steps assms)

lemma frame_GetPublicKey:
  assumes "client_frame f"
  shows "unchanged f (Client_GetPublicKey e c ctx h)"
  unfolding Client_GetPublicKey_def by (intro frame_steps frame_audited frame_find client_frame_token assms)

lemma frame_getKeyInfo:
  assumes "client_frame f"
  shows "unchanged f (getKeyInfo e c h)"
  unfolding getKeyInfo_def by (intro frame_steps frame_GetPublicKey client_frame_token assms)

lemma frame_collect_keys:
  assumes "client_frame f"
  shows "unchanged f (collect_keys e c hs)"
  by (induction hs) (simp_all, (intro frame_steps frame_getKeyInfo client_frame_token assms | assumption)+)

lemma frame_client:
  assumes "client_frame f"
  shows "unchanged f (Client_HealthCheck e c ctx)" "unchanged f (Client_Close e c)"
    "unchanged f (Client_SignHash e c ctx kh d i)" "unchanged f (Client_VerifySignature e c ctx kh d s)"
    "unchanged f (Client_Encrypt e c kh d)" "unchanged f (Client_Decrypt e c kh d)"
    "unchanged f (Client_DeleteKey e c ctx kh)" "unchanged f (Client_ListKeys e c ctx)"
    "unchanged f (Client_FindKeysByLabel e c ctx pat)"
    "unchanged f (Client_GenerateKeyPair e c ctx alg n label)"
    "unchanged f (Client_GenerateKeyPairWithLabel e c ctx alg n label tn)"
  unfolding Client_HealthCheck_def Client_Close_def Client_SignHash_def Client_VerifySignature_def verify_with_def
    Client_Encrypt_def Client_Decrypt_def Client_DeleteKey_def Client_FindKeysByLabel_def
    Client_ListKeys_def Client_GenerateKeyPairWithLabel_def Client_GenerateKeyPair_def
    generateRSAKeyPair_def generateECDSAKeyPair_def
  by (intro frame_steps frame_audited frame_find frame_export frame_collect_keys client_frame_token assms)+

lemmas client_frames = frame_client frame_GetPublicKey frame_find

section \<open>What a client call returns\<close>

lemma closed_client_run:
  assumes "cl_closed c"
  shows "Client_SignHash e c ctx kh d i w \<noteq> (Ok s, w')"
    and "Client_VerifySignature e c ctx kh d sg w \<noteq> (Ok b, w')"
    and "Client_Encrypt e c kh d w \<noteq> (Ok s, w')" and "Client_Decrypt e c kh d w \<noteq> (Ok s, w')"
    and "Client_DeleteKey e c ctx kh w \<noteq> (Ok u, w')"
    and "Client_GenerateKeyPair e c ctx alg n label w \<noteq> (Ok p, w')"
    and "Client_HealthCheck e c ctx w \<noteq> (Ok u, w')"
  using assms
  by (simp_all add: Client_SignHash_def Client_VerifySignature_def verify_with_def Client_Encrypt_def
      Client_Decrypt_def Client_DeleteKey_def Client_GenerateKeyPair_def Client_HealthCheck_def audited_run run_simps)

lemma GenerateKeyPair_Ok:
  assumes "Client_GenerateKeyPair e c ctx alg n label w = (Ok (pk, kh), w')"
  shows "kh = label \<and> label \<noteq> '''' \<and> \<not> cl_closed c
    \<and> (alg = alg_RSA \<and> n \<in> {2048, 3072, 4096} \<or> alg = alg_ECDSA \<and> n \<in> {256, 384, 521})"
  using assms
  by (auto simp: Client_GenerateKeyPair_def audited_run run_simps generateRSAKeyPair_def
      generateECDSAKeyPair_def curve_of_size_def split: if_split_asm option.split_asm)

lemma rsa_templates_no_id: "CKA_ID \<notin> fst ` set (fst (rsa_templates n label))"
  "CKA_ID \<notin> fst ` set (snd (rsa_templates n label))"
  by (auto simp: rsa_templates_def)

lemma ec_templates_no_id: "CKA_ID \<notin> fst ` set (fst (ec_templates p label))"
  "CKA_ID \<notin> fst ` set (snd (ec_templates p label))"
  by (auto simp: ec_templates_def)

text \<open>Keys whose \<^verbatim>\<open>CKA_ID\<close> reads as empty are listed without a tenant.\<close>

definition ids_empty :: "'t env \<Rightarrow> bool" where
  "ids_empty e \<longleftrightarrow> (\<forall>s h ks t attrs t'. ck_GetAttributeValue (pkcs11 e) s h ks t = (Inr attrs, t') \<longrightarrow>
     (\<forall>(k, v) \<in> set attrs. k = CKA_ID \<longrightarrow> v = []))"

lemma set_attributes_tenant:
  "\<forall>(k, v) \<in> set as. k = CKA_ID \<longrightarrow> v = [] \<Longrightarrow> set_attributes as key = Some key' \<Longrightarrow>
   hk_TenantID key' = hk_TenantID key"
  by (induction as arbitrary: key) (fastforce split: option.splits if_splits list.splits)+

lemma getKeyInfo_tenant:
  assumes "ids_empty e" and "getKeyInfo e c h w = (Ok k, w')"
  shows "hk_TenantID k = ''''"
  using assms
  by (fastforce simp: getKeyInfo_def run_simps ids_empty_def dest!: set_attributes_tenant [rotated])

lemma collect_keys_tenant:
  assumes "ids_empty e"
  shows "collect_keys e c hs w = (Ok ks, w') \<Longrightarrow> \<forall>k \<in> set ks. hk_TenantID k = ''''"
  by (induction hs arbitrary: w ks) (auto simp: run_simps dest: getKeyInfo_tenant [OF assms])

lemma ListKeys_tenant:
  assumes "ids_empty e" and "Client_ListKeys e c ctx w = (Ok ks, w')"
  shows "\<forall>k \<in> set ks. hk_TenantID k = ''''"
  using assms(2)
  by (auto simp: Client_ListKeys_def searching_def audited_run run_simps
      dest: collect_keys_tenant [OF assms(1)])

section \<open>Properties\<close>

lemma findByLabel_Ok:
  assumes "findByLabel e c cls kind label w = (Ok h, w')"
  shows "\<exists>t1 t2 hs. snd (ck_FindObjectsInit (pkcs11 e) (cl_session c)
      [(CKA_CLASS, AVUlong cls), (CKA_LABEL, AVStr label)] (w_tok w)) = t1
    \<and> ck_FindObjects (pkcs11 e) (cl_session c) 1 t1 = (Inr (h # hs), t2)"
proof -
  obtain u objs v where 1: "ck_FindObjectsInit (pkcs11 e) (cl_session c)
      [(CKA_CLASS, AVUlong cls), (CKA_LABEL, AVStr label)] (w_tok w) = (Inr (), u)"
    and 2: "ck_FindObjects (pkcs11 e) (cl_session c) 1 u = (Inr objs, v)" and "objs \<noteq> []" "h = hd objs"
    using assms
    by (auto simp: findByLabel_def searching_def run_simps split: if_split_asm)
  then have "objs = h # tl objs" by simp
  then show ?thesis using 1 2 by (metis snd_conv)
qed

lemma verify_with_Ok:
  assumes "verify_with e c kh d s h w = (Ok b, w')"
  shows "\<not> cl_closed c"
    "\<exists>t. fst (ck_VerifyInit (pkcs11 e) (cl_session c) CKM_SHA256_RSA_PKCS h t) = Inr ()"
    "\<exists>t. if b then fst (ck_Verify (pkcs11 e) (cl_session c) d s t) = Inr ()
      else \<exists>msg. fst (ck_Verify (pkcs11 e) (cl_session c) d s t) = Inl (CkErr CKR_SIGNATURE_INVALID msg)"
proof -
  obtain u v where open1: "\<not> cl_closed c"
    and init: "ckM True (ck_VerifyInit (pkcs11 e) (cl_session c) CKM_SHA256_RSA_PKCS h) u = (Ok (), v)"
    and verify: "tryM (ckM True (ck_Verify (pkcs11 e) (cl_session c) d s))
        (\<lambda>err. if is_ck_error CKR_SIGNATURE_INVALID err then ret False
               else throw (errorf_w ''failed to verify signature: '' err))
        (\<lambda>_. ret True) v = (Ok b, w')"
    using assms by (auto simp: verify_with_def bindM_Ok wrapErr_Ok run_basic split: if_split_asm)
  show "\<not> cl_closed c" by (rule open1)
  show "\<exists>t. fst (ck_VerifyInit (pkcs11 e) (cl_session c) CKM_SHA256_RSA_PKCS h t) = Inr ()"
    using init by (intro exI [of _ "w_tok u"]) (auto simp: ckM_iff)
  show "\<exists>t. if b then fst (ck_Verify (pkcs11 e) (cl_session c) d s t) = Inr ()
      else \<exists>msg. fst (ck_Verify (pkcs11 e) (cl_session c) d s t) = Inl (CkErr CKR_SIGNATURE_INVALID msg)"
    using verify by (intro exI [of _ "w_tok v"])
      (auto simp: tryM_iff ckM_iff run_basic split: if_split_asm elim!: is_ck_error.elims)
qed

text \<open>
  C30. \<^verbatim>\<open>VerifySignature\<close> of the client answers true only when the token accepted the signature for
  the first public key object with the label, and false only when the token reported
  \<^verbatim>\<open>CKR_SIGNATURE_INVALID\<close>; every other answer of the token is an error. The one audit event of the
  call says success and carries the verdict.
\<close>

theorem verify_answers_what_the_token_says:
  assumes "Client_VerifySignature e c ctx kh d s w = (Ok b, w')"
  shows "\<not> cl_closed c
    \<and> (\<exists>h hs t1 t2. ck_FindObjects (pkcs11 e) (cl_session c) 1
          (snd (ck_FindObjectsInit (pkcs11 e) (cl_session c)
             [(CKA_CLASS, AVUlong CKO_PUBLIC_KEY), (CKA_LABEL, AVStr kh)] (w_tok w))) = (Inr (h # hs), t1)
        \<and> fst (ck_VerifyInit (pkcs11 e) (cl_session c) CKM_SHA256_RSA_PKCS h t2) = Inr ())
    \<and> (\<exists>t. if b then fst (ck_Verify (pkcs11 e) (cl_session c) d s t) = Inr ()
           else \<exists>msg. fst (ck_Verify (pkcs11 e) (cl_session c) d s t) = Inl (CkErr CKR_SIGNATURE_INVALID msg))
    \<and> (cl_audit c \<longrightarrow> (\<exists>data. w_audit w' = w_audit w @ [(ctx, data, None)] \<and> ad_Success data
         \<and> map_of (ad_Metadata data) ''is_valid'' = Some (DBool b)))"
proof -
  let ?md = "[(''handle'', DStr kh), (''hash_length'', DInt (int (length d))),
      (''signature_length'', DInt (int (length s))), (''is_valid'', DBool b)]"
  obtain h u v where find: "findByLabel e c CKO_PUBLIC_KEY ''public'' kh (w\<lparr>w_tick := Suc (w_tick w)\<rparr>) = (Ok h, u)"
    and verify: "verify_with e c kh d s h u = (Ok b, v)"
    and w': "w' = AuditOperation_call (cl_audit c) ctx (client_audit ''VERIFY_SIGNATURE'' ''SERVICE'' ?md (Ok b)
         (millis_since (now_at e (w_tick w)) (now_at e (w_tick v)))) None (v\<lparr>w_tick := Suc (w_tick v)\<rparr>)"
    using assms by (auto simp: Client_VerifySignature_def audited_run outcome_bool_def bindM_Ok wrapErr_Ok
        findPublicKeyByLabel_def)
  have "unchanged w_audit (verify_with e c kh d s h)"
    unfolding verify_with_def by (intro frame_steps token_frame_audit)
  from unchangedD [OF this verify] have "w_audit v = w_audit w"
    using unchangedD [OF frame_find(1) find, of w_audit] by simp
  then have "cl_audit c \<Longrightarrow> \<exists>data. w_audit w' = w_audit w @ [(ctx, data, None)] \<and> ad_Success data
      \<and> map_of (ad_Metadata data) ''is_valid'' = Some (DBool b)"
    by (simp add: w' client_audit_def)
  then show ?thesis using findByLabel_Ok [OF find] verify_with_Ok [OF verify] by fastforce
qed

text \<open>The sample token with one session and one RSA key pair.\<close>

definition keyed_token :: sample_token where
  "keyed_token = sample_token\<lparr>sa_init := True, sa_sessions := [(1, 7)], sa_next := 9,
     sa_objs := [\<lparr>so_handle = 4, so_slot = 7, so_class = CKO_PUBLIC_KEY, so_label = ''k''\<rparr>,
                 \<lparr>so_handle = 5, so_slot = 7, so_class = CKO_PRIVATE_KEY, so_label = ''k''\<rparr>]\<rparr>"

definition sample_client :: hsm_client where
  "sample_client = \<lparr>cl_session = 1, cl_audit = True, cl_closed = False\<rparr>"

lemmas sample_client_run = bindM_def catchM_def tryM_def attempt_def deferM_def dropErr_def wrapErr_def
  ckM_def ck0M_def run_basic run_guardM run_tick run_dbM run_liftSum audited_def searching_def
  findByLabel_def findPublicKeyByLabel_def findPrivateKeyByLabel_def sample_ck_def ck_ok_def ck_fail_def
  keyed_token_def sample_client_def sample_token_def fresh_world_def matches_def session_slot_def
  sample_attr_def template_label_def Let_def AuditOperation_call_def

lemma sample_verify_run:
  "\<exists>w'. Client_VerifySignature sample_env sample_client Background ''k'' [1, 2] [0x5A, 1, 3]
     (fresh_world keyed_token) = (Ok False, w')"
  by (simp add: Client_VerifySignature_def verify_with_def sample_client_run)

theorem verify_answers_what_the_token_says_witness:
  "\<exists>w' t. Client_VerifySignature sample_env sample_client Background ''k'' [1, 2] [0x5A, 1, 3]
       (fresh_world keyed_token) = (Ok False, w')
     \<and> (\<exists>msg. fst (ck_Verify sample_ck 1 [1, 2] [0x5A, 1, 3] t) = Inl (CkErr CKR_SIGNATURE_INVALID msg))"
proof -
  obtain w' where run: "Client_VerifySignature sample_env sample_client Background ''k'' [1, 2] [0x5A, 1, 3]
       (fresh_world keyed_token) = (Ok False, w')"
    using sample_verify_run by blast
  then show ?thesis using verify_answers_what_the_token_says [OF run] by (auto simp: sample_client_def)
qed

text \<open>
  C31. Once the token has made a key pair, \<^verbatim>\<open>GenerateKeyPair\<close> either returns its exported public key
  with the label as the handle, or fails with the export's error after it has destroyed the public
  and then the private object.
\<close>

theorem generated_pair_is_exported_or_destroyed:
  assumes "label \<noteq> ''''" and "\<not> cl_closed c"
    and "alg = alg_RSA \<and> gen = generateRSAKeyPair \<or> alg = alg_ECDSA \<and> gen = generateECDSAKeyPair"
    and "gen e c n label (w\<lparr>w_tick := Suc (w_tick w)\<rparr>) = (Ok (pub, priv), u)"
  shows "case exportPublicKey e c pub u of
      (Ok pk, v) \<Rightarrow> (\<exists>w'. Client_GenerateKeyPair e c ctx alg n label w = (Ok (pk, label), w') \<and> w_tok w' = w_tok v)
    | (Err err, v) \<Rightarrow> (\<exists>w'. Client_GenerateKeyPair e c ctx alg n label w = (Err err, w')
        \<and> w_tok w' = snd (ck_DestroyObject (pkcs11 e) (cl_session c) priv
                       (snd (ck_DestroyObject (pkcs11 e) (cl_session c) pub (w_tok v)))))
    | (Panic p, v) \<Rightarrow> False"
proof -
  have gen: "(if alg = alg_RSA then generateRSAKeyPair e c n label
      else if alg = alg_ECDSA then generateECDSAKeyPair e c n label
      else if alg = alg_Ed25519 then throw (PlainErr ''Ed25519 not supported by SoftHSMv2'')
      else throw (PkgErr ErrInvalidAlgorithm)) (w\<lparr>w_tick := Suc (w_tick w)\<rparr>) = (Ok (pub, priv), u)"
    using assms(3,4) by auto
  have drop: "dropErr (ckM True g) x = (Ok (), x\<lparr>w_tok := snd (g (w_tok x))\<rparr>)" for g :: "('t, unit) ck_call" and x
    by (simp add: dropErr_def attempt_def bindM_def ckM_def run_basic split: prod.split sum.split)
  obtain r v where ex: "exportPublicKey e c pub u = (r, v)" by fastforce
  have "\<And>p. r \<noteq> Panic p"
    using ex by (auto simp: exportPublicKey_def exportRSAPublicKey_def exportECPublicKey_def run_simps
        Let_def split: if_split_asm)
  then show ?thesis using ex assms(1,2)
    by (cases r) (auto simp: Client_GenerateKeyPair_def audited_run wrapErr_def gen drop run_basic)
qed

theorem generated_pair_is_exported_or_destroyed_witness:
  "\<exists>w'. Client_GenerateKeyPair
       (sample_env\<lparr>pkcs11 := sample_ck\<lparr>ck_GetAttributeValue := (\<lambda>s h ks t. (Inl (CkErr 5 ''CKR_GENERAL_ERROR''), t))\<rparr>\<rparr>)
       sample_client Background alg_RSA 2048 ''n'' (fresh_world keyed_token) =
       (Err (errorf_w ''failed to get key type: '' (CkErr 5 ''CKR_GENERAL_ERROR'')), w')
     \<and> sa_objs (w_tok w') = sa_objs keyed_token"
proof -
  let ?e = "sample_env\<lparr>pkcs11 := sample_ck\<lparr>ck_GetAttributeValue := (\<lambda>s h ks t. (Inl (CkErr 5 ''CKR_GENERAL_ERROR''), t))\<rparr>\<rparr>"
  let ?w = "fresh_world keyed_token"
  obtain u where u: "generateRSAKeyPair ?e sample_client 2048 ''n'' (?w\<lparr>w_tick := Suc (w_tick ?w)\<rparr>) = (Ok (9, 10), u)"
    and objs: "sa_objs (w_tok u) = sa_objs keyed_token @
      [\<lparr>so_handle = 9, so_slot = 7, so_class = CKO_PUBLIC_KEY, so_label = ''n''\<rparr>,
       \<lparr>so_handle = 10, so_slot = 7, so_class = CKO_PRIVATE_KEY, so_label = ''n''\<rparr>]"
    by (simp add: generateRSAKeyPair_def rsa_templates_def sample_client_run)
  have "exportPublicKey ?e sample_client 9 u =
      (Err (errorf_w ''failed to get key type: '' (CkErr 5 ''CKR_GENERAL_ERROR'')), u)"
    by (simp add: exportPublicKey_def sample_client_run)
  then show ?thesis
    using generated_pair_is_exported_or_destroyed [of "''n''" sample_client alg_RSA generateRSAKeyPair ?e 2048 ?w
        9 10 u Background] u objs
    by (auto simp: sample_client_def sample_ck_def ck_ok_def keyed_token_def)
qed

end
