(* ===== verification/Secrets.thy ===== *)
theory Secrets
  imports Sample
begin

text \<open>
  The package \<^verbatim>\<open>internal/infrastructure/secrets\<close>: the AES key manager with its three strategies
  (\<^verbatim>\<open>local_manager.go\<close>, \<^verbatim>\<open>k8s_manager.go\<close>, \<^verbatim>\<open>vault_manager.go\<close>), the adapter that audits
  them (\<^verbatim>\<open>aes_key_manager_adapter.go\<close>) and the factory (\<^verbatim>\<open>factory.go\<close>). The Kubernetes
  API server is the environment's \<open>k8s_secret_at\<close>: the data of the configured secret or an
  error, per call. A \<^verbatim>\<open>println\<close> has no counterpart.

  The locale \<open>key_wrapping\<close> states what the callers of the port \<^verbatim>\<open>output.AESKeyManager\<close> rely
  on; it is interpreted on the local manager, on the Kubernetes manager and on the adapter over
  each of them. \<open>stable_key_wrapping\<close> extends it by what may happen between two calls; \<open>manager_step\<close>
  is that of this process.
\<close>

section \<open>Local strategy\<close>

record local_manager =
  lm_masterKey :: bytes
  lm_keyID :: string

definition NewLocalAESKeyManager :: "local_config \<Rightarrow> local_manager" where
  "NewLocalAESKeyManager c =
     \<lparr>lm_masterKey = base64_decode_bytes (lc_MasterKeyKey c), lm_keyID = lc_KeyID c\<rparr>"

definition bad_key_size :: "nat \<Rightarrow> ('t, 'a) wprog" where
  "bad_key_size n = failPkg ErrInvalidAESKeySize [(''expected'', DInt 32), (''actual'', DInt (int n))]"

definition Local_GetKey :: "local_manager \<Rightarrow> string \<Rightarrow> ('t, bytes) wprog" where
  "Local_GetKey l keyID = ret (lm_masterKey l)"

definition Local_GenerateDataKey :: "'t env \<Rightarrow> ('t, bytes) wprog" where
  "Local_GenerateDataKey e = bindM (randM e) (\<lambda>r. liftSum (GenerateAES256Key r))"

definition Local_WrapKey :: "'t env \<Rightarrow> local_manager \<Rightarrow> string \<Rightarrow> bytes \<Rightarrow> ('t, bytes) wprog" where
  "Local_WrapKey e l keyID plaintextKey =
     bindM (Local_GetKey l keyID) (\<lambda>masterKey.
     if length plaintextKey \<noteq> 32 then bad_key_size (length plaintextKey)
     else bindM (randM e) (\<lambda>r. liftSum (WrapKey r masterKey plaintextKey)))"

definition short_wrapped_key :: "nat \<Rightarrow> ('t, 'a) wprog" where
  "short_wrapped_key n =
     failPkg ErrWrappingKeyLength [(''minimum_expected'', DInt 28), (''actual'', DInt (int n))]"

definition Local_UnwrapKey :: "local_manager \<Rightarrow> string \<Rightarrow> bytes \<Rightarrow> ('t, bytes) wprog" where
  "Local_UnwrapKey l keyID wrappedKey =
     bindM (Local_GetKey l keyID) (\<lambda>masterKey.
     if length wrappedKey < 28 then short_wrapped_key (length wrappedKey)
     else liftSum (UnwrapKey masterKey wrappedKey))"

text \<open>\<^verbatim>\<open>EncryptAESGCM\<close> with its error turned into \<^verbatim>\<open>FAIL_ENCRYPT_DATA\<close> and the key id stamped on.\<close>

definition encrypt_stamped :: "'t env \<Rightarrow> string \<Rightarrow> bytes \<Rightarrow> bytes \<Rightarrow> ('t, encrypt_aes_gcm) wprog" where
  "encrypt_stamped e keyID key plaintext =
     bindM (randM e) (\<lambda>r.
     case EncryptAESGCM r key plaintext of
       Inl err \<Rightarrow> failPkg ErrFailEncryptData [(''error'', DStr (error_text err))]
     | Inr enc \<Rightarrow> ret (enc\<lparr>en_KeyID := keyID\<rparr>))"

definition Local_EncryptWithKeyID ::
  "'t env \<Rightarrow> local_manager \<Rightarrow> string \<Rightarrow> bytes \<Rightarrow> ('t, encrypt_aes_gcm) wprog" where
  "Local_EncryptWithKeyID e l keyID plaintext =
     bindM (Local_GetKey l keyID) (\<lambda>key. encrypt_stamped e keyID key plaintext)"

definition Local_DecryptWithKeyID :: "local_manager \<Rightarrow> string \<Rightarrow> encrypt_aes_gcm \<Rightarrow> ('t, bytes) wprog" where
  "Local_DecryptWithKeyID l keyID enc =
     (if en_KeyID enc \<noteq> keyID then throw (PkgErr ErrKeyIDMismatch)
      else bindM (Local_GetKey l keyID) (\<lambda>key. liftSum (DecryptAESGCM key enc)))"

definition Local_EncryptWithKey ::
  "'t env \<Rightarrow> local_manager \<Rightarrow> bytes \<Rightarrow> bytes \<Rightarrow> ('t, encrypt_aes_gcm) wprog" where
  "Local_EncryptWithKey e l key plaintext =
     (if length key \<noteq> 32 then bad_key_size (length key)
      else encrypt_stamped e (lm_keyID l) key plaintext)"

definition Local_DecryptWithKey :: "bytes \<Rightarrow> encrypt_aes_gcm \<Rightarrow> ('t, bytes) wprog" where
  "Local_DecryptWithKey key enc =
     (if length key \<noteq> 32 then bad_key_size (length key)
      else case DecryptAESGCM key enc of
        Inl err \<Rightarrow> failPkg ErrFailDecryptData [(''error'', DStr (error_text err))]
      | Inr pt \<Rightarrow> ret pt)"

text \<open>
  \<^verbatim>\<open>RewrapKey\<close>, the same text in both strategies: \<open>getKey\<close> is the strategy's \<^verbatim>\<open>GetKey\<close>.
  The plaintext key is local, so its overwriting with zeros has no further effect.
\<close>

definition rewrap_with ::
  "'t env \<Rightarrow> (string \<Rightarrow> ('t, bytes) wprog) \<Rightarrow> string \<Rightarrow> string \<Rightarrow> bytes \<Rightarrow> ('t, bytes) wprog" where
  "rewrap_with e getKey oldKeyID newKeyID wrappedKey =
     bindM (catchM (getKey oldKeyID) (\<lambda>err.
       failPkg ErrK8sSecretNotFound [(''original_error'', DStr (error_text err))])) (\<lambda>oldKey.
     bindM (catchM (liftSum (UnwrapKey oldKey wrappedKey)) (\<lambda>err.
       failPkg ErrFailUUnwrapKey [(''original_error'', DStr (error_text err))])) (\<lambda>plaintextKey.
     bindM (catchM (getKey newKeyID) (\<lambda>err.
       failPkg ErrK8sSecretNotFound [(''original_error'', DStr (error_text err))])) (\<lambda>newKey.
     bindM (randM e) (\<lambda>r.
     catchM (liftSum (WrapKey r newKey plaintextKey)) (\<lambda>err.
       failPkg ErrFailWrapKey [(''original_error'', DStr (error_text err))])))))"

definition Local_RewrapKey ::
  "'t env \<Rightarrow> local_manager \<Rightarrow> string \<Rightarrow> string \<Rightarrow> bytes \<Rightarrow> ('t, bytes) wprog" where
  "Local_RewrapKey e l = rewrap_with e (Local_GetKey l)"

definition Local_ListKeyVersions :: "('t, string list) wprog" where
  "Local_ListKeyVersions = panicM ''not implemented''"

section \<open>Kubernetes strategy\<close>

record k8s_manager =
  km_config :: k8s_config
  km_currentKeyID :: string

text \<open>
  \<^verbatim>\<open>createK8sClient\<close>: which client-go configuration is asked for. \<open>inCluster\<close>,
  \<open>fromFlags\<close> and \<open>newForConfig\<close> are the library's calls, \<open>home\<close> the home directory,
  empty where \<^verbatim>\<open>os.UserHomeDir\<close> fails.
\<close>

definition createK8sClient ::
  "(go_error + 'c) \<Rightarrow> (string \<Rightarrow> go_error + 'c) \<Rightarrow> ('c \<Rightarrow> go_error + 'k) \<Rightarrow> string \<Rightarrow> k8s_config \<Rightarrow> go_error + 'k" where
  "createK8sClient inCluster fromFlags newForConfig home c =
     (case (if kc_InCluster c
            then (case inCluster of
                    Inl err \<Rightarrow> Inl (errorf_w ''failed to get in-cluster config: '' err)
                  | Inr rc \<Rightarrow> Inr rc)
            else (case fromFlags (if kc_KubeconfigPath c = '''' then path_join [home, ''.kube'', ''config'']
                                  else kc_KubeconfigPath c) of
                    Inl err \<Rightarrow> Inl (errorf_w ''failed to build config from kubeconfig: '' err)
                  | Inr rc \<Rightarrow> Inr rc)) of
        Inl err \<Rightarrow> Inl err
      | Inr rc \<Rightarrow> (case newForConfig rc of
                    Inl err \<Rightarrow> Inl (errorf_w ''failed to create clientset: '' err)
                  | Inr k \<Rightarrow> Inr k))"

definition NewK8SAESKeyManager :: "(go_error + 'k) \<Rightarrow> k8s_config \<Rightarrow> go_error + k8s_manager" where
  "NewK8SAESKeyManager client c =
     (case client of
        Inl err \<Rightarrow> Inl (errorf_w ''failed to create Kubernetes client: '' err)
      | Inr _ \<Rightarrow>
          let c1 = (if kc_SecretNamespace c = '''' then c\<lparr>kc_SecretNamespace := ''default''\<rparr> else c);
              c2 = (if kc_MasterKeyKey c1 = '''' then c1\<lparr>kc_MasterKeyKey := ''master-aes-key-v1''\<rparr> else c1)
          in Inr \<lparr>km_config = c2, km_currentKeyID = kc_KeyID c2\<rparr>)"

definition secret_field :: "k8s_manager \<Rightarrow> string \<Rightarrow> string" where
  "secret_field k keyID =
     (if keyID = kc_KeyID (km_config k) then kc_MasterKeyKey (km_config k)
      else if keyID = ''old-master-key'' \<and> kc_OldMasterKeyKey (km_config k) \<noteq> ''''
        then kc_OldMasterKeyKey (km_config k)
      else keyID)"

definition isBase64 :: "string \<Rightarrow> bool" where
  "isBase64 s = (base64_decode s \<noteq> None)"

definition fetch_secret :: "'t env \<Rightarrow> ('t, string + (string \<times> bytes) list) wprog" where
  "fetch_secret e = bindM tickM (\<lambda>t. ret (k8s_secret_at e t))"

definition secret_location :: "k8s_manager \<Rightarrow> (string \<times> dval) list" where
  "secret_location k = [(''secretName'', DStr (kc_SecretName (km_config k))),
                        (''namespace'', DStr (kc_SecretNamespace (km_config k)))]"

text \<open>What \<^verbatim>\<open>GetKey\<close> makes of the field's bytes, and the cache entry it leaves.\<close>

definition decode_key_data :: "bytes \<Rightarrow> bytes" where
  "decode_key_data d =
     (case base64_decode (string_of_bytes d) of None \<Rightarrow> d | Some key \<Rightarrow> key)"

definition K8s_GetKey :: "'t env \<Rightarrow> k8s_manager \<Rightarrow> string \<Rightarrow> ('t, bytes) wprog" where
  "K8s_GetKey e k keyID =
     bindM (getsM (\<lambda>w. map_of (w_kcache w) keyID)) (\<lambda>cached.
     case cached of
       Some key \<Rightarrow> ret key
     | None \<Rightarrow>
         bindM (fetch_secret e) (\<lambda>secret.
         case secret of
           Inl msg \<Rightarrow> failPkg ErrK8sSecretNotFound (secret_location k @ [(''error'', DStr msg)])
         | Inr secretData \<Rightarrow>
             (case map_of secretData (secret_field k keyID) of
                None \<Rightarrow> failPkg ErrK8sKeyNotFound
                          (secret_location k @ [(''field'', DStr (secret_field k keyID))])
              | Some keyData \<Rightarrow>
                  let key = decode_key_data keyData in
                  if length key \<noteq> 32 then bad_key_size (length key)
                  else bindM (modifyM (\<lambda>w. w\<lparr>w_kcache := AList.update keyID key (w_kcache w)\<rparr>))
                         (\<lambda>_. ret key))))"

definition K8s_GenerateDataKey :: "'t env \<Rightarrow> ('t, bytes) wprog" where
  "K8s_GenerateDataKey e =
     bindM (randM e) (\<lambda>r. case GenerateAES256Key r of
       Inl err \<Rightarrow> failPkg ErrFailCreateAESKey [(''error'', DStr (error_text err))]
     | Inr key \<Rightarrow> ret key)"

text \<open>Both wrapping operations report any failure of \<^verbatim>\<open>GetKey\<close> as a missing secret.\<close>

definition K8s_master_key :: "'t env \<Rightarrow> k8s_manager \<Rightarrow> string \<Rightarrow> ('t, bytes) wprog" where
  "K8s_master_key e k keyID =
     catchM (K8s_GetKey e k keyID) (\<lambda>err.
       failPkg ErrK8sSecretNotFound (secret_location k @ [(''error'', DStr (error_text err))]))"

definition K8s_UnwrapKey :: "'t env \<Rightarrow> k8s_manager \<Rightarrow> string \<Rightarrow> bytes \<Rightarrow> ('t, bytes) wprog" where
  "K8s_UnwrapKey e k keyID wrappedKey =
     bindM (K8s_master_key e k keyID) (\<lambda>masterKey.
     if length wrappedKey < 28 then short_wrapped_key (length wrappedKey)
     else case UnwrapKey masterKey wrappedKey of
       Inl err \<Rightarrow> failPkg ErrFailUUnwrapKey [(''error'', DStr (error_text err))]
     | Inr key \<Rightarrow> ret key)"

definition K8s_WrapKey :: "'t env \<Rightarrow> k8s_manager \<Rightarrow> string \<Rightarrow> bytes \<Rightarrow> ('t, bytes) wprog" where
  "K8s_WrapKey e k keyID plaintextKey =
     bindM (K8s_master_key e k keyID) (\<lambda>masterKey.
     if length plaintextKey \<noteq> 32 then bad_key_size (length plaintextKey)
     else bindM (randM e) (\<lambda>r. liftSum (WrapKey r masterKey plaintextKey)))"

definition K8s_EncryptWithKeyID ::
  "'t env \<Rightarrow> k8s_manager \<Rightarrow> string \<Rightarrow> bytes \<Rightarrow> ('t, encrypt_aes_gcm) wprog" where
  "K8s_EncryptWithKeyID e k keyID plaintext =
     bindM (K8s_GetKey e k keyID) (\<lambda>key. encrypt_stamped e keyID key plaintext)"

definition K8s_DecryptWithKeyID ::
  "'t env \<Rightarrow> k8s_manager \<Rightarrow> string \<Rightarrow> encrypt_aes_gcm \<Rightarrow> ('t, bytes) wprog" where
  "K8s_DecryptWithKeyID e k keyID enc =
     (if en_KeyID enc \<noteq> keyID then throw (PkgErr ErrKeyIDMismatch)
      else bindM (K8s_GetKey e k keyID) (\<lambda>key. liftSum (DecryptAESGCM key enc)))"

definition K8s_EncryptWithKey ::
  "'t env \<Rightarrow> k8s_manager \<Rightarrow> bytes \<Rightarrow> bytes \<Rightarrow> ('t, encrypt_aes_gcm) wprog" where
  "K8s_EncryptWithKey e k key plaintext =
     (if length key \<noteq> 32 then bad_key_size (length key)
      else encrypt_stamped e (km_currentKeyID k) key plaintext)"

definition K8s_DecryptWithKey :: "bytes \<Rightarrow> encrypt_aes_gcm \<Rightarrow> ('t, bytes) wprog" where
  "K8s_DecryptWithKey key enc =
     (if length key \<noteq> 32 then bad_key_size (length key) else liftSum (DecryptAESGCM key enc))"

definition K8s_RewrapKey ::
  "'t env \<Rightarrow> k8s_manager \<Rightarrow> string \<Rightarrow> string \<Rightarrow> bytes \<Rightarrow> ('t, bytes) wprog" where
  "K8s_RewrapKey e k = rewrap_with e (K8s_GetKey e k)"

definition K8s_ListKeyVersions :: "'t env \<Rightarrow> ('t, string list) wprog" where
  "K8s_ListKeyVersions e =
     bindM (fetch_secret e) (\<lambda>secret. case secret of
       Inl msg \<Rightarrow> throw (PlainErr msg) | Inr secretData \<Rightarrow> ret (map fst secretData))"

section \<open>The strategies behind one interface\<close>

text \<open>
  A value of the interface \<^verbatim>\<open>output.AESKeyManager\<close>, as the factory makes it. Every method of
  the vault manager panics.
\<close>

datatype aes_strategy = LocalMgr local_manager | K8sMgr k8s_manager | VaultMgr string

definition NewVaultAESKeyManager :: "string \<Rightarrow> string" where
  "NewVaultAESKeyManager address = address"

definition unimplemented :: "('t, 'a) wprog" where
  "unimplemented = panicM ''unimplemented''"

primrec st_GetKey :: "'t env \<Rightarrow> aes_strategy \<Rightarrow> string \<Rightarrow> ('t, bytes) wprog" where
  "st_GetKey e (LocalMgr l) = Local_GetKey l"
| "st_GetKey e (K8sMgr k) = K8s_GetKey e k"
| "st_GetKey e (VaultMgr v) = (\<lambda>_. unimplemented)"

primrec st_GenerateDataKey :: "'t env \<Rightarrow> aes_strategy \<Rightarrow> ('t, bytes) wprog" where
  "st_GenerateDataKey e (LocalMgr l) = Local_GenerateDataKey e"
| "st_GenerateDataKey e (K8sMgr k) = K8s_GenerateDataKey e"
| "st_GenerateDataKey e (VaultMgr v) = unimplemented"

primrec st_WrapKey :: "'t env \<Rightarrow> aes_strategy \<Rightarrow> string \<Rightarrow> bytes \<Rightarrow> ('t, bytes) wprog" where
  "st_WrapKey e (LocalMgr l) = Local_WrapKey e l"
| "st_WrapKey e (K8sMgr k) = K8s_WrapKey e k"
| "st_WrapKey e (VaultMgr v) = (\<lambda>_ _. unimplemented)"

primrec st_UnwrapKey :: "'t env \<Rightarrow> aes_strategy \<Rightarrow> string \<Rightarrow> bytes \<Rightarrow> ('t, bytes) wprog" where
  "st_UnwrapKey e (LocalMgr l) = Local_UnwrapKey l"
| "st_UnwrapKey e (K8sMgr k) = K8s_UnwrapKey e k"
| "st_UnwrapKey e (VaultMgr v) = (\<lambda>_ _. unimplemented)"

primrec st_RewrapKey :: "'t env \<Rightarrow> aes_strategy \<Rightarrow> string \<Rightarrow> string \<Rightarrow> bytes \<Rightarrow> ('t, bytes) wprog" where
  "st_RewrapKey e (LocalMgr l) = Local_RewrapKey e l"
| "st_RewrapKey e (K8sMgr k) = K8s_RewrapKey e k"
| "st_RewrapKey e (VaultMgr v) = (\<lambda>_ _ _. unimplemented)"

primrec st_ListKeyVersions :: "'t env \<Rightarrow> aes_strategy \<Rightarrow> ('t, string list) wprog" where
  "st_ListKeyVersions e (LocalMgr l) = Local_ListKeyVersions"
| "st_ListKeyVersions e (K8sMgr k) = K8s_ListKeyVersions e"
| "st_ListKeyVersions e (VaultMgr v) = unimplemented"

primrec st_GetCurrentKeyID :: "aes_strategy \<Rightarrow> ('t, string) wprog" where
  "st_GetCurrentKeyID (LocalMgr l) = ret (lm_keyID l)"
| "st_GetCurrentKeyID (K8sMgr k) = ret (km_currentKeyID k)"
| "st_GetCurrentKeyID (VaultMgr v) = unimplemented"

section \<open>The adapter\<close>

text \<open>
  The adapter audits each call and forwards it; the encrypting calls take only the key from the
  strategy and use \<^verbatim>\<open>pkg/crypto\<close> directly.
\<close>

definition aes_audit :: "string \<Rightarrow> string \<Rightarrow> details \<Rightarrow> (go_error, 'a) outcome \<Rightarrow> int \<Rightarrow> audit_data" where
  "aes_audit operation keyID metadata r d =
     op_audit ''aes-key-manager-adapter'' operation ''SERVICE'' keyID metadata (outcome_error r) d"

definition aes_audited :: "'t env \<Rightarrow> gctx \<Rightarrow> string \<Rightarrow> string \<Rightarrow> details \<Rightarrow> ('t, 'a) wprog \<Rightarrow> ('t, 'a) wprog" where
  "aes_audited e ctx operation keyID metadata m =
     audited e (audit_on e) ctx None (aes_audit operation keyID metadata) m"

definition Adapter_GetKey :: "'t env \<Rightarrow> aes_strategy \<Rightarrow> gctx \<Rightarrow> string \<Rightarrow> ('t, bytes) wprog" where
  "Adapter_GetKey e a ctx keyID = aes_audited e ctx ''get_key'' keyID [] (st_GetKey e a keyID)"

definition Adapter_GenerateDataKey :: "'t env \<Rightarrow> aes_strategy \<Rightarrow> ('t, bytes) wprog" where
  "Adapter_GenerateDataKey e a =
     aes_audited e Background ''generate_data_key'' '''' [] (st_GenerateDataKey e a)"

definition Adapter_WrapKey :: "'t env \<Rightarrow> aes_strategy \<Rightarrow> gctx \<Rightarrow> string \<Rightarrow> bytes \<Rightarrow> ('t, bytes) wprog" where
  "Adapter_WrapKey e a ctx keyID plaintextKey =
     aes_audited e ctx ''wrap_key'' keyID [(''plaintext_key_length'', DInt (int (length plaintextKey)))]
       (st_WrapKey e a keyID plaintextKey)"

definition Adapter_UnwrapKey :: "'t env \<Rightarrow> aes_strategy \<Rightarrow> gctx \<Rightarrow> string \<Rightarrow> bytes \<Rightarrow> ('t, bytes) wprog" where
  "Adapter_UnwrapKey e a ctx keyID wrappedKey =
     aes_audited e ctx ''unwrap_key'' keyID [(''wrapped_key_length'', DInt (int (length wrappedKey)))]
       (st_UnwrapKey e a keyID wrappedKey)"

definition stamp :: "'t env \<Rightarrow> string \<Rightarrow> bytes \<Rightarrow> bytes \<Rightarrow> ('t, encrypt_aes_gcm) wprog" where
  "stamp e keyID key plaintext =
     bindM (randM e) (\<lambda>r.
     bindM (liftSum (EncryptAESGCM r key plaintext)) (\<lambda>enc. ret (enc\<lparr>en_KeyID := keyID\<rparr>)))"

definition Adapter_EncryptWithKeyID ::
  "'t env \<Rightarrow> aes_strategy \<Rightarrow> gctx \<Rightarrow> string \<Rightarrow> bytes \<Rightarrow> ('t, encrypt_aes_gcm) wprog" where
  "Adapter_EncryptWithKeyID e a ctx keyID plaintext =
     aes_audited e ctx ''encrypt_aes_gcm'' keyID [(''plaintext_length'', DInt (int (length plaintext)))]
       (bindM (st_GetKey e a keyID) (\<lambda>key. stamp e keyID key plaintext))"

definition Adapter_DecryptWithKeyID ::
  "'t env \<Rightarrow> aes_strategy \<Rightarrow> gctx \<Rightarrow> string \<Rightarrow> encrypt_aes_gcm \<Rightarrow> ('t, bytes) wprog" where
  "Adapter_DecryptWithKeyID e a ctx keyID enc =
     aes_audited e ctx ''decrypt_aes_gcm'' keyID
       [(''encrypted_length'', DInt (int (length (en_Ciphertext enc))))]
       (if en_KeyID enc \<noteq> keyID then throw (PkgErr ErrKeyIDMismatch)
        else bindM (st_GetKey e a keyID) (\<lambda>key. liftSum (DecryptAESGCM key enc)))"

definition Adapter_EncryptWithKey ::
  "'t env \<Rightarrow> aes_strategy \<Rightarrow> bytes \<Rightarrow> bytes \<Rightarrow> ('t, encrypt_aes_gcm) wprog" where
  "Adapter_EncryptWithKey e a key plaintext =
     bindM (st_GetCurrentKeyID a) (\<lambda>keyID.
     aes_audited e Background ''encrypt_aes_gcm'' keyID
       [(''plaintext_length'', DInt (int (length plaintext)))] (stamp e keyID key plaintext))"

definition Adapter_DecryptWithKey ::
  "'t env \<Rightarrow> bytes \<Rightarrow> encrypt_aes_gcm \<Rightarrow> ('t, bytes) wprog" where
  "Adapter_DecryptWithKey e key enc =
     aes_audited e Background ''decrypt_aes_gcm'' (en_KeyID enc)
       [(''encrypted_length'', DInt (int (length (en_Ciphertext enc))))] (liftSum (DecryptAESGCM key enc))"

definition Adapter_RewrapKey ::
  "'t env \<Rightarrow> aes_strategy \<Rightarrow> string \<Rightarrow> string \<Rightarrow> bytes \<Rightarrow> ('t, bytes) wprog" where
  "Adapter_RewrapKey e a oldKeyID newKeyID wrappedKey = st_RewrapKey e a oldKeyID newKeyID wrappedKey"

definition Adapter_ListKeyVersions :: "'t env \<Rightarrow> aes_strategy \<Rightarrow> ('t, string list) wprog" where
  "Adapter_ListKeyVersions e a = st_ListKeyVersions e a"

definition Adapter_GetCurrentKeyID :: "aes_strategy \<Rightarrow> ('t, string) wprog" where
  "Adapter_GetCurrentKeyID a = st_GetCurrentKeyID a"

section \<open>The factory\<close>

record secrets_config =
  sc_Strategy :: string
  sc_Local :: local_config
  sc_K8S :: k8s_config
  sc_VaultAddress :: string

text \<open>\<open>client\<close> is the result of \<open>createK8sClient\<close> on the given configuration.\<close>

definition NewAESKeyManager :: "(k8s_config \<Rightarrow> go_error + 'k) \<Rightarrow> secrets_config \<Rightarrow> go_error + aes_strategy" where
  "NewAESKeyManager client c =
     (if sc_Strategy c = ''local'' then Inr (LocalMgr (NewLocalAESKeyManager (sc_Local c)))
      else if sc_Strategy c = ''k8s''
        then (case NewK8SAESKeyManager (client (sc_K8S c)) (sc_K8S c) of
                Inl err \<Rightarrow> Inl err | Inr k \<Rightarrow> Inr (K8sMgr k))
      else if sc_Strategy c = ''vault'' then Inr (VaultMgr (NewVaultAESKeyManager (sc_VaultAddress c)))
      else Inr (LocalMgr (NewLocalAESKeyManager (sc_Local c))))"

section \<open>The contract of a key manager\<close>

text \<open>
  \<open>resolves kid mk s\<close>: in state \<open>s\<close> the key id denotes the master key \<open>mk\<close>. A manager promises
  that what it wraps was wrapped under the key the id resolves to from then on, and that it
  unwraps with that key.
\<close>

locale key_wrapping =
  fixes wrap :: "string \<Rightarrow> bytes \<Rightarrow> ('s, go_error, bytes) prog"
    and unwrap :: "string \<Rightarrow> bytes \<Rightarrow> ('s, go_error, bytes) prog"
    and rewrap :: "string \<Rightarrow> string \<Rightarrow> bytes \<Rightarrow> ('s, go_error, bytes) prog"
    and resolves :: "string \<Rightarrow> bytes \<Rightarrow> 's \<Rightarrow> bool"
  assumes wrap_Ok: "wrap kid k s = (Ok w, t) \<Longrightarrow> \<exists>mk. resolves kid mk t \<and> UnwrapKey mk w = Inr k"
    and unwrap_resolved: "resolves kid mk s \<Longrightarrow> UnwrapKey mk w = Inr k \<Longrightarrow>
          \<exists>t. unwrap kid w s = (Ok k, t) \<and> resolves kid mk t"
    and rewrap_Ok: "rewrap old new w s = (Ok w', t) \<Longrightarrow>
          \<exists>mo mn k. resolves old mo t \<and> resolves new mn t
            \<and> UnwrapKey mo w = Inr k \<and> UnwrapKey mn w' = Inr k"
begin

lemma unwrap_wrap:
  assumes "wrap kid k s = (Ok w, t)"
  shows "\<exists>u. unwrap kid w t = (Ok k, u)"
  using wrap_Ok [OF assms] unwrap_resolved by blast

lemma unwrap_rewrap:
  assumes "rewrap old new w s = (Ok w', t)"
  shows "\<exists>k u v. unwrap old w t = (Ok k, u) \<and> unwrap new w' t = (Ok k, v)"
  using rewrap_Ok [OF assms] unwrap_resolved by blast

end

text \<open>
  A manager in use: \<open>step\<close> is whatever may happen between two calls, and no step changes what a key id
  denotes. So a wrapped key stays readable.
\<close>

locale stable_key_wrapping = key_wrapping wrap unwrap rewrap resolves
  for wrap :: "string \<Rightarrow> bytes \<Rightarrow> ('s, go_error, bytes) prog"
    and unwrap :: "string \<Rightarrow> bytes \<Rightarrow> ('s, go_error, bytes) prog"
    and rewrap :: "string \<Rightarrow> string \<Rightarrow> bytes \<Rightarrow> ('s, go_error, bytes) prog"
    and resolves :: "string \<Rightarrow> bytes \<Rightarrow> 's \<Rightarrow> bool" +
  fixes step :: "'s \<Rightarrow> 's \<Rightarrow> bool"
  assumes step_resolves: "step s t \<Longrightarrow> resolves kid mk s \<Longrightarrow> resolves kid mk t"
begin

lemma resolves_later: "step\<^sup>*\<^sup>* s t \<Longrightarrow> resolves kid mk s \<Longrightarrow> resolves kid mk t"
  by (induction rule: rtranclp_induct) (auto intro: step_resolves)

lemma unwrap_later:
  assumes "wrap kid k s = (Ok w, t)" and "step\<^sup>*\<^sup>* t u"
  shows "\<exists>v. unwrap kid w u = (Ok k, v)"
  using wrap_Ok [OF assms(1)] resolves_later [OF assms(2)] unwrap_resolved by blast

lemma unwrap_rewrap_later:
  assumes "rewrap old new w s = (Ok w', t)" and "step\<^sup>*\<^sup>* t x"
  shows "\<exists>k u v. unwrap old w x = (Ok k, u) \<and> unwrap new w' x = (Ok k, v)"
proof -
  obtain mo mn k where "resolves old mo t" "resolves new mn t" and k: "UnwrapKey mo w = Inr k" "UnwrapKey mn w' = Inr k"
    using rewrap_Ok [OF assms(1)] by blast
  then have "resolves old mo x" "resolves new mn x" using resolves_later [OF assms(2)] by blast+
  from unwrap_resolved [OF this(1) k(1)] unwrap_resolved [OF this(2) k(2)] show ?thesis by blast
qed

end

subsection \<open>Facts about the managers\<close>

lemma UnwrapKey_Inr_length: "UnwrapKey mk w = Inr k \<Longrightarrow> 28 \<le> length w"
  by (auto simp: UnwrapKey_def AESGCMIVSize_def split: if_splits)

lemma run_bad_sizes [run_simps]:
  "bad_key_size n w = (Err (PkgErr ErrInvalidAESKeySize),
     w\<lparr>w_errs := fold (\<lambda>(k, v). store_detail ErrInvalidAESKeySize k v)
         [(''expected'', DInt 32), (''actual'', DInt (int n))] (w_errs w)\<rparr>)"
  "short_wrapped_key n w = (Err (PkgErr ErrWrappingKeyLength),
     w\<lparr>w_errs := fold (\<lambda>(k, v). store_detail ErrWrappingKeyLength k v)
         [(''minimum_expected'', DInt 28), (''actual'', DInt (int n))] (w_errs w)\<rparr>)"
  by (simp_all add: bad_key_size_def short_wrapped_key_def run_failPkg)

lemma Local_WrapKey_Ok:
  "Local_WrapKey e l kid k s = (Ok w, t) \<Longrightarrow> UnwrapKey (lm_masterKey l) w = Inr k"
  by (auto simp: Local_WrapKey_def Local_GetKey_def run_simps UnwrapKey_WrapKey split: if_split_asm)

lemma Local_UnwrapKey_known:
  "UnwrapKey (lm_masterKey l) w = Inr k \<Longrightarrow> Local_UnwrapKey l kid w s = (Ok k, s)"
  using UnwrapKey_Inr_length [of "lm_masterKey l" w k]
  by (auto simp: Local_UnwrapKey_def Local_GetKey_def bindM_def run_basic run_liftSum)

lemma rewrap_with_Ok:
  assumes "rewrap_with e getKey old new w s = (Ok w', t)"
  obtains mo k u mn v where "getKey old s = (Ok mo, u)" "UnwrapKey mo w = Inr k"
    "getKey new u = (Ok mn, v)" "t = v\<lparr>w_tick := Suc (w_tick v)\<rparr>" "UnwrapKey mn w' = Inr k"
  using assms
  by (auto simp: rewrap_with_def run_simps dest!: UnwrapKey_WrapKey(1))

lemma K8s_GetKey_cached:
  "map_of (w_kcache w) kid = Some key \<Longrightarrow> K8s_GetKey e k kid w = (Ok key, w)"
  by (simp add: K8s_GetKey_def bindM_def run_basic)

lemma K8s_GetKey_Ok:
  assumes "K8s_GetKey e k kid w = (Ok key, w')"
  shows "map_of (w_kcache w') kid = Some key"
    and "map_of (w_kcache w) i = Some v \<Longrightarrow> map_of (w_kcache w') i = Some v"
  using assms
  by (auto simp: K8s_GetKey_def fetch_secret_def run_simps bindM_def Let_def map_of_update
      split: option.splits sum.splits if_splits)

lemma K8s_master_key_Ok:
  "K8s_master_key e k kid w = (Ok key, w') \<longleftrightarrow> K8s_GetKey e k kid w = (Ok key, w')"
  by (auto simp: K8s_master_key_def run_simps)

lemma K8s_WrapKey_Ok:
  assumes "K8s_WrapKey e k kid key s = (Ok w, t)"
  shows "\<exists>mk. map_of (w_kcache t) kid = Some mk \<and> UnwrapKey mk w = Inr key"
  using assms
  by (auto simp: K8s_WrapKey_def run_simps K8s_master_key_Ok split: if_split_asm
      dest!: K8s_GetKey_Ok(1) UnwrapKey_WrapKey(1))

lemma K8s_UnwrapKey_cached:
  assumes "map_of (w_kcache s) kid = Some mk" and "UnwrapKey mk w = Inr key"
  shows "K8s_UnwrapKey e k kid w s = (Ok key, s)"
  using UnwrapKey_Inr_length [OF assms(2)] K8s_GetKey_cached [OF assms(1), of e k] assms(2)
  by (auto simp: K8s_UnwrapKey_def K8s_master_key_def bindM_def run_basic)

interpretation local_wrapping:
  key_wrapping "Local_WrapKey e l" "Local_UnwrapKey l" "Local_RewrapKey e l"
    "\<lambda>kid mk s. mk = lm_masterKey l"
  for e :: "'t env" and l
proof unfold_locales
  fix kid k w and s t :: "'t world"
  assume "Local_WrapKey e l kid k s = (Ok w, t)"
  then show "\<exists>mk. mk = lm_masterKey l \<and> UnwrapKey mk w = Inr k" by (simp add: Local_WrapKey_Ok)
next
  fix kid :: string and mk w k and s :: "'t world"
  assume "mk = lm_masterKey l" "UnwrapKey mk w = Inr k"
  then show "\<exists>t. Local_UnwrapKey l kid w s = (Ok k, t) \<and> mk = lm_masterKey l"
    by (simp add: Local_UnwrapKey_known)
next
  fix old new w w' and s t :: "'t world"
  assume "Local_RewrapKey e l old new w s = (Ok w', t)"
  then show "\<exists>mo mn k. mo = lm_masterKey l \<and> mn = lm_masterKey l
      \<and> UnwrapKey mo w = Inr k \<and> UnwrapKey mn w' = Inr k"
    unfolding Local_RewrapKey_def
    by (rule rewrap_with_Ok) (auto simp: Local_GetKey_def run_basic)
qed

interpretation k8s_wrapping:
  key_wrapping "K8s_WrapKey e k" "K8s_UnwrapKey e k" "K8s_RewrapKey e k"
    "\<lambda>kid mk s. map_of (w_kcache s) kid = Some mk"
  for e :: "'t env" and k
proof unfold_locales
  fix old new w w' and s t :: "'t world"
  assume "K8s_RewrapKey e k old new w s = (Ok w', t)"
  then show "\<exists>mo mn key. map_of (w_kcache t) old = Some mo \<and> map_of (w_kcache t) new = Some mn
      \<and> UnwrapKey mo w = Inr key \<and> UnwrapKey mn w' = Inr key"
    unfolding K8s_RewrapKey_def
    by (rule rewrap_with_Ok) (auto dest: K8s_GetKey_Ok)
qed (auto dest: K8s_WrapKey_Ok simp: K8s_UnwrapKey_cached)

subsection \<open>The strategies and the adapter keep the contract\<close>

primrec st_resolves :: "aes_strategy \<Rightarrow> string \<Rightarrow> bytes \<Rightarrow> 't world \<Rightarrow> bool" where
  "st_resolves (LocalMgr l) kid mk w = (mk = lm_masterKey l)"
| "st_resolves (K8sMgr k) kid mk w = (map_of (w_kcache w) kid = Some mk)"
| "st_resolves (VaultMgr v) kid mk w = False"

lemma st_resolves_frame [simp]:
  "st_resolves a kid mk (w\<lparr>w_tick := n\<rparr>) = st_resolves a kid mk w"
  "st_resolves a kid mk (AuditOperation_call on c d i w) = st_resolves a kid mk w"
  by (cases a; simp)+

lemma unimplemented_iff [simp]: "unimplemented w = (r, w') \<longleftrightarrow> r = Panic ''unimplemented'' \<and> w' = w"
  by (auto simp: unimplemented_def run_basic)

interpretation strategy_wrapping:
  key_wrapping "st_WrapKey e a" "st_UnwrapKey e a" "st_RewrapKey e a" "st_resolves a"
  for e :: "'t env" and a
proof (cases a)
  case (LocalMgr l)
  have "(st_resolves a :: _ \<Rightarrow> _ \<Rightarrow> 't world \<Rightarrow> bool) = (\<lambda>kid mk s. mk = lm_masterKey l)" by (simp add: LocalMgr fun_eq_iff)
  then show "key_wrapping (st_WrapKey e a) (st_UnwrapKey e a) (st_RewrapKey e a) (st_resolves a)"
    using local_wrapping.key_wrapping_axioms [of e l] by (simp add: LocalMgr)
next
  case (K8sMgr k)
  have "(st_resolves a :: _ \<Rightarrow> _ \<Rightarrow> 't world \<Rightarrow> bool) = (\<lambda>kid mk s. map_of (w_kcache s) kid = Some mk)"
    by (simp add: K8sMgr fun_eq_iff)
  then show "key_wrapping (st_WrapKey e a) (st_UnwrapKey e a) (st_RewrapKey e a) (st_resolves a)"
    using k8s_wrapping.key_wrapping_axioms [of e k] by (simp add: K8sMgr)
next
  case (VaultMgr v)
  then show "key_wrapping (st_WrapKey e a) (st_UnwrapKey e a) (st_RewrapKey e a) (st_resolves a)"
    by unfold_locales auto
qed

lemma aes_audited_run:
  "aes_audited e ctx op kid md m w = (r, w') \<longleftrightarrow>
     (\<exists>u. m (w\<lparr>w_tick := Suc (w_tick w)\<rparr>) = (r, u)
        \<and> w' = AuditOperation_call (audit_on e) ctx
             (aes_audit op kid md r (millis_since (now_at e (w_tick w)) (now_at e (w_tick u)))) None
             (u\<lparr>w_tick := Suc (w_tick u)\<rparr>))"
  by (simp add: aes_audited_def audited_run)

interpretation adapter_wrapping:
  key_wrapping "Adapter_WrapKey e a ctx" "Adapter_UnwrapKey e a ctx" "Adapter_RewrapKey e a" "st_resolves a"
  for e :: "'t env" and a and ctx
proof unfold_locales
  fix kid k w and s t :: "'t world"
  assume "Adapter_WrapKey e a ctx kid k s = (Ok w, t)"
  then show "\<exists>mk. st_resolves a kid mk t \<and> UnwrapKey mk w = Inr k"
    by (auto simp: Adapter_WrapKey_def aes_audited_run dest: strategy_wrapping.wrap_Ok)
next
  fix kid mk w k and s :: "'t world"
  assume "st_resolves a kid mk s" "UnwrapKey mk w = Inr k"
  then have "st_resolves a kid mk (s\<lparr>w_tick := Suc (w_tick s)\<rparr>)" by simp
  from strategy_wrapping.unwrap_resolved [OF this \<open>UnwrapKey mk w = Inr k\<close>, of e]
  show "\<exists>t. Adapter_UnwrapKey e a ctx kid w s = (Ok k, t) \<and> st_resolves a kid mk t"
    by (auto simp: Adapter_UnwrapKey_def aes_audited_run)
next
  fix old new w w' and s t :: "'t world"
  assume "Adapter_RewrapKey e a old new w s = (Ok w', t)"
  then show "\<exists>mo mn k. st_resolves a old mo t \<and> st_resolves a new mn t
      \<and> UnwrapKey mo w = Inr k \<and> UnwrapKey mn w' = Inr k"
    unfolding Adapter_RewrapKey_def by (rule strategy_wrapping.rewrap_Ok)
qed

subsection \<open>Only 32-byte keys are cached\<close>

definition keys32 :: "(string \<times> bytes) list \<Rightarrow> bool" where
  "keys32 c \<longleftrightarrow> (\<forall>(kid, key) \<in> set c. length key = 32)"

definition kcache_ok :: "'t world \<Rightarrow> bool" where
  "kcache_ok w \<longleftrightarrow> keys32 (w_kcache w)"

definition keeps_kcache_ok :: "'t world \<Rightarrow> 't world \<Rightarrow> bool" where
  "keeps_kcache_ok w w' \<longleftrightarrow> (kcache_ok w \<longrightarrow> kcache_ok w')"

interpretation cache: effect keeps_kcache_ok
  by unfold_locales (auto simp: keeps_kcache_ok_def)

lemma cache_if_unchanged: "unchanged w_kcache m \<Longrightarrow> within keeps_kcache_ok m"
  by (auto simp: within_def keeps_kcache_ok_def kcache_ok_def)

lemma keys32_update: "keys32 c \<Longrightarrow> length key = 32 \<Longrightarrow> keys32 (AList.update kid key c)"
  by (induction c) (auto simp: keys32_def)

lemma keys32_map_of: "keys32 c \<Longrightarrow> map_of c kid = Some key \<Longrightarrow> length key = 32"
  by (auto simp: keys32_def dest: map_of_SomeD)

lemma K8s_GetKey_kcache: "within keeps_kcache_ok (K8s_GetKey e k kid)"
  by (rule withinI)
    (auto simp: K8s_GetKey_def fetch_secret_def bad_key_size_def bindM_def run_simps keeps_kcache_ok_def
      kcache_ok_def keys32_update Let_def split: option.splits sum.splits if_splits)

lemma K8s_GetKey_32:
  assumes "kcache_ok w" and "K8s_GetKey e k kid w = (Ok key, w')"
  shows "length key = 32"
proof -
  have "kcache_ok w'"
    using withinD [OF K8s_GetKey_kcache assms(2)] assms(1) by (simp add: keeps_kcache_ok_def)
  then show ?thesis using K8s_GetKey_Ok(1) [OF assms(2)] by (auto simp: kcache_ok_def keys32_map_of)
qed

lemma randM_kcache: "unchanged w_kcache (randM e)" "unchanged w_kcache (fetch_secret e)"
  "unchanged w_kcache (liftSum r)" "unchanged w_kcache (failPkg c kvs)"
  "unchanged w_kcache (bad_key_size n)" "unchanged w_kcache (short_wrapped_key n)"
  unfolding fetch_secret_def bad_key_size_def short_wrapped_key_def
  by (auto intro!: unchanged_intros)

lemmas cache_steps = cache.within_all within_if within_option within_sum K8s_GetKey_kcache
  randM_kcache [THEN cache_if_unchanged]

lemma st_kcache:
  "within keeps_kcache_ok (st_GetKey e a kid)" "within keeps_kcache_ok (st_GenerateDataKey e a)"
  "within keeps_kcache_ok (st_WrapKey e a kid key)" "within keeps_kcache_ok (st_UnwrapKey e a kid key)"
  "within keeps_kcache_ok (st_RewrapKey e a old new key)" "within keeps_kcache_ok (st_ListKeyVersions e a)"
  "within keeps_kcache_ok (st_GetCurrentKeyID a)"
  by (cases a; simp add: Local_GetKey_def Local_GenerateDataKey_def K8s_GenerateDataKey_def Local_WrapKey_def
      Local_UnwrapKey_def K8s_WrapKey_def K8s_UnwrapKey_def Local_RewrapKey_def K8s_RewrapKey_def rewrap_with_def
      K8s_master_key_def Local_ListKeyVersions_def K8s_ListKeyVersions_def unimplemented_def; intro cache_steps)+

lemma audited_kcache:
  assumes "within keeps_kcache_ok m"
  shows "within keeps_kcache_ok (aes_audited e ctx op1 kid md m)"
proof (rule withinI)
  fix w r w'
  assume "aes_audited e ctx op1 kid md m w = (r, w')"
  then obtain u where u: "m (w\<lparr>w_tick := Suc (w_tick w)\<rparr>) = (r, u)" and "w_kcache w' = w_kcache u"
    by (auto simp: aes_audited_run)
  then show "keeps_kcache_ok w w'" using withinD [OF assms u] by (simp add: keeps_kcache_ok_def kcache_ok_def)
qed

lemma adapter_kcache:
  "within keeps_kcache_ok (Adapter_GetKey e a ctx kid)" "within keeps_kcache_ok (Adapter_GenerateDataKey e a)"
  "within keeps_kcache_ok (Adapter_WrapKey e a ctx kid key)" "within keeps_kcache_ok (Adapter_UnwrapKey e a ctx kid key)"
  "within keeps_kcache_ok (Adapter_EncryptWithKeyID e a ctx kid pt)"
  "within keeps_kcache_ok (Adapter_DecryptWithKeyID e a ctx kid enc)"
  "within keeps_kcache_ok (Adapter_EncryptWithKey e a key pt)" "within keeps_kcache_ok (Adapter_DecryptWithKey e key enc)"
  "within keeps_kcache_ok (Adapter_RewrapKey e a old new key)" "within keeps_kcache_ok (Adapter_ListKeyVersions e a)"
  unfolding Adapter_GetKey_def Adapter_GenerateDataKey_def Adapter_WrapKey_def Adapter_UnwrapKey_def
    Adapter_EncryptWithKeyID_def Adapter_DecryptWithKeyID_def Adapter_EncryptWithKey_def Adapter_DecryptWithKey_def
    Adapter_RewrapKey_def Adapter_ListKeyVersions_def stamp_def
  by (intro audited_kcache st_kcache cache_steps)+

subsection \<open>What a key id denotes stays denoted\<close>

lemma st_GetKey_resolves: "st_GetKey e a kid w = (Ok key, w') \<Longrightarrow> st_resolves a kid key w'"
  by (cases a) (auto simp: Local_GetKey_def run_basic dest: K8s_GetKey_Ok)

lemma st_resolves_GetKey: "st_resolves a kid key w \<Longrightarrow> st_GetKey e a kid w = (Ok key, w)"
  by (cases a) (auto simp: Local_GetKey_def run_basic K8s_GetKey_cached)

lemma st_WrapKey_length: "st_WrapKey e a kid key w = (Ok x, w') \<Longrightarrow> length key = 32"
  by (cases a) (auto simp: Local_WrapKey_def K8s_WrapKey_def run_simps split: if_split_asm)

lemma Adapter_WrapKey_total:
  assumes "length (lm_masterKey l) = 32" and "length key = 32" and "\<And>n. \<exists>f. rand_at e n = Inr f"
  shows "\<exists>x w'. Adapter_WrapKey e (LocalMgr l) ctx kid key w = (Ok x, w')"
proof -
  from assms(3) obtain f where f: "rand_at e (Suc (w_tick w)) = Inr f" by blast
  from WrapKey_total [of "lm_masterKey l" key f] assms obtain x
    where "WrapKey (Inr f) (lm_masterKey l) key = Inr x" by fastforce
  then show ?thesis using assms f
    by (auto simp: Adapter_WrapKey_def aes_audited_run Local_WrapKey_def Local_GetKey_def bindM_def
        run_basic run_tick run_liftSum)
qed

subsection \<open>A key id keeps its key\<close>

text \<open>
  The calls of the audited manager, and anything else that leaves the manager's cache alone: the services, the
  token, the database and the clock.
\<close>

inductive manager_step :: "'t env \<Rightarrow> aes_strategy \<Rightarrow> 't world \<Rightarrow> 't world \<Rightarrow> bool" for e a where
  "manager_step e a w (snd (Adapter_GetKey e a ctx kid w))"
| "manager_step e a w (snd (Adapter_GenerateDataKey e a w))"
| "manager_step e a w (snd (Adapter_WrapKey e a ctx kid key w))"
| "manager_step e a w (snd (Adapter_UnwrapKey e a ctx kid wrapped w))"
| "manager_step e a w (snd (Adapter_EncryptWithKeyID e a ctx kid plaintext w))"
| "manager_step e a w (snd (Adapter_DecryptWithKeyID e a ctx kid enc w))"
| "manager_step e a w (snd (Adapter_EncryptWithKey e a key plaintext w))"
| "manager_step e a w (snd (Adapter_DecryptWithKey e key enc w))"
| "manager_step e a w (snd (Adapter_RewrapKey e a old new wrapped w))"
| "manager_step e a w (snd (Adapter_ListKeyVersions e a w))"
| "w_kcache w' = w_kcache w \<Longrightarrow> manager_step e a w w'"

definition keeps_keys :: "aes_strategy \<Rightarrow> 't world \<Rightarrow> 't world \<Rightarrow> bool" where
  "keeps_keys a w w' \<longleftrightarrow> (\<forall>kid mk. st_resolves a kid mk w \<longrightarrow> st_resolves a kid mk w')"

interpretation held: effect "keeps_keys a" for a
  by unfold_locales (auto simp: keeps_keys_def)

lemma keeps_keys_same: "w_kcache w' = w_kcache w \<Longrightarrow> keeps_keys a w w'"
  by (cases a) (auto simp: keeps_keys_def)

lemma held_unchanged: "unchanged w_kcache m \<Longrightarrow> within (keeps_keys a) m"
  by (auto simp: within_def keeps_keys_same)

lemma K8s_GetKey_held: "within (keeps_keys a) (K8s_GetKey e k kid)"
proof (rule withinI)
  fix w r w'
  assume run: "K8s_GetKey e k kid w = (r, w')"
  show "keeps_keys a w w'"
  proof (cases "\<exists>key. r = Ok key")
    case True
    then obtain key where r: "r = Ok key" by blast
    show ?thesis using K8s_GetKey_Ok(2) [OF run [unfolded r]] by (cases a) (auto simp: keeps_keys_def)
  next
    case False
    then have "w_kcache w' = w_kcache w" using run
      by (auto simp: K8s_GetKey_def fetch_secret_def bad_key_size_def bindM_def run_simps Let_def
          split: option.splits sum.splits if_splits)
    then show ?thesis by (rule keeps_keys_same)
  qed
qed

lemmas held_steps = held.within_all within_if within_option within_sum K8s_GetKey_held
  randM_kcache [THEN held_unchanged]

lemma st_held:
  "within (keeps_keys b) (st_GetKey e a kid)" "within (keeps_keys b) (st_GenerateDataKey e a)"
  "within (keeps_keys b) (st_WrapKey e a kid key)" "within (keeps_keys b) (st_UnwrapKey e a kid key)"
  "within (keeps_keys b) (st_RewrapKey e a old new key)" "within (keeps_keys b) (st_ListKeyVersions e a)"
  "within (keeps_keys b) (st_GetCurrentKeyID a)"
  by (cases a; simp add: Local_GetKey_def Local_GenerateDataKey_def K8s_GenerateDataKey_def Local_WrapKey_def
      Local_UnwrapKey_def K8s_WrapKey_def K8s_UnwrapKey_def Local_RewrapKey_def K8s_RewrapKey_def rewrap_with_def
      K8s_master_key_def Local_ListKeyVersions_def K8s_ListKeyVersions_def unimplemented_def; intro held_steps)+

lemma audited_held:
  assumes "within (keeps_keys b) m"
  shows "within (keeps_keys b) (aes_audited e ctx op1 kid md m)"
proof (rule withinI)
  fix w r w'
  assume "aes_audited e ctx op1 kid md m w = (r, w')"
  then obtain u x where u: "m (w\<lparr>w_tick := Suc (w_tick w)\<rparr>) = (r, u)"
    and w': "w' = AuditOperation_call (audit_on e) ctx x None (u\<lparr>w_tick := Suc (w_tick u)\<rparr>)"
    by (auto simp: aes_audited_run)
  show "keeps_keys b w w'" using withinD [OF assms u] by (simp add: keeps_keys_def w')
qed

lemma adapter_held:
  "within (keeps_keys b) (Adapter_GetKey e a ctx kid)" "within (keeps_keys b) (Adapter_GenerateDataKey e a)"
  "within (keeps_keys b) (Adapter_WrapKey e a ctx kid key)" "within (keeps_keys b) (Adapter_UnwrapKey e a ctx kid key)"
  "within (keeps_keys b) (Adapter_EncryptWithKeyID e a ctx kid pt)"
  "within (keeps_keys b) (Adapter_DecryptWithKeyID e a ctx kid enc)"
  "within (keeps_keys b) (Adapter_EncryptWithKey e a key pt)" "within (keeps_keys b) (Adapter_DecryptWithKey e key enc)"
  "within (keeps_keys b) (Adapter_RewrapKey e a old new key)" "within (keeps_keys b) (Adapter_ListKeyVersions e a)"
  unfolding Adapter_GetKey_def Adapter_GenerateDataKey_def Adapter_WrapKey_def Adapter_UnwrapKey_def
    Adapter_EncryptWithKeyID_def Adapter_DecryptWithKeyID_def Adapter_EncryptWithKey_def Adapter_DecryptWithKey_def
    Adapter_RewrapKey_def Adapter_ListKeyVersions_def stamp_def
  by (intro audited_held st_held held_steps)+

lemma manager_step_held: "manager_step e a w w' \<Longrightarrow> keeps_keys a w w'"
  by (induction rule: manager_step.induct) (rule adapter_held [unfolded within_def, rule_format] keeps_keys_same, assumption?)+

lemma manager_step_kcache: "manager_step e a w w' \<Longrightarrow> keeps_kcache_ok w w'"
proof (induction rule: manager_step.induct)
  case (11 w' w)
  then show ?case by (simp add: keeps_kcache_ok_def kcache_ok_def)
qed (rule adapter_kcache [unfolded within_def, rule_format])+

lemma manager_steps_kcache: "(manager_step e a)\<^sup>*\<^sup>* w w' \<Longrightarrow> keeps_kcache_ok w w'"
  by (induction rule: rtranclp_induct) (auto simp: keeps_kcache_ok_def dest: manager_step_kcache)

interpretation adapter_keys:
  stable_key_wrapping "Adapter_WrapKey e a ctx" "Adapter_UnwrapKey e a ctx" "Adapter_RewrapKey e a" "st_resolves a"
    "manager_step e a"
  for e :: "'t env" and a and ctx
  by unfold_locales (auto dest: manager_step_held simp: keeps_keys_def)

section \<open>Properties\<close>

text \<open>
  C21. Through the audited manager, whichever strategy the factory chose: a wrapped slot key is
  unwrapped again to the same key under the same key id, in any request context and whatever calls of the
  manager and other work of the process come in between, and only 32-byte keys are ever wrapped.
\<close>

theorem aes_manager_unwraps_what_it_wrapped:
  assumes "Adapter_WrapKey e a ctx kid key w = (Ok wrapped, w1)" and "(manager_step e a)\<^sup>*\<^sup>* w1 w2"
  shows "(\<exists>w3. Adapter_UnwrapKey e a ctx' kid wrapped w2 = (Ok key, w3)) \<and> length key = 32"
proof (rule conjI)
  from adapter_wrapping.wrap_Ok [OF assms(1)] obtain mk
    where "st_resolves a kid mk w1" "UnwrapKey mk wrapped = Inr key" by blast
  then show "\<exists>w3. Adapter_UnwrapKey e a ctx' kid wrapped w2 = (Ok key, w3)"
    using adapter_keys.resolves_later [OF assms(2)] adapter_wrapping.unwrap_resolved by blast
  show "length key = 32"
    using assms(1) by (auto simp: Adapter_WrapKey_def aes_audited_run dest: st_WrapKey_length)
qed

theorem aes_manager_unwraps_what_it_wrapped_witness:
  "\<exists>x w1 w2. Adapter_WrapKey sample_env (LocalMgr \<lparr>lm_masterKey = replicate 32 7, lm_keyID = ''k1''\<rparr>)
       Background ''k1'' (replicate 32 1) (fresh_world sample_token) = (Ok x, w1)
     \<and> Adapter_UnwrapKey sample_env (LocalMgr \<lparr>lm_masterKey = replicate 32 7, lm_keyID = ''k1''\<rparr>)
       Background ''k1'' x w1 = (Ok (replicate 32 1), w2)"
proof -
  let ?m = "LocalMgr \<lparr>lm_masterKey = replicate 32 7, lm_keyID = ''k1''\<rparr>"
  obtain x w1 where "Adapter_WrapKey sample_env ?m Background ''k1'' (replicate 32 1)
      (fresh_world sample_token) = (Ok x, w1)"
    using Adapter_WrapKey_total [of "\<lparr>lm_masterKey = replicate 32 7, lm_keyID = ''k1''\<rparr>"
        "replicate 32 1" sample_env Background "''k1''" "fresh_world sample_token"] by auto
  with aes_manager_unwraps_what_it_wrapped [OF this rtranclp.rtrancl_refl, of Background] show ?thesis by blast
qed

text \<open>
  C22. Rotation of the master key: when \<^verbatim>\<open>RewrapKey\<close> succeeds, the old blob under the old key
  id and the new blob under the new key id unwrap to the same data key, then and at any later time.
\<close>

theorem aes_manager_rewrap_keeps_the_data_key:
  assumes "Adapter_RewrapKey e a old new wrapped w = (Ok wrapped', w1)" and "(manager_step e a)\<^sup>*\<^sup>* w1 w2"
  shows "\<exists>key u v. Adapter_UnwrapKey e a ctx old wrapped w2 = (Ok key, u)
    \<and> Adapter_UnwrapKey e a ctx new wrapped' w2 = (Ok key, v)"
  using assms by (rule adapter_keys.unwrap_rewrap_later)

theorem aes_manager_rewrap_keeps_the_data_key_witness:
  "\<exists>x y w2 key u v.
     Adapter_RewrapKey sample_env (LocalMgr \<lparr>lm_masterKey = replicate 32 7, lm_keyID = ''k1''\<rparr>)
       ''k1'' ''k1'' x (fresh_world sample_token) = (Ok y, w2)
     \<and> Adapter_UnwrapKey sample_env (LocalMgr \<lparr>lm_masterKey = replicate 32 7, lm_keyID = ''k1''\<rparr>)
         Background ''k1'' x w2 = (Ok key, u)
     \<and> Adapter_UnwrapKey sample_env (LocalMgr \<lparr>lm_masterKey = replicate 32 7, lm_keyID = ''k1''\<rparr>)
         Background ''k1'' y w2 = (Ok key, v)"
proof -
  let ?l = "\<lparr>lm_masterKey = replicate 32 7, lm_keyID = ''k1''\<rparr>"
  have tot: "\<exists>x. WrapKey (Inr f) (replicate 32 7) (replicate 32 1) = Inr x" for f
    by (rule WrapKey_total) simp_all
  obtain x where x: "WrapKey (Inr (\<lambda>i. 0)) (replicate 32 7) (replicate 32 1) = Inr x"
    using tot by blast
  obtain y where y: "WrapKey (Inr (\<lambda>i. of_nat i)) (replicate 32 7) (replicate 32 1) = Inr y"
    using tot by blast
  have "Adapter_RewrapKey sample_env (LocalMgr ?l) ''k1'' ''k1'' x (fresh_world sample_token)
      = (Ok y, (fresh_world sample_token)\<lparr>w_tick := 1\<rparr>)"
    using UnwrapKey_WrapKey(1) [OF x] y
    by (simp add: Adapter_RewrapKey_def Local_RewrapKey_def rewrap_with_def Local_GetKey_def
        bindM_def catchM_def run_basic run_tick run_liftSum fresh_world_def)
  with aes_manager_rewrap_keeps_the_data_key [OF this rtranclp.rtrancl_refl, of Background] show ?thesis by blast
qed

text \<open>
  C23. Encryption under a key id: what \<^verbatim>\<open>EncryptWithKeyID\<close> returns for a non-empty plaintext
  carries that key id and decrypts under it from then on; under any other key id it is refused with
  \<^verbatim>\<open>KEY_ID_MISMATCH\<close> before a key is fetched.
\<close>

theorem aes_manager_decrypts_under_the_same_id:
  assumes "Adapter_EncryptWithKeyID e a ctx kid plaintext w = (Ok enc, w1)" and "plaintext \<noteq> []"
    and "(manager_step e a)\<^sup>*\<^sup>* w1 w2"
  shows "en_KeyID enc = kid \<and> (\<exists>w3. Adapter_DecryptWithKeyID e a ctx' kid enc w2 = (Ok plaintext, w3))
    \<and> (other \<noteq> kid \<longrightarrow> fst (Adapter_DecryptWithKeyID e a ctx' other enc w2) = Err (PkgErr ErrKeyIDMismatch))"
proof -
  from assms(1) obtain key u r enc0 n d
    where k: "st_GetKey e a kid (w\<lparr>w_tick := Suc (w_tick w)\<rparr>) = (Ok key, u)"
    and enc: "EncryptAESGCM r key plaintext = Inr enc0" "enc = enc0\<lparr>en_KeyID := kid\<rparr>"
    and w1: "w1 = AuditOperation_call (audit_on e) ctx d None (u\<lparr>w_tick := n\<rparr>)"
    unfolding Adapter_EncryptWithKeyID_def aes_audited_run stamp_def bindM_Ok run_tick liftSum_iff run_basic
    by fastforce
  have "st_resolves a kid key w1" using st_GetKey_resolves [OF k] by (simp add: w1)
  then have "st_resolves a kid key w2" using adapter_keys.resolves_later [OF assms(3)] by blast
  then have "st_GetKey e a kid (w2\<lparr>w_tick := n\<rparr>) = (Ok key, w2\<lparr>w_tick := n\<rparr>)" for n
    by (simp add: st_resolves_GetKey)
  moreover have "DecryptAESGCM key enc = Inr plaintext"
    unfolding enc(2) using enc(1) assms(2) by (rule DecryptAESGCM_Encrypt)
  moreover have "en_KeyID enc = kid" by (simp add: enc)
  ultimately show ?thesis
    by (simp add: Adapter_DecryptWithKeyID_def aes_audited_run run_simps)
      (auto simp: aes_audited_def audited_def bindM_def run_tick deferM_def run_basic)
qed

theorem aes_manager_decrypts_under_the_same_id_witness:
  "\<exists>enc w1 w2. Adapter_EncryptWithKeyID sample_env (K8sMgr \<lparr>km_config = \<lparr>kc_SecretName = ''s'',
       kc_SecretNamespace = ''default'', kc_KeyID = ''k1'', kc_MasterKeyKey = ''master-aes-key-v1'',
       kc_OldMasterKeyKey = '''', kc_KubeconfigPath = '''', kc_InCluster = True\<rparr>, km_currentKeyID = ''k1''\<rparr>)
       Background ''k1'' [1, 2] ((fresh_world sample_token)\<lparr>w_kcache := [(''k1'', replicate 32 3)]\<rparr>)
       = (Ok enc, w1)
     \<and> Adapter_DecryptWithKeyID sample_env (K8sMgr \<lparr>km_config = \<lparr>kc_SecretName = ''s'',
       kc_SecretNamespace = ''default'', kc_KeyID = ''k1'', kc_MasterKeyKey = ''master-aes-key-v1'',
       kc_OldMasterKeyKey = '''', kc_KubeconfigPath = '''', kc_InCluster = True\<rparr>, km_currentKeyID = ''k1''\<rparr>)
       Background ''k1'' enc w1 = (Ok [1, 2], w2)"
proof -
  let ?m = "K8sMgr \<lparr>km_config = \<lparr>kc_SecretName = ''s'',
       kc_SecretNamespace = ''default'', kc_KeyID = ''k1'', kc_MasterKeyKey = ''master-aes-key-v1'',
       kc_OldMasterKeyKey = '''', kc_KubeconfigPath = '''', kc_InCluster = True\<rparr>, km_currentKeyID = ''k1''\<rparr>"
  let ?w = "(fresh_world sample_token)\<lparr>w_kcache := [(''k1'', replicate 32 (3 :: byte))]\<rparr>"
  obtain enc0 where "EncryptAESGCM (Inr (\<lambda>i. of_nat (Suc i))) (replicate 32 3) [1, 2] = Inr enc0"
    using EncryptAESGCM_total [of "replicate 32 3"] by auto
  then have "\<exists>enc w1. Adapter_EncryptWithKeyID sample_env ?m Background ''k1'' [1, 2] ?w = (Ok enc, w1)"
    by (auto simp: Adapter_EncryptWithKeyID_def aes_audited_run stamp_def bindM_def run_basic run_tick
        run_liftSum K8s_GetKey_def fresh_world_def)
  then obtain enc w1
    where "Adapter_EncryptWithKeyID sample_env ?m Background ''k1'' [1, 2] ?w = (Ok enc, w1)" by blast
  with aes_manager_decrypts_under_the_same_id [OF this _ rtranclp.rtrancl_refl, of Background "''k2''"] show ?thesis by blast
qed

text \<open>
  C25. The key cache of the Kubernetes manager holds only 32-byte keys: every sequence of calls of the audited
  manager keeps it so (wrapping, unwrapping, rewrapping, encrypting and decrypting under a key id all may fetch a
  key), whatever the secret holds; and then \<^verbatim>\<open>GetKey\<close> answers 32 bytes, the ones that are in the cache afterwards, or fails.
\<close>

theorem k8s_key_cache_holds_aes256_keys:
  assumes "kcache_ok w" and "(manager_step e a)\<^sup>*\<^sup>* w w'"
  shows "kcache_ok w' \<and> (\<forall>k kid key w''. K8s_GetKey e k kid w' = (Ok key, w'') \<longrightarrow>
    length key = 32 \<and> map_of (w_kcache w'') kid = Some key)"
proof -
  have "kcache_ok w'" using manager_steps_kcache [OF assms(2)] assms(1) by (simp add: keeps_kcache_ok_def)
  then show ?thesis using K8s_GetKey_32 K8s_GetKey_Ok(1) by blast
qed

text \<open>
  A secret with a raw key and, in a second field, 32 bytes that read as base64: the first is fetched and cached
  by an encryption, the second decodes to 24 bytes and is refused.
\<close>

definition sample_k8s :: k8s_manager where
  "sample_k8s = \<lparr>km_config = \<lparr>kc_SecretName = ''s'', kc_SecretNamespace = ''default'', kc_KeyID = ''k1'',
     kc_MasterKeyKey = ''master-aes-key-v1'', kc_OldMasterKeyKey = '''', kc_KubeconfigPath = '''', kc_InCluster = True\<rparr>,
     km_currentKeyID = ''k1''\<rparr>"

definition secret_env :: "sample_token env" where
  "secret_env = sample_env\<lparr>k8s_secret_at :=
     \<lambda>n. Inr [(''master-aes-key-v1'', replicate 32 7), (''k0'', replicate 32 65)]\<rparr>"

definition cached_world :: "sample_token world" where
  "cached_world = (fresh_world sample_token)\<lparr>w_kcache := [(''k2'', replicate 32 3)]\<rparr>"

lemma base64_of_samples:
  "char_of (7::nat) = CHR 0x07" "char_of (65::nat) = CHR ''A''" "b64_value CHR 0x07 = None" "b64_value CHR ''A'' = Some 0"
  by (simp_all add: char_of_def bit_iff_odd b64_value_def)

lemma replicate_few:
  "replicate (3 + n) x = x # x # x # replicate n x" "replicate (4 + n) x = x # x # x # x # replicate n x"
  by (simp_all add: eval_nat_numeral)

lemma decode_quads_no_base64: "decode_quads (replicate (4 * Suc k) CHR 0x07) = None"
  by (simp add: replicate_few sextets_def base64_of_samples)

lemma decode_quads_zeros: "decode_quads (replicate (4 * k) CHR ''A'') = Some (replicate (3 * k) 0)"
  by (induction k) (simp_all add: replicate_few sextets_def base64_of_samples bytes3_def)

lemma sample_key_data:
  "decode_key_data (replicate 32 7) = replicate 32 7" "length (decode_key_data (replicate 32 65)) = 24"
  using decode_quads_no_base64 [of 7] decode_quads_zeros [of 8]
  by (simp_all add: decode_key_data_def string_of_bytes_def base64_decode_def base64_of_samples)

lemma stamp_kcache [simp]: "w_kcache (snd (stamp e kid key pt w)) = w_kcache w"
  by (cases "rand_at e (w_tick w)"; cases "EncryptAESGCM (rand_at e (w_tick w)) key pt")
    (simp_all add: stamp_def bindM_def run_basic run_tick run_liftSum)

lemma sample_fetches:
  "w_kcache (snd (Adapter_EncryptWithKeyID secret_env (K8sMgr sample_k8s) Background ''k1'' [1] cached_world))
     = [(''k2'', replicate 32 3), (''k1'', replicate 32 7)]"
  "fst (K8s_GetKey secret_env sample_k8s ''k0'' cached_world) = Err (PkgErr ErrInvalidAESKeySize)"
  by (simp_all add: Adapter_EncryptWithKeyID_def aes_audited_def audited_def deferM_def bindM_def run_basic run_tick
      K8s_GetKey_def cached_world_def fresh_world_def secret_env_def sample_k8s_def fetch_secret_def
      secret_field_def sample_key_data run_bad_sizes Let_def split_beta)

theorem k8s_key_cache_holds_aes256_keys_witness:
  "\<exists>w'. (manager_step secret_env (K8sMgr sample_k8s))\<^sup>*\<^sup>* cached_world w'
     \<and> w_kcache w' = [(''k2'', replicate 32 3), (''k1'', replicate 32 7)] \<and> kcache_ok w'
     \<and> fst (K8s_GetKey secret_env sample_k8s ''k0'' cached_world) = Err (PkgErr ErrInvalidAESKeySize)"
proof -
  let ?w = "snd (Adapter_EncryptWithKeyID secret_env (K8sMgr sample_k8s) Background ''k1'' [1] cached_world)"
  have run: "(manager_step secret_env (K8sMgr sample_k8s))\<^sup>*\<^sup>* cached_world ?w"
    by (rule r_into_rtranclp, rule manager_step.intros)
  have "kcache_ok cached_world" by (simp add: kcache_ok_def keys32_def cached_world_def)
  from k8s_key_cache_holds_aes256_keys [OF this run] have "kcache_ok ?w" by (rule conjunct1)
  then show ?thesis using run sample_fetches by (intro exI conjI)
qed

end
