(* ===== verification/Hsm_Manager.thy ===== *)
theory Hsm_Manager
  imports Hsm_Client Secrets
begin

text \<open>
  \<^verbatim>\<open>HSMManager\<close> (\<^verbatim>\<open>manager.go\<close>): the clients by slot number, and
  \<^verbatim>\<open>HSMBootstrapper\<close> (\<^verbatim>\<open>bootstrapper.go\<close>), which fills the manager from the slot table when
  the process starts. The manager's map is the field \<open>w_clients\<close> of the world. Go ranges over a map
  in an arbitrary order; here the order is that of the association list, of which no operation
  depends, so that a statement about all worlds is one about all orders.

  The locale \<open>client_registry\<close> is the contract of the map of clients; the manager's own
  operations interpret it.
\<close>

section \<open>manager.go\<close>

definition set_clients :: "((int \<times> hsm_client) list \<Rightarrow> (int \<times> hsm_client) list) \<Rightarrow> ('t, unit) wprog" where
  "set_clients f = modifyM (\<lambda>w. w\<lparr>w_clients := f (w_clients w)\<rparr>)"

definition NewHSMManager :: "('t, unit) wprog" where
  "NewHSMManager = set_clients (\<lambda>_. [])"

definition RegisterClient :: "'t env \<Rightarrow> int \<Rightarrow> hsm_client \<Rightarrow> ('t, unit) wprog" where
  "RegisterClient e slot client =
     bindM (getsM (\<lambda>w. map_of (w_clients w) slot)) (\<lambda>existing.
     bindM (case existing of None \<Rightarrow> ret () | Some c \<Rightarrow> dropErr (Client_Close e c)) (\<lambda>_.
     set_clients (AList.update slot client)))"

definition GetClientForSlot :: "int \<Rightarrow> ('t, hsm_client) wprog" where
  "GetClientForSlot slot =
     bindM (getsM (\<lambda>w. map_of (w_clients w) slot)) (\<lambda>c.
     case c of
       None \<Rightarrow> throw (PlainErr (''no HSM client registered for slot '' @ dec_int slot))
     | Some client \<Rightarrow> ret client)"

definition Manager_GenerateKeyPair ::
  "'t env \<Rightarrow> gctx \<Rightarrow> key_algorithm \<Rightarrow> int \<Rightarrow> string \<Rightarrow> int \<Rightarrow> ('t, bytes \<times> string) wprog" where
  "Manager_GenerateKeyPair e ctx algorithm ksize label slot =
     bindM (GetClientForSlot slot) (\<lambda>c. Client_GenerateKeyPair e c ctx algorithm ksize label)"

definition Manager_DeleteKey :: "'t env \<Rightarrow> gctx \<Rightarrow> string \<Rightarrow> int \<Rightarrow> ('t, unit) wprog" where
  "Manager_DeleteKey e ctx keyHandle slot =
     bindM (GetClientForSlot slot) (\<lambda>c. Client_DeleteKey e c ctx keyHandle)"

definition Manager_ListKeys :: "'t env \<Rightarrow> gctx \<Rightarrow> int \<Rightarrow> ('t, hsm_key list) wprog" where
  "Manager_ListKeys e ctx slot = bindM (GetClientForSlot slot) (\<lambda>c. Client_ListKeys e c ctx)"

definition Manager_GetPublicKey :: "'t env \<Rightarrow> gctx \<Rightarrow> string \<Rightarrow> int \<Rightarrow> ('t, bytes) wprog" where
  "Manager_GetPublicKey e ctx keyHandle slot =
     bindM (GetClientForSlot slot) (\<lambda>c. Client_GetPublicKey e c ctx keyHandle)"

definition Manager_SignHash ::
  "'t env \<Rightarrow> gctx \<Rightarrow> string \<Rightarrow> bytes \<Rightarrow> int \<Rightarrow> identity_context \<Rightarrow> ('t, bytes) wprog" where
  "Manager_SignHash e ctx keyHandle hash slot identity =
     bindM (GetClientForSlot slot) (\<lambda>c. Client_SignHash e c ctx keyHandle hash identity)"

definition Manager_VerifySignature ::
  "'t env \<Rightarrow> gctx \<Rightarrow> string \<Rightarrow> bytes \<Rightarrow> bytes \<Rightarrow> int \<Rightarrow> ('t, bool) wprog" where
  "Manager_VerifySignature e ctx keyHandle hash signature slot =
     bindM (GetClientForSlot slot) (\<lambda>c. Client_VerifySignature e c ctx keyHandle hash signature)"

definition Manager_Encrypt :: "'t env \<Rightarrow> string \<Rightarrow> bytes \<Rightarrow> int \<Rightarrow> ('t, bytes) wprog" where
  "Manager_Encrypt e keyHandle plaintext slot =
     bindM (GetClientForSlot slot) (\<lambda>c. Client_Encrypt e c keyHandle plaintext)"

definition Manager_Decrypt :: "'t env \<Rightarrow> string \<Rightarrow> bytes \<Rightarrow> int \<Rightarrow> ('t, bytes) wprog" where
  "Manager_Decrypt e keyHandle ciphertext slot =
     bindM (GetClientForSlot slot) (\<lambda>c. Client_Decrypt e c keyHandle ciphertext)"

definition Manager_GenerateKeyPairWithLabel ::
  "'t env \<Rightarrow> gctx \<Rightarrow> key_algorithm \<Rightarrow> int \<Rightarrow> string \<Rightarrow> string \<Rightarrow> int \<Rightarrow> ('t, bytes \<times> string) wprog" where
  "Manager_GenerateKeyPairWithLabel e ctx algorithm ksize label tenantID slot =
     bindM (GetClientForSlot slot) (\<lambda>c.
       Client_GenerateKeyPairWithLabel e c ctx algorithm ksize label tenantID)"

definition Manager_FindKeysByLabel :: "'t env \<Rightarrow> gctx \<Rightarrow> string \<Rightarrow> int \<Rightarrow> ('t, hsm_key list) wprog" where
  "Manager_FindKeysByLabel e ctx labelPattern slot =
     bindM (GetClientForSlot slot) (\<lambda>c. Client_FindKeysByLabel e c ctx labelPattern)"

definition ClientCount :: "'t world \<Rightarrow> nat" where
  "ClientCount w = length (w_clients w)"

fun check_clients :: "'t env \<Rightarrow> (int \<times> hsm_client) list \<Rightarrow> ('t, (int \<times> bool) list) wprog" where
  "check_clients e [] = ret []"
| "check_clients e ((slot, c) # cs) =
     bindM (attempt (Client_HealthCheck e c Background)) (\<lambda>r.
     bindM (check_clients e cs) (\<lambda>st.
     ret ((slot, case r of Inl _ \<Rightarrow> False | Inr _ \<Rightarrow> True) # st)))"

definition HealthCheckAll :: "'t env \<Rightarrow> ('t, (int \<times> bool) list) wprog" where
  "HealthCheckAll e = bindM (getsM w_clients) (check_clients e)"

definition Manager_HealthCheck :: "'t env \<Rightarrow> gctx \<Rightarrow> int \<Rightarrow> ('t, unit) wprog" where
  "Manager_HealthCheck e ctx slot = bindM (GetClientForSlot slot) (\<lambda>c. Client_HealthCheck e c ctx)"

text \<open>The loop of \<^verbatim>\<open>CloseAll\<close> over the clients; its result is \<^verbatim>\<open>lastErr\<close>.\<close>

fun close_clients :: "'t env \<Rightarrow> go_error option \<Rightarrow> (int \<times> hsm_client) list \<Rightarrow> ('t, go_error option) wprog" where
  "close_clients e lastErr [] = ret lastErr"
| "close_clients e lastErr ((slot, c) # cs) =
     tryM (Client_Close e c)
       (\<lambda>err. close_clients e (Some err) cs)
       (\<lambda>_. close_clients e lastErr cs)"

text \<open>\<open>dispatcherClose\<close> is \<^verbatim>\<open>Close\<close> of the dispatcher the manager was made with.\<close>

definition CloseAll :: "'t env \<Rightarrow> ('t, unit) wprog \<Rightarrow> ('t, unit) wprog" where
  "CloseAll e dispatcherClose =
     bindM (getsM w_clients) (\<lambda>clients.
     bindM (close_clients e None clients) (\<lambda>lastErr.
     bindM (if audit_on e then dropErr dispatcherClose else ret ()) (\<lambda>_.
     bindM (set_clients (\<lambda>_. [])) (\<lambda>_.
     bindM (tryM (FinalizePKCS11Context e)
              (\<lambda>err. ret (if lastErr = None then Some err else lastErr))
              (\<lambda>_. ret lastErr)) (\<lambda>lastErr.
     case lastErr of None \<Rightarrow> ret () | Some err \<Rightarrow> throw err)))))"

text \<open>The closed client stays registered: its pointer is the one in the map.\<close>

definition Manager_Close :: "'t env \<Rightarrow> int \<Rightarrow> ('t, unit) wprog" where
  "Manager_Close e slot =
     bindM (GetClientForSlot slot) (\<lambda>c.
     bindM (Client_Close e c) (\<lambda>c'. set_clients (AList.update slot c')))"

section \<open>bootstrapper.go\<close>

definition trimPKCS11String :: "string \<Rightarrow> string" where
  "trimPKCS11String s = trim_right_by (\<lambda>c. c = CHR '' '') s"

text \<open>The first slot whose token label, trimmed, is the given one; a token that cannot be read is skipped.\<close>

fun find_trimmed :: "'t env \<Rightarrow> (string \<Rightarrow> string) \<Rightarrow> string \<Rightarrow> u64 list \<Rightarrow> ('t, u64 option) wprog" where
  "find_trimmed e trim label [] = ret None"
| "find_trimmed e trim label (s # ss) =
     tryM (ckM True (ck_GetTokenLabel (pkcs11 e) s))
       (\<lambda>_. find_trimmed e trim label ss)
       (\<lambda>l. if trim l = label then ret (Some s) else find_trimmed e trim label ss)"

definition findSlotByLabel :: "'t env \<Rightarrow> string \<Rightarrow> ('t, u64) wprog" where
  "findSlotByLabel e label =
     bindM (wrapErr (errorf_w ''failed to get PKCS#11 context: '')
       (GetOrInitPKCS11Context e (LibraryPath e))) (\<lambda>ctx.
     bindM (wrapErr (errorf_w ''failed to get slot list: '')
       (ckM ctx (ck_GetSlotList (pkcs11 e) True))) (\<lambda>slots.
     bindM (find_trimmed e trimPKCS11String label slots) (\<lambda>found.
     case found of
       None \<Rightarrow> throw (PlainErr (''no slot found with label '' @ quoted label))
     | Some s \<Rightarrow> ret s)))"

text \<open>The slot's PIN: the data key unwrapped, and the stored ciphertext decrypted under it.\<close>

definition stored_pin :: "hsm_slot \<Rightarrow> string \<Rightarrow> encrypt_aes_gcm" where
  "stored_pin slot version = \<lparr>en_IV = sl_PIN_IV slot, en_Ciphertext = sl_Pin_ciphertext slot,
     en_Tag = sl_Pin_auth_tag slot, en_Algorithm = ''AES-256-GCM'', en_KeyID = version\<rparr>"

definition recover_pin :: "'t env \<Rightarrow> aes_strategy \<Rightarrow> gctx \<Rightarrow> hsm_slot \<Rightarrow> ('t, string) wprog" where
  "recover_pin e km ctx slot =
     bindM (wrapErr (errorf_w ''failed to get AES key metadata: '')
       (Meta_GetMetadataByID e (sl_KeyMetadataID slot))) (\<lambda>aesKey.
     bindM (wrapErr (errorf_w ''failed to unwrap slot key: '')
       (Adapter_UnwrapKey e km ctx (md_VersionID aesKey) (md_WrappedDataKey aesKey))) (\<lambda>slotKey.
     bindM (wrapErr (errorf_w ''failed to decrypt PIN: '')
       (Adapter_DecryptWithKey e slotKey (stored_pin slot (md_VersionID aesKey)))) (\<lambda>pinBytes.
     ret (string_of_bytes pinBytes))))"

definition actual_slot :: "'t env \<Rightarrow> hsm_slot \<Rightarrow> ('t, u64) wprog" where
  "actual_slot e slot =
     (if sl_IsTemporaryID slot
      then tryM (findSlotByLabel e (sl_Label slot))
             (\<lambda>_. ret (sl_SlotNumber slot))
             (\<lambda>n. bindM (dropErr (Slots_UpdateSlotNumber e (sl_ID slot) n)) (\<lambda>_. ret n))
      else ret (sl_SlotNumber slot))"

definition initializeSlot :: "'t env \<Rightarrow> aes_strategy \<Rightarrow> gctx \<Rightarrow> hsm_slot \<Rightarrow> ('t, unit) wprog" where
  "initializeSlot e km ctx slot =
     bindM (recover_pin e km ctx slot) (\<lambda>pin.
     bindM (actual_slot e slot) (\<lambda>n.
     bindM (wrapErr (errorf_w ''failed to create HSM client: '')
       (NewSoftHSMClient e (LibraryPath e) pin n (audit_on e))) (\<lambda>client.
     RegisterClient e (int_of_uint n) client)))"

fun initialize_slots :: "'t env \<Rightarrow> aes_strategy \<Rightarrow> gctx \<Rightarrow> hsm_slot list \<Rightarrow> ('t, unit) wprog" where
  "initialize_slots e km ctx [] = ret ()"
| "initialize_slots e km ctx (slot # slots) =
     bindM (dropErr (initializeSlot e km ctx slot)) (\<lambda>_. initialize_slots e km ctx slots)"

definition Bootstrap :: "'t env \<Rightarrow> aes_strategy \<Rightarrow> gctx \<Rightarrow> ('t, unit) wprog" where
  "Bootstrap e km ctx =
     bindM NewHSMManager (\<lambda>_.
     bindM (Slots_GetAllSlots e) (\<lambda>slots.
     bindM (initialize_slots e km ctx slots) (\<lambda>_.
     bindM (getsM ClientCount) (\<lambda>n.
     if n = 0 then throw (PlainErr ''no HSM clients were created successfully'') else ret ()))))"

section \<open>What the operations do\<close>

text \<open>Closing never fails.\<close>

lemma Client_Close_run: "\<exists>w'. Client_Close e c w = (Ok (c\<lparr>cl_closed := True\<rparr>), w') \<and> w_clients w' = w_clients w"
proof -
  have drop: "\<exists>u. dropErr (ckM True g) v = (Ok (), u) \<and> w_clients u = w_clients v"
    for g :: "('a, unit) ck_call" and v
    by (auto simp: dropErr_def attempt_def bindM_def ckM_def run_basic split: prod.splits sum.splits)
  show ?thesis
  proof (cases "cl_closed c")
    case True
    then have "c\<lparr>cl_closed := True\<rparr> = c" by simp
    then show ?thesis using True by (simp add: Client_Close_def run_basic)
  next
    case False
    obtain u where u: "dropErr (ckM True (ck_Logout (pkcs11 e) (cl_session c))) w = (Ok (), u)"
      "w_clients u = w_clients w" using drop by blast
    obtain v where "dropErr (ckM True (ck_CloseSession (pkcs11 e) (cl_session c))) u = (Ok (), v)"
      "w_clients v = w_clients u" using drop by blast
    then show ?thesis using False u by (simp add: Client_Close_def run_basic)
  qed
qed

lemma RegisterClient_run:
  "\<exists>w'. RegisterClient e slot c w = (Ok (), w') \<and> w_clients w' = AList.update slot c (w_clients w)"
proof (cases "map_of (w_clients w) slot")
  case None
  then show ?thesis by (simp add: RegisterClient_def set_clients_def bindM_def run_basic)
next
  case (Some c0)
  obtain u where "Client_Close e c0 w = (Ok (c0\<lparr>cl_closed := True\<rparr>), u)" "w_clients u = w_clients w"
    using Client_Close_run by blast
  then show ?thesis
    by (simp add: Some RegisterClient_def set_clients_def bindM_def run_basic dropErr_def attempt_def)
qed

lemma RegisterClient_clients:
  assumes "RegisterClient e slot c w = (r, w')"
  shows "r = Ok ()" "w_clients w' = AList.update slot c (w_clients w)"
  using RegisterClient_run [of e slot c w] assms by auto

lemma RegisterClient_not_fails [simp]:
  "RegisterClient e slot c w \<noteq> (Err err, w')" "RegisterClient e slot c w \<noteq> (Panic p, w')"
  using RegisterClient_clients(1) by blast+

lemma GetClientForSlot_eq:
  "GetClientForSlot slot w =
     (case map_of (w_clients w) slot of
        None \<Rightarrow> (Err (PlainErr (''no HSM client registered for slot '' @ dec_int slot)), w)
      | Some c \<Rightarrow> (Ok c, w))"
  by (simp add: GetClientForSlot_def bindM_def run_basic split: option.split)

lemma GetClientForSlot_iff [run_simps]:
  "GetClientForSlot slot w = (Ok c, w') \<longleftrightarrow> map_of (w_clients w) slot = Some c \<and> w' = w"
  "GetClientForSlot slot w = (Err err, w') \<longleftrightarrow> map_of (w_clients w) slot = None \<and> w' = w
     \<and> err = PlainErr (''no HSM client registered for slot '' @ dec_int slot)"
  "GetClientForSlot slot w \<noteq> (Panic p, w')"
  by (auto simp: GetClientForSlot_eq split: option.splits)

lemmas manager_defs = Manager_GenerateKeyPair_def Manager_DeleteKey_def Manager_ListKeys_def
  Manager_GetPublicKey_def Manager_SignHash_def Manager_VerifySignature_def Manager_Encrypt_def
  Manager_Decrypt_def Manager_GenerateKeyPairWithLabel_def Manager_FindKeysByLabel_def
  Manager_HealthCheck_def

lemma unchanged_GetClientForSlot [unchanged_intros]: "unchanged f (GetClientForSlot slot)"
  by (simp add: within_def GetClientForSlot_eq split: option.split)

lemma frame_manager:
  assumes "client_frame f"
  shows "unchanged f (Manager_GenerateKeyPair e ctx alg n label slot)"
    "unchanged f (Manager_DeleteKey e ctx kh slot)" "unchanged f (Manager_ListKeys e ctx slot)"
    "unchanged f (Manager_GetPublicKey e ctx kh slot)" "unchanged f (Manager_SignHash e ctx kh d slot i)"
    "unchanged f (Manager_VerifySignature e ctx kh d s slot)" "unchanged f (Manager_Encrypt e kh d slot)"
    "unchanged f (Manager_Decrypt e kh d slot)"
    "unchanged f (Manager_GenerateKeyPairWithLabel e ctx alg n label tn slot)"
    "unchanged f (Manager_FindKeysByLabel e ctx pat slot)" "unchanged f (Manager_HealthCheck e ctx slot)"
  unfolding manager_defs by (intro unchanged_bind unchanged_GetClientForSlot client_frames assms)+

lemma close_clients_run:
  "\<exists>w'. close_clients e err cs w = (Ok err, w') \<and> w_clients w' = w_clients w"
proof (induction cs arbitrary: w)
  case Nil
  then show ?case by (simp add: run_basic)
next
  case (Cons x cs)
  obtain slot c where x: "x = (slot, c)" by fastforce
  obtain u where u: "Client_Close e c w = (Ok (c\<lparr>cl_closed := True\<rparr>), u)" "w_clients u = w_clients w"
    using Client_Close_run by blast
  then show ?case using Cons.IH [of u] by (simp add: x)
qed

section \<open>The contract of the map of clients\<close>

locale client_registry =
  fixes put :: "int \<Rightarrow> 'c \<Rightarrow> ('s, go_error, unit) prog"
    and get :: "int \<Rightarrow> ('s, go_error, 'c) prog"
  assumes put_total: "\<exists>t. put k c s = (Ok (), t)"
    and get_put: "put k c s = (Ok (), t) \<Longrightarrow> fst (get k t) = Ok c"
    and get_put_other: "put k c s = (Ok (), t) \<Longrightarrow> j \<noteq> k \<Longrightarrow> fst (get j t) = fst (get j s)"
begin

fun put_all :: "(int \<times> 'c) list \<Rightarrow> 's \<Rightarrow> 's" where
  "put_all [] s = s"
| "put_all ((k, c) # kcs) s = put_all kcs (snd (put k c s))"

lemma get_put_all:
  "fst (get k (put_all kcs s)) =
     (case map_of (rev kcs) k of None \<Rightarrow> fst (get k s) | Some c \<Rightarrow> Ok c)"
proof (induction kcs arbitrary: s)
  case (Cons x kcs)
  obtain j c where x: "x = (j, c)" by fastforce
  obtain t where "put j c s = (Ok (), t)" using put_total by blast
  then show ?case using Cons.IH [of t] get_put [of j c s t] get_put_other [of j c s t k]
    by (cases "j = k") (auto simp: x map_add_def split: option.split)
qed simp

end

interpretation manager_clients: client_registry "RegisterClient e" GetClientForSlot
  for e :: "'t env"
proof unfold_locales
  fix k c and s :: "'t world"
  show "\<exists>t. RegisterClient e k c s = (Ok (), t)" using RegisterClient_run [of e k c s] by blast
next
  fix k c and s t :: "'t world"
  assume "RegisterClient e k c s = (Ok (), t)"
  then show "fst (GetClientForSlot k t) = Ok c"
    by (auto simp: GetClientForSlot_eq map_of_update dest: RegisterClient_clients)
next
  fix k j c and s t :: "'t world"
  assume "RegisterClient e k c s = (Ok (), t)" "j \<noteq> k"
  then show "fst (GetClientForSlot j t) = fst (GetClientForSlot j s)"
    by (auto simp: GetClientForSlot_eq map_of_update dest!: RegisterClient_clients split: option.split)
qed

section \<open>What bootstrapping leaves alone\<close>

text \<open>
  \<open>service_frame f\<close>: \<open>f\<close> reads only the tables and the manager's clients, none of the parts the
  PKCS#11 context, the AES key managers or the audit log move.
\<close>

definition service_frame :: "('t world \<Rightarrow> 'b) \<Rightarrow> bool" where
  "service_frame f \<longleftrightarrow> client_frame f \<and> (\<forall>w st c s o1 i l.
     f (w\<lparr>w_errs := st\<rparr>) = f w \<and> f (w\<lparr>w_kcache := c\<rparr>) = f w \<and> f (w\<lparr>w_shared := s\<rparr>) = f w
     \<and> f (w\<lparr>w_once := o1\<rparr>) = f w \<and> f (w\<lparr>w_initerr := i\<rparr>) = f w \<and> f (w\<lparr>w_libpath := l\<rparr>) = f w)"

lemma service_frame_fields [simp, intro]:
  "service_frame w_keys" "service_frame w_tenants" "service_frame w_slots" "service_frame w_meta"
  "service_frame w_ops" "service_frame w_clients"
  by (simp_all add: service_frame_def)

lemma service_frame_client [simp, intro]: "service_frame f \<Longrightarrow> client_frame f"
  by (simp add: service_frame_def)

lemma service_frame_token [simp, intro]: "service_frame f \<Longrightarrow> token_frame f"
  by (simp add: service_frame_def client_frame_def)

lemma service_frame_D:
  assumes "service_frame f"
  shows "f (w\<lparr>w_tick := k\<rparr>) = f w" "f (w\<lparr>w_errs := st\<rparr>) = f w" "f (w\<lparr>w_kcache := c\<rparr>) = f w"
    "f (w\<lparr>w_shared := s\<rparr>) = f w" "f (w\<lparr>w_once := o1\<rparr>) = f w" "f (w\<lparr>w_initerr := i\<rparr>) = f w"
    "f (w\<lparr>w_libpath := l\<rparr>) = f w" "f (w\<lparr>w_tok := t\<rparr>) = f w" "f (w\<lparr>w_audit := a\<rparr>) = f w"
  using assms by (simp_all add: service_frame_def client_frame_def token_frame_def)

text \<open>The AES key managers move still less: \<open>secrets_frame f\<close> allows \<open>f\<close> to read the token too.\<close>

definition secrets_frame :: "('t world \<Rightarrow> 'b) \<Rightarrow> bool" where
  "secrets_frame f \<longleftrightarrow> (\<forall>w k st c a. f (w\<lparr>w_tick := k\<rparr>) = f w \<and> f (w\<lparr>w_errs := st\<rparr>) = f w
     \<and> f (w\<lparr>w_kcache := c\<rparr>) = f w \<and> f (w\<lparr>w_audit := a\<rparr>) = f w)"

lemma secrets_frame_fields [simp, intro]:
  "secrets_frame w_tok" "secrets_frame w_once" "secrets_frame w_shared" "secrets_frame w_initerr"
  "secrets_frame w_libpath"
  by (simp_all add: secrets_frame_def)

lemma secrets_frame_service [simp, intro]: "service_frame f \<Longrightarrow> secrets_frame f"
  by (simp add: service_frame_D secrets_frame_def)

lemma secrets_frame_D:
  assumes "secrets_frame f"
  shows "f (w\<lparr>w_tick := k\<rparr>) = f w" "f (w\<lparr>w_errs := st\<rparr>) = f w" "f (w\<lparr>w_kcache := c\<rparr>) = f w"
    "f (w\<lparr>w_audit := a\<rparr>) = f w"
  using assms by (simp_all add: secrets_frame_def)

lemma frame_strategies:
  fixes f :: "'t world \<Rightarrow> 'b"
  assumes f: "secrets_frame f"
  shows "unchanged f (st_GetKey e a kid)" "unchanged f (st_GenerateDataKey e a)"
    "unchanged f (st_WrapKey e a kid key)" "unchanged f (st_UnwrapKey e a kid key)"
    "unchanged f (st_GetCurrentKeyID a)"
proof -
  note simps = Local_GetKey_def Local_WrapKey_def Local_UnwrapKey_def K8s_WrapKey_def
    K8s_UnwrapKey_def K8s_master_key_def Local_GenerateDataKey_def K8s_GenerateDataKey_def
    unimplemented_def bad_key_size_def short_wrapped_key_def
  have get: "unchanged f (K8s_GetKey e k kid)" for k kid
    unfolding K8s_GetKey_def fetch_secret_def bad_key_size_def Let_def
    by (intro unchanged_intros secrets_frame_D f)
  show "unchanged f (st_GetKey e a kid)" "unchanged f (st_GenerateDataKey e a)"
    "unchanged f (st_WrapKey e a kid key)" "unchanged f (st_UnwrapKey e a kid key)"
    "unchanged f (st_GetCurrentKeyID a)"
    by (cases a; simp add: simps get; intro unchanged_intros get secrets_frame_D f)+
qed

lemma frame_adapter:
  assumes f: "secrets_frame f"
  shows "unchanged f (Adapter_GenerateDataKey e a)" "unchanged f (Adapter_WrapKey e a ctx kid key)"
    "unchanged f (Adapter_UnwrapKey e a ctx kid key)" "unchanged f (Adapter_EncryptWithKey e a key pt)"
    "unchanged f (Adapter_DecryptWithKey e key enc)" "unchanged f (Adapter_GetCurrentKeyID a)"
  unfolding Adapter_GenerateDataKey_def Adapter_WrapKey_def Adapter_UnwrapKey_def
    Adapter_EncryptWithKey_def Adapter_DecryptWithKey_def Adapter_GetCurrentKeyID_def
    aes_audited_def stamp_def
  by (intro unchanged_intros frame_strategies secrets_frame_D f)+

lemma unchanged_ck0:
  assumes "token_frame f"
  shows "unchanged f (ck0M g)"
  using assms by (intro unchanged_intros) (simp add: token_frame_def)

lemma frame_context:
  assumes f: "service_frame f"
  shows "unchanged f (GetOrInitPKCS11Context e path)" "unchanged f (FinalizePKCS11Context e)"
  unfolding GetOrInitPKCS11Context_def FinalizePKCS11Context_def once_init_def
  by (intro frame_steps unchanged_ck0 service_frame_token f | simp add: service_frame_D [OF f])+

lemma frame_find_trimmed:
  assumes f: "token_frame f"
  shows "unchanged f (find_trimmed e trim label slots)"
  by (induction slots) (simp_all, (intro frame_steps f | assumption)+)

lemma frame_new_client:
  assumes f: "service_frame f"
  shows "unchanged f (NewSoftHSMClient e path pin n audit)" "unchanged f (findSlotByLabel e label)"
  unfolding NewSoftHSMClient_def findSlotByLabel_def
  by (intro frame_steps frame_context frame_find_trimmed service_frame_token f)+

lemma frame_recover_pin:
  assumes f: "secrets_frame f"
  shows "unchanged f (recover_pin e km ctx slot)"
  unfolding recover_pin_def
  by (intro unchanged_intros frame_adapter secrets_frame_D f)

lemma actual_slot_clients: "unchanged w_clients (actual_slot e slot)"
  unfolding actual_slot_def Slots_UpdateSlotNumber_def
  by (intro frame_steps frame_new_client service_frame_fields) (simp_all add: token_frame_def)

section \<open>What bootstrapping builds\<close>

lemma NewSoftHSMClient_Ok:
  assumes "NewSoftHSMClient e path pin n audit w = (Ok c, w')"
  shows "\<not> cl_closed c \<and> cl_audit c = audit"
  using assms by (auto simp: NewSoftHSMClient_def run_simps split: if_split_asm)

text \<open>
  The client registered under \<open>n\<close> was made with the PIN that some row of the slot table decrypts
  to, for the slot number that row resolves to.
\<close>

definition client_of_slot :: "'t env \<Rightarrow> aes_strategy \<Rightarrow> gctx \<Rightarrow> hsm_slot list \<Rightarrow> int \<times> hsm_client \<Rightarrow> bool" where
  "client_of_slot e km ctx slots = (\<lambda>(n, c). \<exists>slot \<in> set slots. \<exists>pin k u1 v1 u2 v2 u3 v3.
     n = int_of_uint k \<and> recover_pin e km ctx slot u1 = (Ok pin, v1)
     \<and> actual_slot e slot u2 = (Ok k, v2)
     \<and> NewSoftHSMClient e (LibraryPath e) pin k (audit_on e) u3 = (Ok c, v3))"

definition clients_hold :: "(int \<times> hsm_client \<Rightarrow> bool) \<Rightarrow> 't world \<Rightarrow> bool" where
  "clients_hold Q w \<longleftrightarrow> (\<forall>x \<in> set (w_clients w). Q x)"

lemma set_update_subset: "set (AList.update k v xs) \<subseteq> insert (k, v) (set xs)"
  by (induction xs) auto

lemma length_update_le: "length (AList.update k v xs) \<le> Suc (length xs)"
  by (induction xs) auto

lemma initializeSlot_clients:
  assumes "initializeSlot e km ctx slot w = (r, w')"
  shows "w_clients w' = w_clients w
    \<or> (\<exists>n c. client_of_slot e km ctx [slot] (n, c) \<and> w_clients w' = AList.update n c (w_clients w))"
proof -
  note keep = unchangedD [OF frame_recover_pin [of w_clients]] unchangedD [OF actual_slot_clients]
    unchangedD [OF frame_new_client(1) [of w_clients]]
  show ?thesis
  proof (cases r)
    case (Ok x)
    then obtain pin u k v c t where 1: "recover_pin e km ctx slot w = (Ok pin, u)"
      and 2: "actual_slot e slot u = (Ok k, v)"
      and 3: "NewSoftHSMClient e (LibraryPath e) pin k (audit_on e) v = (Ok c, t)"
      and 4: "RegisterClient e (int_of_uint k) c t = (Ok x, w')"
      using assms by (auto simp: initializeSlot_def run_simps)
    have "w_clients w' = AList.update (int_of_uint k) c (w_clients w)"
      using RegisterClient_clients(2) [OF 4] keep(1) [OF _ 1] keep(2) [OF 2] keep(3) [OF _ 3] by simp
    moreover have "client_of_slot e km ctx [slot] (int_of_uint k, c)"
      using 1 2 3 by (fastforce simp: client_of_slot_def)
    ultimately show ?thesis by blast
  next
    case (Err err)
    have "w_clients w' = w_clients w"
      using assms by (auto simp: Err initializeSlot_def run_simps dest!: keep(2) keep(1) [rotated] keep(3) [rotated])
    then show ?thesis by blast
  next
    case (Panic p)
    have "w_clients w' = w_clients w"
      using assms by (auto simp: Panic initializeSlot_def run_simps dest!: keep(2) keep(1) [rotated] keep(3) [rotated])
    then show ?thesis by blast
  qed
qed

lemma initialize_slots_clients:
  assumes "initialize_slots e km ctx slots w = (r, w')" and "set slots \<subseteq> set all"
    and "clients_hold (client_of_slot e km ctx all) w" and "distinct (map fst (w_clients w))"
  shows "clients_hold (client_of_slot e km ctx all) w' \<and> distinct (map fst (w_clients w'))
    \<and> length (w_clients w') \<le> length (w_clients w) + length slots"
  using assms
proof (induction slots arbitrary: w)
  case Nil
  then show ?case by (simp add: run_basic)
next
  case (Cons slot slots)
  obtain q u where one: "initializeSlot e km ctx slot w = (q, u)" by fastforce
  have step: "clients_hold (client_of_slot e km ctx all) u \<and> distinct (map fst (w_clients u))
      \<and> length (w_clients u) \<le> Suc (length (w_clients w))"
    using initializeSlot_clients [OF one]
  proof
    assume "w_clients u = w_clients w"
    then show ?thesis using Cons.prems(3,4) by (simp add: clients_hold_def)
  next
    assume "\<exists>n c. client_of_slot e km ctx [slot] (n, c) \<and> w_clients u = AList.update n c (w_clients w)"
    then obtain n c where nc: "client_of_slot e km ctx [slot] (n, c)"
      and u: "w_clients u = AList.update n c (w_clients w)" by blast
    have "client_of_slot e km ctx all (n, c)"
      using nc Cons.prems(2) by (fastforce simp: client_of_slot_def)
    then have "clients_hold (client_of_slot e km ctx all) u"
      using Cons.prems(3) set_update_subset [of n c "w_clients w"] by (auto simp: clients_hold_def u)
    moreover have "length (w_clients u) \<le> Suc (length (w_clients w))"
      unfolding u by (rule length_update_le)
    ultimately show ?thesis using Cons.prems(4) by (simp add: u distinct_update)
  qed
  show ?case
  proof (cases q)
    case (Panic p)
    then have "w' = u" using Cons.prems(1) one
      by (auto simp: bindM_def dropErr_def attempt_def)
    then show ?thesis using step by auto
  next
    case (Ok x)
    then have "initialize_slots e km ctx slots u = (r, w')" using Cons.prems(1) one
      by (simp add: bindM_def dropErr_def attempt_def run_basic)
    then show ?thesis using Cons.IH [of u] Cons.prems(2) step by fastforce
  next
    case (Err err)
    then have "initialize_slots e km ctx slots u = (r, w')" using Cons.prems(1) one
      by (simp add: bindM_def dropErr_def attempt_def run_basic)
    then show ?thesis using Cons.IH [of u] Cons.prems(2) step by fastforce
  qed
qed

lemma Bootstrap_clients:
  assumes "Bootstrap e km ctx w = (Ok (), w')"
  obtains slots u v where "Slots_GetAllSlots e u = (Ok slots, v)" "w_slots u = w_slots w"
    and "w_clients w' \<noteq> []" "clients_hold (client_of_slot e km ctx slots) w'"
    "distinct (map fst (w_clients w'))" "length (w_clients w') \<le> length slots"
proof -
  let ?u = "w\<lparr>w_clients := []\<rparr>"
  obtain slots v where get: "Slots_GetAllSlots e ?u = (Ok slots, v)"
    and run: "initialize_slots e km ctx slots v = (Ok (), w')" and ne: "ClientCount w' \<noteq> 0"
    using assms by (auto simp: Bootstrap_def NewHSMManager_def set_clients_def run_simps split: if_split_asm)
  have v: "w_clients v = []"
    using unchangedD [OF unchanged_queries(8) [of w_clients] get] by simp
  show thesis
    by (rule that [OF get])
      (use initialize_slots_clients [OF run, of slots] v ne in \<open>auto simp: ClientCount_def clients_hold_def\<close>)
qed

lemma Slots_GetAllSlots_Ok:
  assumes "Slots_GetAllSlots e w = (Ok slots, w')"
  shows "scan_slots (w_slots w) = Inr slots"
  using assms by (auto simp: Slots_GetAllSlots_def queryM_def run_simps)

lemma scan_slots_Inr:
  "scan_slots rows = Inr slots \<Longrightarrow>
     length slots = length rows \<and> (\<forall>s \<in> set slots. \<exists>r \<in> set rows. scan_slot r = Inr s)"
  by (induction rows arbitrary: slots) (auto split: sum.split_asm)

lemma scan_slots_NULL: "\<exists>r \<in> set rows. row_metadata_id r = None \<Longrightarrow> \<exists>err. scan_slots rows = Inl err"
  by (induction rows) (fastforce simp: scan_slot_def split: sum.split option.split)+

lemma Bootstrap_null_row:
  assumes "r \<in> set (w_slots w)" and "row_metadata_id r = None"
  shows "\<exists>err w'. Bootstrap e km ctx w = (Err err, w') \<and> w_clients w' = [] \<and> w_tok w' = w_tok w"
proof -
  let ?u = "w\<lparr>w_clients := []\<rparr>"
  obtain err where "scan_slots (w_slots w) = Inl err" using scan_slots_NULL assms by blast
  then have "\<exists>err w'. Slots_GetAllSlots e ?u = (Err err, w') \<and> w_clients w' = [] \<and> w_tok w' = w_tok w"
    by (cases "db_err_at e (w_tick w)")
      (simp_all add: Slots_GetAllSlots_def queryM_def bindM_def wrapErr_def catchM_def run_dbM run_basic run_liftSum)
  then show ?thesis by (auto simp: Bootstrap_def NewHSMManager_def set_clients_def bindM_def run_basic)
qed

section \<open>Properties\<close>

text \<open>
  After any sequence of registrations \<^verbatim>\<open>GetClientForSlot\<close> gives the client registered last for
  the slot, and for a slot not among them what it gave before.
\<close>

theorem manager_returns_last_registered:
  "fst (GetClientForSlot slot (client_registry.put_all (RegisterClient e) regs w)) =
     (case map_of (rev regs) slot of
        None \<Rightarrow> fst (GetClientForSlot slot w)
      | Some c \<Rightarrow> Ok c)"
  by (rule manager_clients.get_put_all)

text \<open>
  After \<^verbatim>\<open>Close(slot)\<close> the slot's client refuses to sign, verify, encrypt, decrypt, delete and
  generate, and its health check fails, in every later state in which no other client was
  registered for the slot.
\<close>

theorem closed_slot_refuses:
  assumes "Manager_Close e slot w = (Ok (), w1)"
    and "map_of (w_clients w2) slot = map_of (w_clients w1) slot"
  shows "(\<forall>r. fst (Manager_SignHash e ctx kh d slot i w2) \<noteq> Ok r)
    \<and> (\<forall>r. fst (Manager_VerifySignature e ctx kh d sg slot w2) \<noteq> Ok r)
    \<and> (\<forall>r. fst (Manager_Encrypt e kh d slot w2) \<noteq> Ok r)
    \<and> (\<forall>r. fst (Manager_Decrypt e kh d slot w2) \<noteq> Ok r)
    \<and> (\<forall>r. fst (Manager_DeleteKey e ctx kh slot w2) \<noteq> Ok r)
    \<and> (\<forall>r. fst (Manager_GenerateKeyPair e ctx alg n label slot w2) \<noteq> Ok r)
    \<and> (\<forall>r. fst (Manager_HealthCheck e ctx slot w2) \<noteq> Ok r)"
proof -
  obtain c c' u where c: "Client_Close e c w = (Ok c', u)" and w1: "w_clients w1 = AList.update slot c' (w_clients u)"
    using assms(1) by (auto simp: Manager_Close_def set_clients_def run_simps)
  have "c' = c\<lparr>cl_closed := True\<rparr>" using c Client_Close_run [of e c w] by auto
  then have closed: "map_of (w_clients w2) slot = Some (c\<lparr>cl_closed := True\<rparr>)"
    using assms(2) w1 by (simp add: map_of_update)
  have no: "fst x \<noteq> Ok r" if "\<And>y. x \<noteq> (Ok r, y)" for x :: "(go_error, 'z) outcome \<times> 'a world" and r
    using that by (metis prod.collapse)
  show ?thesis
    unfolding manager_defs
    by (intro conjI allI no; simp add: run_simps closed closed_client_run)
qed

theorem closed_slot_refuses_witness:
  "\<exists>w1. Manager_Close sample_env 7 ((fresh_world keyed_token)\<lparr>w_clients := [(7, sample_client)]\<rparr>) = (Ok (), w1)
     \<and> (\<forall>r. fst (Manager_SignHash sample_env Background ''k'' [1] 7 zero_identity w1) \<noteq> Ok r)"
proof -
  let ?w = "(fresh_world keyed_token)\<lparr>w_clients := [(7, sample_client)]\<rparr>"
  obtain w1 where w1: "Manager_Close sample_env 7 ?w = (Ok (), w1)"
    by (simp add: Manager_Close_def GetClientForSlot_eq set_clients_def Client_Close_def sample_client_run)
  show ?thesis using closed_slot_refuses [OF w1 refl] w1 by blast
qed

text \<open>
  \<^verbatim>\<open>CloseAll\<close> leaves no client behind whatever it reports: every slot is unknown afterwards, and
  when it reports no error the PKCS#11 context is gone too.
\<close>

theorem close_all_forgets_every_client:
  assumes "CloseAll e dispatcherClose w = (r, w')" and "\<And>p. r \<noteq> Panic p"
  shows "ClientCount w' = 0 \<and> (\<forall>slot err. fst (GetClientForSlot slot w') = Err err \<longleftrightarrow>
           err = PlainErr (''no HSM client registered for slot '' @ dec_int slot))
    \<and> (r = Ok () \<longrightarrow> \<not> IsInitialized w')"
proof -
  obtain u v where u: "close_clients e None (w_clients w) w = (Ok None, u)"
    using close_clients_run by blast
  have "\<exists>v. (if audit_on e then dropErr dispatcherClose else ret ()) u = (Ok (), v)"
    using assms u by (cases "audit_on e"; cases "dispatcherClose u"; cases "fst (dispatcherClose u)")
      (auto simp: CloseAll_def dropErr_def bindM_def run_basic)
  then obtain v where v: "(if audit_on e then dropErr dispatcherClose else ret ()) u = (Ok (), v)" ..
  obtain q t where fin: "FinalizePKCS11Context e (v\<lparr>w_clients := []\<rparr>) = (q, t)" by fastforce
  have "w_clients t = []" using unchangedD [OF frame_context(2) fin, of w_clients] by simp
  moreover have "w' = t \<and> (r = Ok () \<longrightarrow> q = Ok ())"
    using assms u v fin
    by (cases q) (auto simp: CloseAll_def set_clients_def bindM_def run_basic tryM_def split: if_split_asm)
  ultimately show ?thesis using Finalize_effect(4) [OF fin]
    by (auto simp: ClientCount_def GetClientForSlot_eq IsInitialized_def)
qed

theorem close_all_forgets_every_client_witness:
  "\<exists>w'. CloseAll sample_env (ret ()) ((fresh_world keyed_token)\<lparr>w_clients := [(7, sample_client)], w_shared := True\<rparr>)
       = (Ok (), w') \<and> ClientCount w' = 0 \<and> \<not> IsInitialized w'"
proof -
  let ?w = "(fresh_world keyed_token)\<lparr>w_clients := [(7, sample_client)], w_shared := True\<rparr>"
  obtain w' where run: "CloseAll sample_env (ret ()) ?w = (Ok (), w')"
    by (simp add: CloseAll_def Client_Close_def set_clients_def FinalizePKCS11Context_def sample_client_run)
  from close_all_forgets_every_client [OF this] show ?thesis using run by simp
qed

lemma recover_pin_run:
  assumes "db_err_at e (w_tick w) = None"
    and "List.find (\<lambda>r. md_ID r = sl_KeyMetadataID slot) (w_meta w) = Some m"
    and "st_resolves km (md_VersionID m) mk w" and "UnwrapKey mk (md_WrappedDataKey m) = Inr key"
    and "DecryptAESGCM key (stored_pin slot (md_VersionID m)) = Inr pin"
  shows "\<exists>w'. recover_pin e km ctx slot w = (Ok (string_of_bytes pin), w')"
proof -
  let ?u = "w\<lparr>w_tick := Suc (w_tick w)\<rparr>"
  have 1: "Meta_GetMetadataByID e (sl_KeyMetadataID slot) w = (Ok m, ?u)"
    using assms(1,2) by (simp add: Meta_GetMetadataByID_def queryRowM_Ok)
  have "st_resolves km (md_VersionID m) mk ?u" using assms(3) by simp
  then obtain v where 2: "Adapter_UnwrapKey e km ctx (md_VersionID m) (md_WrappedDataKey m) ?u = (Ok key, v)"
    using adapter_wrapping.unwrap_resolved assms(4) by blast
  have "\<exists>w'. Adapter_DecryptWithKey e key (stored_pin slot (md_VersionID m)) v = (Ok pin, w')"
    using assms(5) by (auto simp: Adapter_DecryptWithKey_def aes_audited_run run_liftSum)
  then show ?thesis using 1 2 by (auto simp: recover_pin_def wrapErr_def run_basic)
qed

text \<open>
  C26. A bootstrap that succeeds leaves at least one client and at most one per row of the slot table,
  all under different slot numbers, and each of them is open and was made with the PIN some row
  decrypts to under its unwrapped data key, for the slot number that row resolves to.
\<close>

theorem bootstrap_builds_clients_from_rows:
  assumes "Bootstrap e km ctx w = (Ok (), w')"
  shows "\<exists>slots. scan_slots (w_slots w) = Inr slots \<and> w_clients w' \<noteq> []
    \<and> distinct (map fst (w_clients w')) \<and> length (w_clients w') \<le> length (w_slots w)
    \<and> (\<forall>(n, c) \<in> set (w_clients w'). \<not> cl_closed c \<and> cl_audit c = audit_on e
         \<and> client_of_slot e km ctx slots (n, c))"
proof -
  obtain slots u v where get: "Slots_GetAllSlots e u = (Ok slots, v)" "w_slots u = w_slots w"
    and cl: "w_clients w' \<noteq> []" "clients_hold (client_of_slot e km ctx slots) w'"
      "distinct (map fst (w_clients w'))" "length (w_clients w') \<le> length slots"
    using Bootstrap_clients [OF assms] by metis
  have scan: "scan_slots (w_slots w) = Inr slots" using Slots_GetAllSlots_Ok [OF get(1)] get(2) by simp
  have "\<not> cl_closed c \<and> cl_audit c = audit_on e" if "client_of_slot e km ctx slots (n, c)" for n c
    using that by (auto simp: client_of_slot_def dest: NewSoftHSMClient_Ok)
  then show ?thesis using scan scan_slots_Inr [OF scan] cl by (auto simp: clients_hold_def)
qed

lemma sample_bootstrap:
  assumes "WrapKey (Inr f) (replicate 32 7) (replicate 32 1) = Inr wrapped"
    and "EncryptAESGCM (Inr g) (replicate 32 1) (bytes_of_string ''1234'') = Inr enc"
    and slot: "slot = \<lparr>sl_ID = ''s1'', sl_Label = ''t'', sl_SlotNumber = 7, sl_IsTemporaryID = False,
        sl_PIN_IV = en_IV enc, sl_Pin_ciphertext = en_Ciphertext enc, sl_Pin_auth_tag = en_Tag enc,
        sl_KeyMetadataID = ''m1'', sl_EncryptionContext = [], sl_CreatedAt = 0, sl_UpdatedAt = 0\<rparr>"
    and md: "md = \<lparr>md_ID = ''m1'', md_HSMSlotID = ''s1'', md_VersionID = ''k1'', md_Active = True,
        md_Algorithm = ''AES-256-GCM'', md_Source = '''', md_Description = '''', md_WrappedDataKey = wrapped,
        md_WrappedKeyVersion = ''k1'', md_LastRewrapAt = None, md_CreatedAt = 0, md_UpdatedAt = 0\<rparr>"
  shows "\<exists>w'. Bootstrap sample_env (LocalMgr \<lparr>lm_masterKey = replicate 32 7, lm_keyID = ''k1''\<rparr>) Background
     ((fresh_world (sample_token\<lparr>sa_slots := [(7, ''t'', ''1234'')]\<rparr>))\<lparr>w_meta := [md],
        w_slots := [\<lparr>row_slot = slot, row_metadata_id = Some ''m1''\<rparr>]\<rparr>) = (Ok (), w')"
proof -
  let ?km = "LocalMgr \<lparr>lm_masterKey = replicate 32 7, lm_keyID = ''k1''\<rparr>"
  let ?w = "(fresh_world (sample_token\<lparr>sa_slots := [(7, ''t'', ''1234'')]\<rparr>))\<lparr>w_meta := [md],
        w_slots := [\<lparr>row_slot = slot, row_metadata_id = Some ''m1''\<rparr>]\<rparr>"
  have same: "stored_pin slot ''k1'' = enc\<lparr>en_KeyID := ''k1''\<rparr>"
    using EncryptAESGCM_parts(4) [OF assms(2)] by (simp add: stored_pin_def slot)
  have dec: "DecryptAESGCM (replicate 32 1) (stored_pin slot ''k1'') = Inr (bytes_of_string ''1234'')"
    unfolding same by (rule DecryptAESGCM_Encrypt [OF assms(2)]) (simp add: bytes_of_string_def)
  have scan: "Slots_GetAllSlots sample_env ?w = (Ok [slot], ?w\<lparr>w_tick := 2\<rparr>)"
    by (simp add: Slots_GetAllSlots_def queryM_def scan_slot_def slot bindM_def wrapErr_def catchM_def
        run_dbM run_basic run_liftSum fresh_world_def)
  obtain u where u: "recover_pin sample_env ?km Background slot (?w\<lparr>w_tick := 2\<rparr>) = (Ok ''1234'', u)"
    using recover_pin_run [of sample_env "?w\<lparr>w_tick := 2\<rparr>" slot md ?km "replicate 32 7" "replicate 32 1"
        "bytes_of_string ''1234''" Background] dec UnwrapKey_WrapKey(1) [OF assms(1)]
    by (auto simp: slot md)
  have uf: "w_tok u = sample_token\<lparr>sa_slots := [(7, ''t'', ''1234'')]\<rparr>" "w_once u = False" "w_shared u = False"
    "w_initerr u = None" "w_clients u = []"
    using unchangedD [OF frame_recover_pin u, of w_tok] unchangedD [OF frame_recover_pin u, of w_once]
      unchangedD [OF frame_recover_pin u, of w_shared] unchangedD [OF frame_recover_pin u, of w_initerr]
      unchangedD [OF frame_recover_pin u, of w_clients]
    by (simp_all add: fresh_world_def)
  obtain c v where c: "NewSoftHSMClient sample_env (LibraryPath sample_env) ''1234'' 7 True u = (Ok c, v)"
    by (simp add: NewSoftHSMClient_def GetOrInitPKCS11Context_def once_init_def sample_client_run uf)
  have "w_clients v = []" using unchangedD [OF frame_new_client(1) c, of w_clients] uf by simp
  then have "\<exists>w'. initializeSlot sample_env ?km Background slot (?w\<lparr>w_tick := 2\<rparr>) = (Ok (), w')
      \<and> w_clients w' = [(7, c)]"
    using u c by (simp add: initializeSlot_def actual_slot_def slot wrapErr_def RegisterClient_def
        set_clients_def bindM_def run_basic int_of_uint_def)
  then show ?thesis using scan
    by (auto simp: Bootstrap_def NewHSMManager_def set_clients_def bindM_def run_basic dropErr_def attempt_def
        ClientCount_def fresh_world_def)
qed

theorem bootstrap_builds_clients_from_rows_witness:
  "\<exists>(w :: sample_token world) km w'. Bootstrap sample_env km Background w = (Ok (), w')
     \<and> length (w_slots w) = 1 \<and> length (w_clients w') = 1"
proof -
  obtain wrapped where wrapped: "WrapKey (Inr (\<lambda>_. 0)) (replicate 32 7) (replicate 32 1) = Inr wrapped"
    using WrapKey_total [of "replicate 32 7" "replicate 32 1"] by fastforce
  obtain enc where enc: "EncryptAESGCM (Inr (\<lambda>_. 0)) (replicate 32 1) (bytes_of_string ''1234'') = Inr enc"
    using EncryptAESGCM_total [of "replicate 32 1"] by fastforce
  obtain km w w' where run: "Bootstrap sample_env km Background (w :: sample_token world) = (Ok (), w')"
    and one: "length (w_slots w) = 1"
    using sample_bootstrap [OF wrapped enc refl refl] by fastforce
  have "w_clients w' \<noteq> []" "length (w_clients w') \<le> 1"
    using bootstrap_builds_clients_from_rows [OF run] one by auto
  then have "length (w_clients w') = 1" by (cases "w_clients w'") auto
  then show ?thesis using run one by blast
qed

text \<open>
  One row of the slot table whose \<^verbatim>\<open>key_metadata_id\<close> is NULL, as \<^verbatim>\<open>CreateSlot\<close> inserts it, keeps the
  whole service from starting: the bootstrap fails before any slot is opened.
\<close>

theorem null_metadata_row_fails_bootstrap:
  assumes "r \<in> set (w_slots w)" and "row_metadata_id r = None"
  shows "\<exists>err w'. Bootstrap e km ctx w = (Err err, w') \<and> w_clients w' = [] \<and> w_tok w' = w_tok w"
  using assms by (rule Bootstrap_null_row)

theorem null_metadata_row_fails_bootstrap_witness:
  "\<exists>err w'. Bootstrap sample_env (VaultMgr '''') Background
     (snd (Slots_CreateSlot sample_env \<lparr>sl_ID = ''s1'', sl_Label = ''t'', sl_SlotNumber = 7, sl_IsTemporaryID = False,
        sl_PIN_IV = [], sl_Pin_ciphertext = [], sl_Pin_auth_tag = [], sl_KeyMetadataID = ''m1'',
        sl_EncryptionContext = [], sl_CreatedAt = 0, sl_UpdatedAt = 0\<rparr> (fresh_world sample_token))) = (Err err, w')"
proof -
  let ?s = "\<lparr>sl_ID = ''s1'', sl_Label = ''t'', sl_SlotNumber = 7, sl_IsTemporaryID = False,
        sl_PIN_IV = [], sl_Pin_ciphertext = [], sl_Pin_auth_tag = [], sl_KeyMetadataID = ''m1'',
        sl_EncryptionContext = [], sl_CreatedAt = 0, sl_UpdatedAt = 0\<rparr>"
  have "\<exists>r \<in> set (w_slots (snd (Slots_CreateSlot sample_env ?s (fresh_world sample_token)))). row_metadata_id r = None"
    by (simp add: Slots_CreateSlot_def insertM_def bindM_def wrapErr_def catchM_def run_tick run_dbM run_basic
        fresh_world_def)
  then show ?thesis using null_metadata_row_fails_bootstrap by metis
qed

end
