(* ===== verification/Service_Helpers.thy ===== *)
theory Service_Helpers
  imports Hsm_Manager
begin

text \<open>
  \<^verbatim>\<open>internal/application/services/helpers.go\<close> and \<^verbatim>\<open>pkg/helpers/helper.go\<close>: the audited look-ups of a
  tenant and of its slot that every service shares, the PIN generator and the token label of a
  tenant. \<open>tenant_slot\<close> is the pair of look-ups as the services write it out, with the message of
  the second error as a parameter.
\<close>

section \<open>pkg/helpers/helper.go\<close>

definition is_hex :: "char \<Rightarrow> bool" where
  "is_hex c = (case digit_value c of None \<Rightarrow> False | Some d \<Rightarrow> d < 16)"

text \<open>
  What \<^verbatim>\<open>i.SetString(s, 16)\<close> leaves in \<^verbatim>\<open>i\<close>, whose result the code does not look at: the value of the
  longest numeral at the start, after an optional plus sign (the minus signs are gone).
\<close>

definition set_hex :: "string \<Rightarrow> nat" where
  "set_hex s =
     (let s' = (if s \<noteq> [] \<and> hd s = CHR ''+'' then tl s else s) in
      num_of_digits 16 (map (the \<circ> digit_value) (takeWhile is_hex s')))"

definition GenerateTenantSlotLabel :: "string \<Rightarrow> string" where
  "GenerateTenantSlotLabel tenantID =
     (let hex = remove_char CHR ''-'' tenantID;
          label = ''t-'' @ text_base 36 (set_hex hex)
      in if 32 < length label then take 32 label else label)"

section \<open>helpers.go\<close>

text \<open>\<^verbatim>\<open>%04d\<close> of a number of four digits is its decimal text.\<close>

definition genRandomPIN :: "'t env \<Rightarrow> ('t, string) wprog" where
  "genRandomPIN e = bindM (intnM e 9000) (\<lambda>n. ret (dec (n + 1000)))"

definition helper_audit :: "string \<Rightarrow> (go_error, 'a) outcome \<Rightarrow> int \<Rightarrow> audit_data" where
  "helper_audit operation r d =
     op_audit ''tenant-helper-service'' operation ''SERVICE'' '''' [] (outcome_error r) d"

text \<open>The repositories never return a nil entity with a nil error, so the second test of each is not reached.\<close>

definition getTenantWithAudit :: "'t env \<Rightarrow> gctx \<Rightarrow> string \<Rightarrow> ('t, tenant) wprog" where
  "getTenantWithAudit e ctx tenantID =
     audited e (audit_on e) ctx None (helper_audit ''GET_TENANT'')
       (catchM (Tenants_FindByID e tenantID) (\<lambda>err.
          throw (WithDetail ''original_error'' (DStr (error_text err))
            (NewDomainError ErrTenantNotFound ''error checking tenant existence''))))"

definition getSlotWithAudit :: "'t env \<Rightarrow> gctx \<Rightarrow> string \<Rightarrow> ('t, hsm_slot) wprog" where
  "getSlotWithAudit e ctx slotID =
     audited e (audit_on e) ctx None (helper_audit ''GET_SLOT'')
       (catchM (Slots_GetSlotByID e slotID) (\<lambda>err.
          failPkg ErrSlotNotFound [(''original_error'', DStr (error_text err))]))"

text \<open>\<^verbatim>\<open>*tenant.HSMSlotID\<close>.\<close>

definition derefSlotID :: "tenant \<Rightarrow> ('t, string) wprog" where
  "derefSlotID t = (case tn_HSMSlotID t of
     None \<Rightarrow> panicM ''invalid memory address or nil pointer dereference'' | Some s \<Rightarrow> ret s)"

definition tenant_slot :: "'t env \<Rightarrow> (go_error \<Rightarrow> string) \<Rightarrow> gctx \<Rightarrow> string \<Rightarrow> ('t, hsm_slot) wprog" where
  "tenant_slot e slotMsg ctx tenantID =
     bindM (catchM (getTenantWithAudit e ctx tenantID) (\<lambda>err.
       throw (WithDetail ''original_error'' (DStr (error_text err))
         (NewDomainError ErrTenantNotFound ''error validating tenant existence'')))) (\<lambda>tenant.
     bindM (derefSlotID tenant) (\<lambda>slotID.
     catchM (getSlotWithAudit e ctx slotID) (\<lambda>err.
       throw (WithDetail ''original_error'' (DStr (error_text err))
         (NewDomainError ErrSlotNotFound (slotMsg err))))))"

definition slotErrorMsg :: "go_error \<Rightarrow> string" where
  "slotErrorMsg err = ''error checking slot existence''"

section \<open>Facts\<close>

lemma frame_service_audited:
  assumes "secrets_frame f"
  shows "unchanged f m \<Longrightarrow> unchanged f (audited e on ctx identity mk m)"
  by (intro unchanged_audited secrets_frame_D assms)

lemma frame_tenant_slot:
  assumes f: "secrets_frame f"
  shows "unchanged f (getTenantWithAudit e ctx tn)" "unchanged f (getSlotWithAudit e ctx sid)"
    "unchanged f (derefSlotID t)" "unchanged f (tenant_slot e msg ctx tn)"
  unfolding tenant_slot_def getTenantWithAudit_def getSlotWithAudit_def derefSlotID_def
  by (intro unchanged_intros secrets_frame_D f)+

text \<open>The slot a tenant resolves to in the tables.\<close>

definition slot_of_tenant :: "'t world \<Rightarrow> string \<Rightarrow> hsm_slot \<Rightarrow> bool" where
  "slot_of_tenant w tn slot \<longleftrightarrow> (\<exists>t sid r.
     List.find (\<lambda>t. tn_ID t = tn) (w_tenants w) = Some t \<and> tn_HSMSlotID t = Some sid
     \<and> List.find (\<lambda>r. sl_ID (row_slot r) = sid) (w_slots w) = Some r \<and> scan_slot r = Inr slot)"

lemma getTenantWithAudit_Ok:
  assumes "getTenantWithAudit e ctx tn w = (Ok t, w')"
  shows "\<exists>r. List.find (\<lambda>t. tn_ID t = tn) (w_tenants w) = Some r \<and> t = r\<lparr>tn_Config := []\<rparr>"
  using assms
  by (auto simp: getTenantWithAudit_def audited_run run_simps Tenants_FindByID_Ok)

lemma getSlotWithAudit_Ok:
  assumes "getSlotWithAudit e ctx sid w = (Ok s, w')"
  shows "\<exists>r. List.find (\<lambda>r. sl_ID (row_slot r) = sid) (w_slots w) = Some r \<and> scan_slot r = Inr s"
  using assms by (auto simp: getSlotWithAudit_def audited_run run_simps Slots_GetSlotByID_Ok)

lemma tenant_slot_Ok:
  assumes "tenant_slot e msg ctx tn w = (Ok slot, w')"
  shows "slot_of_tenant w tn slot"
proof -
  obtain t u sid where t: "getTenantWithAudit e ctx tn w = (Ok t, u)" and sid: "tn_HSMSlotID t = Some sid"
    and s: "getSlotWithAudit e ctx sid u = (Ok slot, w')"
    using assms by (auto simp: tenant_slot_def derefSlotID_def run_simps split: option.split_asm)
  have "w_slots u = w_slots w" using unchangedD [OF frame_tenant_slot(1) t, of w_slots] by simp
  then show ?thesis
    using getTenantWithAudit_Ok [OF t] getSlotWithAudit_Ok [OF s] sid by (auto simp: slot_of_tenant_def)
qed

lemma slot_of_tenant_unique: "slot_of_tenant w tn s \<Longrightarrow> slot_of_tenant w tn s' \<Longrightarrow> s = s'"
  by (auto simp: slot_of_tenant_def)

text \<open>A tenant without a slot is a nil dereference.\<close>

lemma tenant_slot_nil:
  assumes "List.find (\<lambda>t. tn_ID t = tn) (w_tenants w) = Some t" and "tn_HSMSlotID t = None"
    and "\<And>k. db_err_at e k = None"
  shows "\<exists>w'. tenant_slot e msg ctx tn w =
      (Panic ''invalid memory address or nil pointer dereference'', w')"
proof -
  have "Tenants_FindByID e tn (w\<lparr>w_tick := Suc (w_tick w)\<rparr>) =
      (Ok (t\<lparr>tn_Config := []\<rparr>), w\<lparr>w_tick := Suc (Suc (w_tick w))\<rparr>)"
    using assms by (simp add: Tenants_FindByID_Ok)
  then have "\<exists>u. getTenantWithAudit e ctx tn w = (Ok (t\<lparr>tn_Config := []\<rparr>), u)"
    by (simp add: getTenantWithAudit_def audited_run)
  then show ?thesis using assms(2)
    by (auto simp: tenant_slot_def derefSlotID_def run_basic)
qed

subsection \<open>The audit log only grows\<close>

lemma grows_basic:
  "within audit_grows tickM" "within audit_grows (nowM e)" "within audit_grows (uuidM e)"
  "within audit_grows (randM e)" "within audit_grows (dbM e)" "within audit_grows (ckM ok g)"
  "within audit_grows (liftSum s)" "within audit_grows (failPkg c kvs)" "within audit_grows (intnM e n)"
  by (intro within_audit_unchanged frame_basic token_frame_audit unchanged_intros | simp)+

lemma grows_find:
  "within audit_grows (findByLabel e c cls kind label)" "within audit_grows (findPrivateKeyByLabel e c label)"
  "within audit_grows (findPublicKeyByLabel e c label)" "within audit_grows (exportPublicKey e c h)"
  "within audit_grows (verify_with e c label d sg h)"
  unfolding verify_with_def
  by (intro within_audit_unchanged frame_find frame_export frame_steps token_frame_audit)+

lemmas grows_steps = grows.within_all within_if within_option within_sum within_prod grows_basic
  grows_find grows_audited

lemma grows_searching:
  fixes body :: "('t, 'a) wprog"
  assumes "within audit_grows body"
  shows "within audit_grows (searching e c msg tm body)"
proof -
  have "within audit_grows (dropErr (ckM True g))" for g :: "('t, unit) ck_call"
    by (intro grows_steps)
  then have "audit_grows w (snd (dropErr (ckM True g) w))" for w and g :: "('t, unit) ck_call"
    by (simp add: within_def)
  then show ?thesis unfolding searching_def by (intro grows_steps assms)
qed

lemma grows_collect_keys: "within audit_grows (collect_keys e c hs)"
proof (induction hs)
  case (Cons h hs)
  have "within audit_grows (getKeyInfo e c h)"
    unfolding getKeyInfo_def Client_GetPublicKey_def by (intro grows_steps)
  with Cons show ?case by (simp, intro grows_steps)
qed (simp add: grows.within_pure)

lemma grows_manager:
  "within audit_grows (Manager_GenerateKeyPair e ctx alg n label slot)"
  "within audit_grows (Manager_DeleteKey e ctx kh slot)" "within audit_grows (Manager_ListKeys e ctx slot)"
  "within audit_grows (Manager_SignHash e ctx kh d slot i)"
  "within audit_grows (Manager_VerifySignature e ctx kh d sg slot)"
  "within audit_grows (Manager_Encrypt e kh d slot)" "within audit_grows (Manager_Decrypt e kh d slot)"
  unfolding manager_defs GetClientForSlot_def Client_GenerateKeyPair_def Client_DeleteKey_def
    Client_ListKeys_def Client_SignHash_def Client_VerifySignature_def Client_Encrypt_def Client_Decrypt_def
    generateRSAKeyPair_def generateECDSAKeyPair_def
  by (intro grows_steps grows_searching grows_collect_keys)+

lemma grows_queries:
  "within audit_grows (Keys_FindByID e i)" "within audit_grows (Keys_FindByIDAndTenant e i tn)"
  "within audit_grows (Keys_FindByTenant e tn)" "within audit_grows (Tenants_FindByID e i)"
  "within audit_grows (Slots_GetSlotByID e i)" "within audit_grows (Keys_Save e k)"
  "within audit_grows (Keys_Delete e i)" "within audit_grows (Slots_CreateSlot e s)"
  "within audit_grows (Slots_DeleteSlot e i)" "within audit_grows (Meta_CreateMetadata e m)"
  "within audit_grows (Meta_DeleteMetadata e i)" "within audit_grows (Ops_Save e op1)"
  unfolding storage_defs by (intro within_audit_unchanged unchanged_intros; simp)+

lemma grows_tenant_slot:
  "within audit_grows (getTenantWithAudit e ctx tn)" "within audit_grows (getSlotWithAudit e ctx sid)"
  "within audit_grows (tenant_slot e msg ctx tn)"
  unfolding tenant_slot_def getTenantWithAudit_def getSlotWithAudit_def derefSlotID_def
  by (intro grows_steps grows_queries)+

lemmas grows_all = grows_steps grows_manager grows_queries grows_tenant_slot

subsection \<open>PINs and labels\<close>

lemma digits_rev_step:
  "n < b \<Longrightarrow> digits_rev b n = [n]"
  "2 \<le> b \<Longrightarrow> b \<le> n \<Longrightarrow> digits_rev b n = (n mod b) # digits_rev b (n div b)"
  by (subst digits_rev.simps, simp)+

lemma length_dec_4:
  assumes "1000 \<le> n" "n < 10000"
  shows "length (dec n) = 4"
proof -
  have "n div 10 div 10 div 10 < 10" using assms(2) by (simp add: div_mult2_eq [symmetric] less_mult_imp_div_less)
  moreover have "10 \<le> n div 10 div 10" using div_le_mono [OF assms(1), of 100] by (simp add: div_mult2_eq [symmetric])
  moreover have "10 \<le> n div 10" using div_le_mono [OF assms(1), of 10] by simp
  moreover have "10 \<le> n" using assms(1) by simp
  moreover have "(2 :: nat) \<le> 10" by simp
  ultimately have "length (digits_rev 10 n) = 4" by (simp only: digits_rev_step list.size)
  then show ?thesis by (simp add: dec_def text_base_def)
qed

definition is_decimal :: "char \<Rightarrow> bool" where
  "is_decimal c = (case digit_value c of None \<Rightarrow> False | Some d \<Rightarrow> d < 10)"

lemma dec_digits: "list_all is_decimal (dec n)"
  using digits_rev_bound [of 10 n]
  by (auto simp: dec_def text_base_def is_decimal_def digit_value_char list_all_iff)

text \<open>The canonical text of a UUID: 32 lower-case hexadecimal digits with four hyphens among them.\<close>

definition lower_hex :: "char \<Rightarrow> bool" where
  "lower_hex c \<longleftrightarrow> is_hex c \<and> \<not> (65 \<le> (of_char c :: nat) \<and> (of_char c :: nat) \<le> 90)"

definition uuid_text :: "string \<Rightarrow> bool" where
  "uuid_text s \<longleftrightarrow> (\<exists>a b c d f. s = a @ CHR ''-'' # b @ CHR ''-'' # c @ CHR ''-'' # d @ CHR ''-'' # f
     \<and> map length [a, b, c, d, f] = [8, 4, 4, 4, 12] \<and> (\<forall>x \<in> set (a @ b @ c @ d @ f). lower_hex x))"

lemma digit_value_lower_inj:
  assumes "lower_hex c" "lower_hex d" "digit_value c = digit_value d"
  shows "c = d"
proof -
  define m n where mn: "m = (of_char c :: nat)" "n = (of_char d :: nat)"
  have "m = n"
    using assms
    by (auto simp: lower_hex_def is_hex_def digit_value_def Let_def mn [symmetric] split: if_split_asm)
  then show ?thesis by (simp add: mn)
qed

lemma num_of_digits_inj:
  "length xs = length ys \<Longrightarrow> \<forall>d \<in> set xs \<union> set ys. d < b \<Longrightarrow>
   num_of_digits b xs = num_of_digits b ys \<Longrightarrow> xs = ys"
proof (induction xs arbitrary: ys rule: rev_induct)
  case Nil
  then show ?case by simp
next
  case (snoc x xs)
  from snoc.prems(1) obtain zs y where ys: "ys = zs @ [y]" by (cases ys rule: rev_cases) auto
  have "x < b" "y < b" and eq: "num_of_digits b xs * b + x = num_of_digits b zs * b + y"
    using snoc.prems(2,3) by (auto simp: ys)
  have "x = (num_of_digits b xs * b + x) mod b" using \<open>x < b\<close> by simp
  also have "\<dots> = y" unfolding eq using \<open>y < b\<close> by simp
  finally have "x = y" .
  moreover from this have "num_of_digits b xs = num_of_digits b zs" using eq \<open>x < b\<close> by simp
  ultimately show ?case using snoc by (simp add: ys)
qed

lemma set_hex_digits:
  assumes "\<forall>c \<in> set s. lower_hex c"
  shows "set_hex s = num_of_digits 16 (map (the \<circ> digit_value) s)"
proof -
  have "takeWhile is_hex s = s" using assms by (intro takeWhile_eq_all_conv [THEN iffD2]) (simp add: lower_hex_def)
  moreover have "\<not> (s \<noteq> [] \<and> hd s = CHR ''+'')"
    using assms by (cases s) (auto simp: lower_hex_def is_hex_def digit_value_def)
  ultimately show ?thesis by (simp only: set_hex_def Let_def if_False)
qed

lemma hex_value_bound: "lower_hex c \<Longrightarrow> the (digit_value c) < 16"
  by (auto simp: lower_hex_def is_hex_def split: option.split_asm)

lemma set_hex_inj:
  assumes "length s = length t" and "\<forall>c \<in> set s \<union> set t. lower_hex c" and "set_hex s = set_hex t"
  shows "s = t"
proof -
  have eq: "map (the \<circ> digit_value) s = map (the \<circ> digit_value) t"
    by (rule num_of_digits_inj [where b = 16])
      (use assms in \<open>auto simp: set_hex_digits hex_value_bound\<close>)
  have inj: "c = d" if "lower_hex c" "lower_hex d" "the (digit_value c) = the (digit_value d)" for c d
    using digit_value_lower_inj [of c d] that
    by (auto simp: lower_hex_def is_hex_def split: option.split_asm)
  have "inj_on (the \<circ> digit_value) (set s \<union> set t)"
    using assms(2) inj by (auto simp: inj_on_def)
  then show ?thesis using eq by (metis map_inj_on)
qed

lemma lower_hex_not_hyphen: "lower_hex c \<Longrightarrow> c \<noteq> CHR ''-''"
  by (auto simp: lower_hex_def is_hex_def digit_value_def)

lemma uuid_text_parts:
  assumes "uuid_text s"
  obtains a b c d f where "s = a @ CHR ''-'' # b @ CHR ''-'' # c @ CHR ''-'' # d @ CHR ''-'' # f"
    and "length a = 8" "length b = 4" "length c = 4" "length d = 4" "length f = 12"
    and "\<forall>x \<in> set (a @ b @ c @ d @ f). lower_hex x"
    and "remove_char CHR ''-'' s = a @ b @ c @ d @ f"
proof -
  from assms obtain a b c d f where s: "s = a @ CHR ''-'' # b @ CHR ''-'' # c @ CHR ''-'' # d @ CHR ''-'' # f"
    and len: "length a = 8" "length b = 4" "length c = 4" "length d = 4" "length f = 12"
    and hex: "\<forall>x \<in> set (a @ b @ c @ d @ f). lower_hex x"
    by (auto simp: uuid_text_def)
  have "filter (\<lambda>x. x \<noteq> CHR ''-'') p = p" if "set p \<subseteq> set (a @ b @ c @ d @ f)" for p
    using that hex lower_hex_not_hyphen by (intro filter_True) blast
  then have "filter (\<lambda>x. x \<noteq> CHR ''-'') p = p" if "p \<in> {a, b, c, d, f}" for p using that by fastforce
  then have "remove_char CHR ''-'' s = a @ b @ c @ d @ f" by (simp add: remove_char_def s)
  with s len hex show thesis by (rule that)
qed

lemma label_of_uuid:
  assumes "uuid_text s"
  shows "length (text_base 36 (set_hex (remove_char CHR ''-'' s))) \<le> 25"
    "GenerateTenantSlotLabel s = ''t-'' @ text_base 36 (set_hex (remove_char CHR ''-'' s))"
proof -
  obtain a b c d f where p: "remove_char CHR ''-'' s = a @ b @ c @ d @ f"
    and len: "length a = 8" "length b = 4" "length c = 4" "length d = 4" "length f = 12"
    and hex: "\<forall>x \<in> set (a @ b @ c @ d @ f). lower_hex x"
    using assms by (rule uuid_text_parts)
  let ?ds = "map (the \<circ> digit_value) (a @ b @ c @ d @ f)"
  have "\<forall>x \<in> set ?ds. x < 16" using hex hex_value_bound by auto
  then have "num_of_digits 16 ?ds < 16 ^ length ?ds" by (rule num_of_digits_bound [rotated]) simp
  then have "num_of_digits 16 ?ds < 16 ^ 32" using len by (simp del: map_append)
  moreover have "(16 :: nat) ^ 32 < 36 ^ 25" by simp
  ultimately have "num_of_digits 16 ?ds < 36 ^ 25" by (rule less_trans)
  then show short: "length (text_base 36 (set_hex (remove_char CHR ''-'' s))) \<le> 25"
    unfolding p set_hex_digits [OF hex] by (intro length_text_base) simp_all
  show "GenerateTenantSlotLabel s = ''t-'' @ text_base 36 (set_hex (remove_char CHR ''-'' s))"
    using short by (simp add: GenerateTenantSlotLabel_def Let_def)
qed

lemma uuid_text_inj:
  assumes "uuid_text s" "uuid_text t" "remove_char CHR ''-'' s = remove_char CHR ''-'' t"
  shows "s = t"
proof -
  obtain a b c d f where s: "s = a @ CHR ''-'' # b @ CHR ''-'' # c @ CHR ''-'' # d @ CHR ''-'' # f"
    "length a = 8" "length b = 4" "length c = 4" "length d = 4" "length f = 12"
    "remove_char CHR ''-'' s = a @ b @ c @ d @ f"
    using assms(1) by (rule uuid_text_parts)
  obtain a' b' c' d' f' where t: "t = a' @ CHR ''-'' # b' @ CHR ''-'' # c' @ CHR ''-'' # d' @ CHR ''-'' # f'"
    "length a' = 8" "length b' = 4" "length c' = 4" "length d' = 4" "length f' = 12"
    "remove_char CHR ''-'' t = a' @ b' @ c' @ d' @ f'"
    using assms(2) by (rule uuid_text_parts)
  have "a @ b @ c @ d @ f = a' @ b' @ c' @ d' @ f'" using assms(3) s t by simp
  then show ?thesis using s t by simp
qed

section \<open>Properties\<close>

text \<open>
  The token label of a tenant: for tenant ids that are UUIDs in their canonical text it has at
  most 27 characters, so that it is never cut and fits the 32 characters of a PKCS#11 label, it
  starts with \<^verbatim>\<open>t-\<close>, and different tenants have different labels.
\<close>

theorem tenant_labels_fit_and_differ:
  assumes "uuid_text s" and "uuid_text t"
  shows "length (GenerateTenantSlotLabel s) \<le> 27 \<and> has_prefix ''t-'' (GenerateTenantSlotLabel s)
    \<and> (GenerateTenantSlotLabel s = GenerateTenantSlotLabel t \<longrightarrow> s = t)"
proof (intro conjI impI)
  show "length (GenerateTenantSlotLabel s) \<le> 27" "has_prefix ''t-'' (GenerateTenantSlotLabel s)"
    using label_of_uuid [OF assms(1)] by (simp_all add: has_prefix_def)
  assume "GenerateTenantSlotLabel s = GenerateTenantSlotLabel t"
  then have eq: "set_hex (remove_char CHR ''-'' s) = set_hex (remove_char CHR ''-'' t)"
    using label_of_uuid(2) [OF assms(1)] label_of_uuid(2) [OF assms(2)]
    by (auto intro: text_base_inject [of 36])
  obtain a b c d f where "remove_char CHR ''-'' s = a @ b @ c @ d @ f" "length a = 8" "length b = 4"
    "length c = 4" "length d = 4" "length f = 12" "\<forall>x \<in> set (a @ b @ c @ d @ f). lower_hex x"
    using assms(1) by (rule uuid_text_parts)
  moreover obtain a' b' c' d' f' where "remove_char CHR ''-'' t = a' @ b' @ c' @ d' @ f'" "length a' = 8" "length b' = 4"
    "length c' = 4" "length d' = 4" "length f' = 12" "\<forall>x \<in> set (a' @ b' @ c' @ d' @ f'). lower_hex x"
    using assms(2) by (rule uuid_text_parts)
  ultimately have "remove_char CHR ''-'' s = remove_char CHR ''-'' t"
    using eq by (intro set_hex_inj) auto
  then show "s = t" by (rule uuid_text_inj [OF assms])
qed

lemma uuid_textI:
  assumes "s = a @ CHR ''-'' # b @ CHR ''-'' # c @ CHR ''-'' # d @ CHR ''-'' # f"
    and "map length [a, b, c, d, f] = [8, 4, 4, 4, 12]" and "list_all lower_hex (a @ b @ c @ d @ f)"
  shows "uuid_text s"
  unfolding uuid_text_def
  by (intro exI [of _ a] exI [of _ b] exI [of _ c] exI [of _ d] exI [of _ f] conjI)
    (use assms in \<open>simp_all only: list_all_iff\<close>)

lemma lower_hex_zero: "lower_hex CHR ''0''" "lower_hex CHR ''2''" "lower_hex CHR ''4''" "lower_hex CHR ''8''"
    "lower_hex CHR ''a''" "lower_hex CHR ''b''"
  by (simp_all add: lower_hex_def is_hex_def digit_value_def)

theorem tenant_labels_fit_and_differ_witness:
  "GenerateTenantSlotLabel ''00000000-0000-4000-8000-00000000002a''
     \<noteq> GenerateTenantSlotLabel ''00000000-0000-4000-8000-00000000002b''
   \<and> length (GenerateTenantSlotLabel ''00000000-0000-4000-8000-00000000002a'') \<le> 27"
proof -
  have a: "uuid_text ''00000000-0000-4000-8000-00000000002a''"
    by (rule uuid_textI [of _ "''00000000''" "''0000''" "''4000''" "''8000''" "''00000000002a''"]) (simp_all add: lower_hex_zero)
  have b: "uuid_text ''00000000-0000-4000-8000-00000000002b''"
    by (rule uuid_textI [of _ "''00000000''" "''0000''" "''4000''" "''8000''" "''00000000002b''"]) (simp_all add: lower_hex_zero)
  show ?thesis using tenant_labels_fit_and_differ [OF a b] by auto
qed

text \<open>
  A generated PIN is four decimal digits, the first of them not a zero, whatever
  \<^verbatim>\<open>math/rand\<close> returns: one of only 9000.
\<close>

theorem generated_pin_has_four_digits:
  "\<exists>n. 1000 \<le> n \<and> n < 10000 \<and> genRandomPIN e w = (Ok (dec n), w\<lparr>w_tick := Suc (w_tick w)\<rparr>)
     \<and> length (dec n) = 4 \<and> list_all is_decimal (dec n)"
proof (intro exI conjI)
  let ?n = "intn_at e (w_tick w) mod 9000 + 1000"
  show "1000 \<le> ?n" by simp
  have "intn_at e (w_tick w) mod 9000 < 9000" by simp
  then show "?n < 10000" by linarith
  then show "length (dec ?n) = 4" by (intro length_dec_4) simp_all
  show "genRandomPIN e w = (Ok (dec ?n), w\<lparr>w_tick := Suc (w_tick w)\<rparr>)"
    by (simp add: genRandomPIN_def bindM_def run_tick run_basic)
  show "list_all is_decimal (dec ?n)" by (rule dec_digits)
qed

section \<open>A concrete service\<close>

text \<open>For the witnesses: one tenant with one slot, whose client is registered over the sample token.\<close>

definition sample_slot :: hsm_slot where
  "sample_slot = \<lparr>sl_ID = ''s1'', sl_Label = ''t'', sl_SlotNumber = 7, sl_IsTemporaryID = False, sl_PIN_IV = [],
     sl_Pin_ciphertext = [], sl_Pin_auth_tag = [], sl_KeyMetadataID = ''m1'', sl_EncryptionContext = [],
     sl_CreatedAt = 0, sl_UpdatedAt = 0\<rparr>"

definition sample_tenant :: tenant where
  "sample_tenant = \<lparr>tn_ID = ''T'', tn_Name = ''acme'', tn_ContactEmail = '''', tn_PlanType = '''', tn_Status = '''',
     tn_Config = [], tn_HSMSlotID = Some ''s1'', tn_CreatedAt = 0, tn_UpdatedAt = 0\<rparr>"

definition service_world :: "sample_token world" where
  "service_world = (fresh_world keyed_token)\<lparr>w_tenants := [sample_tenant],
     w_slots := [\<lparr>row_slot = sample_slot, row_metadata_id = Some ''m1''\<rparr>], w_clients := [(7, sample_client)]\<rparr>"

definition sample_identity :: identity_context where
  "sample_identity = zero_identity\<lparr>id_TenantID := ''T'', id_OwnerType := OwnerTypeUser, id_OwnerID := ''o'',
     id_UserID := ''u''\<rparr>"

lemmas service_run = tenant_slot_def getTenantWithAudit_def getSlotWithAudit_def derefSlotID_def
  Tenants_FindByID_def Slots_GetSlotByID_def queryRowM_def queryM_def scan_slot_def
  GetClientForSlot_eq int_of_uint_def sample_client_run service_world_def sample_tenant_def sample_slot_def
  sample_identity_def zero_identity_def

lemma sample_tenant_slot:
  "\<exists>w'. tenant_slot sample_env msg ctx ''T'' (service_world\<lparr>w_tick := k\<rparr>) = (Ok sample_slot, w')"
  by (simp add: service_run)

end
