(* ===== verification/Slot_Service.thy ===== *)
theory Slot_Service
  imports Service_Helpers
begin

text \<open>
  \<^verbatim>\<open>internal/application/services/slot_service.go\<close>: making a token for a tenant. A free slot is
  initialised with a generated PIN, the PIN is encrypted under a fresh data key, the data key is wrapped
  under the master key, and both are stored; then a client for the slot is registered. The bootstrapper
  (\<open>Hsm_Manager\<close>) undoes the encryption when the process starts again.

  \<^verbatim>\<open>softhsm2-util\<close>, the program that \<^verbatim>\<open>DeleteSlot\<close> runs, is an argument. Debug output is left out.
\<close>

section \<open>The cleanup handler\<close>

datatype cleanup_op = SlotCleanup string | MetadataCleanup string

type_synonym cleanup_handler = "cleanup_op list"

definition addSlotCleanup :: "string \<Rightarrow> cleanup_handler \<Rightarrow> cleanup_handler" where
  "addSlotCleanup slotID ops = ops @ [SlotCleanup slotID]"

definition addMetadataCleanup :: "string \<Rightarrow> cleanup_handler \<Rightarrow> cleanup_handler" where
  "addMetadataCleanup metadataID ops = ops @ [MetadataCleanup metadataID]"

primrec run_cleanup :: "'t env \<Rightarrow> cleanup_op \<Rightarrow> ('t, unit) wprog" where
  "run_cleanup e (SlotCleanup i) = dropErr (Slots_DeleteSlot e i)"
| "run_cleanup e (MetadataCleanup i) = dropErr (Meta_DeleteMetadata e i)"

fun run_cleanups :: "'t env \<Rightarrow> cleanup_op list \<Rightarrow> ('t, unit) wprog" where
  "run_cleanups e [] = ret ()"
| "run_cleanups e (c # cs) = bindM (run_cleanup e c) (\<lambda>_. run_cleanups e cs)"

text \<open>The operations run in the reverse of the order in which they were added.\<close>

definition cleanup :: "'t env \<Rightarrow> cleanup_handler \<Rightarrow> ('t, unit) wprog" where
  "cleanup e ops = run_cleanups e (rev ops)"

text \<open>
  A part of \<^verbatim>\<open>createHSMSlot\<close>: when it returns an error the function returns it, and its deferred function
  cleans up what has been added so far.
\<close>

definition cleaned :: "'t env \<Rightarrow> cleanup_handler \<Rightarrow> ('t, 'a) wprog \<Rightarrow> ('t, 'a) wprog" where
  "cleaned e ops m = catchM m (\<lambda>err. bindM (cleanup e ops) (\<lambda>_. throw err))"

section \<open>Storing a slot\<close>

definition original_error :: "go_error \<Rightarrow> (string \<times> dval) list" where
  "original_error err = [(''original_error'', DStr (error_text err))]"

text \<open>The data key, the id of the master key, the PIN under the one and the data key under the other.\<close>

definition seal_pin :: "'t env \<Rightarrow> aes_strategy \<Rightarrow> gctx \<Rightarrow> string \<Rightarrow> ('t, string \<times> encrypt_aes_gcm \<times> bytes) wprog" where
  "seal_pin e km ctx pin =
     bindM (attempt (Adapter_GenerateDataKey e km)) (\<lambda>r.
     bindM (Adapter_GetCurrentKeyID km) (\<lambda>masterKeyID.
     case r of
       Inl err \<Rightarrow> failPkg ErrAESCreateGCM (original_error err)
     | Inr slotKey \<Rightarrow>
         bindM (catchM (Adapter_EncryptWithKey e km slotKey (bytes_of_string pin)) (\<lambda>err.
           failPkg ErrFailEncryptData (original_error err))) (\<lambda>encryptPin.
         bindM (catchM (Adapter_WrapKey e km ctx masterKeyID slotKey) (\<lambda>err.
           failPkg ErrFailWrapKey (original_error err))) (\<lambda>wrappedDataKey.
         ret (masterKeyID, encryptPin, wrappedDataKey)))))"

definition new_metadata :: "string \<Rightarrow> string \<Rightarrow> string \<Rightarrow> bytes \<Rightarrow> aes_key_metadata" where
  "new_metadata metadataID slotID masterKeyID wrappedDataKey =
     \<lparr>md_ID = metadataID, md_HSMSlotID = slotID, md_VersionID = masterKeyID, md_Active = True,
      md_Algorithm = ''AES-256-GCM'', md_Source = ''LOCAL_GENERATED'',
      md_Description = ''AES key for HSM slot PIN encryption'', md_WrappedDataKey = wrappedDataKey,
      md_WrappedKeyVersion = masterKeyID, md_LastRewrapAt = None, md_CreatedAt = zero_time,
      md_UpdatedAt = zero_time\<rparr>"

definition new_slot :: "string \<Rightarrow> string \<Rightarrow> u64 \<Rightarrow> encrypt_aes_gcm \<Rightarrow> string \<Rightarrow> hsm_slot" where
  "new_slot slotID label realSlotID encryptPin metadataID =
     \<lparr>sl_ID = slotID, sl_Label = label, sl_SlotNumber = realSlotID, sl_IsTemporaryID = False,
      sl_PIN_IV = en_IV encryptPin, sl_Pin_ciphertext = en_Ciphertext encryptPin,
      sl_Pin_auth_tag = en_Tag encryptPin, sl_KeyMetadataID = metadataID,
      sl_EncryptionContext = [(''slot'', DStr slotID)], sl_CreatedAt = zero_time, sl_UpdatedAt = zero_time\<rparr>"

text \<open>The returned slot shares the slices that are overwritten at the end; the rows are copies.\<close>

definition zeroed :: "hsm_slot \<Rightarrow> hsm_slot" where
  "zeroed s = s\<lparr>sl_PIN_IV := zeroBytes (sl_PIN_IV s), sl_Pin_ciphertext := zeroBytes (sl_Pin_ciphertext s),
     sl_Pin_auth_tag := zeroBytes (sl_Pin_auth_tag s)\<rparr>"

definition save_slot :: "'t env \<Rightarrow> cleanup_handler \<Rightarrow> hsm_slot \<Rightarrow> ('t, cleanup_handler) wprog" where
  "save_slot e ops slot =
     bindM (cleaned e ops (catchM (Slots_CreateSlot e slot) (\<lambda>err.
       failPkg ErrCreateSlotFailed (original_error err)))) (\<lambda>_.
     ret (addSlotCleanup (sl_ID slot) ops))"

definition save_metadata ::
  "'t env \<Rightarrow> cleanup_handler \<Rightarrow> string \<Rightarrow> aes_key_metadata \<Rightarrow> ('t, cleanup_handler) wprog" where
  "save_metadata e ops slotID metadata =
     bindM (cleaned e ops (catchM (Meta_CreateMetadata e metadata) (\<lambda>err.
       bindM (dropErr (Slots_DeleteSlot e slotID)) (\<lambda>_.
       failPkg ErrCreateHSMMetadataFailed (original_error err))))) (\<lambda>_.
     ret (addMetadataCleanup (md_ID metadata) ops))"

definition createHSMSlot :: "'t env \<Rightarrow> aes_strategy \<Rightarrow> gctx \<Rightarrow> u64 \<Rightarrow> string \<Rightarrow> string \<Rightarrow> ('t, hsm_slot) wprog" where
  "createHSMSlot e km ctx realSlotID label pin =
     bindM (cleaned e [] (seal_pin e km ctx pin)) (\<lambda>(masterKeyID, encryptPin, wrappedDataKey).
     bindM (uuidM e) (\<lambda>metadataID.
     bindM (uuidM e) (\<lambda>slotID.
     let metadata = new_metadata metadataID slotID masterKeyID wrappedDataKey;
         slot = new_slot slotID label realSlotID encryptPin metadataID
     in bindM (save_slot e [] slot) (\<lambda>ops.
        bindM (save_metadata e ops slotID metadata) (\<lambda>_.
        ret (zeroed slot))))))"

section \<open>Making a token\<close>

definition initializeSlotInternal ::
  "'t env \<Rightarrow> aes_strategy \<Rightarrow> u64 \<Rightarrow> string \<Rightarrow> string \<Rightarrow> ('t, hsm_slot) wprog" where
  "initializeSlotInternal e km slot tenantID pin =
     bindM (wrapErr (errorf_w (error_text (PkgErr ErrPKCS11LibraryNotFound) @ '': ''))
       (GetOrInitPKCS11Context e (LibraryPath e))) (\<lambda>p.
     let label = GenerateTenantSlotLabel tenantID in
     bindM (wrapErr (errorf_w ''failed to initialize token: '')
       (ckM p (ck_InitToken (pkcs11 e) slot (SO_Pin e) label))) (\<lambda>_.
     bindM (wrapErr (errorf_w ''failed to open session: '')
       (ckM p (ck_OpenSession (pkcs11 e) slot CKF_SERIAL_RW))) (\<lambda>session.
     deferM (\<lambda>r w. snd (dropErr (ckM p (ck_CloseSession (pkcs11 e) session)) w))
       (bindM (wrapErr (errorf_w ''SO login failed: '')
          (ckM p (ck_Login (pkcs11 e) session CKU_SO (SO_Pin e)))) (\<lambda>_.
        bindM (wrapErr (errorf_w ''failed to set user PIN: '')
          (ckM p (ck_InitPIN (pkcs11 e) session pin))) (\<lambda>_.
        bindM (dropErr (ckM p (ck_Logout (pkcs11 e) session))) (\<lambda>_.
        createHSMSlot e km Background slot label pin)))))))"

text \<open>The slots whose token cannot be read are skipped; the binding trims the label's padding.\<close>

fun free_slots :: "'t env \<Rightarrow> u64 list \<Rightarrow> ('t, u64 list) wprog" where
  "free_slots e [] = ret []"
| "free_slots e (s # ss) =
     tryM (ckM True (ck_GetTokenLabel (pkcs11 e) s))
       (\<lambda>_. free_slots e ss)
       (\<lambda>l. bindM (free_slots e ss) (\<lambda>free. ret (if l = '''' then s # free else free)))"

definition GetAvailableSlots :: "'t env \<Rightarrow> ('t, u64 list) wprog" where
  "GetAvailableSlots e =
     bindM (wrapErr (errorf_w ''failed to load PKCS#11 library: '')
       (GetOrInitPKCS11Context e (LibraryPath e))) (\<lambda>p.
     bindM (wrapErr (errorf_w ''failed to get slot list: '')
       (ckM p (ck_GetSlotList (pkcs11 e) False))) (free_slots e))"

text \<open>The error of \<^verbatim>\<open>GetSlotList\<close> is overwritten by the nil that is returned.\<close>

definition GetAllSlots :: "'t env \<Rightarrow> ('t, u64 list) wprog" where
  "GetAllSlots e =
     bindM (wrapErr (errorf_w ''failed to load PKCS#11 library: '')
       (GetOrInitPKCS11Context e (LibraryPath e))) (\<lambda>p.
     tryM (ckM p (ck_GetSlotList (pkcs11 e) False)) (\<lambda>_. ret []) ret)"

definition outcome_string :: "(go_error, string) outcome \<Rightarrow> string" where
  "outcome_string r = (case r of Ok s \<Rightarrow> s | _ \<Rightarrow> '''')"

definition initialize_audit :: "identity_context \<Rightarrow> (go_error, string) outcome \<Rightarrow> int \<Rightarrow> audit_data" where
  "initialize_audit i r d =
     op_audit ''slot-service'' ''INITIALIZE_SLOT'' ''EXTERNAL'' ''''
       [(''slot'', DStr (outcome_string r)), (''tenant_id'', DStr (id_TenantID i))] (outcome_error r) d"

definition claim_slot :: "'t env \<Rightarrow> aes_strategy \<Rightarrow> string \<Rightarrow> string \<Rightarrow> u64 list \<Rightarrow> ('t, string) wprog" where
  "claim_slot e km tenantID pin availableSlots =
     (case availableSlots of
        [] \<Rightarrow> panicM ''index out of range [0] with length 0''
      | s # _ \<Rightarrow>
          bindM (wrapErr (errorf_w (''failed to initialize slot '' @ dec (unat s) @ '': ''))
            (initializeSlotInternal e km s tenantID pin)) (\<lambda>hsmSlot.
          bindM (wrapErr (errorf_w (''failed to create HSM client for slot '' @ dec (unat (sl_SlotNumber hsmSlot)) @ '': ''))
            (NewSoftHSMClient e (LibraryPath e) pin (sl_SlotNumber hsmSlot) (audit_on e))) (\<lambda>hsmClient.
          bindM (RegisterClient e (int_of_uint (sl_SlotNumber hsmSlot)) hsmClient) (\<lambda>_.
          ret (sl_ID hsmSlot)))))"

definition InitializeSlot :: "'t env \<Rightarrow> aes_strategy \<Rightarrow> gctx \<Rightarrow> identity_context \<Rightarrow> ('t, string) wprog" where
  "InitializeSlot e km ctx identity =
     audited e (audit_on e) ctx None (initialize_audit identity)
       (bindM (wrapErr (\<lambda>_. NewDomainError ErrTenantNotFound ''tenant not found for slot initialization'')
          (Tenants_FindByID e (id_TenantID identity))) (\<lambda>_.
        bindM (wrapErr (errorf_w ''no available slots: '') (GetAvailableSlots e)) (\<lambda>availableSlots.
        bindM (genRandomPIN e) (\<lambda>pin.
        claim_slot e km (id_TenantID identity) pin availableSlots))))"

text \<open>\<^verbatim>\<open>err = cmd.Run()\<close> is overwritten by the nil that is returned.\<close>

definition Service_DeleteSlot ::
  "'t env \<Rightarrow> (string list \<Rightarrow> ('t, unit) ck_call) \<Rightarrow> gctx \<Rightarrow> u64 \<Rightarrow> ('t, unit) wprog" where
  "Service_DeleteSlot e exec ctx slot =
     audited e (audit_on e) ctx None
       (\<lambda>r d. op_audit ''slot-service'' ''DELETE_SLOT'' ''SYSTEM'' '''' [(''slot'', DUint slot)] (outcome_error r) d)
       (dropErr (ckM True (exec [''softhsm2-util'', ''--delete-token'', ''--slot'', dec (unat slot)])))"

definition findRealSlotByLabel :: "'t env \<Rightarrow> bool \<Rightarrow> string \<Rightarrow> ('t, u64) wprog" where
  "findRealSlotByLabel e p label =
     bindM (wrapErr (errorf_w ''failed to get slot list: '')
       (ckM p (ck_GetSlotList (pkcs11 e) True))) (\<lambda>slots.
     bindM (find_trimmed e trim_space label slots) (\<lambda>found.
     case found of
       None \<Rightarrow> throw (PlainErr (''slot with label '' @ quoted label @ '' not found''))
     | Some s \<Rightarrow> ret s))"

section \<open>Facts\<close>

lemma cleaned_Ok [run_simps]: "cleaned e ops m w = (Ok x, w') \<longleftrightarrow> m w = (Ok x, w')"
  by (simp add: cleaned_def catchM_Ok bindM_Ok run_basic)

lemma cleaned_none: "cleaned e [] m = m"
  by (rule ext) (simp add: cleaned_def cleanup_def catchM_def bindM_def run_basic split: prod.split outcome.split)

definition without_slot :: "string \<Rightarrow> slot_row list \<Rightarrow> slot_row list" where
  "without_slot i rows = filter (\<lambda>r. sl_ID (row_slot r) \<noteq> i) rows"

lemma drop_DeleteSlot:
  "\<exists>w'. dropErr (Slots_DeleteSlot e i) w = (Ok (), w') \<and> w_meta w' = w_meta w
     \<and> (w_slots w' = w_slots w \<or> w_slots w' = without_slot i (w_slots w))
     \<and> (db_err_at e (w_tick w) = None \<longrightarrow> w_slots w' = without_slot i (w_slots w)) \<and> w_tick w' = Suc (w_tick w)"
  by (cases "db_err_at e (w_tick w)")
    (auto simp: dropErr_def attempt_def Slots_DeleteSlot_def wrapErr_def catchM_def bindM_def run_dbM run_basic
      without_slot_def)

lemma without_slot_append:
  assumes "i \<notin> (sl_ID \<circ> row_slot) ` set rows" and "sl_ID (row_slot row) = i"
  shows "without_slot i (rows @ [row]) = rows" and "without_slot i rows = rows"
proof -
  have "\<forall>x \<in> set rows. sl_ID (row_slot x) \<noteq> i" using assms(1) by force
  then show "without_slot i (rows @ [row]) = rows" and "without_slot i rows = rows"
    using assms(2) by (simp_all add: without_slot_def filter_id_conv)
qed

lemma Slots_CreateSlot_run:
  assumes "Slots_CreateSlot e s w = (r, w')"
  shows "(r = Ok () \<and> db_err_at e (Suc (w_tick w)) = None
        \<and> (db_unique e = None \<or> sl_ID s \<notin> (sl_ID \<circ> row_slot) ` set (w_slots w))
        \<and> (\<exists>now. w_slots w' = w_slots w @ [\<lparr>row_slot = s\<lparr>sl_IsTemporaryID := db_temp_default e, sl_KeyMetadataID := '''',
              sl_CreatedAt := db_time e now, sl_UpdatedAt := db_time e now\<rparr>, row_metadata_id = None\<rparr>]))
     \<or> (\<exists>err. r = Err err \<and> w_slots w' = w_slots w)"
  using assms
  by (cases r)
    (auto simp: Slots_CreateSlot_def bindM_Ok bindM_Err bindM_Panic wrapErr_Ok wrapErr_Err wrapErr_Panic run_tick run_basic
      insertM_Ok insertM_def dbM_iff split: option.split_asm if_split_asm)

lemma Slots_CreateSlot_frame: "Slots_CreateSlot e s w = (r, w') \<Longrightarrow> w_meta w' = w_meta w \<and> w_kcache w' = w_kcache w"
  by (cases "db_err_at e (Suc (w_tick w))")
    (auto simp: Slots_CreateSlot_def insertM_def bindM_def wrapErr_def catchM_def run_tick run_dbM run_basic
      split: option.split_asm if_split_asm)

lemma Meta_CreateMetadata_run:
  assumes "Meta_CreateMetadata e m w = (r, w')"
  shows "w_kcache w' = w_kcache w
    \<and> ((r = Ok () \<and> (db_unique e = None \<or> md_ID m \<notin> md_ID ` set (w_meta w))
        \<and> (\<exists>now. w_meta w' = w_meta w @ [m\<lparr>md_CreatedAt := db_time e now, md_UpdatedAt := db_time e now\<rparr>])
        \<and> w_slots w' = set_row (md_HSMSlotID m) (\<lambda>r. r\<lparr>row_metadata_id := Some (md_ID m)\<rparr>) (w_slots w))
     \<or> (\<exists>err. r = Err err \<and> w_meta w' = w_meta w \<and> w_slots w' = w_slots w))"
  using assms
  by (cases r)
    (auto simp: Meta_CreateMetadata_def bindM_Ok bindM_Err bindM_Panic wrapErr_Ok wrapErr_Err wrapErr_Panic run_tick run_basic
      insertM_Ok insertM_def dbM_iff split: option.split_asm if_split_asm)

subsection \<open>Sealing the PIN\<close>

lemma st_resolves_kcache: "w_kcache w = w_kcache w' \<Longrightarrow> st_resolves a kid mk w = st_resolves a kid mk w'"
  by (cases a) simp_all

lemma frame_seal_pin:
  assumes f: "secrets_frame f"
  shows "unchanged f (seal_pin e km ctx pin)"
  unfolding seal_pin_def
  by (intro unchanged_intros frame_adapter secrets_frame_D f)

lemma stamp_Ok:
  "stamp e kid key pt w = (Ok enc, w') \<Longrightarrow>
     \<exists>r enc0. EncryptAESGCM r key pt = Inr enc0 \<and> enc = enc0\<lparr>en_KeyID := kid\<rparr>"
  by (auto simp: stamp_def bindM_Ok run_tick liftSum_iff run_basic)

lemma seal_pin_Ok:
  assumes "seal_pin e km ctx pin w = (Ok (kid, enc, wrapped), w')"
  obtains mk key r enc0 where "st_resolves km kid mk w'" and "UnwrapKey mk wrapped = Inr key"
    and "EncryptAESGCM r key (bytes_of_string pin) = Inr enc0"
    and "en_IV enc = en_IV enc0" "en_Ciphertext enc = en_Ciphertext enc0" "en_Tag enc = en_Tag enc0"
proof -
  obtain x u0 u where x: "attempt (Adapter_GenerateDataKey e km) w = (Ok x, u0)"
    and rest: "(case x of
       Inl err \<Rightarrow> failPkg ErrAESCreateGCM (original_error err)
     | Inr slotKey \<Rightarrow>
         bindM (catchM (Adapter_EncryptWithKey e km slotKey (bytes_of_string pin)) (\<lambda>err.
           failPkg ErrFailEncryptData (original_error err))) (\<lambda>encryptPin.
         bindM (catchM (Adapter_WrapKey e km ctx kid slotKey) (\<lambda>err.
           failPkg ErrFailWrapKey (original_error err))) (\<lambda>wrappedDataKey.
         ret (kid, encryptPin, wrappedDataKey)))) u = (Ok (kid, enc, wrapped), w')"
    using assms by (fastforce simp: seal_pin_def bindM_Ok catchM_Ok run_failPkg run_basic split: sum.splits)
  obtain key v where enc: "Adapter_EncryptWithKey e km key (bytes_of_string pin) u = (Ok enc, v)"
    and wrap: "Adapter_WrapKey e km ctx kid key v = (Ok wrapped, w')"
    using rest by (cases x) (auto simp: bindM_Ok catchM_Ok run_failPkg run_basic)
  obtain mk where "st_resolves km kid mk w'" "UnwrapKey mk wrapped = Inr key"
    using adapter_wrapping.wrap_Ok [OF wrap] by blast
  moreover obtain r enc0 k where "EncryptAESGCM r key (bytes_of_string pin) = Inr enc0" "enc = enc0\<lparr>en_KeyID := k\<rparr>"
    using enc by (auto simp: Adapter_EncryptWithKey_def bindM_Ok aes_audited_run dest!: stamp_Ok)
  ultimately show thesis by (auto intro!: that)
qed

subsection \<open>Storing a slot\<close>

lemma save_slot_run:
  assumes "save_slot e [] slot w = (r, w')"
  shows "w_meta w' = w_meta w \<and> w_kcache w' = w_kcache w
    \<and> ((r = Ok [SlotCleanup (sl_ID slot)]
          \<and> (db_unique e = None \<or> sl_ID slot \<notin> (sl_ID \<circ> row_slot) ` set (w_slots w))
          \<and> (\<exists>now. w_slots w' = w_slots w @ [\<lparr>row_slot = slot\<lparr>sl_IsTemporaryID := db_temp_default e,
               sl_KeyMetadataID := '''', sl_CreatedAt := db_time e now, sl_UpdatedAt := db_time e now\<rparr>,
               row_metadata_id = None\<rparr>]))
      \<or> (\<exists>err. r = Err err \<and> w_slots w' = w_slots w))"
proof -
  obtain q u where c: "Slots_CreateSlot e slot w = (q, u)" by fastforce
  note facts = Slots_CreateSlot_run [OF c] Slots_CreateSlot_frame [OF c]
  show ?thesis
  proof (cases q)
    case (Ok x)
    then have "r = Ok [SlotCleanup (sl_ID slot)] \<and> w' = u"
      using assms c by (auto simp: save_slot_def cleaned_none addSlotCleanup_def bindM_def run_basic)
    then show ?thesis using facts Ok by auto
  next
    case (Err err)
    then have "\<exists>err. r = Err err" "w_meta w' = w_meta u" "w_slots w' = w_slots u" "w_kcache w' = w_kcache u"
      using assms c by (auto simp: save_slot_def cleaned_none bindM_def run_failPkg)
    then show ?thesis using facts Err by auto
  next
    case (Panic p)
    then show ?thesis using facts by auto
  qed
qed

text \<open>A failed \<^verbatim>\<open>CreateMetadata\<close> deletes the slot's row twice, and once more than once does not matter.\<close>

definition deletions_failed :: "'t env \<Rightarrow> 't world \<Rightarrow> bool" where
  "deletions_failed e w \<longleftrightarrow> 2 \<le> w_tick w \<and> db_err_at e (w_tick w - 2) \<noteq> None \<and> db_err_at e (w_tick w - 1) \<noteq> None"

lemma save_metadata_run:
  assumes "save_metadata e [SlotCleanup i] i md w = (r, w')"
  shows "(\<exists>ops. r = Ok ops \<and> Meta_CreateMetadata e md w = (Ok (), w'))
    \<or> (\<exists>err. r = Err err \<and> w_meta w' = w_meta w
         \<and> (w_slots w' \<in> {without_slot i (w_slots w), without_slot i (without_slot i (w_slots w))}
             \<or> (w_slots w' = w_slots w \<and> deletions_failed e w')))"
proof -
  obtain q u where c: "Meta_CreateMetadata e md w = (q, u)" by fastforce
  note facts = Meta_CreateMetadata_run [OF c]
  show ?thesis
  proof (cases q)
    case (Ok x)
    then show ?thesis using assms c by (auto simp: save_metadata_def cleaned_def bindM_def catchM_def run_basic)
  next
    case (Err err)
    obtain v where v: "dropErr (Slots_DeleteSlot e i) u = (Ok (), v)" "w_meta v = w_meta u"
      "w_slots v = w_slots u \<or> w_slots v = without_slot i (w_slots u)"
      "db_err_at e (w_tick u) = None \<longrightarrow> w_slots v = without_slot i (w_slots u)" "w_tick v = Suc (w_tick u)"
      using drop_DeleteSlot by blast
    obtain v' where v': "dropErr (Slots_DeleteSlot e i)
        (v\<lparr>w_errs := fold (\<lambda>(k, v). store_detail ErrCreateHSMMetadataFailed k v) (original_error err) (w_errs v)\<rparr>) = (Ok (), v')"
      "w_meta v' = w_meta v" "w_slots v' = w_slots v \<or> w_slots v' = without_slot i (w_slots v)"
      "db_err_at e (w_tick v) = None \<longrightarrow> w_slots v' = without_slot i (w_slots v)" "w_tick v' = Suc (w_tick v)"
      using drop_DeleteSlot [of e i "v\<lparr>w_errs := fold (\<lambda>(k, v). store_detail ErrCreateHSMMetadataFailed k v)
        (original_error err) (w_errs v)\<rparr>"] by auto
    have "r = Err (PkgErr ErrCreateHSMMetadataFailed) \<and> w' = v'"
      using assms c v(1) v'(1) Err
      by (simp add: save_metadata_def cleaned_def cleanup_def bindM_def catchM_def run_failPkg run_basic)
    then show ?thesis using v v' facts Err by (auto simp: deletions_failed_def)
  next
    case (Panic p)
    then show ?thesis using facts by auto
  qed
qed

lemma createHSMSlot_Ok:
  assumes "createHSMSlot e km ctx n label pin w = (Ok slot, w')" and "db_unique e \<noteq> None"
  obtains kid enc wrapped u mid md sid row where "seal_pin e km ctx pin w = (Ok (kid, enc, wrapped), u)"
    and "w_kcache w' = w_kcache u" and "slot = zeroed (new_slot sid label n enc mid)"
    and "w_meta w' = w_meta w @ [md]" and "md_ID md = mid" and "mid \<notin> md_ID ` set (w_meta w)"
    and "md_VersionID md = kid" and "md_WrappedDataKey md = wrapped"
    and "w_slots w' = w_slots w @ [row]" and "sid \<notin> (sl_ID \<circ> row_slot) ` set (w_slots w)"
    and "row_metadata_id row = Some mid"
    and "sl_ID (row_slot row) = sid" "sl_Label (row_slot row) = label" "sl_SlotNumber (row_slot row) = n"
      "sl_PIN_IV (row_slot row) = en_IV enc" "sl_Pin_ciphertext (row_slot row) = en_Ciphertext enc"
      "sl_Pin_auth_tag (row_slot row) = en_Tag enc"
proof -
  obtain kid enc wrapped u where seal: "seal_pin e km ctx pin w = (Ok (kid, enc, wrapped), u)"
    and rest: "bindM (uuidM e) (\<lambda>mid. bindM (uuidM e) (\<lambda>sid.
        bindM (save_slot e [] (new_slot sid label n enc mid)) (\<lambda>ops.
        bindM (save_metadata e ops sid (new_metadata mid sid kid wrapped)) (\<lambda>_.
        ret (zeroed (new_slot sid label n enc mid)))))) u = (Ok slot, w')"
    using assms(1) by (auto simp: createHSMSlot_def cleaned_none Let_def bindM_Ok)
  define mid sid where ids: "mid = uuid_at e (w_tick u)" "sid = uuid_at e (Suc (w_tick u))"
  obtain ops v where s: "save_slot e [] (new_slot sid label n enc mid) (u\<lparr>w_tick := Suc (Suc (w_tick u))\<rparr>) = (Ok ops, v)"
    and m: "\<exists>ops'. save_metadata e ops sid (new_metadata mid sid kid wrapped) v = (Ok ops', w')"
    and slot: "slot = zeroed (new_slot sid label n enc mid)"
    using rest by (auto simp: bindM_Ok run_tick run_basic ids)
  have tables: "w_slots u = w_slots w" "w_meta u = w_meta w"
    using unchangedD [OF frame_seal_pin seal, of w_slots] unchangedD [OF frame_seal_pin seal, of w_meta] by auto
  obtain now where v: "ops = [SlotCleanup sid]" "w_meta v = w_meta w" "w_kcache v = w_kcache u"
    "sid \<notin> (sl_ID \<circ> row_slot) ` set (w_slots w)"
    "w_slots v = w_slots w @ [\<lparr>row_slot = (new_slot sid label n enc mid)\<lparr>sl_IsTemporaryID := db_temp_default e,
         sl_KeyMetadataID := '''', sl_CreatedAt := now, sl_UpdatedAt := now\<rparr>, row_metadata_id = None\<rparr>]"
    using save_slot_run [OF s] assms(2) tables by (auto simp: new_slot_def)
  have "Meta_CreateMetadata e (new_metadata mid sid kid wrapped) v = (Ok (), w')"
    using m save_metadata_run unfolding v(1) by fastforce
  from Meta_CreateMetadata_run [OF this] obtain now' where w': "w_kcache w' = w_kcache v"
    "mid \<notin> md_ID ` set (w_meta v)"
    "w_meta w' = w_meta v @ [(new_metadata mid sid kid wrapped)\<lparr>md_CreatedAt := now', md_UpdatedAt := now'\<rparr>]"
    "w_slots w' = set_row sid (\<lambda>r. r\<lparr>row_metadata_id := Some mid\<rparr>) (w_slots v)"
    using assms(2) by (auto simp: new_metadata_def)
  have "set_row sid f (w_slots w) = w_slots w" for f
    using v(4) by (force simp: set_row_def intro: map_idI)
  then have "w_slots w' = w_slots w @ [\<lparr>row_slot = (new_slot sid label n enc mid)\<lparr>sl_IsTemporaryID := db_temp_default e,
         sl_KeyMetadataID := '''', sl_CreatedAt := now, sl_UpdatedAt := now\<rparr>, row_metadata_id = Some mid\<rparr>]"
    using w'(4) v(5) by (simp add: set_row_def new_slot_def)
  then show thesis
    using w' v(2-5) slot by (intro that [OF seal, of sid mid]) (auto simp: new_metadata_def new_slot_def)
qed

lemma createHSMSlot_fails:
  assumes "createHSMSlot e km ctx n label pin w = (r, w')" and "db_unique e \<noteq> None" and "\<And>s. r \<noteq> Ok s"
  shows "w_meta w' = w_meta w"
    and "w_slots w' = w_slots w \<or>
      (deletions_failed e w' \<and> (\<exists>row. w_slots w' = w_slots w @ [row] \<and> row_metadata_id row = None))"
proof -
  obtain q u where seal: "seal_pin e km ctx pin w = (q, u)" by fastforce
  have tables: "w_slots u = w_slots w" "w_meta u = w_meta w"
    using unchangedD [OF frame_seal_pin seal, of w_slots] unchangedD [OF frame_seal_pin seal, of w_meta] by auto
  have "w_meta w' = w_meta w \<and> (w_slots w' = w_slots w \<or>
      (deletions_failed e w' \<and> (\<exists>row. w_slots w' = w_slots w @ [row] \<and> row_metadata_id row = None)))"
  proof (cases "\<exists>x. q = Ok x")
    case False
    then have "w' = u" using assms(1) seal by (cases q) (auto simp: createHSMSlot_def cleaned_none bindM_def)
    then show ?thesis using tables by simp
  next
    case True
    then obtain kid enc wrapped where q: "q = Ok (kid, enc, wrapped)" by (metis prod_cases3)
    define mid sid where ids: "mid = uuid_at e (w_tick u)" "sid = uuid_at e (Suc (w_tick u))"
    obtain q1 v where s: "save_slot e [] (new_slot sid label n enc mid) (u\<lparr>w_tick := Suc (Suc (w_tick u))\<rparr>) = (q1, v)"
      by fastforce
    note sr = save_slot_run [OF s]
    show ?thesis
    proof (cases "\<exists>ops. q1 = Ok ops")
      case False
      then have "w' = v" using assms(1) seal q s
        by (cases q1) (auto simp: createHSMSlot_def cleaned_none Let_def bindM_def run_tick ids)
      then show ?thesis using sr tables False by auto
    next
      case ok: True
      then have q1: "q1 = Ok [SlotCleanup sid]" using sr by (auto simp: new_slot_def)
      obtain row where row: "w_slots v = w_slots w @ [row]" "row_metadata_id row = None" "sl_ID (row_slot row) = sid"
        "sid \<notin> (sl_ID \<circ> row_slot) ` set (w_slots w)" "w_meta v = w_meta w"
        using sr q1 tables assms(2) by (auto simp: new_slot_def)
      obtain q2 x where m: "save_metadata e [SlotCleanup sid] sid (new_metadata mid sid kid wrapped) v = (q2, x)" by fastforce
      have "w' = x \<and> (\<forall>ops. q2 \<noteq> Ok ops)"
        using assms(1,3) seal q s q1 m
        by (cases q2) (auto simp: createHSMSlot_def cleaned_none Let_def bindM_def run_tick run_basic ids)
      then show ?thesis
        using save_metadata_run [OF m] row without_slot_append [OF row(4,3)] by auto
    qed
  qed
  then show "w_meta w' = w_meta w"
    and "w_slots w' = w_slots w \<or>
      (deletions_failed e w' \<and> (\<exists>row. w_slots w' = w_slots w @ [row] \<and> row_metadata_id row = None))" by auto
qed

lemma find_last:
  "\<forall>x \<in> set xs. \<not> P x \<Longrightarrow> P y \<Longrightarrow> List.find P (xs @ [y]) = Some y"
  by (induction xs) auto

lemma find_new: "f y \<notin> f ` set xs \<Longrightarrow> f y = i \<Longrightarrow> List.find (\<lambda>x. f x = i) (xs @ [y]) = Some y"
  by (rule find_last) (metis image_eqI, simp)

text \<open>A slot without a free token is an index out of range.\<close>

lemma no_free_slot_panics:
  assumes "Tenants_FindByID e (id_TenantID i) (w\<lparr>w_tick := Suc (w_tick w)\<rparr>) = (Ok t, u)"
    and "GetAvailableSlots e u = (Ok [], v)"
  shows "fst (InitializeSlot e km ctx i w) = Panic ''index out of range [0] with length 0''"
  using assms
  by (simp add: InitializeSlot_def audited_def bindM_def wrapErr_def catchM_def run_tick run_basic deferM_def
      genRandomPIN_def claim_slot_def)

subsection \<open>What making a token leaves alone\<close>

definition slots_frame :: "('t world \<Rightarrow> 'b) \<Rightarrow> bool" where
  "slots_frame f \<longleftrightarrow> secrets_frame f \<and> (\<forall>w s m. f (w\<lparr>w_slots := s\<rparr>) = f w \<and> f (w\<lparr>w_meta := m\<rparr>) = f w)"

lemma slots_frame_fields [simp, intro]: "slots_frame w_tenants" "slots_frame w_keys" "slots_frame w_ops"
    "slots_frame w_clients" "slots_frame w_tok" "slots_frame w_once" "slots_frame w_shared" "slots_frame w_initerr"
    "slots_frame w_libpath"
  by (simp_all add: slots_frame_def)

lemma slots_frame_secrets [simp, intro]: "slots_frame f \<Longrightarrow> secrets_frame f"
  by (simp add: slots_frame_def)

lemma frame_createHSMSlot:
  assumes f: "slots_frame f"
  shows "unchanged f (createHSMSlot e km ctx n label pin)"
proof -
  have D: "f (w\<lparr>w_slots := s\<rparr>) = f w" "f (w\<lparr>w_meta := m\<rparr>) = f w" "f (w\<lparr>w_tick := k\<rparr>) = f w" "f (w\<lparr>w_errs := x\<rparr>) = f w"
    "f (w\<lparr>w_meta := m, w_slots := s\<rparr>) = f w" for w s m k x
    using f secrets_frame_D(1,2) [of f] by (auto simp: slots_frame_def)
  have store: "unchanged f (Slots_CreateSlot e s)" "unchanged f (Slots_DeleteSlot e i)" "unchanged f (Meta_DeleteMetadata e i)"
    "unchanged f (Meta_CreateMetadata e m)" for s i m
    unfolding Slots_CreateSlot_def Slots_DeleteSlot_def Meta_DeleteMetadata_def Meta_CreateMetadata_def insertM_def
    by (intro unchanged_intros; simp add: D)+
  have "unchanged f (run_cleanups e cs)" for cs
  proof (induction cs)
    case (Cons c cs)
    then show ?case by (cases c) (simp_all, (intro unchanged_intros store | assumption)+)
  qed (simp add: unchanged_pure)
  then have clean: "unchanged f m \<Longrightarrow> unchanged f (cleaned e ops m)" for ops and m :: "('a, 'z) wprog"
    unfolding cleaned_def cleanup_def by (intro unchanged_intros)
  show ?thesis
    unfolding createHSMSlot_def save_slot_def save_metadata_def Let_def
    by (intro unchanged_intros clean store frame_seal_pin slots_frame_secrets f D)
qed

lemma frame_free_slots:
  assumes f: "service_frame f"
  shows "unchanged f (free_slots e ss)" "unchanged f (GetAvailableSlots e)" "unchanged f (genRandomPIN e)"
proof -
  show free: "unchanged f (free_slots e ss)" for ss
    by (induction ss) (simp_all, (intro frame_steps service_frame_token f | assumption)+)
  show "unchanged f (GetAvailableSlots e)" "unchanged f (genRandomPIN e)"
    unfolding GetAvailableSlots_def genRandomPIN_def
    by (intro frame_steps frame_context service_frame_token f free service_frame_D [OF f])+
qed

lemma free_slots_Ok:
  "free_slots e ss w = (Ok fs, w') \<Longrightarrow> s \<in> set fs \<Longrightarrow>
   s \<in> set ss \<and> (\<exists>t t'. ck_GetTokenLabel (pkcs11 e) s t = (Inr '''', t'))"
proof (induction ss arbitrary: w fs)
  case (Cons a ss)
  from Cons.prems consider v where "free_slots e ss v = (Ok fs, w')"
    | v l gs where "free_slots e ss v = (Ok gs, w')" "fs = (if l = '''' then a # gs else gs)"
        "\<exists>t t'. ck_GetTokenLabel (pkcs11 e) a t = (Inr l, t')"
    by (fastforce simp: tryM_iff bindM_Ok run_basic ckM_iff)
  then show ?case
    by cases (use Cons in \<open>auto split: if_split_asm\<close>)
qed (simp add: run_basic)

lemma initializeSlotInternal_Ok:
  assumes "initializeSlotInternal e km n tn pin w = (Ok s, w')"
  obtains u v where "createHSMSlot e km Background n (GenerateTenantSlotLabel tn) pin u = (Ok s, v)"
    and "\<And>f. service_frame f \<Longrightarrow> f u = f w \<and> f w' = f v"
proof -
  let ?label = "GenerateTenantSlotLabel tn"
  obtain p u0 h u1 u2 v where ctx: "GetOrInitPKCS11Context e (LibraryPath e) w = (Ok p, u0)"
    and init: "\<exists>u. ckM p (ck_InitToken (pkcs11 e) n (SO_Pin e) ?label) u0 = (Ok (), u)
        \<and> ckM p (ck_OpenSession (pkcs11 e) n CKF_SERIAL_RW) u = (Ok h, u1)"
    and pin: "\<exists>a b. ckM p (ck_Login (pkcs11 e) h CKU_SO (SO_Pin e)) u1 = (Ok (), a)
        \<and> ckM p (ck_InitPIN (pkcs11 e) h pin) a = (Ok (), b)
        \<and> dropErr (ckM p (ck_Logout (pkcs11 e) h)) b = (Ok (), u2)"
    and run: "createHSMSlot e km Background n ?label pin u2 = (Ok s, v)"
    and w': "w' = snd (dropErr (ckM p (ck_CloseSession (pkcs11 e) h)) v)"
    using assms unfolding initializeSlotInternal_def Let_def bindM_Ok wrapErr_Ok deferM_iff by fastforce
  have "f u2 = f w \<and> f w' = f v" if f: "service_frame f" for f :: "'a world \<Rightarrow> 'z"
  proof -
    have ck: "unchanged f (ckM p g)" for g :: "('a, 'y) ck_call"
      by (intro frame_basic service_frame_token f)
    have drop: "unchanged f (dropErr (ckM p g))" for g :: "('a, unit) ck_call"
      by (intro unchanged_drop ck)
    have "f u0 = f w" using unchangedD [OF frame_context(1) [OF f] ctx] .
    moreover have "f u1 = f u0" using init by (auto dest!: unchangedD [OF ck])
    moreover have "f u2 = f u1" using pin by (auto dest!: unchangedD [OF ck] unchangedD [OF drop])
    moreover have "f w' = f v" using drop w' by (simp add: within_def)
    ultimately show ?thesis by simp
  qed
  with run show thesis by (rule that)
qed

lemma frame_RegisterClient:
  assumes f: "client_frame f" and c: "\<And>w c. f (w\<lparr>w_clients := c\<rparr>) = f w"
  shows "unchanged f (RegisterClient e n c)"
  unfolding RegisterClient_def set_clients_def
  by (intro unchanged_intros client_frames f c)

lemma claim_slot_Ok:
  assumes "claim_slot e km tn pin avail w = (Ok sid, w')" and "db_unique e \<noteq> None"
  shows "\<exists>n ns row c. avail = n # ns \<and> w_slots w' = w_slots w @ [row] \<and> w_tenants w' = w_tenants w
    \<and> sl_ID (row_slot row) = sid \<and> sl_Label (row_slot row) = GenerateTenantSlotLabel tn \<and> sl_SlotNumber (row_slot row) = n
    \<and> map_of (w_clients w') (int_of_uint n) = Some c \<and> \<not> cl_closed c"
proof -
  obtain n ns where ns: "avail = n # ns" using assms(1) by (cases avail) (auto simp: claim_slot_def run_basic)
  obtain s c u v where init: "initializeSlotInternal e km n tn pin w = (Ok s, u)"
    and client: "NewSoftHSMClient e (LibraryPath e) pin (sl_SlotNumber s) (audit_on e) u = (Ok c, v)"
    and reg: "RegisterClient e (int_of_uint (sl_SlotNumber s)) c v = (Ok (), w')" and sid: "sid = sl_ID s"
    using assms(1) by (auto simp: claim_slot_def ns bindM_Ok wrapErr_Ok run_basic)
  let ?f = "\<lambda>w. (w_slots w, w_tenants w)"
  have f: "service_frame ?f" by (simp add: service_frame_def client_frame_def token_frame_def)
  obtain a b where make: "createHSMSlot e km Background n (GenerateTenantSlotLabel tn) pin a = (Ok s, b)"
    and ab: "?f a = ?f w \<and> ?f u = ?f b"
  proof (rule initializeSlotInternal_Ok [OF init])
    fix a b assume "createHSMSlot e km Background n (GenerateTenantSlotLabel tn) pin a = (Ok s, b)"
      and "\<And>f :: 'a world \<Rightarrow> slot_row list \<times> tenant list. service_frame f \<Longrightarrow> f a = f w \<and> f u = f b"
    then show thesis using f by (intro that) blast+
  qed
  have after: "?f w' = ?f b"
    using unchangedD [OF frame_RegisterClient [OF service_frame_client [OF f]] reg]
      unchangedD [OF frame_new_client(1) [OF f] client] ab by simp
  obtain enc mid sid' row where slot: "s = zeroed (new_slot sid' (GenerateTenantSlotLabel tn) n enc mid)"
    and row: "w_slots b = w_slots a @ [row]" "sl_ID (row_slot row) = sid'"
      "sl_Label (row_slot row) = GenerateTenantSlotLabel tn" "sl_SlotNumber (row_slot row) = n"
    using createHSMSlot_Ok [OF make assms(2)] by metis
  have "w_tenants b = w_tenants a" using unchangedD [OF frame_createHSMSlot make, of w_tenants] by simp
  moreover have "map_of (w_clients w') (int_of_uint n) = Some c"
    using RegisterClient_clients(2) [OF reg] slot by (simp add: map_of_update zeroed_def new_slot_def)
  moreover have "\<not> cl_closed c" using NewSoftHSMClient_Ok [OF client] by simp
  ultimately show ?thesis
    using row ab after sid slot ns
    by (intro exI [of _ n] exI [of _ ns] exI [of _ row] exI [of _ c]) (simp add: zeroed_def new_slot_def)
qed

section \<open>Properties\<close>

text \<open>
  C8. The PIN of a new slot survives a restart: when \<^verbatim>\<open>createHSMSlot\<close> succeeds, the row it left, read back
  by its identifier, has the slot number and the label, and the bootstrapper recovers from it exactly the PIN
  the token was given, under whichever strategy of the key manager. The slot it returns has its PIN's
  ciphertext overwritten with zeros.
\<close>

theorem provisioned_slot_boots_with_its_pin:
  assumes "createHSMSlot e km ctx n label pin w = (Ok slot, w')" and "pin \<noteq> ''''"
    and "db_unique e \<noteq> None" and "\<And>k. db_err_at e k = None"
  shows "(\<exists>s u v. Slots_GetSlotByID e (sl_ID slot) w' = (Ok s, u) \<and> sl_SlotNumber s = n \<and> sl_Label s = label
      \<and> recover_pin e km ctx' s u = (Ok pin, v))
    \<and> set (sl_PIN_IV slot @ sl_Pin_ciphertext slot @ sl_Pin_auth_tag slot) \<subseteq> {0}"
  using assms(1,3)
proof (rule createHSMSlot_Ok)
  fix kid enc wrapped u mid md sid row
  assume seal: "seal_pin e km ctx pin w = (Ok (kid, enc, wrapped), u)" and cache: "w_kcache w' = w_kcache u"
    and slot: "slot = zeroed (new_slot sid label n enc mid)"
    and meta: "w_meta w' = w_meta w @ [md]" "md_ID md = mid" "mid \<notin> md_ID ` set (w_meta w)"
    and md: "md_VersionID md = kid" "md_WrappedDataKey md = wrapped"
    and rows: "w_slots w' = w_slots w @ [row]" "sid \<notin> (sl_ID \<circ> row_slot) ` set (w_slots w)"
      "row_metadata_id row = Some mid" "sl_ID (row_slot row) = sid" "sl_Label (row_slot row) = label"
      "sl_SlotNumber (row_slot row) = n" "sl_PIN_IV (row_slot row) = en_IV enc"
      "sl_Pin_ciphertext (row_slot row) = en_Ciphertext enc" "sl_Pin_auth_tag (row_slot row) = en_Tag enc"
  from seal obtain mk key r enc0 where res: "st_resolves km kid mk u" and unwrap: "UnwrapKey mk wrapped = Inr key"
    and enc: "EncryptAESGCM r key (bytes_of_string pin) = Inr enc0"
    and same: "en_IV enc = en_IV enc0" "en_Ciphertext enc = en_Ciphertext enc0" "en_Tag enc = en_Tag enc0"
    by (rule seal_pin_Ok)
  define s where "s = (row_slot row)\<lparr>sl_KeyMetadataID := mid, sl_EncryptionContext := []\<rparr>"
  let ?u = "w'\<lparr>w_tick := Suc (w_tick w')\<rparr>"
  have "List.find (\<lambda>r. sl_ID (row_slot r) = sid) (w_slots w') = Some row"
    using find_new [of "sl_ID \<circ> row_slot" row "w_slots w" sid] rows(1,2,4) by simp
  then have get: "Slots_GetSlotByID e sid w' = (Ok s, ?u)"
    using assms(4) rows(3) by (simp add: Slots_GetSlotByID_Ok scan_slot_def s_def)
  have "List.find (\<lambda>r. md_ID r = sl_KeyMetadataID s) (w_meta ?u) = Some md"
    using find_new [of md_ID md "w_meta w" mid] meta by (simp add: s_def)
  moreover have "st_resolves km (md_VersionID md) mk ?u" using res cache st_resolves_kcache [of u w'] md by simp
  moreover have "stored_pin s kid = enc0\<lparr>en_KeyID := kid\<rparr>"
    using rows same EncryptAESGCM_parts(4) [OF enc] by (simp add: stored_pin_def s_def)
  then have "DecryptAESGCM key (stored_pin s (md_VersionID md)) = Inr (bytes_of_string pin)"
    using DecryptAESGCM_Encrypt [OF enc] assms(2) md by (simp add: bytes_of_string_def)
  ultimately have "\<exists>v. recover_pin e km ctx' s ?u = (Ok (string_of_bytes (bytes_of_string pin)), v)"
    using unwrap md assms(4) by (intro recover_pin_run [where mk = mk and key = key and m = md]) simp_all
  then show ?thesis using get slot rows set_zeroBytes
    by (fastforce simp: zeroed_def new_slot_def s_def)
qed

text \<open>The sample key manager can always provision a slot where the tables are empty.\<close>

abbreviation sample_km :: aes_strategy where
  "sample_km \<equiv> LocalMgr \<lparr>lm_masterKey = replicate 32 7, lm_keyID = ''k1''\<rparr>"

definition fault_env :: "(nat \<Rightarrow> string option) \<Rightarrow> sample_token env" where
  "fault_env f = sample_env\<lparr>db_err_at := f\<rparr>"

lemma fault_env_simps [simp]:
  "now_at (fault_env f) n = int n * 1000000" "rand_at (fault_env f) n = Inr (\<lambda>i. of_nat (n + i))"
  "uuid_at (fault_env f) n = sample_uuid n" "db_err_at (fault_env f) n = f n"
  "db_unique (fault_env f) = Some ''Error 1062 (23000): Duplicate entry''" "audit_on (fault_env f)"
  "fault_env (\<lambda>_. None) = sample_env"
  by (simp_all add: fault_env_def sample_env_def)

lemma sample_seal_pin:
  "\<exists>enc x v. seal_pin (fault_env f) sample_km Background pin w = (Ok (''k1'', enc, x), v)
     \<and> w_tick v = w_tick w + 9 \<and> w_slots v = w_slots w \<and> w_meta v = w_meta w"
proof -
  obtain key u where key: "Adapter_GenerateDataKey (fault_env f) sample_km w = (Ok key, u)" "length key = 32"
    and u: "w_tick u = w_tick w + 3"
    by (auto simp: Adapter_GenerateDataKey_def aes_audited_run Local_GenerateDataKey_def GenerateAES256Key_def
        bindM_def run_tick run_liftSum read_full_def AES256KeySize_def)
  obtain enc v where enc: "Adapter_EncryptWithKey (fault_env f) sample_km key (bytes_of_string pin) u = (Ok enc, v)"
    and v: "w_tick v = w_tick u + 3"
    using EncryptAESGCM_total [OF key(2), of "\<lambda>i. of_nat (Suc (w_tick u) + i)" "bytes_of_string pin"]
    by (auto simp: Adapter_EncryptWithKey_def aes_audited_run stamp_def bindM_def run_tick run_liftSum run_basic)
  obtain x v' where wrap: "Adapter_WrapKey (fault_env f) sample_km Background ''k1'' key v = (Ok x, v')"
    using Adapter_WrapKey_total [of "\<lparr>lm_masterKey = replicate 32 7, lm_keyID = ''k1''\<rparr>" key "fault_env f"
        Background "''k1''" v] key(2) by auto
  have v': "w_tick v' = w_tick v + 3"
    using wrap by (auto simp: Adapter_WrapKey_def aes_audited_run Local_WrapKey_def Local_GetKey_def run_simps
        split: if_split_asm)
  have seal: "seal_pin (fault_env f) sample_km Background pin w = (Ok (''k1'', enc, x), v')"
    using key(1) enc wrap by (simp add: seal_pin_def Adapter_GetCurrentKeyID_def bindM_def attempt_def catchM_def run_basic)
  then show ?thesis using u v v'
      unchangedD [OF frame_seal_pin seal, of w_slots] unchangedD [OF frame_seal_pin seal, of w_meta]
    by auto
qed

lemma sample_create_slot:
  assumes "w_slots w = []" and "w_meta w = []"
  shows "\<exists>slot w'. createHSMSlot sample_env sample_km Background n label pin w = (Ok slot, w') \<and> sl_SlotNumber slot = n"
proof -
  obtain enc x v where "seal_pin sample_env sample_km Background pin w = (Ok (''k1'', enc, x), v)"
    and "w_slots v = []" "w_meta v = []"
    using sample_seal_pin [of "\<lambda>_. None" pin w] assms by auto
  then show ?thesis
    by (simp add: createHSMSlot_def cleaned_none Let_def save_slot_def save_metadata_def cleaned_def bindM_def catchM_def
        wrapErr_def Slots_CreateSlot_def Meta_CreateMetadata_def insertM_def run_tick run_dbM run_basic zeroed_def new_slot_def)
qed

theorem provisioned_slot_boots_with_its_pin_witness:
  "\<exists>slot w' s u v. createHSMSlot sample_env sample_km Background 7
       ''t'' ''1234'' (fresh_world sample_token) = (Ok slot, w')
     \<and> recover_pin sample_env sample_km Background s u = (Ok ''1234'', v)"
proof -
  have fresh: "w_slots (fresh_world sample_token) = []" "w_meta (fresh_world sample_token) = []"
    by (simp_all add: fresh_world_def)
  obtain slot w' where run: "createHSMSlot sample_env sample_km Background 7
       ''t'' ''1234'' (fresh_world sample_token) = (Ok slot, w')"
    using sample_create_slot [OF fresh] by blast
  then show ?thesis using provisioned_slot_boots_with_its_pin [OF run, of Background] by (simp, blast)
qed

text \<open>
  C27. A \<^verbatim>\<open>createHSMSlot\<close> that returns no slot leaves the metadata as they were, and the slot table too, unless
  the last two database calls, the two deletions of the new row, both failed. Then one row without metadata stays behind,
  and as long as it is in the table no bootstrap succeeds.
\<close>

theorem failed_provisioning_rolls_back_or_blocks_bootstrap:
  assumes "createHSMSlot e km ctx n label pin w = (r, w')" and "\<And>s. r \<noteq> Ok s" and "db_unique e \<noteq> None"
  shows "w_meta w' = w_meta w \<and>
    (w_slots w' = w_slots w \<or>
     (2 \<le> w_tick w' \<and> db_err_at e (w_tick w' - 2) \<noteq> None \<and> db_err_at e (w_tick w' - 1) \<noteq> None \<and>
      (\<exists>row. w_slots w' = w_slots w @ [row] \<and> row_metadata_id row = None
         \<and> (\<forall>u v. row \<in> set (w_slots u) \<longrightarrow> Bootstrap e' km' ctx' u \<noteq> (Ok (), v)))))"
proof -
  have "Bootstrap e' km' ctx' u \<noteq> (Ok (), v)" if "row \<in> set (w_slots u)" "row_metadata_id row = None" for row u v
    using Bootstrap_null_row [OF that, of e' km' ctx'] by auto
  then show ?thesis using createHSMSlot_fails [OF assms(1,3,2)] unfolding deletions_failed_def by metis
qed

text \<open>
  The insert of the metadata (the sixteenth event) fails: with a database that answers again the new row is deleted,
  with one that stays down it is left behind.
\<close>

lemma sample_failed_metadata:
  assumes "\<And>n. n < 16 \<Longrightarrow> f n = None" and "f 16 = Some x"
  shows "\<exists>err w'. createHSMSlot (fault_env f) sample_km Background 7 ''t'' ''1234'' (fresh_world sample_token) = (Err err, w')
    \<and> w_tick w' = 19 \<and> length (w_slots w') = (if f 17 = None \<or> f 18 = None then 0 else 1)"
proof -
  obtain enc k v where seal: "seal_pin (fault_env f) sample_km Background ''1234'' (fresh_world sample_token) = (Ok (''k1'', enc, k), v)"
    and v: "w_tick v = 9" "w_slots v = []" "w_meta v = []"
    using sample_seal_pin [of f "''1234''" "fresh_world sample_token"] by (auto simp: fresh_world_def)
  show ?thesis using seal assms(2)
    by (simp add: v assms(1) createHSMSlot_def cleaned_none Let_def save_slot_def save_metadata_def cleaned_def bindM_def catchM_def
        cleanup_def addSlotCleanup_def dropErr_def attempt_def Slots_DeleteSlot_def
        wrapErr_def Slots_CreateSlot_def Meta_CreateMetadata_def insertM_def run_tick run_dbM run_basic zeroed_def new_slot_def
        run_failPkg split: option.split)
qed

theorem failed_provisioning_rolls_back_or_blocks_bootstrap_witness:
  "(\<exists>err w'. createHSMSlot (fault_env (\<lambda>n. if n = 16 then Some ''down'' else None)) sample_km Background 7 ''t'' ''1234''
       (fresh_world sample_token) = (Err err, w') \<and> w_meta w' = [] \<and> w_slots w' = [])
   \<and> (\<exists>err w' row. createHSMSlot (fault_env (\<lambda>n. if 16 \<le> n then Some ''down'' else None)) sample_km Background 7 ''t'' ''1234''
       (fresh_world sample_token) = (Err err, w') \<and> w_meta w' = [] \<and> w_slots w' = [row]
       \<and> (\<forall>v. Bootstrap sample_env sample_km Background w' \<noteq> (Ok (), v)))"
proof (rule conjI)
  let ?f = "\<lambda>n::nat. if n = 16 then Some ''down'' else None"
  have fresh: "w_meta (fresh_world sample_token) = []" "w_slots (fresh_world sample_token) = []"
    by (simp_all add: fresh_world_def)
  obtain err w' where run: "createHSMSlot (fault_env ?f) sample_km Background 7 ''t'' ''1234'' (fresh_world sample_token) = (Err err, w')"
    and w': "w_tick w' = 19"
    using sample_failed_metadata [of ?f] by auto
  have "w_meta w' = [] \<and> w_slots w' = []"
    using failed_provisioning_rolls_back_or_blocks_bootstrap [OF run, of sample_env sample_km Background] by (simp add: fresh w')
  then show "\<exists>err w'. createHSMSlot (fault_env ?f) sample_km Background 7 ''t'' ''1234'' (fresh_world sample_token) = (Err err, w')
      \<and> w_meta w' = [] \<and> w_slots w' = []"
    using run by (intro exI [of _ err] exI [of _ w'] conjI) simp_all
next
  let ?g = "\<lambda>n::nat. if 16 \<le> n then Some ''down'' else None"
  have fresh: "w_meta (fresh_world sample_token) = []" "w_slots (fresh_world sample_token) = []"
    by (simp_all add: fresh_world_def)
  obtain err w' where run: "createHSMSlot (fault_env ?g) sample_km Background 7 ''t'' ''1234'' (fresh_world sample_token) = (Err err, w')"
    and w': "length (w_slots w') = 1"
    using sample_failed_metadata [of ?g] by auto
  obtain row where "w_meta w' = []" "w_slots w' = [row]" "\<forall>v. Bootstrap sample_env sample_km Background w' \<noteq> (Ok (), v)"
    using failed_provisioning_rolls_back_or_blocks_bootstrap [OF run, of sample_env sample_km Background] w'
    by (auto simp: fresh)
  then show "\<exists>err w' row. createHSMSlot (fault_env ?g) sample_km Background 7 ''t'' ''1234'' (fresh_world sample_token) = (Err err, w')
      \<and> w_meta w' = [] \<and> w_slots w' = [row] \<and> (\<forall>v. Bootstrap sample_env sample_km Background w' \<noteq> (Ok (), v))"
    using run by (intro exI [of _ err] exI [of _ w'] exI [of _ row] conjI) simp_all
qed

text \<open>
  C28. \<^verbatim>\<open>InitializeSlot\<close> returns the identifier of one new row of the slot table, labelled for the caller's
  tenant, whose slot the token reported with an empty label, and an open client is registered for that slot's
  number. The tenant's own row still has the slot it had: nothing links the new slot to the tenant.
\<close>

theorem initialized_slot_has_a_row_and_a_client:
  assumes "InitializeSlot e km ctx i w = (Ok sid, w')" and "db_unique e \<noteq> None"
  shows "\<exists>row c. w_slots w' = w_slots w @ [row] \<and> sl_ID (row_slot row) = sid
    \<and> sl_Label (row_slot row) = GenerateTenantSlotLabel (id_TenantID i)
    \<and> (\<exists>t t'. ck_GetTokenLabel (pkcs11 e) (sl_SlotNumber (row_slot row)) t = (Inr '''', t'))
    \<and> map_of (w_clients w') (int_of_uint (sl_SlotNumber (row_slot row))) = Some c \<and> \<not> cl_closed c
    \<and> w_tenants w' = w_tenants w"
proof -
  let ?w = "w\<lparr>w_tick := Suc (w_tick w)\<rparr>"
  obtain t u1 avail u2 pin u3 v where find: "Tenants_FindByID e (id_TenantID i) ?w = (Ok t, u1)"
    and avail: "GetAvailableSlots e u1 = (Ok avail, u2)" and pin: "genRandomPIN e u2 = (Ok pin, u3)"
    and claim: "claim_slot e km (id_TenantID i) pin avail u3 = (Ok sid, v)"
    and w': "w_slots w' = w_slots v" "w_tenants w' = w_tenants v" "w_clients w' = w_clients v"
    using assms(1) by (auto simp: InitializeSlot_def audited_run bindM_Ok wrapErr_Ok)
  obtain n ns row c where n: "avail = n # ns" and row: "w_slots v = w_slots u3 @ [row]" "w_tenants v = w_tenants u3"
    "sl_ID (row_slot row) = sid" "sl_Label (row_slot row) = GenerateTenantSlotLabel (id_TenantID i)"
    "sl_SlotNumber (row_slot row) = n" "map_of (w_clients v) (int_of_uint n) = Some c" "\<not> cl_closed c"
    using claim_slot_Ok [OF claim assms(2)] by blast
  have "f u3 = f w" if "service_frame f" for f :: "'a world \<Rightarrow> 'z"
    using that unchangedD [OF unchanged_queries(10) find, of f] unchangedD [OF frame_free_slots(2) avail, of f]
      unchangedD [OF frame_free_slots(3) pin, of f] service_frame_D(1) [OF that] by simp
  then have before: "w_slots u3 = w_slots w" "w_tenants u3 = w_tenants w" by auto
  obtain ss x where "free_slots e ss x = (Ok avail, u2)"
    using avail by (auto simp: GetAvailableSlots_def run_simps)
  then have "\<exists>t t'. ck_GetTokenLabel (pkcs11 e) n t = (Inr '''', t')"
    using free_slots_Ok n by (metis list.set_intros(1))
  then show ?thesis using row before w' by (intro exI [of _ row] exI [of _ c]) simp
qed

lemma sample_claim_slot:
  assumes "w_slots w = []" "w_meta w = []" "w_tok w = sample_token\<lparr>sa_init := True\<rparr>" "w_once w" "w_shared w"
    "w_initerr w = None" "w_libpath w = LibraryPath sample_env"
  shows "\<exists>sid w'. claim_slot sample_env sample_km tn pin [7] w = (Ok sid, w')"
proof -
  let ?l = "GenerateTenantSlotLabel tn"
  let ?a = "w\<lparr>w_tok := sample_token\<lparr>sa_slots := [(7, ?l, pin)], sa_sessions := [(1, 7)], sa_next := Suc (Suc 0), sa_init := True\<rparr>\<rparr>"
  obtain s b where run: "createHSMSlot sample_env sample_km Background 7 ?l pin ?a = (Ok s, b)" and num: "sl_SlotNumber s = 7"
    using sample_create_slot [of ?a 7 ?l pin] assms by auto
  have b: "w_tok b = w_tok ?a" "w_once b" "w_shared b" "w_initerr b = None" "w_libpath b = LibraryPath sample_env"
    using unchangedD [OF frame_createHSMSlot run, of w_tok] unchangedD [OF frame_createHSMSlot run, of w_once]
      unchangedD [OF frame_createHSMSlot run, of w_shared] unchangedD [OF frame_createHSMSlot run, of w_initerr]
      unchangedD [OF frame_createHSMSlot run, of w_libpath] assms by auto
  obtain u where init: "initializeSlotInternal sample_env sample_km 7 tn pin w = (Ok s, u)"
    and u: "w_tok u = (w_tok ?a)\<lparr>sa_sessions := []\<rparr>" "w_once u" "w_shared u" "w_initerr u = None"
      "w_libpath u = LibraryPath sample_env"
    using run b assms
    by (simp add: initializeSlotInternal_def GetOrInitPKCS11Context_def Let_def sample_client_run dropErr_def attempt_def
        deferM_def sample_token_def)
  obtain c v where client: "NewSoftHSMClient sample_env (LibraryPath sample_env) pin 7 True u = (Ok c, v)"
    by (simp add: NewSoftHSMClient_def GetOrInitPKCS11Context_def sample_client_run u sample_token_def)
  obtain v' where "RegisterClient sample_env (int_of_uint 7) c v = (Ok (), v')" using RegisterClient_run by blast
  then show ?thesis using init client num by (simp add: claim_slot_def bindM_def wrapErr_def catchM_def run_basic)
qed

theorem initialized_slot_has_a_row_and_a_client_witness:
  "\<exists>sid w' row. InitializeSlot sample_env sample_km Background sample_identity
       ((fresh_world sample_token)\<lparr>w_tenants := [sample_tenant\<lparr>tn_HSMSlotID := None\<rparr>]\<rparr>) = (Ok sid, w')
     \<and> w_slots w' = [row] \<and> sl_ID (row_slot row) = sid \<and> w_tenants w' = [sample_tenant\<lparr>tn_HSMSlotID := None\<rparr>]"
proof -
  let ?t = "sample_tenant\<lparr>tn_HSMSlotID := None\<rparr>"
  let ?w = "(fresh_world sample_token)\<lparr>w_tenants := [?t]\<rparr>"
  let ?u = "?w\<lparr>w_tick := 2\<rparr>"
  let ?u2 = "?u\<lparr>w_tok := sample_token\<lparr>sa_init := True\<rparr>, w_once := True, w_shared := True, w_libpath := LibraryPath sample_env\<rparr>"
  have "Tenants_FindByID sample_env ''T'' (?w\<lparr>w_tick := Suc (w_tick ?w)\<rparr>) = (Ok (?t\<lparr>tn_Config := []\<rparr>), ?u)"
    by (simp add: Tenants_FindByID_def queryRowM_def queryM_def sample_tenant_def bindM_def wrapErr_def catchM_def
        run_dbM run_liftSum run_basic fresh_world_def)
  moreover have "GetAvailableSlots sample_env ?u = (Ok [7], ?u2)"
    by (simp add: GetAvailableSlots_def GetOrInitPKCS11Context_def once_init_def sample_client_run)
  moreover have "genRandomPIN sample_env ?u2 = (Ok (dec 1002), ?u2\<lparr>w_tick := 3\<rparr>)"
    by (simp add: genRandomPIN_def intnM_def run_tick bindM_def run_basic)
  moreover obtain sid v where "claim_slot sample_env sample_km ''T'' (dec 1002) [7] (?u2\<lparr>w_tick := 3\<rparr>) = (Ok sid, v)"
    using sample_claim_slot [of "?u2\<lparr>w_tick := 3\<rparr>" "''T''" "dec 1002"] by (auto simp: fresh_world_def)
  ultimately obtain w' where run: "InitializeSlot sample_env sample_km Background sample_identity ?w = (Ok sid, w')"
    by (simp add: InitializeSlot_def audited_run wrapErr_def catchM_def bindM_def sample_identity_def run_basic)
  then show ?thesis
    using initialized_slot_has_a_row_and_a_client [OF run] by (auto simp: fresh_world_def)
qed

end
