(* ===== verification/Key_Service.thy ===== *)
theory Key_Service
  imports Service_Helpers
begin

text \<open>
  \<^verbatim>\<open>internal/application/services/key_service.go\<close>: creating, reading, rotating and deleting the
  keys of a tenant. Each operation is one definition with its audit, its tracking of key operations
  and its roll-backs; \<open>deferBoth\<close> is a deferred function that also sees a variable which the body
  sets on the way. The proofs go through the contract \<open>mysql_keys\<close> of the key repository.
\<close>

section \<open>Shared pieces\<close>

text \<open>\<open>m\<close> then \<open>f\<close>, with a deferred function that is given what \<open>m\<close> returned, if it did.\<close>

definition deferBoth :: "('x option \<Rightarrow> ('e, 'a) outcome \<Rightarrow> 's \<Rightarrow> 's) \<Rightarrow> ('s, 'e, 'x) prog \<Rightarrow>
    ('x \<Rightarrow> ('s, 'e, 'a) prog) \<Rightarrow> ('s, 'e, 'a) prog" where
  "deferBoth d m f s = (case m s of
     (Ok x, s') \<Rightarrow> deferM (d (Some x)) (f x) s'
   | (Err e, s') \<Rightarrow> (Err e, d None (Err e) s')
   | (Panic p, s') \<Rightarrow> (Panic p, d None (Panic p) s'))"

lemma deferBoth_cases:
  assumes "deferBoth d m f s = (r, t)"
  shows "(\<exists>x u v. m s = (Ok x, u) \<and> f x u = (r, v) \<and> t = d (Some x) r v)
    \<or> (\<exists>u. (\<forall>x. r \<noteq> Ok x) \<and> (\<exists>q. m s = (q, u) \<and> (\<forall>x. q \<noteq> Ok x)
          \<and> (\<forall>e. r = Err e \<longleftrightarrow> q = Err e)) \<and> t = d None r u)"
  using assms by (auto simp: deferBoth_def deferM_def split: prod.split_asm outcome.split_asm)

definition services_tenantIDKey :: ctx_key where
  "services_tenantIDKey = (''services.contextKey'', ''tenant_id'')"

definition getOperationStatus :: "go_error option \<Rightarrow> operation_key_status" where
  "getOperationStatus err = (if err = None then OperationKeyStatusSuccess else OperationKeyStatusFailed)"

definition getResultSummary :: "go_error option \<Rightarrow> string" where
  "getResultSummary err = (case err of None \<Rightarrow> ''Success'' | Some x \<Rightarrow> error_text x)"

definition getErrorDetails :: "go_error option \<Rightarrow> string" where
  "getErrorDetails err = (case err of None \<Rightarrow> '''' | Some x \<Rightarrow> error_text x)"

text \<open>The record both services save for a tracked operation.\<close>

definition tracked_operation ::
  "string \<Rightarrow> identity_context \<Rightarrow> operation_key_type \<Rightarrow> go_error option \<Rightarrow> int \<Rightarrow> key_operation" where
  "tracked_operation keyID i ty err d =
     \<lparr>op_ID = '''', op_KeyID = keyID, op_TenantID = id_TenantID i, op_OrganizationID = id_OrganizationID i,
      op_OperationType = ty, op_Status = getOperationStatus err, op_Level = OperationKeyLevelHigh,
      op_InitializedBy = id_UserID i, op_SessionID = 0, op_RequestID = '''', op_InputSizeBytes = 0,
      op_OutputSizeBytes = 0, op_DurationMs = d, op_ResultSummary = getResultSummary err,
      op_ErrorDetails = getErrorDetails err, op_CreatedAt = 0\<rparr>"

section \<open>key\_service.go\<close>

definition validateKeyParameters :: "key_algorithm \<Rightarrow> key_usage \<Rightarrow> go_error option" where
  "validateKeyParameters algorithm usage =
     (if \<not> KeyAlgorithm_IsValid algorithm then Some (PlainErr (code_string ErrInvalidKeyAlgorithm))
      else if \<not> KeyUsage_IsValid usage then Some (PlainErr (code_string ErrInvalidKeyUsage))
      else None)"

record key_creation =
  cc_name :: string
  cc_algorithm :: key_algorithm
  cc_size :: int
  cc_usage :: key_usage
  cc_identity :: identity_context
  cc_start :: time

definition creation_metadata :: "key_creation \<Rightarrow> hsm_slot option \<Rightarrow> details" where
  "creation_metadata c slot =
     [(''key_name'', DStr (cc_name c)), (''algorithm'', DStr (cc_algorithm c)), (''key_size'', DInt (cc_size c)),
      (''usage'', DStr (cc_usage c)), (''parent_key_id'', DOptStr (id_ParentKeyID (cc_identity c))),
      (''organization_id'', DOptStr (id_OrganizationID (cc_identity c)))]
     @ (case slot of None \<Rightarrow> [] | Some s \<Rightarrow> [(''slot_id'', DStr (sl_ID s))])"

text \<open>
  The deferred function: the key is not nil exactly when \<^verbatim>\<open>CreateKey\<close> returned it, and \<open>slot\<close> is not nil
  once it was found.
\<close>

definition auditAndTrackKeyCreation :: "'t env \<Rightarrow> gctx \<Rightarrow> key_creation \<Rightarrow> hsm_slot option \<Rightarrow>
    (go_error, cryptographic_key) outcome \<Rightarrow> 't world \<Rightarrow> 't world" where
  "auditAndTrackKeyCreation e ctx c slot r w =
     (let err = outcome_error r;
          w1 = AuditOperation_call (audit_on e) ctx
                 (op_audit ''key-service'' ''CREATE_KEY'' ''SERVICE'' '''' (creation_metadata c slot) err
                    (millis_since (cc_start c) (now_at e (w_tick w))))
                 (Some (cc_identity c)) (w\<lparr>w_tick := Suc (w_tick w)\<rparr>)
      in case r of
           Ok key \<Rightarrow>
             if k_ID key \<noteq> '''' \<and> track_on e
             then snd (dropErr (Ops_Save e (tracked_operation (k_ID key) (cc_identity c)
                    OperationKeyTypeGenerate err (millis_since (cc_start c) (now_at e (w_tick w1)))))
                    (w1\<lparr>w_tick := Suc (w_tick w1)\<rparr>))
             else w1
         | _ \<Rightarrow> w1)"

definition one_year :: time where
  "one_year = 365 * 24 * 3600 * 1000000000"

text \<open>The label of a new key: tenant, name and eight characters of a fresh UUID.\<close>

definition key_label :: "key_creation \<Rightarrow> string \<Rightarrow> string" where
  "key_label c u = id_TenantID (cc_identity c) @ ''_'' @ cc_name c @ ''_'' @ take 8 u"

definition new_key :: "key_creation \<Rightarrow> hsm_slot \<Rightarrow> string \<Rightarrow> string \<Rightarrow> bytes \<Rightarrow> string \<Rightarrow> time \<Rightarrow> cryptographic_key" where
  "new_key c slot kid label publicKey keyHandle now =
     zero_key\<lparr>k_ID := kid, k_TenantID := id_TenantID (cc_identity c),
       k_OwnerType := id_OwnerType (cc_identity c), k_OwnerID := id_OwnerID (cc_identity c),
       k_ParentKeyID := id_ParentKeyID (cc_identity c), k_CertLevel := id_CertLevel (cc_identity c),
       k_Name := cc_name c, k_Alias := label, k_Algorithm := cc_algorithm c, k_KeySize := cc_size c,
       k_Purpose := cc_usage c, k_PublicKey := publicKey, k_KeyHandle := keyHandle, k_KeyLabel := label,
       k_IsHardwareBacked := True, k_HSMSlotID := sl_ID slot, k_Version := 1,
       k_ExpirationDate := now + one_year, k_IsActive := True\<rparr>"

definition rollback_hsm :: "'t env \<Rightarrow> gctx \<Rightarrow> string \<Rightarrow> int \<Rightarrow> ('t, unit) wprog" where
  "rollback_hsm e ctx keyHandle slot = dropErr (Manager_DeleteKey e ctx keyHandle slot)"

text \<open>The end of \<^verbatim>\<open>generateAndSaveKey\<close>: the key is destroyed again when it is not valid or not saved.\<close>

definition validateAndSave ::
  "'t env \<Rightarrow> gctx \<Rightarrow> int \<Rightarrow> string \<Rightarrow> cryptographic_key \<Rightarrow> ('t, cryptographic_key) wprog" where
  "validateAndSave e ctx n keyHandle key =
     (case Key_Validate key of
        Some err \<Rightarrow> bindM (rollback_hsm e ctx keyHandle n) (\<lambda>_. throw err)
      | None \<Rightarrow>
          bindM (catchM (Keys_Save e key) (\<lambda>err.
            bindM (rollback_hsm e ctx keyHandle n) (\<lambda>_. throw err))) (\<lambda>_.
          ret key))"

definition generateAndSaveKey ::
  "'t env \<Rightarrow> gctx \<Rightarrow> key_creation \<Rightarrow> hsm_slot \<Rightarrow> ('t, cryptographic_key) wprog" where
  "generateAndSaveKey e ctx c slot =
     (let n = int_of_uint (sl_SlotNumber slot) in
      bindM (uuidM e) (\<lambda>u.
      let keyLabel = key_label c u in
      bindM (wrapErr (\<lambda>_. PlainErr (code_string ErrHSMOperationFailed @ '': operation=generate_key_pair''))
        (Manager_GenerateKeyPair e ctx (cc_algorithm c) (cc_size c) keyLabel n)) (\<lambda>(publicKey, keyHandle).
      bindM (uuidM e) (\<lambda>kid.
      bindM (nowM e) (\<lambda>now.
      validateAndSave e ctx n keyHandle (new_key c slot kid keyLabel publicKey keyHandle now))))))"

definition CreateKey :: "'t env \<Rightarrow> gctx \<Rightarrow> string \<Rightarrow> key_algorithm \<Rightarrow> int \<Rightarrow> key_usage \<Rightarrow>
    identity_context \<Rightarrow> ('t, cryptographic_key) wprog" where
  "CreateKey e ctx0 name algorithm ksize usage identity =
     (let ctx = WithValue ctx0 services_tenantIDKey (CStr (id_TenantID identity)) in
      bindM (nowM e) (\<lambda>start.
      let c = \<lparr>cc_name = name, cc_algorithm = algorithm, cc_size = ksize, cc_usage = usage,
               cc_identity = identity, cc_start = start\<rparr> in
      deferBoth (auditAndTrackKeyCreation e ctx c)
        (case validateKeyParameters algorithm usage of
           Some err \<Rightarrow> throw err
         | None \<Rightarrow> tenant_slot e slotErrorMsg ctx (id_TenantID identity))
        (generateAndSaveKey e ctx c)))"

definition GetKey :: "'t env \<Rightarrow> string \<Rightarrow> string \<Rightarrow> ('t, cryptographic_key) wprog" where
  "GetKey e keyID tenantID =
     wrapErr (\<lambda>_. PlainErr (code_string ErrKeyNotFound)) (Keys_FindByIDAndTenant e keyID tenantID)"

definition ListKeys :: "'t env \<Rightarrow> string \<Rightarrow> ('t, cryptographic_key list) wprog" where
  "ListKeys e tenantID = Keys_FindByTenant e tenantID"

definition key_audit :: "string \<Rightarrow> string \<Rightarrow> (go_error, 'a) outcome \<Rightarrow> int \<Rightarrow> audit_data" where
  "key_audit operation keyID r d =
     op_audit ''key-service'' operation ''SERVICE'' '''' [(''key_id'', DStr keyID)] (outcome_error r) d"

definition RotateKey :: "'t env \<Rightarrow> gctx \<Rightarrow> string \<Rightarrow> identity_context \<Rightarrow> ('t, cryptographic_key) wprog" where
  "RotateKey e ctx keyID identity =
     audited e (audit_on e) ctx (Some identity) (key_audit ''ROTATE_KEY'' keyID)
       (bindM (Keys_FindByIDAndTenant e keyID (id_TenantID identity)) (\<lambda>existing.
        bindM (CreateKey e ctx (k_Name existing @ ''-rotated'') (k_Algorithm existing) (k_KeySize existing)
                 (k_Purpose existing) identity) (\<lambda>newKey.
        bindM (tenant_slot e error_text ctx (id_TenantID identity)) (\<lambda>slot.
        bindM (catchM (Keys_Save e (Deactivate existing)) (\<lambda>err.
          bindM (dropErr (Manager_DeleteKey e ctx (k_KeyHandle newKey) (int_of_uint (sl_SlotNumber slot)))) (\<lambda>_.
          bindM (dropErr (Keys_Delete e (k_ID newKey))) (\<lambda>_.
          throw err)))) (\<lambda>_.
        ret newKey)))))"

definition DeleteKey :: "'t env \<Rightarrow> gctx \<Rightarrow> string \<Rightarrow> string \<Rightarrow> ('t, unit) wprog" where
  "DeleteKey e ctx keyID tenantID =
     audited e (audit_on e) ctx None (key_audit ''DELETE_KEY'' keyID)
       (bindM (Keys_FindByIDAndTenant e keyID tenantID) (\<lambda>key.
        bindM (tenant_slot e error_text ctx tenantID) (\<lambda>slot.
        bindM (wrapErr (\<lambda>_. PlainErr (code_string ErrHSMOperationFailed @ '': operation=delete_key''))
          (Manager_DeleteKey e ctx (k_KeyHandle key) (int_of_uint (sl_SlotNumber slot)))) (\<lambda>_.
        Keys_Delete e keyID))))"

section \<open>Facts\<close>

text \<open>What the token can generate.\<close>

definition generable :: "key_algorithm \<Rightarrow> int \<Rightarrow> bool" where
  "generable alg n \<longleftrightarrow> alg = alg_RSA \<and> n \<in> {2048, 3072, 4096} \<or> alg = alg_ECDSA \<and> n \<in> {256, 384, 521}"

lemma Manager_GenerateKeyPair_Ok:
  assumes "Manager_GenerateKeyPair e ctx alg n label slot w = (Ok (pk, kh), w')"
  shows "kh = label \<and> (\<exists>c. map_of (w_clients w) slot = Some c \<and> \<not> cl_closed c) \<and> generable alg n"
  using assms by (auto simp: generable_def Manager_GenerateKeyPair_def run_simps dest!: GenerateKeyPair_Ok)

text \<open>\<open>keys_frame f\<close>: \<open>f\<close> reads neither what a service frame leaves out nor the table of keys.\<close>

definition keys_frame :: "('t world \<Rightarrow> 'b) \<Rightarrow> bool" where
  "keys_frame f \<longleftrightarrow> service_frame f \<and> (\<forall>w ks. f (w\<lparr>w_keys := ks\<rparr>) = f w)"

lemma keys_frame_fields [simp, intro]:
  "keys_frame w_tenants" "keys_frame w_slots" "keys_frame w_meta" "keys_frame w_ops" "keys_frame w_clients"
  by (simp_all add: keys_frame_def)

lemma keys_frame_service [simp, intro]:
  "keys_frame f \<Longrightarrow> service_frame f" "keys_frame f \<Longrightarrow> secrets_frame f"
  "keys_frame f \<Longrightarrow> client_frame f" "keys_frame f \<Longrightarrow> token_frame f"
  by (simp_all add: keys_frame_def)

lemma frame_keys:
  assumes f: "keys_frame f"
  shows "unchanged f (Keys_Save e k)" "unchanged f (Keys_Delete e i)" "unchanged f (Keys_FindByIDAndTenant e i tn)"
  unfolding Keys_Save_def Keys_Delete_def Keys_FindByIDAndTenant_def insertM_def queryRowM_def queryM_def
  by (intro frame_steps keys_frame_service f; use f in \<open>simp add: keys_frame_def\<close>)+

lemma frame_generateAndSaveKey:
  assumes f: "keys_frame f"
  shows "unchanged f (generateAndSaveKey e ctx c slot)"
  unfolding generateAndSaveKey_def validateAndSave_def rollback_hsm_def Let_def
  by (intro frame_steps frame_keys frame_manager keys_frame_service f)

lemma rollback_rows: "unchanged w_keys (rollback_hsm e ctx kh slot)"
  unfolding rollback_hsm_def by (intro unchanged_intros frame_manager client_frame_fields)

lemma validateAndSave_Ok:
  assumes "validateAndSave e ctx n kh key w = (Ok k, w')"
  shows "k = key \<and> Key_Validate key = None \<and> (\<exists>r. w_keys w' = w_keys w @ [r] \<and> stored_as r key)
    \<and> (db_unique e = None \<or> k_ID k \<notin> k_ID ` set (w_keys w))"
proof -
  have "k = key" "Key_Validate key = None" "Keys_Save e key w = (Ok (), w')"
    using assms by (auto simp: validateAndSave_def run_simps)
  then show ?thesis using mysql_keys.save_Ok [of e key w w'] by (auto simp: Keys_Save_Ok)
qed

lemma validateAndSave_fails:
  assumes "validateAndSave e ctx n kh key w = (r, w')" and "\<And>k. r \<noteq> Ok k"
  shows "w_keys w' = w_keys w"
proof -
  have save: "w_keys u = w_keys w" if "Keys_Save e key w = (q, u)" "q \<noteq> Ok ()" for q u
    using mysql_keys.save_fails [OF that] .
  show ?thesis
  proof (cases r)
    case (Ok k)
    then show ?thesis using assms(2) by blast
  next
    case (Err err)
    then show ?thesis using assms(1)
      by (auto simp: validateAndSave_def bindM_Err bindM_Ok bindM_Panic catchM_Err run_basic
          split: option.split_asm dest!: unchangedD [OF rollback_rows] save)
  next
    case (Panic p)
    then show ?thesis using assms(1)
      by (auto simp: validateAndSave_def bindM_Panic catchM_Panic run_basic
          split: option.split_asm dest!: unchangedD [OF rollback_rows] save)
  qed
qed

lemma generateAndSaveKey_Ok:
  assumes "generateAndSaveKey e ctx c slot w = (Ok k, w')"
  shows "\<exists>u pk kid now r. k = new_key c slot kid (key_label c u) pk (key_label c u) now
      \<and> Key_Validate k = None
      \<and> generable (cc_algorithm c) (cc_size c)
      \<and> w_keys w' = w_keys w @ [r] \<and> stored_as r k
      \<and> (db_unique e = None \<or> k_ID k \<notin> k_ID ` set (w_keys w))"
proof -
  let ?n = "int_of_uint (sl_SlotNumber slot)"
  obtain u v pk kh kid now x where
    gen: "Manager_GenerateKeyPair e ctx (cc_algorithm c) (cc_size c) (key_label c u) ?n
        (w\<lparr>w_tick := Suc (w_tick w)\<rparr>) = (Ok (pk, kh), v)"
    and save: "validateAndSave e ctx ?n kh (new_key c slot kid (key_label c u) pk kh now) (v\<lparr>w_tick := x\<rparr>)
        = (Ok k, w')"
    using assms by (auto simp: generateAndSaveKey_def Let_def bindM_Ok wrapErr_Ok run_tick)
  have "w_keys v = w_keys w" using unchangedD [OF frame_manager(1) gen, of w_keys] by simp
  then show ?thesis
    using Manager_GenerateKeyPair_Ok [OF gen] validateAndSave_Ok [OF save] by fastforce
qed

lemma generateAndSaveKey_fails:
  assumes "generateAndSaveKey e ctx c slot w = (r, w')" and no: "\<And>k. r \<noteq> Ok k"
  shows "w_keys w' = w_keys w"
proof -
  note gen = unchangedD [OF frame_manager(1) [of w_keys]]
  show ?thesis
  proof (cases r)
    case (Ok k)
    then show ?thesis using no by blast
  next
    case (Err err)
    then show ?thesis using assms(1)
      by (auto simp: generateAndSaveKey_def Let_def bindM_Err wrapErr_Err wrapErr_Ok run_tick
          dest!: gen [rotated] validateAndSave_fails)
  next
    case (Panic p)
    then show ?thesis using assms(1)
      by (auto simp: generateAndSaveKey_def Let_def bindM_Panic wrapErr_Panic wrapErr_Ok run_tick
          dest!: gen [rotated] validateAndSave_fails)
  qed
qed

subsection \<open>CreateKey\<close>

lemma track_fields:
  "w_keys (auditAndTrackKeyCreation e ctx c slot r w) = w_keys w"
  "w_tenants (auditAndTrackKeyCreation e ctx c slot r w) = w_tenants w"
  "w_slots (auditAndTrackKeyCreation e ctx c slot r w) = w_slots w"
  "w_meta (auditAndTrackKeyCreation e ctx c slot r w) = w_meta w"
  "w_clients (auditAndTrackKeyCreation e ctx c slot r w) = w_clients w"
  "w_audit (auditAndTrackKeyCreation e ctx c slot r w) = w_audit w @
     (if audit_on e then [(ctx, op_audit ''key-service'' ''CREATE_KEY'' ''SERVICE'' ''''
        (creation_metadata c slot) (outcome_error r) (millis_since (cc_start c) (now_at e (w_tick w))),
        Some (cc_identity c))] else [])"
  "w_ops (auditAndTrackKeyCreation e ctx c slot r w) = w_ops w \<or>
     (\<exists>k op1. r = Ok k \<and> w_ops (auditAndTrackKeyCreation e ctx c slot r w) = w_ops w @ [op1]
        \<and> op_KeyID op1 = k_ID k \<and> op_Status op1 = OperationKeyStatusSuccess)"
  by (auto simp: auditAndTrackKeyCreation_def Let_def Ops_Save_def dropErr_def attempt_def bindM_def
      wrapErr_def catchM_def run_dbM run_basic tracked_operation_def getOperationStatus_def
      split: outcome.splits option.splits)

abbreviation creation :: "string \<Rightarrow> key_algorithm \<Rightarrow> int \<Rightarrow> key_usage \<Rightarrow> identity_context \<Rightarrow> time \<Rightarrow> key_creation" where
  "creation name alg n usage i start \<equiv> \<lparr>cc_name = name, cc_algorithm = alg, cc_size = n, cc_usage = usage,
     cc_identity = i, cc_start = start\<rparr>"

abbreviation tenant_ctx :: "gctx \<Rightarrow> identity_context \<Rightarrow> gctx" where
  "tenant_ctx ctx i \<equiv> WithValue ctx services_tenantIDKey (CStr (id_TenantID i))"

text \<open>The three ways a run of \<^verbatim>\<open>CreateKey\<close> can go.\<close>

lemma CreateKey_cases:
  assumes "CreateKey e ctx name alg n usage i w = (r, w')"
  obtains (slot) slot u v where
      "KeyAlgorithm_IsValid alg" "KeyUsage_IsValid usage"
      "tenant_slot e slotErrorMsg (tenant_ctx ctx i) (id_TenantID i) (w\<lparr>w_tick := Suc (w_tick w)\<rparr>) = (Ok slot, u)"
      "generateAndSaveKey e (tenant_ctx ctx i) (creation name alg n usage i (now_at e (w_tick w))) slot u = (r, v)"
      "w' = auditAndTrackKeyCreation e (tenant_ctx ctx i) (creation name alg n usage i (now_at e (w_tick w)))
         (Some slot) r v"
  | (refused) u where "\<And>k. r \<noteq> Ok k" "w_keys u = w_keys w" "w_ops u = w_ops w" "audit_grows w u"
      "w_clients u = w_clients w" "w_tenants u = w_tenants w" "w_slots u = w_slots w" "w_meta u = w_meta w"
      "w' = auditAndTrackKeyCreation e (tenant_ctx ctx i) (creation name alg n usage i (now_at e (w_tick w))) None r u"
proof -
  let ?v = "w\<lparr>w_tick := Suc (w_tick w)\<rparr>"
  let ?c = "creation name alg n usage i (now_at e (w_tick w))"
  let ?m = "case validateKeyParameters alg usage of
      Some err \<Rightarrow> throw err | None \<Rightarrow> tenant_slot e slotErrorMsg (tenant_ctx ctx i) (id_TenantID i)"
  have run: "deferBoth (auditAndTrackKeyCreation e (tenant_ctx ctx i) ?c) ?m
      (generateAndSaveKey e (tenant_ctx ctx i) ?c) ?v = (r, w')"
    using assms by (simp add: CreateKey_def Let_def run_tick)
  have grow: "within audit_grows ?m" by (intro grows_all)
  have keep: "unchanged w_keys ?m" "unchanged w_ops ?m" "unchanged w_clients ?m" "unchanged w_tenants ?m"
    "unchanged w_slots ?m" "unchanged w_meta ?m"
    by (intro unchanged_intros frame_tenant_slot; auto)+
  show thesis
    using deferBoth_cases [OF run]
  proof (elim disjE exE conjE)
    fix x u v
    assume a: "?m ?v = (Ok x, u)" "generateAndSaveKey e (tenant_ctx ctx i) ?c x u = (r, v)"
      "w' = auditAndTrackKeyCreation e (tenant_ctx ctx i) ?c (Some x) r v"
    then have "validateKeyParameters alg usage = None" by (auto simp: run_basic split: option.split_asm)
    with a show thesis
      by (intro slot) (auto simp: validateKeyParameters_def split: if_split_asm)
  next
    fix u q
    assume a: "\<forall>x. r \<noteq> Ok x" "?m ?v = (q, u)" "w' = auditAndTrackKeyCreation e (tenant_ctx ctx i) ?c None r u"
    have "audit_grows w u" using withinD [OF grow a(2)] by (simp add: audit_grows_def)
    then show thesis using a keep [THEN unchangedD, OF a(2)] by (intro refused) auto
  qed
qed

lemma CreateKey_Ok:
  assumes "CreateKey e ctx name alg n usage i w = (Ok k, w')"
  shows "\<exists>slot u pk kid now r. slot_of_tenant w (id_TenantID i) slot
      \<and> k = new_key (creation name alg n usage i (now_at e (w_tick w))) slot kid
              (key_label (creation name alg n usage i (now_at e (w_tick w))) u) pk
              (key_label (creation name alg n usage i (now_at e (w_tick w))) u) now
      \<and> Key_Validate k = None \<and> generable alg n
      \<and> w_keys w' = w_keys w @ [r] \<and> stored_as r k
      \<and> (w_ops w' = w_ops w \<or> (\<exists>op1. w_ops w' = w_ops w @ [op1] \<and> op_KeyID op1 = k_ID k
           \<and> op_Status op1 = OperationKeyStatusSuccess))
      \<and> (db_unique e = None \<or> k_ID k \<notin> k_ID ` set (w_keys w))"
  using assms
proof (cases rule: CreateKey_cases)
  case (slot slot u v)
  have "w_keys u = w_keys w" "w_ops u = w_ops w"
    using unchangedD [OF frame_tenant_slot(4) slot(3), of w_keys]
      unchangedD [OF frame_tenant_slot(4) slot(3), of w_ops] by auto
  moreover have "w_ops v = w_ops u" using unchangedD [OF frame_generateAndSaveKey slot(4), of w_ops] by auto
  moreover have "slot_of_tenant w (id_TenantID i) slot"
    using tenant_slot_Ok [OF slot(3)] by (simp add: slot_of_tenant_def)
  moreover obtain u' pk kid now r where
    "k = new_key (creation name alg n usage i (now_at e (w_tick w))) slot kid
          (key_label (creation name alg n usage i (now_at e (w_tick w))) u') pk
          (key_label (creation name alg n usage i (now_at e (w_tick w))) u') now"
    "Key_Validate k = None" "generable alg n" "w_keys v = w_keys u @ [r]" "stored_as r k"
    "db_unique e = None \<or> k_ID k \<notin> k_ID ` set (w_keys u)"
    using generateAndSaveKey_Ok [OF slot(4)] by auto
  ultimately show ?thesis
    using track_fields(1,7) [of e "tenant_ctx ctx i" "creation name alg n usage i (now_at e (w_tick w))"
        "Some slot" "Ok k" v] unfolding slot(5)
    by (intro exI [of _ slot] exI [of _ u'] exI [of _ pk] exI [of _ kid] exI [of _ now] exI [of _ r]) simp
qed auto

text \<open>A key as the service makes it for an identity.\<close>

definition made_for :: "identity_context \<Rightarrow> cryptographic_key \<Rightarrow> bool" where
  "made_for i k \<longleftrightarrow> k_TenantID k = id_TenantID i \<and> k_OwnerID k = id_OwnerID i \<and> k_OwnerType k = id_OwnerType i
     \<and> k_IsActive k \<and> k_Version k = 1 \<and> k_Name k \<noteq> '''' \<and> k_TenantID k \<noteq> ''''
     \<and> KeyUsage_IsValid (k_Purpose k) \<and> generable (k_Algorithm k) (k_KeySize k) \<and> k_KeyHandle k = k_KeyLabel k
     \<and> (\<exists>u. k_KeyLabel k = k_TenantID k @ ''_'' @ k_Name k @ ''_'' @ take 8 u)"

lemma made_for_stored: "stored_as r k \<Longrightarrow> made_for i r \<longleftrightarrow> made_for i k"
  by (simp add: stored_as_def made_for_def)

lemma CreateKey_made:
  assumes "CreateKey e ctx name alg n usage i w = (Ok k, w')"
  shows "\<exists>r. w_keys w' = w_keys w @ [r] \<and> stored_as r k \<and> made_for i k
    \<and> k_Name k = name \<and> k_Algorithm k = alg \<and> k_KeySize k = n \<and> k_Purpose k = usage
    \<and> (db_unique e = None \<or> k_ID k \<notin> k_ID ` set (w_keys w))"
proof -
  obtain slot u pk kid now r where
    k: "k = new_key (creation name alg n usage i (now_at e (w_tick w))) slot kid
              (key_label (creation name alg n usage i (now_at e (w_tick w))) u) pk
              (key_label (creation name alg n usage i (now_at e (w_tick w))) u) now"
    and valid: "Key_Validate k = None" and "generable alg n" "w_keys w' = w_keys w @ [r]" "stored_as r k"
      "db_unique e = None \<or> k_ID k \<notin> k_ID ` set (w_keys w)"
    using CreateKey_Ok [OF assms] by blast
  then show ?thesis
    by (intro exI [of _ r]) (auto simp: made_for_def new_key_def key_label_def Key_Validate_def split: if_split_asm)
qed

lemma CreateKey_fails:
  assumes "CreateKey e ctx name alg n usage i w = (r, w')" and no: "\<And>k. r \<noteq> Ok k"
  shows "w_keys w' = w_keys w \<and> w_ops w' = w_ops w"
  using assms(1)
proof (cases rule: CreateKey_cases)
  case (slot slot u v)
  have "w_keys u = w_keys w" "w_ops u = w_ops w"
    using unchangedD [OF frame_tenant_slot(4) slot(3), of w_keys]
      unchangedD [OF frame_tenant_slot(4) slot(3), of w_ops] by auto
  moreover have "w_ops v = w_ops u" using unchangedD [OF frame_generateAndSaveKey slot(4), of w_ops] by auto
  ultimately show ?thesis
    using generateAndSaveKey_fails [OF slot(4) no] track_fields(1,7) [of e _ _ "Some slot" r v] no
    unfolding slot(5) by auto
next
  case (refused u)
  then show ?thesis using track_fields(1,7) [of e _ _ None r u] by auto
qed

section \<open>Properties\<close>

text \<open>
  C2. A key that \<^verbatim>\<open>CreateKey\<close> returns was made in the slot of the caller's tenant under the label
  tenant, name and eight characters of a UUID, belongs to the caller, is active and satisfies the entity's
  validation, and exactly one row was added to the table, which stores it.
\<close>

theorem created_key_is_stored_for_the_tenant:
  assumes "CreateKey e ctx name alg n usage i w = (Ok k, w')"
  shows "\<exists>slot r u. slot_of_tenant w (id_TenantID i) slot
    \<and> w_keys w' = w_keys w @ [r] \<and> stored_as r k
    \<and> k_TenantID k = id_TenantID i \<and> k_OwnerID k = id_OwnerID i \<and> k_OwnerType k = id_OwnerType i
    \<and> k_Name k = name \<and> k_Algorithm k = alg \<and> k_KeySize k = n \<and> k_Purpose k = usage
    \<and> k_IsActive k \<and> k_Version k = 1 \<and> k_HSMSlotID k = sl_ID slot
    \<and> k_KeyLabel k = id_TenantID i @ ''_'' @ name @ ''_'' @ take 8 u \<and> k_KeyHandle k = k_KeyLabel k
    \<and> Key_Validate k = None \<and> generable alg n"
proof -
  obtain slot u pk kid now r where "slot_of_tenant w (id_TenantID i) slot"
    and k: "k = new_key (creation name alg n usage i (now_at e (w_tick w))) slot kid
              (key_label (creation name alg n usage i (now_at e (w_tick w))) u) pk
              (key_label (creation name alg n usage i (now_at e (w_tick w))) u) now"
    and "Key_Validate k = None" "generable alg n" "w_keys w' = w_keys w @ [r]" "stored_as r k"
    using CreateKey_Ok [OF assms] by auto
  then show ?thesis
    by (intro exI [of _ slot] exI [of _ r] exI [of _ u]) (simp add: new_key_def key_label_def)
qed

lemma sample_create:
  assumes "id_TenantID i = ''T''" and "id_OwnerID i \<noteq> ''''"
  shows "\<exists>k w'. CreateKey sample_env ctx ''sig'' alg_RSA 2048 KeyUsageSigning i (service_world\<lparr>w_tick := n\<rparr>) = (Ok k, w')"
proof -
  obtain u where "tenant_slot sample_env slotErrorMsg (tenant_ctx ctx i) ''T''
      (service_world\<lparr>w_tick := Suc n\<rparr>) = (Ok sample_slot, u)" and tok: "w_tok u = keyed_token"
      "w_clients u = [(7, sample_client)]" "w_keys u = []"
    by (simp add: service_run)
  moreover have "\<exists>k v. generateAndSaveKey sample_env (tenant_ctx ctx i)
      (creation ''sig'' alg_RSA 2048 KeyUsageSigning i (now_at sample_env n)) sample_slot u = (Ok k, v)"
    using assms by (simp add: generateAndSaveKey_def Manager_GenerateKeyPair_def Client_GenerateKeyPair_def
        generateRSAKeyPair_def rsa_templates_def exportPublicKey_def exportRSAPublicKey_def attr_bytes_def
        validateAndSave_def Key_Validate_def KeyAlgorithm_IsValid_def key_label_def new_key_def zero_key_def isValidKeySize_def valid_sizes_def
        KeyUsage_IsValid_def Keys_Save_def insertM_def tok service_run split: option.split)
  ultimately show ?thesis
    using assms by (auto simp: CreateKey_def Let_def bindM_def run_tick validateKeyParameters_def KeyAlgorithm_IsValid_def
        KeyUsage_IsValid_def deferBoth_def deferM_def service_world_def fresh_world_def)
qed

lemma sample_create_run:
  "\<exists>k w'. CreateKey sample_env Background ''sig'' alg_RSA 2048 KeyUsageSigning sample_identity service_world = (Ok k, w')"
  using sample_create [of sample_identity Background 0]
  by (simp add: sample_identity_def zero_identity_def service_world_def fresh_world_def)

theorem created_key_is_stored_for_the_tenant_witness:
  "\<exists>k w'. CreateKey sample_env Background ''sig'' alg_RSA 2048 KeyUsageSigning sample_identity service_world = (Ok k, w')
     \<and> k_TenantID k = ''T'' \<and> length (w_keys w') = 1"
proof -
  obtain k w' where run: "CreateKey sample_env Background ''sig'' alg_RSA 2048 KeyUsageSigning sample_identity
      service_world = (Ok k, w')" using sample_create_run by blast
  from created_key_is_stored_for_the_tenant [OF run] show ?thesis using run
    by (auto simp: sample_identity_def service_world_def fresh_world_def)
qed

lemma rollback_token:
  assumes "bindM (rollback_hsm e ctx kh n) (\<lambda>_. throw err) w = (r, w')"
  shows "\<exists>q. Manager_DeleteKey e ctx kh n w = (q, w')"
proof -
  obtain q u where "Manager_DeleteKey e ctx kh n w = (q, u)" by fastforce
  then show ?thesis using assms
    by (cases q) (auto simp: rollback_hsm_def dropErr_def attempt_def bindM_def run_basic)
qed

text \<open>
  The object a successful \<^verbatim>\<open>DeleteKey\<close> destroys: the private key with the label when there is one, else the
  public key, and that one only.
\<close>

definition deletion_target :: "'t env \<Rightarrow> hsm_client \<Rightarrow> string \<Rightarrow> 't world \<Rightarrow> handle \<Rightarrow> 't world \<Rightarrow> bool" where
  "deletion_target e cl label u h x \<longleftrightarrow> findPrivateKeyByLabel e cl label u = (Ok h, x)
     \<or> (\<exists>err y. findPrivateKeyByLabel e cl label u = (Err err, y) \<and> findPublicKeyByLabel e cl label y = (Ok h, x))"

lemma Manager_DeleteKey_Ok:
  assumes "Manager_DeleteKey e ctx label n u = (Ok (), w')"
  shows "\<exists>cl h x. map_of (w_clients u) n = Some cl \<and> \<not> cl_closed cl
    \<and> deletion_target e cl label (u\<lparr>w_tick := Suc (w_tick u)\<rparr>) h x
    \<and> ck_DestroyObject (pkcs11 e) (cl_session cl) h (w_tok x) = (Inr (), w_tok w')"
proof -
  obtain cl where cl: "map_of (w_clients u) n = Some cl" and del: "Client_DeleteKey e cl ctx label u = (Ok (), w')"
    using assms by (auto simp: Manager_DeleteKey_def bindM_Ok GetClientForSlot_iff)
  obtain h x y where "deletion_target e cl label (u\<lparr>w_tick := Suc (w_tick u)\<rparr>) h x" "\<not> cl_closed cl"
    and y: "ckc (ck_DestroyObject (pkcs11 e) (cl_session cl) h) x = (Ok (), y)" and "w_tok w' = w_tok y"
    using del by (auto simp: Client_DeleteKey_def audited_run bindM_Ok catchM_Ok wrapErr_Ok run_basic deletion_target_def
        split: if_split_asm)
  moreover have "ck_DestroyObject (pkcs11 e) (cl_session cl) h (w_tok x) = (Inr (), w_tok y)"
    using y by (auto simp: ckM_def split: prod.splits sum.splits)
  ultimately show ?thesis using cl by auto
qed

lemma failed_create_rolls_back:
  assumes "generateAndSaveKey e ctx c slot w = (Err err, w')"
    and "Manager_GenerateKeyPair e ctx (cc_algorithm c) (cc_size c) (key_label c (uuid_at e (w_tick w)))
      (int_of_uint (sl_SlotNumber slot)) (w\<lparr>w_tick := Suc (w_tick w)\<rparr>) = (Ok (pk, kh), v)"
    and "key = new_key c slot (uuid_at e (w_tick v)) (key_label c (uuid_at e (w_tick w))) pk
          (key_label c (uuid_at e (w_tick w))) (now_at e (Suc (w_tick v)))"
  shows "\<exists>u q. w_tok u = w_tok v \<and> w_clients u = w_clients v
    \<and> (Key_Validate key = Some err \<and> u = v\<lparr>w_tick := w_tick v + 2\<rparr>
       \<or> Key_Validate key = None \<and> Keys_Save e key (v\<lparr>w_tick := w_tick v + 2\<rparr>) = (Err err, u))
    \<and> Manager_DeleteKey e ctx (key_label c (uuid_at e (w_tick w))) (int_of_uint (sl_SlotNumber slot)) u = (q, w')"
proof -
  let ?label = "key_label c (uuid_at e (w_tick w))" and ?n = "int_of_uint (sl_SlotNumber slot)"
  have kh: "kh = ?label" using assms(2) Manager_GenerateKeyPair_Ok by blast
  obtain v' where v': "v\<lparr>w_tick := w_tick v + 2\<rparr> = v'" by blast
  have run: "validateAndSave e ctx ?n ?label key v' = (Err err, w')"
    using assms(1,2) by (simp add: generateAndSaveKey_def Let_def bindM_def wrapErr_def catchM_def run_tick kh assms(3) flip: v')
  show ?thesis
  proof (cases "Key_Validate key")
    case (Some x)
    then obtain q where "Manager_DeleteKey e ctx ?label ?n v' = (q, w')"
      using run by (auto simp: validateAndSave_def dest: rollback_token)
    moreover have "x = err"
      using run Some by (auto simp: validateAndSave_def bindM_Err rollback_hsm_def dropErr_Err run_basic)
    ultimately show ?thesis using Some unfolding v' by (intro exI [of _ v'] exI [of _ q]) (simp flip: v')
  next
    case None
    then obtain x u where save: "Keys_Save e key v' = (Err x, u)"
      and undo: "bindM (rollback_hsm e ctx ?label ?n) (\<lambda>_. throw x) u = ((Err err :: (go_error, unit) outcome), w')"
      using run by (auto simp: validateAndSave_def bindM_Err [of "catchM a b" for a b] catchM_Err run_basic)
    obtain q where "Manager_DeleteKey e ctx ?label ?n u = (q, w')" using rollback_token [OF undo] by blast
    moreover have "x = err" using undo by (auto simp: bindM_Err rollback_hsm_def dropErr_Err run_basic)
    moreover have "w_tok u = w_tok v" using Keys_Save_not_Ok [OF save] by (simp flip: v')
    moreover have "w_clients u = w_clients v" using Keys_Save_not_Ok [OF save] by (simp flip: v')
    ultimately show ?thesis using None save unfolding v' by blast
  qed
qed

lemma CreateKey_frame:
  assumes "CreateKey e ctx name alg n usage i w = (r, w')"
  shows "w_clients w' = w_clients w \<and> w_tenants w' = w_tenants w \<and> w_slots w' = w_slots w \<and> w_meta w' = w_meta w"
  using assms
proof (cases rule: CreateKey_cases)
  case (slot slot u v)
  note a = unchangedD [OF frame_tenant_slot(4) slot(3)] and b = unchangedD [OF frame_generateAndSaveKey slot(4)]
  show ?thesis
    using a [of w_clients] a [of w_tenants] a [of w_slots] a [of w_meta]
      b [of w_clients] b [of w_tenants] b [of w_slots] b [of w_meta]
    by (simp add: slot(5) track_fields)
next
  case (refused u)
  then show ?thesis by (simp add: track_fields)
qed

text \<open>
  A \<^verbatim>\<open>CreateKey\<close> that does not return a key, by an error or a panic, adds no key row, tracks no key
  operation and leaves the clients and the other tables as they were.
\<close>

theorem failed_create_leaves_no_trace:
  assumes "CreateKey e ctx name alg n usage i w = (r, w')" and "\<And>k. r \<noteq> Ok k"
  shows "w_keys w' = w_keys w \<and> w_ops w' = w_ops w \<and> w_clients w' = w_clients w
    \<and> w_tenants w' = w_tenants w \<and> w_slots w' = w_slots w \<and> w_meta w' = w_meta w"
  using CreateKey_fails [OF assms] CreateKey_frame [OF assms(1)] by blast

theorem failed_create_leaves_no_trace_witness:
  "\<exists>r w'. CreateKey sample_env Background ''sig'' ''DSA'' 2048 KeyUsageSigning sample_identity service_world = (r, w')
     \<and> w_keys w' = [] \<and> w_ops w' = []"
proof -
  obtain w' where run: "CreateKey sample_env Background ''sig'' ''DSA'' 2048 KeyUsageSigning sample_identity service_world
      = (Err (PlainErr (code_string ErrInvalidKeyAlgorithm)), w')"
    by (simp add: CreateKey_def Let_def bindM_def run_tick validateKeyParameters_def KeyAlgorithm_IsValid_def
        deferBoth_def run_basic)
  from failed_create_leaves_no_trace [OF this] show ?thesis using run by (auto simp: service_world_def fresh_world_def)
qed

text \<open>
  C19. When \<^verbatim>\<open>generateAndSaveKey\<close> fails, no key row is added; when the token had made the pair, the error
  is that of \<^verbatim>\<open>Validate\<close> or of \<^verbatim>\<open>Save\<close>, and the last HSM call is \<^verbatim>\<open>DeleteKey\<close> of the new label in the same
  slot, on the token as the generation left it, with the slot's own client. When that call succeeds, exactly one object was
  destroyed: the private key with the label when the search for it finds one, else the public key. (The other object of the
  pair is left on the token.) When the generation itself failed, nothing happens after it.
\<close>

theorem failed_save_deletes_the_new_key:
  assumes "generateAndSaveKey e ctx c slot w = (Err err, w')"
  shows "w_keys w' = w_keys w \<and>
    (case Manager_GenerateKeyPair e ctx (cc_algorithm c) (cc_size c) (key_label c (uuid_at e (w_tick w)))
        (int_of_uint (sl_SlotNumber slot)) (w\<lparr>w_tick := Suc (w_tick w)\<rparr>) of
      (Ok (pk, kh), v) \<Rightarrow>
        (let n = int_of_uint (sl_SlotNumber slot); label = key_label c (uuid_at e (w_tick w));
             key = new_key c slot (uuid_at e (w_tick v)) label pk label (now_at e (Suc (w_tick v)));
             v' = v\<lparr>w_tick := w_tick v + 2\<rparr>
         in \<exists>u q. w_tok u = w_tok v
           \<and> (Key_Validate key = Some err \<and> u = v' \<or> Key_Validate key = None \<and> Keys_Save e key v' = (Err err, u))
           \<and> Manager_DeleteKey e ctx label n u = (q, w')
           \<and> (q = Ok () \<longrightarrow> (\<exists>cl h x. map_of (w_clients v) n = Some cl \<and> \<not> cl_closed cl
                \<and> deletion_target e cl label (u\<lparr>w_tick := Suc (w_tick u)\<rparr>) h x
                \<and> ck_DestroyObject (pkcs11 e) (cl_session cl) h (w_tok x) = (Inr (), w_tok w'))))
    | (_, v) \<Rightarrow> w' = v)"
proof -
  let ?g = "Manager_GenerateKeyPair e ctx (cc_algorithm c) (cc_size c) (key_label c (uuid_at e (w_tick w)))
        (int_of_uint (sl_SlotNumber slot)) (w\<lparr>w_tick := Suc (w_tick w)\<rparr>)"
  have rows: "w_keys w' = w_keys w" using generateAndSaveKey_fails [OF assms] by simp
  obtain q v where gen: "?g = (q, v)" by fastforce
  show ?thesis
  proof (cases q)
    case (Ok p)
    obtain pk kh where p: "p = (pk, kh)" by fastforce
    note undone = failed_create_rolls_back [OF assms gen [unfolded Ok p] refl]
    show ?thesis unfolding gen Ok p prod.case outcome.case Let_def
      using rows undone by (metis Manager_DeleteKey_Ok)
  next
    case (Err x)
    then show ?thesis using assms gen rows
      by (simp add: generateAndSaveKey_def Let_def bindM_def wrapErr_def catchM_def run_tick run_basic)
  next
    case (Panic p)
    then show ?thesis using assms gen rows
      by (simp add: generateAndSaveKey_def Let_def bindM_def wrapErr_def catchM_def run_tick run_basic)
  qed
qed

text \<open>A database that is down when the row is to be saved: the private object is gone again, the public one is not.\<close>

definition failing_env :: "sample_token env" where
  "failing_env = sample_env\<lparr>db_err_at := \<lambda>_. Some ''down''\<rparr>"

lemma failing_env_simps [simp]:
  "now_at failing_env n = int n * 1000000"
  "uuid_at failing_env n = sample_uuid n"
  "db_err_at failing_env n = Some ''down''"
  "db_unique failing_env = Some ''Error 1062 (23000): Duplicate entry''"
  "pkcs11 failing_env = sample_ck"
  "audit_on failing_env"
  by (simp_all add: failing_env_def sample_env_def)

abbreviation token_objects :: "sample_token world \<Rightarrow> (nat \<times> nat) list" where
  "token_objects w \<equiv> map (\<lambda>x. (so_handle x, so_class x)) (sa_objs (w_tok w))"

abbreviation sample_creation :: key_creation where
  "sample_creation \<equiv> creation ''sig'' alg_RSA 2048 KeyUsageSigning sample_identity 0"

lemmas generation_run = Manager_GenerateKeyPair_def Client_GenerateKeyPair_def generateRSAKeyPair_def
  rsa_templates_def exportPublicKey_def exportRSAPublicKey_def attr_bytes_def

lemma failing_save_generates:
  "\<exists>pk kh v. Manager_GenerateKeyPair failing_env Background alg_RSA 2048
       (key_label sample_creation (sample_uuid 0)) 7 (service_world\<lparr>w_tick := 1\<rparr>) = (Ok (pk, kh), v) \<and>
     token_objects v = [(4, CKO_PUBLIC_KEY), (5, CKO_PRIVATE_KEY), (9, CKO_PUBLIC_KEY), (10, CKO_PRIVATE_KEY)]"
  by (simp add: generation_run key_label_def service_run)

lemma failing_save_run:
  "\<exists>err w'. generateAndSaveKey failing_env Background sample_creation sample_slot service_world = (Err err, w') \<and>
     token_objects w' = [(4, CKO_PUBLIC_KEY), (5, CKO_PRIVATE_KEY), (9, CKO_PUBLIC_KEY)]"
  by (simp add: generateAndSaveKey_def generation_run Manager_DeleteKey_def Client_DeleteKey_def rollback_hsm_def
      validateAndSave_def Key_Validate_def KeyAlgorithm_IsValid_def key_label_def new_key_def zero_key_def isValidKeySize_def
      valid_sizes_def KeyUsage_IsValid_def Keys_Save_def insertM_def service_run split: option.split)

theorem failed_save_deletes_the_new_key_witness:
  "\<exists>err pk kh v u q w'. generateAndSaveKey failing_env Background sample_creation sample_slot service_world = (Err err, w')
     \<and> Manager_GenerateKeyPair failing_env Background alg_RSA 2048 (key_label sample_creation (sample_uuid 0)) 7
         (service_world\<lparr>w_tick := 1\<rparr>) = (Ok (pk, kh), v)
     \<and> token_objects v = [(4, CKO_PUBLIC_KEY), (5, CKO_PRIVATE_KEY), (9, CKO_PUBLIC_KEY), (10, CKO_PRIVATE_KEY)]
     \<and> w_tok u = w_tok v
     \<and> Manager_DeleteKey failing_env Background (key_label sample_creation (sample_uuid 0)) 7 u = (q, w')
     \<and> token_objects w' = [(4, CKO_PUBLIC_KEY), (5, CKO_PRIVATE_KEY), (9, CKO_PUBLIC_KEY)] \<and> w_keys w' = []"
proof -
  obtain pk kh v where gen: "Manager_GenerateKeyPair failing_env Background alg_RSA 2048
      (key_label sample_creation (sample_uuid 0)) 7 (service_world\<lparr>w_tick := 1\<rparr>) = (Ok (pk, kh), v)"
    and v: "token_objects v = [(4, CKO_PUBLIC_KEY), (5, CKO_PRIVATE_KEY), (9, CKO_PUBLIC_KEY), (10, CKO_PRIVATE_KEY)]"
    using failing_save_generates by (elim exE conjE) (rule that)
  obtain err w' where run: "generateAndSaveKey failing_env Background sample_creation sample_slot service_world = (Err err, w')"
    and w': "token_objects w' = [(4, CKO_PUBLIC_KEY), (5, CKO_PRIVATE_KEY), (9, CKO_PUBLIC_KEY)]"
    using failing_save_run by (elim exE conjE) (rule that)
  have at: "w_tick service_world = 0" "int_of_uint (sl_SlotNumber sample_slot) = 7" "w_keys service_world = []"
    "uuid_at failing_env 0 = sample_uuid 0" "Suc 0 = (1::nat)"
    by (simp_all add: service_world_def fresh_world_def sample_slot_def int_of_uint_def)
  from failed_save_deletes_the_new_key [OF run] obtain u q where "w_tok u = w_tok v"
    "Manager_DeleteKey failing_env Background (key_label sample_creation (sample_uuid 0)) 7 u = (q, w')" "w_keys w' = []"
    by (simp only: at gen key_creation.simps outcome.case prod.case Let_def) (elim exE conjE, rule that)
  then show ?thesis using run gen v w' by (intro exI conjI)
qed

subsection \<open>Rotation and deletion\<close>

lemma Keys_Save_duplicate:
  assumes "db_unique e = Some msg" and "k_ID k \<in> k_ID ` set (w_keys w)"
  shows "Keys_Save e k w \<noteq> (Ok x, w')"
  using assms by (simp add: Keys_Save_Ok)

text \<open>The last steps of \<^verbatim>\<open>RotateKey\<close>, after the new key was made.\<close>

lemma rotate_end:
  fixes k' :: cryptographic_key
  assumes "bindM (catchM (Keys_Save e k) (\<lambda>err.
      bindM (dropErr (Manager_DeleteKey e ctx kh n)) (\<lambda>_.
      bindM (dropErr (Keys_Delete e i)) (\<lambda>_. throw err)))) (\<lambda>_. ret k') w = (r, w')"
  shows "(r = Ok k' \<and> Keys_Save e k w = (Ok (), w'))
    \<or> ((\<forall>x. r \<noteq> Ok x) \<and> (w_keys w' = w_keys w \<or> w_keys w' = filter (\<lambda>x. k_ID x \<noteq> i) (w_keys w)))"
proof -
  have del: "w_keys v = w_keys u \<or> w_keys v = filter (\<lambda>x. k_ID x \<noteq> i) (w_keys u)"
    if "Keys_Delete e i u = (q, v)" for q u v
    using that mysql_keys.delete_Ok [of e i u v] mysql_keys.delete_fails [of e i u q v] by (cases "q = Ok ()") auto
  obtain q u where save: "Keys_Save e k w = (q, u)" by fastforce
  have u: "q \<noteq> Ok () \<Longrightarrow> w_keys u = w_keys w" using mysql_keys.save_fails [OF save] .
  obtain p v where man: "Manager_DeleteKey e ctx kh n u = (p, v)" by fastforce
  have v: "w_keys v = w_keys u" using unchangedD [OF frame_manager(2) man, of w_keys] by simp
  obtain z t where d: "Keys_Delete e i v = (z, t)" by fastforce
  show ?thesis
    using assms save u man v d del [OF d]
    by (cases q; cases p; cases z) (auto simp: bindM_def catchM_def dropErr_def attempt_def run_basic)
qed

lemma rotate_tail:
  fixes new :: cryptographic_key
  assumes "bindM (tenant_slot e error_text ctx tn) (\<lambda>slot.
      bindM (catchM (Keys_Save e k) (\<lambda>err.
        bindM (dropErr (Manager_DeleteKey e ctx (k_KeyHandle new) (int_of_uint (sl_SlotNumber slot)))) (\<lambda>_.
        bindM (dropErr (Keys_Delete e (k_ID new))) (\<lambda>_. throw err)))) (\<lambda>_. ret new)) w = (r, w')"
  shows "(r = Ok new \<and> (\<exists>u. w_keys u = w_keys w \<and> Keys_Save e k u = (Ok (), w')))
    \<or> ((\<forall>x. r \<noteq> Ok x) \<and> (w_keys w' = w_keys w \<or> w_keys w' = filter (\<lambda>x. k_ID x \<noteq> k_ID new) (w_keys w)))"
proof -
  obtain q u where ts: "tenant_slot e error_text ctx tn w = (q, u)" by fastforce
  have u: "w_keys u = w_keys w" using unchangedD [OF frame_tenant_slot(4) ts, of w_keys] by auto
  show ?thesis
  proof (cases q)
    case (Ok slot)
    then show ?thesis using assms ts rotate_end [of e k ctx "k_KeyHandle new" _ "k_ID new" new u r w'] u by auto
  qed (use assms ts u in auto)
qed

lemma RotateKey_cases:
  assumes "RotateKey e ctx kid i w = (r, w')"
  obtains (nothing) "\<And>x. r \<noteq> Ok x" "w_keys w' = w_keys w"
  | (made) new row where "r = Ok new" "stored_as row new"
      "db_unique e = None" "\<exists>dup. w_keys w' = w_keys w @ [row, dup]"
  | (left) new row where "\<And>x. r \<noteq> Ok x" "stored_as row new" "made_for i new"
      "db_unique e = None \<or> k_ID new \<notin> k_ID ` set (w_keys w)"
      "w_keys w' = w_keys w @ [row] \<or> w_keys w' = filter (\<lambda>x. k_ID x \<noteq> k_ID new) (w_keys w @ [row])"
proof -
  let ?w = "w\<lparr>w_tick := Suc (w_tick w)\<rparr>"
  let ?tail = "\<lambda>existing newKey. bindM (tenant_slot e error_text ctx (id_TenantID i)) (\<lambda>slot.
        bindM (catchM (Keys_Save e (Deactivate existing)) (\<lambda>err.
          bindM (dropErr (Manager_DeleteKey e ctx (k_KeyHandle newKey) (int_of_uint (sl_SlotNumber slot)))) (\<lambda>_.
          bindM (dropErr (Keys_Delete e (k_ID newKey))) (\<lambda>_. throw err)))) (\<lambda>_. ret newKey))"
  let ?create = "\<lambda>old. CreateKey e ctx (k_Name old @ ''-rotated'') (k_Algorithm old) (k_KeySize old) (k_Purpose old) i"
  obtain u where body: "bindM (Keys_FindByIDAndTenant e kid (id_TenantID i)) (\<lambda>old.
        bindM (?create old) (?tail old)) ?w = (r, u)" and w': "w_keys w' = w_keys u"
    using assms by (auto simp: RotateKey_def audited_run)
  obtain q1 u1 where find: "Keys_FindByIDAndTenant e kid (id_TenantID i) ?w = (q1, u1)" by fastforce
  have u1: "w_keys u1 = w_keys w" using mysql_keys.find_rows [OF find] by simp
  have unfound: thesis if "\<And>old. q1 \<noteq> Ok old"
    using that body find u1 w' by - (rule nothing; cases q1; auto)
  show thesis
  proof (cases "\<exists>old new u2. q1 = Ok old \<and> ?create old u1 = (Ok new, u2)")
    case True
    then obtain old new u2 where q1: "q1 = Ok old" and create: "?create old u1 = (Ok new, u2)" by blast
    have old: "k_ID (Deactivate old) \<in> k_ID ` set (w_keys w)"
      using mysql_keys.find_Ok [OF find [unfolded q1]] by (auto simp: Deactivate_def scan_by_tenant_def image_iff)
    obtain row where row: "stored_as row new" "w_keys u2 = w_keys w @ [row]" "made_for i new"
      "db_unique e = None \<or> k_ID new \<notin> k_ID ` set (w_keys w)" using CreateKey_made [OF create] u1 by auto
    have "?tail old new u2 = (r, u)" using body find create q1 by simp
    from rotate_tail [OF this] show thesis
    proof (elim disjE conjE exE)
      fix v assume a: "r = Ok new" "w_keys v = w_keys u2" "Keys_Save e (Deactivate old) v = (Ok (), u)"
      then show thesis using old row w' by - (rule made [of new row]; auto simp: Keys_Save_Ok)
    next
      assume "\<forall>x. r \<noteq> Ok x" "w_keys u = w_keys u2"
      then show thesis using row w' by - (rule left [of row new]; auto)
    next
      assume "\<forall>x. r \<noteq> Ok x" "w_keys u = filter (\<lambda>x. k_ID x \<noteq> k_ID new) (w_keys u2)"
      then show thesis using row w' by - (rule left [of row new]; auto)
    qed
  next
    case False
    show thesis
    proof (cases q1)
      case (Ok old)
      obtain q2 u2 where create: "?create old u1 = (q2, u2)" by fastforce
      moreover have "\<And>new. q2 \<noteq> Ok new" using False Ok create by blast
      ultimately show thesis using CreateKey_fails [OF create] body find u1 w' Ok
        by - (rule nothing; cases q2; auto)
    qed (use unfound in auto)
  qed
qed

text \<open>
  C17. \<^verbatim>\<open>RotateKey\<close> never retires the old key: it stores the deactivated entity with an INSERT of the same
  identifier. Where identifiers are unique it therefore never succeeds, and all old rows stay as they were;
  where they are not, a rotation that succeeds leaves the row that look-ups find, still active.
\<close>

theorem rotation_never_retires_the_old_key:
  assumes "RotateKey e ctx kid i w = (r, w')"
  shows "(db_unique e \<noteq> None \<longrightarrow> (\<forall>k. r \<noteq> Ok k) \<and> set (w_keys w) \<subseteq> set (w_keys w'))
    \<and> (\<forall>k old. r = Ok k \<longrightarrow>
         List.find (\<lambda>x. k_ID x = kid \<and> k_TenantID x = id_TenantID i) (w_keys w) = Some old \<longrightarrow>
         List.find (\<lambda>x. k_ID x = kid \<and> k_TenantID x = id_TenantID i) (w_keys w') = Some old)"
proof (rule RotateKey_cases [OF assms])
  fix new row
  assume made: "r = Ok new" "db_unique e = None" "\<exists>dup. w_keys w' = w_keys w @ [row, dup]"
  then obtain dup where w': "w_keys w' = w_keys w @ [row, dup]" by blast
  show ?thesis unfolding w' using made(2) by (auto simp: find_append)
qed (auto simp: stored_as_def image_iff)

theorem rotation_never_retires_the_old_key_witness:
  "\<exists>r w'. RotateKey sample_env Background ''k1'' sample_identity (service_world\<lparr>w_keys :=
       [zero_key\<lparr>k_ID := ''k1'', k_TenantID := ''T'', k_IsActive := True\<rparr>]\<rparr>) = (r, w')
     \<and> (\<forall>k. r \<noteq> Ok k) \<and> zero_key\<lparr>k_ID := ''k1'', k_TenantID := ''T'', k_IsActive := True\<rparr> \<in> set (w_keys w')"
proof -
  let ?w = "service_world\<lparr>w_keys := [zero_key\<lparr>k_ID := ''k1'', k_TenantID := ''T'', k_IsActive := True\<rparr>]\<rparr>"
  obtain r w' where run: "RotateKey sample_env Background ''k1'' sample_identity ?w = (r, w')" by fastforce
  from rotation_never_retires_the_old_key [OF run] show ?thesis using run by auto
qed

lemma DeleteKey_Ok:
  assumes "DeleteKey e ctx kid tn w = (Ok (), w')"
  shows "w_keys w' = filter (\<lambda>x. k_ID x \<noteq> kid) (w_keys w)
    \<and> (\<exists>row \<in> set (w_keys w). k_ID row = kid \<and> k_TenantID row = tn
        \<and> (\<exists>slot u v. slot_of_tenant w tn slot
             \<and> Manager_DeleteKey e ctx (k_KeyHandle row) (int_of_uint (sl_SlotNumber slot)) u = (Ok (), v)))"
proof -
  let ?w = "w\<lparr>w_tick := Suc (w_tick w)\<rparr>"
  obtain key slot u1 u2 u3 u where find: "Keys_FindByIDAndTenant e kid tn ?w = (Ok key, u1)"
    and ts: "tenant_slot e error_text ctx tn u1 = (Ok slot, u2)"
    and del: "Manager_DeleteKey e ctx (k_KeyHandle key) (int_of_uint (sl_SlotNumber slot)) u2 = (Ok (), u3)"
    and row: "Keys_Delete e kid u3 = (Ok (), u)" and w': "w_keys w' = w_keys u"
    using assms by (auto simp: DeleteKey_def audited_run bindM_Ok wrapErr_Ok)
  have u1: "w_keys u1 = w_keys w" "w_tenants u1 = w_tenants w" "w_slots u1 = w_slots w"
    using unchangedD [OF frame_keys(3) find, of w_tenants] unchangedD [OF frame_keys(3) find, of w_slots]
      mysql_keys.find_rows [OF find] by auto
  have "w_keys u3 = w_keys w"
    using unchangedD [OF frame_tenant_slot(4) ts, of w_keys] unchangedD [OF frame_manager(2) del, of w_keys] u1
    by auto
  moreover have "slot_of_tenant w tn slot" using tenant_slot_Ok [OF ts] u1 by (simp add: slot_of_tenant_def)
  moreover have "\<exists>row \<in> set (w_keys w). k_ID row = kid \<and> k_TenantID row = tn \<and> k_KeyHandle row = k_KeyHandle key"
    using mysql_keys.find_Ok [OF find] by (auto simp: scan_by_tenant_def)
  ultimately show ?thesis using mysql_keys.delete_Ok [OF row] w' del by (intro conjI) (simp, metis)
qed

lemma DeleteKey_fails:
  assumes "DeleteKey e ctx kid tn w = (r, w')" and "r \<noteq> Ok ()"
  shows "w_keys w' = w_keys w"
proof -
  obtain u where body: "bindM (Keys_FindByIDAndTenant e kid tn) (\<lambda>key.
        bindM (tenant_slot e error_text ctx tn) (\<lambda>slot.
        bindM (wrapErr (\<lambda>_. PlainErr (code_string ErrHSMOperationFailed @ '': operation=delete_key''))
          (Manager_DeleteKey e ctx (k_KeyHandle key) (int_of_uint (sl_SlotNumber slot)))) (\<lambda>_.
        Keys_Delete e kid))) (w\<lparr>w_tick := Suc (w_tick w)\<rparr>) = (r, u)" and w': "w_keys w' = w_keys u"
    using assms(1) by (auto simp: DeleteKey_def audited_run)
  note ts = unchangedD [OF frame_tenant_slot(4) [of w_keys]] and del = unchangedD [OF frame_manager(2) [of w_keys]]
  have "w_keys u = w_keys w"
  proof (cases r)
    case (Err err)
    then show ?thesis using body
      by (auto simp: bindM_Err wrapErr_Ok wrapErr_Err dest!: ts [rotated] del [rotated] mysql_keys.delete_fails
          dest: mysql_keys.find_rows)
  next
    case (Panic p)
    then show ?thesis using body
      by (auto simp: bindM_Panic wrapErr_Ok wrapErr_Panic dest!: ts [rotated] del [rotated] mysql_keys.delete_fails
          dest: mysql_keys.find_rows)
  qed (use assms(2) in simp)
  then show ?thesis using w' by simp
qed

lemma GetKey_Ok:
  "GetKey e kid tn w = (Ok k, w') \<Longrightarrow> \<exists>row \<in> set (w_keys w). k_ID row = kid \<and> k_TenantID row = tn"
  by (auto simp: GetKey_def wrapErr_Ok dest!: mysql_keys.find_Ok)

text \<open>
  C16. \<^verbatim>\<open>DeleteKey\<close> removes the row of a key of the tenant only after the HSM client of the tenant's slot
  has deleted the object with the key's handle; if anything fails before or while deleting the row, the table
  of keys is unchanged. A key once deleted is found no more.
\<close>

theorem delete_key_removes_object_then_row:
  assumes "DeleteKey e ctx kid tn w = (r, w')"
  shows "(r = Ok () \<longrightarrow> w_keys w' = filter (\<lambda>x. k_ID x \<noteq> kid) (w_keys w)
      \<and> (\<exists>row \<in> set (w_keys w). k_ID row = kid \<and> k_TenantID row = tn
          \<and> (\<exists>slot u v. slot_of_tenant w tn slot
               \<and> Manager_DeleteKey e ctx (k_KeyHandle row) (int_of_uint (sl_SlotNumber slot)) u = (Ok (), v)))
      \<and> (\<forall>tn' k v. GetKey e kid tn' w' \<noteq> (Ok k, v)))
    \<and> (r \<noteq> Ok () \<longrightarrow> w_keys w' = w_keys w)"
proof (cases "r = Ok ()")
  case True
  have "GetKey e kid tn' w' \<noteq> (Ok k, v)" for tn' k v
    using DeleteKey_Ok [OF assms [unfolded True]] GetKey_Ok [of e kid tn' w' k v] by auto
  then show ?thesis using True DeleteKey_Ok [OF assms [unfolded True]] by simp
next
  case False
  then show ?thesis using DeleteKey_fails [OF assms] by simp
qed

text \<open>The sample service with one stored key whose pair is on the token.\<close>

definition stored_key :: cryptographic_key where
  "stored_key = zero_key\<lparr>k_ID := ''k1'', k_TenantID := ''T'', k_Name := ''sig'', k_Algorithm := alg_RSA,
     k_KeySize := 2048, k_Purpose := KeyUsageSigning, k_KeyHandle := ''k'', k_KeyLabel := ''k'', k_IsActive := True\<rparr>"

definition keyed_world :: "sample_token world" where
  "keyed_world = service_world\<lparr>w_keys := [stored_key]\<rparr>"

lemma sample_delete_run:
  "\<exists>w'. DeleteKey sample_env Background ''k1'' ''T'' keyed_world = (Ok (), w')"
  by (simp add: DeleteKey_def Keys_FindByIDAndTenant_def Manager_DeleteKey_def Client_DeleteKey_def Keys_Delete_def
      keyed_world_def stored_key_def zero_key_def scan_by_tenant_def service_run)

theorem delete_key_removes_object_then_row_witness:
  "\<exists>w'. DeleteKey sample_env Background ''k1'' ''T'' keyed_world = (Ok (), w') \<and> w_keys w' = []"
proof -
  obtain w' where run: "DeleteKey sample_env Background ''k1'' ''T'' keyed_world = (Ok (), w')"
    using sample_delete_run by blast
  from delete_key_removes_object_then_row [OF run] show ?thesis using run
    by (auto simp: keyed_world_def stored_key_def)
qed

subsection \<open>Auditing\<close>

lemma grows_generateAndSaveKey: "within audit_grows (generateAndSaveKey e ctx c slot)"
  unfolding generateAndSaveKey_def validateAndSave_def rollback_hsm_def Let_def by (intro grows_all)

lemma CreateKey_audit:
  assumes "CreateKey e ctx name alg n usage i w = (r, w')" and "audit_on e"
  shows "\<exists>more data. w_audit w' = w_audit w @ more @ [(tenant_ctx ctx i, data, Some i)]
    \<and> ad_Operation data = ''CREATE_KEY'' \<and> ad_Success data = (outcome_error r = None)
    \<and> ad_StatusCode data = GetCode (outcome_error r)"
  using assms(1)
proof (cases rule: CreateKey_cases)
  case (slot slot u v)
  have "audit_grows (w\<lparr>w_tick := Suc (w_tick w)\<rparr>) u" using withinD [OF grows_tenant_slot(3) slot(3)] .
  moreover have "audit_grows u v" using withinD [OF grows_generateAndSaveKey slot(4)] .
  ultimately have "audit_grows (w\<lparr>w_tick := Suc (w_tick w)\<rparr>) v" by (rule grows.chain)
  then show ?thesis using assms(2) by (auto simp: slot(5) track_fields audit_grows_def)
next
  case (refused u)
  then show ?thesis using assms(2) by (auto simp: track_fields audit_grows_def)
qed

lemma grows_CreateKey: "within audit_grows (CreateKey e ctx name alg n usage i)"
proof (rule withinI)
  fix w r w'
  assume "CreateKey e ctx name alg n usage i w = (r, w')"
  then show "audit_grows w w'"
  proof (cases rule: CreateKey_cases)
    case (slot slot u v)
    have "audit_grows (w\<lparr>w_tick := Suc (w_tick w)\<rparr>) u" using withinD [OF grows_tenant_slot(3) slot(3)] .
    moreover have "audit_grows u v" using withinD [OF grows_generateAndSaveKey slot(4)] .
    ultimately have "audit_grows (w\<lparr>w_tick := Suc (w_tick w)\<rparr>) v" by (rule grows.chain)
    then show ?thesis by (auto simp: slot(5) track_fields audit_grows_def)
  next
    case (refused u)
    then show ?thesis by (auto simp: track_fields audit_grows_def)
  qed
qed

text \<open>An audited operation whose body's log only grows ends with its own event.\<close>

lemma audited_last:
  assumes "audited e True ctx identity mk m w = (r, w')" and "within audit_grows m"
  shows "\<exists>more d. w_audit w' = w_audit w @ more @ [(ctx, mk r d, identity)]"
proof -
  obtain u where u: "m (w\<lparr>w_tick := Suc (w_tick w)\<rparr>) = (r, u)" and "\<exists>d. w_audit w' = w_audit u @ [(ctx, mk r d, identity)]"
    using assms(1) by (auto elim!: audited_log)
  then show ?thesis using withinD [OF assms(2) u] by (auto simp: audit_grows_def)
qed

text \<open>
  With a dispatcher the last audit event of every \<^verbatim>\<open>CreateKey\<close>, \<^verbatim>\<open>RotateKey\<close> and \<^verbatim>\<open>DeleteKey\<close> is the
  operation's own, after the events already logged; it reports success exactly when the operation returned no
  error, which includes a panic, and carries the status code of the error.
\<close>

theorem key_operations_audit_their_outcome:
  assumes "audit_on e"
  shows "(CreateKey e ctx name alg n usage i w = (r, w') \<longrightarrow>
        (\<exists>more data. w_audit w' = w_audit w @ more @ [(tenant_ctx ctx i, data, Some i)]
          \<and> ad_Operation data = ''CREATE_KEY'' \<and> ad_Success data = (outcome_error r = None)
          \<and> ad_StatusCode data = GetCode (outcome_error r)))
    \<and> (RotateKey e ctx kid i w = (r, w') \<longrightarrow>
        (\<exists>more data. w_audit w' = w_audit w @ more @ [(ctx, data, Some i)]
          \<and> ad_Operation data = ''ROTATE_KEY'' \<and> ad_Success data = (outcome_error r = None)
          \<and> ad_StatusCode data = GetCode (outcome_error r)))
    \<and> (DeleteKey e ctx kid tn w = (q, w') \<longrightarrow>
        (\<exists>more data. w_audit w' = w_audit w @ more @ [(ctx, data, None)]
          \<and> ad_Operation data = ''DELETE_KEY'' \<and> ad_Success data = (outcome_error q = None)
          \<and> ad_StatusCode data = GetCode (outcome_error q)))"
proof (intro conjI impI)
  assume "CreateKey e ctx name alg n usage i w = (r, w')"
  then show "\<exists>more data. w_audit w' = w_audit w @ more @ [(tenant_ctx ctx i, data, Some i)]
      \<and> ad_Operation data = ''CREATE_KEY'' \<and> ad_Success data = (outcome_error r = None)
      \<and> ad_StatusCode data = GetCode (outcome_error r)"
    using assms by (rule CreateKey_audit)
next
  assume run: "RotateKey e ctx kid i w = (r, w')"
  have "\<exists>more d. w_audit w' = w_audit w @ more @ [(ctx, key_audit ''ROTATE_KEY'' kid r d, Some i)]"
    by (rule audited_last [OF run [unfolded RotateKey_def eqTrueI [OF assms]]])
      (intro grows_all grows_CreateKey)
  then show "\<exists>more data. w_audit w' = w_audit w @ more @ [(ctx, data, Some i)]
      \<and> ad_Operation data = ''ROTATE_KEY'' \<and> ad_Success data = (outcome_error r = None)
      \<and> ad_StatusCode data = GetCode (outcome_error r)"
    by (auto simp: key_audit_def)
next
  assume run: "DeleteKey e ctx kid tn w = (q, w')"
  have "\<exists>more d. w_audit w' = w_audit w @ more @ [(ctx, key_audit ''DELETE_KEY'' kid q d, None)]"
    by (rule audited_last [OF run [unfolded DeleteKey_def eqTrueI [OF assms]]]) (intro grows_all)
  then show "\<exists>more data. w_audit w' = w_audit w @ more @ [(ctx, data, None)]
      \<and> ad_Operation data = ''DELETE_KEY'' \<and> ad_Success data = (outcome_error q = None)
      \<and> ad_StatusCode data = GetCode (outcome_error q)"
    by (auto simp: key_audit_def)
qed

theorem key_operations_audit_their_outcome_witness:
  "\<exists>w' more data. DeleteKey sample_env Background ''k1'' ''T'' keyed_world = (Ok (), w')
     \<and> w_audit w' = more @ [(Background, data, None)] \<and> ad_Operation data = ''DELETE_KEY'' \<and> ad_Success data"
proof -
  obtain w' where run: "DeleteKey sample_env Background ''k1'' ''T'' keyed_world = (Ok (), w')"
    using sample_delete_run by blast
  have on: "audit_on sample_env" by simp
  have "\<exists>more data. w_audit w' = w_audit keyed_world @ more @ [(Background, data, None)]
     \<and> ad_Operation data = ''DELETE_KEY'' \<and> ad_Success data = (outcome_error (Ok ()) = None)"
    using key_operations_audit_their_outcome [OF on, of Background "''''" "''''" 0 "''''" sample_identity keyed_world
        _ w' "''k1''" "''T''" "Ok ()"] run by blast
  then show ?thesis using run by (auto simp: keyed_world_def service_world_def fresh_world_def)
qed

text \<open>
  C39. A tenant without a slot makes \<^verbatim>\<open>CreateKey\<close> dereference a nil pointer, and the audit event of the
  panicking call says success with the status code \<^verbatim>\<open>SUCCESS\<close>.
\<close>

theorem missing_slot_panics_and_is_audited_as_success:
  assumes "List.find (\<lambda>t. tn_ID t = id_TenantID i) (w_tenants w) = Some t" and "tn_HSMSlotID t = None"
    and "\<And>k. db_err_at e k = None" and "audit_on e" and "KeyAlgorithm_IsValid alg" and "KeyUsage_IsValid usage"
  shows "\<exists>p w' more data. CreateKey e ctx name alg n usage i w = (Panic p, w')
    \<and> w_audit w' = w_audit w @ more @ [(tenant_ctx ctx i, data, Some i)]
    \<and> ad_Operation data = ''CREATE_KEY'' \<and> ad_Success data \<and> ad_StatusCode data = ''SUCCESS''"
proof -
  have "List.find (\<lambda>t. tn_ID t = id_TenantID i) (w_tenants (w\<lparr>w_tick := Suc (w_tick w)\<rparr>)) = Some t"
    using assms(1) by simp
  from tenant_slot_nil [OF this assms(2,3)]
  obtain u where "tenant_slot e slotErrorMsg (tenant_ctx ctx i) (id_TenantID i) (w\<lparr>w_tick := Suc (w_tick w)\<rparr>)
      = (Panic ''invalid memory address or nil pointer dereference'', u)" by blast
  then have "\<exists>w'. CreateKey e ctx name alg n usage i w =
      (Panic ''invalid memory address or nil pointer dereference'', w')"
    using assms(5,6)
    by (simp add: CreateKey_def Let_def bindM_def run_tick validateKeyParameters_def deferBoth_def)
  then obtain w' where run: "CreateKey e ctx name alg n usage i w =
      (Panic ''invalid memory address or nil pointer dereference'', w')" by blast
  then show ?thesis using CreateKey_audit [OF run assms(4)] by auto
qed

theorem missing_slot_panics_and_is_audited_as_success_witness:
  "\<exists>p w' more data. CreateKey sample_env Background ''sig'' alg_RSA 2048 KeyUsageBoth sample_identity
       (service_world\<lparr>w_tenants := [sample_tenant\<lparr>tn_HSMSlotID := None\<rparr>]\<rparr>) = (Panic p, w')
     \<and> w_audit w' = more @ [(tenant_ctx Background sample_identity, data, Some sample_identity)] \<and> ad_Success data"
proof -
  let ?w = "service_world\<lparr>w_tenants := [sample_tenant\<lparr>tn_HSMSlotID := None\<rparr>]\<rparr>"
  have f: "List.find (\<lambda>t. tn_ID t = id_TenantID sample_identity) (w_tenants ?w) =
      Some (sample_tenant\<lparr>tn_HSMSlotID := None\<rparr>)"
    by (simp add: sample_identity_def zero_identity_def sample_tenant_def)
  have "\<exists>p w' more data. CreateKey sample_env Background ''sig'' alg_RSA 2048 KeyUsageBoth sample_identity ?w = (Panic p, w')
     \<and> w_audit w' = w_audit ?w @ more @ [(tenant_ctx Background sample_identity, data, Some sample_identity)]
     \<and> ad_Operation data = ''CREATE_KEY'' \<and> ad_Success data \<and> ad_StatusCode data = ''SUCCESS''"
    by (rule missing_slot_panics_and_is_audited_as_success [OF f])
      (simp_all add: KeyAlgorithm_IsValid_def KeyUsage_IsValid_def)
  then show ?thesis by (fastforce simp: service_world_def fresh_world_def)
qed

end
