(* ===== verification/Signing_Service.thy ===== *)
theory Signing_Service
  imports Key_Service
begin

text \<open>
  \<^verbatim>\<open>internal/application/services/signing_service.go\<close>: signing a hash, verifying a signature and reading
  a public key by the identifier of a stored key. Both signing operations run a deferred function that
  audits the call and saves a key operation whatever the outcome.
\<close>

section \<open>signing\_service.go\<close>

definition auditSimpleOperation :: "'t env \<Rightarrow> gctx \<Rightarrow> go_error option \<Rightarrow> time \<Rightarrow> string \<Rightarrow> details \<Rightarrow>
    't world \<Rightarrow> 't world" where
  "auditSimpleOperation e ctx err start operation metadata w =
     AuditOperation_call (audit_on e) ctx
       (op_audit ''signing-service'' operation ''SERVICE'' '''' metadata err
          (millis_since start (now_at e (w_tick w)))) None (w\<lparr>w_tick := Suc (w_tick w)\<rparr>)"

text \<open>The service has copies of its own of the three functions that describe an outcome.\<close>

definition Signing_getOperationStatus :: "go_error option \<Rightarrow> operation_key_status" where
  "Signing_getOperationStatus err =
     (case err of None \<Rightarrow> OperationKeyStatusSuccess | Some _ \<Rightarrow> OperationKeyStatusFailed)"

definition Signing_getResultSummary :: "go_error option \<Rightarrow> string" where
  "Signing_getResultSummary err = (case err of Some x \<Rightarrow> error_text x | None \<Rightarrow> ''Success'')"

definition Signing_getErrorDetails :: "go_error option \<Rightarrow> string" where
  "Signing_getErrorDetails err = (case err of Some x \<Rightarrow> error_text x | None \<Rightarrow> '''')"

definition signing_operation ::
  "string \<Rightarrow> identity_context \<Rightarrow> operation_key_type \<Rightarrow> go_error option \<Rightarrow> int \<Rightarrow> key_operation" where
  "signing_operation keyID i ty err d =
     \<lparr>op_ID = '''', op_KeyID = keyID, op_TenantID = id_TenantID i, op_OrganizationID = id_OrganizationID i,
      op_OperationType = ty, op_Status = Signing_getOperationStatus err, op_Level = OperationKeyLevelHigh,
      op_InitializedBy = id_UserID i, op_SessionID = 0, op_RequestID = '''', op_InputSizeBytes = 0,
      op_OutputSizeBytes = 0, op_DurationMs = d, op_ResultSummary = Signing_getResultSummary err,
      op_ErrorDetails = Signing_getErrorDetails err, op_CreatedAt = 0\<rparr>"

definition trackKeyOperation :: "'t env \<Rightarrow> go_error option \<Rightarrow> string \<Rightarrow> identity_context \<Rightarrow> operation_key_type \<Rightarrow>
    time \<Rightarrow> 't world \<Rightarrow> 't world" where
  "trackKeyOperation e err keyID i ty start w =
     snd (dropErr (Ops_Save e (signing_operation keyID i ty err (millis_since start (now_at e (w_tick w)))))
            (w\<lparr>w_tick := Suc (w_tick w)\<rparr>))"

definition auditAndTrack :: "'t env \<Rightarrow> gctx \<Rightarrow> string \<Rightarrow> identity_context \<Rightarrow> operation_key_type \<Rightarrow> time \<Rightarrow> string \<Rightarrow>
    details \<Rightarrow> go_error option \<Rightarrow> 't world \<Rightarrow> 't world" where
  "auditAndTrack e ctx keyID i ty start operation metadata err w =
     (let w1 = auditSimpleOperation e ctx err start operation metadata w
      in if track_on e then trackKeyOperation e err keyID i ty start w1 else w1)"

definition validateKeyAndGetSlot :: "'t env \<Rightarrow> gctx \<Rightarrow> string \<Rightarrow> string \<Rightarrow> key_usage \<Rightarrow>
    ('t, cryptographic_key \<times> hsm_slot) wprog" where
  "validateKeyAndGetSlot e ctx keyID tenantID requiredUsage =
     bindM (catchM (Keys_FindByIDAndTenant e keyID tenantID) (\<lambda>_.
       throw (WithDetail ''tenant_id'' (DStr tenantID) (WithDetail ''key_id'' (DStr keyID)
         (NewDomainError ErrKeyNotFound ''key not found''))))) (\<lambda>key.
     if \<not> k_IsActive key
     then throw (WithDetail ''key_id'' (DStr keyID) (NewDomainError ErrKeyInactive ''key is not active''))
     else if k_Purpose key \<noteq> requiredUsage \<and> k_Purpose key \<noteq> KeyUsageBoth
     then throw (WithDetail ''usage'' (DStr (k_Purpose key)) (WithDetail ''key_id'' (DStr keyID)
            (NewDomainError ErrInvalidKeyUsage ''key usage does not allow this operation'')))
     else bindM (tenant_slot e slotErrorMsg ctx tenantID) (\<lambda>slot. ret (key, slot)))"

definition in_slot :: "string \<Rightarrow> string \<Rightarrow> hsm_slot \<Rightarrow> go_error \<Rightarrow> go_error" where
  "in_slot what keyID slot = errorf_w (what @ '' with key '' @ keyID @ '' in slot ''
     @ dec_int (int_of_uint (sl_SlotNumber slot)) @ '': '')"

definition sign_metadata :: "string \<Rightarrow> nat \<Rightarrow> details" where
  "sign_metadata keyID inputSize =
     (''key_id'', DStr keyID) # (if 0 < inputSize then [(''hash_length'', DInt (int inputSize))] else [])"

definition sign_body :: "'t env \<Rightarrow> gctx \<Rightarrow> string \<Rightarrow> bytes \<Rightarrow> identity_context \<Rightarrow> ('t, bytes) wprog" where
  "sign_body e ctx keyID hash identity =
     bindM (validateKeyAndGetSlot e ctx keyID (id_TenantID identity) KeyUsageSigning) (\<lambda>(key, slot).
     wrapErr (in_slot ''failed to sign hash'' keyID slot)
       (Manager_SignHash e ctx (k_KeyLabel key) hash (int_of_uint (sl_SlotNumber slot)) identity))"

definition SignHash :: "'t env \<Rightarrow> gctx \<Rightarrow> string \<Rightarrow> bytes \<Rightarrow> identity_context \<Rightarrow> ('t, bytes) wprog" where
  "SignHash e ctx keyID hash identity =
     bindM (nowM e) (\<lambda>start.
     deferM (\<lambda>r. auditAndTrack e ctx keyID identity OperationKeyTypeSigning start ''SIGN''
               (sign_metadata keyID (length hash)) (outcome_error r))
       (sign_body e ctx keyID hash identity))"

text \<open>The tenant is an argument that nothing reads.\<close>

definition Signing_GetPublicKey :: "'t env \<Rightarrow> gctx \<Rightarrow> string \<Rightarrow> string \<Rightarrow> ('t, bytes) wprog" where
  "Signing_GetPublicKey e ctx keyID tenantID =
     bindM (nowM e) (\<lambda>start.
     deferM (\<lambda>r. auditSimpleOperation e ctx (outcome_error r) start ''GET_PUBLIC_KEY'' [(''key_id'', DStr keyID)])
       (bindM (wrapErr (\<lambda>_. PlainErr (code_string ErrKeyNotFound)) (Keys_FindByID e keyID)) (\<lambda>key.
        ret (k_PublicKey key))))"

definition verify_body ::
  "'t env \<Rightarrow> gctx \<Rightarrow> string \<Rightarrow> bytes \<Rightarrow> bytes \<Rightarrow> identity_context \<Rightarrow> ('t, bool) wprog" where
  "verify_body e ctx keyID hash signature identity =
     bindM (validateKeyAndGetSlot e ctx keyID (id_TenantID identity) KeyUsageSigning) (\<lambda>(key, slot).
     wrapErr (in_slot ''failed to verify signature'' keyID slot)
       (Manager_VerifySignature e ctx (k_KeyLabel key) hash signature (int_of_uint (sl_SlotNumber slot))))"

definition VerifyHashSignature ::
  "'t env \<Rightarrow> gctx \<Rightarrow> string \<Rightarrow> bytes \<Rightarrow> bytes \<Rightarrow> identity_context \<Rightarrow> ('t, bool) wprog" where
  "VerifyHashSignature e ctx keyID hash signature identity =
     bindM (nowM e) (\<lambda>start.
     deferM (\<lambda>r. auditAndTrack e ctx keyID identity OperationKeyTypeVerify start ''VERIFY_HASH_SIGNATURE''
               [(''key_id'', DStr keyID), (''hash_length'', DInt (int (length hash))),
                (''signature_length'', DInt (int (length signature))), (''is_valid'', DBool (outcome_bool r))]
               (outcome_error r))
       (verify_body e ctx keyID hash signature identity))"

section \<open>Facts\<close>

text \<open>Both services track an operation alike.\<close>

lemma signing_operation_tracked [simp]: "signing_operation = tracked_operation"
  by (intro ext) (simp add: signing_operation_def tracked_operation_def Signing_getOperationStatus_def
      Signing_getResultSummary_def Signing_getErrorDetails_def getOperationStatus_def getResultSummary_def
      getErrorDetails_def split: option.split)

lemma auditAndTrack_fields:
  "w_keys (auditAndTrack e ctx kid i ty start op1 md err w) = w_keys w"
  "w_audit (auditAndTrack e ctx kid i ty start op1 md err w) = w_audit w @
     (if audit_on e then [(ctx, op_audit ''signing-service'' op1 ''SERVICE'' '''' md err
        (millis_since start (now_at e (w_tick w))), None)] else [])"
  "w_ops (auditAndTrack e ctx kid i ty start op1 md err w) = w_ops w @
     (if track_on e \<and> db_err_at e (Suc (Suc (w_tick w))) = None
      then [tracked_operation kid i ty err (millis_since start (now_at e (Suc (w_tick w))))] else [])"
  by (auto simp: auditAndTrack_def auditSimpleOperation_def trackKeyOperation_def Let_def Ops_Save_def dropErr_def
      attempt_def bindM_def wrapErr_def catchM_def run_dbM run_basic split: option.splits)

lemma auditAndTrack_tick:
  "track_on e \<Longrightarrow> w_tick (auditAndTrack e ctx kid i ty start op1 md err w) = Suc (Suc (Suc (w_tick w)))"
  by (auto simp: auditAndTrack_def auditSimpleOperation_def trackKeyOperation_def Let_def Ops_Save_def dropErr_def
      attempt_def bindM_def wrapErr_def catchM_def run_dbM run_basic split: option.splits)

lemma validateKeyAndGetSlot_Ok:
  assumes "validateKeyAndGetSlot e ctx kid tn usage w = (Ok (key, slot), w')"
  shows "\<exists>row \<in> set (w_keys w). k_ID row = kid \<and> k_TenantID row = tn \<and> k_IsActive row
      \<and> k_Purpose row \<in> {usage, KeyUsageBoth} \<and> key = scan_by_tenant row"
    and "slot_of_tenant w tn slot"
proof -
  obtain u where find: "Keys_FindByIDAndTenant e kid tn w = (Ok key, u)"
    and active: "k_IsActive key" "k_Purpose key \<in> {usage, KeyUsageBoth}"
    and ts: "tenant_slot e slotErrorMsg ctx tn u = (Ok slot, w')"
    using assms by (auto simp: validateKeyAndGetSlot_def bindM_Ok catchM_Ok run_basic split: if_split_asm)
  have "slot_of_tenant u tn slot" using tenant_slot_Ok [OF ts] .
  then show "slot_of_tenant w tn slot"
    using unchangedD [OF frame_keys(3) find, of w_tenants] unchangedD [OF frame_keys(3) find, of w_slots]
    by (simp add: slot_of_tenant_def)
  show "\<exists>row \<in> set (w_keys w). k_ID row = kid \<and> k_TenantID row = tn \<and> k_IsActive row
      \<and> k_Purpose row \<in> {usage, KeyUsageBoth} \<and> key = scan_by_tenant row"
    using mysql_keys.find_Ok [OF find] active by (auto simp: scan_by_tenant_def)
qed

lemma frame_validateKeyAndGetSlot:
  assumes f: "secrets_frame f"
  shows "unchanged f (validateKeyAndGetSlot e ctx kid tn usage)"
  unfolding validateKeyAndGetSlot_def
  by (intro unchanged_intros frame_tenant_slot secrets_frame_D f)

lemma grows_validateKeyAndGetSlot: "within audit_grows (validateKeyAndGetSlot e ctx kid tn usage)"
  unfolding validateKeyAndGetSlot_def by (intro grows_all)

lemma SignHash_run:
  "SignHash e ctx kid d i w = (r, w') \<longleftrightarrow>
     (\<exists>u. sign_body e ctx kid d i (w\<lparr>w_tick := Suc (w_tick w)\<rparr>) = (r, u)
        \<and> w' = auditAndTrack e ctx kid i OperationKeyTypeSigning (now_at e (w_tick w)) ''SIGN''
               (sign_metadata kid (length d)) (outcome_error r) u)"
  by (auto simp: SignHash_def bindM_def run_tick deferM_iff)

lemma VerifyHashSignature_run:
  "VerifyHashSignature e ctx kid d s i w = (r, w') \<longleftrightarrow>
     (\<exists>u. verify_body e ctx kid d s i (w\<lparr>w_tick := Suc (w_tick w)\<rparr>) = (r, u)
        \<and> w' = auditAndTrack e ctx kid i OperationKeyTypeVerify (now_at e (w_tick w)) ''VERIFY_HASH_SIGNATURE''
               [(''key_id'', DStr kid), (''hash_length'', DInt (int (length d))),
                (''signature_length'', DInt (int (length s))), (''is_valid'', DBool (outcome_bool r))]
               (outcome_error r) u)"
  by (auto simp: VerifyHashSignature_def bindM_def run_tick deferM_iff)

lemma signing_bodies:
  "within audit_grows (sign_body e ctx kid d i)" "within audit_grows (verify_body e ctx kid d s i)"
  "unchanged w_keys (sign_body e ctx kid d i)" "unchanged w_keys (verify_body e ctx kid d s i)"
  "unchanged w_ops (sign_body e ctx kid d i)" "unchanged w_ops (verify_body e ctx kid d s i)"
  unfolding sign_body_def verify_body_def
  by (intro grows_all grows_validateKeyAndGetSlot unchanged_intros frame_validateKeyAndGetSlot frame_manager
      client_frame_fields secrets_frame_service service_frame_fields)+

lemma SignHash_Ok:
  assumes "SignHash e ctx kid d i w = (Ok sig, w')"
  shows "\<exists>row \<in> set (w_keys w). k_ID row = kid \<and> k_TenantID row = id_TenantID i \<and> k_IsActive row
    \<and> CanSign (k_Purpose row)
    \<and> (\<exists>slot u v. slot_of_tenant w (id_TenantID i) slot
         \<and> Manager_SignHash e ctx (k_KeyLabel row) d (int_of_uint (sl_SlotNumber slot)) i u = (Ok sig, v))"
proof -
  let ?w = "w\<lparr>w_tick := Suc (w_tick w)\<rparr>"
  obtain key slot u v where
    valid: "validateKeyAndGetSlot e ctx kid (id_TenantID i) KeyUsageSigning ?w = (Ok (key, slot), u)"
    and "Manager_SignHash e ctx (k_KeyLabel key) d (int_of_uint (sl_SlotNumber slot)) i u = (Ok sig, v)"
    using assms by (auto simp: SignHash_run sign_body_def bindM_Ok wrapErr_Ok)
  with validateKeyAndGetSlot_Ok [OF valid] show ?thesis
    by (fastforce simp: CanSign_def scan_by_tenant_def slot_of_tenant_def)
qed

lemma VerifyHashSignature_Ok:
  assumes "VerifyHashSignature e ctx kid d s i w = (Ok b, w')"
  shows "\<exists>row \<in> set (w_keys w). k_ID row = kid \<and> k_TenantID row = id_TenantID i \<and> k_IsActive row
    \<and> CanSign (k_Purpose row)
    \<and> (\<exists>slot u v. slot_of_tenant w (id_TenantID i) slot
         \<and> Manager_VerifySignature e ctx (k_KeyLabel row) d s (int_of_uint (sl_SlotNumber slot)) u = (Ok b, v))"
proof -
  let ?w = "w\<lparr>w_tick := Suc (w_tick w)\<rparr>"
  obtain key slot u v where
    valid: "validateKeyAndGetSlot e ctx kid (id_TenantID i) KeyUsageSigning ?w = (Ok (key, slot), u)"
    and "Manager_VerifySignature e ctx (k_KeyLabel key) d s (int_of_uint (sl_SlotNumber slot)) u = (Ok b, v)"
    using assms by (auto simp: VerifyHashSignature_run verify_body_def bindM_Ok wrapErr_Ok)
  with validateKeyAndGetSlot_Ok [OF valid] show ?thesis
    by (fastforce simp: CanSign_def scan_by_tenant_def slot_of_tenant_def)
qed

subsection \<open>A key that can be used\<close>

lemma tenant_slot_total:
  assumes "slot_of_tenant w tn slot" and db: "\<And>k. db_err_at e k = None"
  shows "\<exists>u. tenant_slot e msg ctx tn w = (Ok slot, u)"
proof -
  obtain t sid r where t: "List.find (\<lambda>t. tn_ID t = tn) (w_tenants w) = Some t" "tn_HSMSlotID t = Some sid"
    and r: "List.find (\<lambda>r. sl_ID (row_slot r) = sid) (w_slots w) = Some r" "scan_slot r = Inr slot"
    using assms(1) unfolding slot_of_tenant_def by blast
  have "Tenants_FindByID e tn (w\<lparr>w_tick := Suc (w_tick w)\<rparr>) =
      (Ok (t\<lparr>tn_Config := []\<rparr>), w\<lparr>w_tick := Suc (Suc (w_tick w))\<rparr>)"
    using t db by (simp add: Tenants_FindByID_Ok)
  then have "\<exists>u. getTenantWithAudit e ctx tn w = (Ok (t\<lparr>tn_Config := []\<rparr>), u)"
    by (simp add: getTenantWithAudit_def audited_run)
  then obtain u where u: "getTenantWithAudit e ctx tn w = (Ok (t\<lparr>tn_Config := []\<rparr>), u)" by blast
  have "w_slots u = w_slots w" using unchangedD [OF frame_tenant_slot(1) u, of w_slots] by simp
  then have "Slots_GetSlotByID e sid (u\<lparr>w_tick := Suc (w_tick u)\<rparr>) = (Ok slot, u\<lparr>w_tick := Suc (Suc (w_tick u))\<rparr>)"
    using r db by (simp add: Slots_GetSlotByID_Ok)
  then have "\<exists>v. getSlotWithAudit e ctx sid u = (Ok slot, v)"
    by (simp add: getSlotWithAudit_def audited_run)
  then show ?thesis using u t(2) by (auto simp: tenant_slot_def derefSlotID_def bindM_def catchM_def run_basic)
qed

lemma validateKeyAndGetSlot_total:
  assumes "List.find (\<lambda>r. k_ID r = kid \<and> k_TenantID r = tn) (w_keys w) = Some row" and "k_IsActive row"
    and "k_Purpose row \<in> {usage, KeyUsageBoth}" and "slot_of_tenant w tn slot" and db: "\<And>k. db_err_at e k = None"
  shows "\<exists>u. validateKeyAndGetSlot e ctx kid tn usage w = (Ok (scan_by_tenant row, slot), u)"
proof -
  have find: "Keys_FindByIDAndTenant e kid tn w = (Ok (scan_by_tenant row), w\<lparr>w_tick := Suc (w_tick w)\<rparr>)"
    using assms(1) db by (simp add: Keys_FindByIDAndTenant_Ok)
  have "slot_of_tenant (w\<lparr>w_tick := Suc (w_tick w)\<rparr>) tn slot" using assms(4) by (simp add: slot_of_tenant_def)
  from tenant_slot_total [OF this db]
  obtain u where "tenant_slot e slotErrorMsg ctx tn (w\<lparr>w_tick := Suc (w_tick w)\<rparr>) = (Ok slot, u)" by blast
  then show ?thesis
    using find assms(2,3) by (auto simp: validateKeyAndGetSlot_def bindM_def catchM_def run_basic scan_by_tenant_def)
qed

text \<open>With the row, the slot and its client in place, signing is the client's signing, over the token as it is.\<close>

lemma SignHash_reaches_client:
  assumes "List.find (\<lambda>r. k_ID r = kid \<and> k_TenantID r = id_TenantID i) (w_keys w) = Some row" and "k_IsActive row"
    and "CanSign (k_Purpose row)" and "slot_of_tenant w (id_TenantID i) slot" and db: "\<And>k. db_err_at e k = None"
    and "map_of (w_clients w) (int_of_uint (sl_SlotNumber slot)) = Some c"
  shows "\<exists>u. w_tok u = w_tok w \<and> fst (SignHash e ctx kid d i w) =
      fst (wrapErr (in_slot ''failed to sign hash'' kid slot) (Client_SignHash e c ctx (k_KeyLabel row) d i) u)"
proof -
  let ?w = "w\<lparr>w_tick := Suc (w_tick w)\<rparr>"
  have "k_Purpose row \<in> {KeyUsageSigning, KeyUsageBoth}" using assms(3) by (auto simp: CanSign_def)
  moreover have "slot_of_tenant ?w (id_TenantID i) slot" using assms(4) by (simp add: slot_of_tenant_def)
  ultimately obtain u where
    u: "validateKeyAndGetSlot e ctx kid (id_TenantID i) KeyUsageSigning ?w = (Ok (scan_by_tenant row, slot), u)"
    using validateKeyAndGetSlot_total [of kid "id_TenantID i" ?w row KeyUsageSigning slot e ctx] assms(1,2) db by auto
  have "w_tok u = w_tok w" "w_clients u = w_clients w"
    using unchangedD [OF frame_validateKeyAndGetSlot u, of w_tok] unchangedD [OF frame_validateKeyAndGetSlot u, of w_clients]
    by auto
  moreover have "fst (SignHash e ctx kid d i w) = fst (sign_body e ctx kid d i ?w)"
    by (simp add: SignHash_def bindM_def run_tick deferM_def split: prod.split)
  ultimately show ?thesis
    using u assms(6) by (intro exI [of _ u])
      (simp add: sign_body_def bindM_def wrapErr_def catchM_def Manager_SignHash_def GetClientForSlot_eq scan_by_tenant_def)
qed

lemma auditAndTrack_token: "w_tok (auditAndTrack e ctx kid i ty start op1 md err w) = w_tok w"
  by (auto simp: auditAndTrack_def auditSimpleOperation_def trackKeyOperation_def Let_def Ops_Save_def dropErr_def
      attempt_def bindM_def wrapErr_def catchM_def run_dbM run_basic split: option.splits)

text \<open>A refusal of the checks is the result, and the token is not asked.\<close>

lemma SignHash_refused:
  assumes "validateKeyAndGetSlot e ctx kid (id_TenantID i) KeyUsageSigning (w\<lparr>w_tick := Suc (w_tick w)\<rparr>) = (Err err, u)"
  shows "fst (SignHash e ctx kid d i w) = Err err \<and> w_tok (snd (SignHash e ctx kid d i w)) = w_tok w"
proof -
  have "w_tok u = w_tok w" using unchangedD [OF frame_validateKeyAndGetSlot assms, of w_tok] by simp
  moreover have "sign_body e ctx kid d i (w\<lparr>w_tick := Suc (w_tick w)\<rparr>) = (Err err, u)"
    using assms by (simp add: sign_body_def bindM_def)
  ultimately show ?thesis
    by (auto simp: SignHash_def bindM_def run_tick deferM_def auditAndTrack_token)
qed

lemma validateKeyAndGetSlot_missing:
  assumes "List.find (\<lambda>r. k_ID r = kid \<and> k_TenantID r = tn) (w_keys w) = None" and "\<And>k. db_err_at e k = None"
  shows "\<exists>u. validateKeyAndGetSlot e ctx kid tn usage w = (Err (WithDetail ''tenant_id'' (DStr tn)
      (WithDetail ''key_id'' (DStr kid) (NewDomainError ErrKeyNotFound ''key not found''))), u)"
  using assms
  by (simp add: validateKeyAndGetSlot_def Keys_FindByIDAndTenant_def queryRowM_def queryM_def bindM_def catchM_def
      wrapErr_def run_dbM run_basic)

lemma validateKeyAndGetSlot_unusable:
  assumes "List.find (\<lambda>r. k_ID r = kid \<and> k_TenantID r = tn) (w_keys w) = Some row" and "k_IsActive row"
    and "k_Purpose row \<notin> {usage, KeyUsageBoth}" and "\<And>k. db_err_at e k = None"
  shows "\<exists>u. validateKeyAndGetSlot e ctx kid tn usage w = (Err (WithDetail ''usage'' (DStr (k_Purpose row))
      (WithDetail ''key_id'' (DStr kid) (NewDomainError ErrInvalidKeyUsage ''key usage does not allow this operation''))), u)"
proof -
  have "Keys_FindByIDAndTenant e kid tn w = (Ok (scan_by_tenant row), w\<lparr>w_tick := Suc (w_tick w)\<rparr>)"
    using assms(1,4) by (simp add: Keys_FindByIDAndTenant_Ok)
  then show ?thesis using assms(2,3)
    by (auto simp: validateKeyAndGetSlot_def bindM_def catchM_def run_basic scan_by_tenant_def)
qed

lemma generateAndSaveKey_token:
  assumes "generateAndSaveKey e ctx c slot w = (Ok k, w')"
  shows "\<exists>u v. Manager_GenerateKeyPair e ctx (cc_algorithm c) (cc_size c) (k_KeyLabel k)
        (int_of_uint (sl_SlotNumber slot)) u = (Ok (k_PublicKey k, k_KeyHandle k), v)
      \<and> w_clients u = w_clients w \<and> w_tok w' = w_tok v"
proof -
  let ?n = "int_of_uint (sl_SlotNumber slot)"
  obtain u v pk kh kid now x where
    gen: "Manager_GenerateKeyPair e ctx (cc_algorithm c) (cc_size c) (key_label c u) ?n
        (w\<lparr>w_tick := Suc (w_tick w)\<rparr>) = (Ok (pk, kh), v)"
    and save: "validateAndSave e ctx ?n kh (new_key c slot kid (key_label c u) pk kh now) (v\<lparr>w_tick := x\<rparr>)
        = (Ok k, w')"
    using assms by (auto simp: generateAndSaveKey_def Let_def bindM_Ok wrapErr_Ok run_tick)
  have "k = new_key c slot kid (key_label c u) pk kh now" "w_tok w' = w_tok v"
    using save by (auto simp: validateAndSave_def run_simps Keys_Save_Ok)
  then show ?thesis using gen
    by (intro exI [of _ "w\<lparr>w_tick := Suc (w_tick w)\<rparr>"] exI [of _ v]) (simp add: new_key_def)
qed

lemma track_token: "w_tok (auditAndTrackKeyCreation e ctx c slot r w) = w_tok w"
  by (auto simp: auditAndTrackKeyCreation_def Let_def Ops_Save_def dropErr_def attempt_def bindM_def
      wrapErr_def catchM_def run_dbM run_basic split: outcome.splits option.splits)

lemma CreateKey_generated:
  assumes create: "CreateKey e ctx name alg n usage i w = (Ok k, w')"
  shows "\<exists>slot c v v'. slot_of_tenant w' (id_TenantID i) slot
    \<and> map_of (w_clients w') (int_of_uint (sl_SlotNumber slot)) = Some c
    \<and> Manager_GenerateKeyPair e (tenant_ctx ctx i) alg n (k_KeyLabel k) (int_of_uint (sl_SlotNumber slot)) v =
        (Ok (k_PublicKey k, k_KeyHandle k), v')
    \<and> w_tok w' = w_tok v'"
  using create
proof (cases rule: CreateKey_cases)
  case (slot slot u v)
  let ?n = "int_of_uint (sl_SlotNumber slot)"
  obtain x y where gen: "Manager_GenerateKeyPair e (tenant_ctx ctx i) alg n (k_KeyLabel k) ?n x =
      (Ok (k_PublicKey k, k_KeyHandle k), y)" and x: "w_clients x = w_clients u" "w_tok v = w_tok y"
    using generateAndSaveKey_token [OF slot(4)] by auto
  have "w_clients v = w_clients u" "w_tenants v = w_tenants w" "w_slots v = w_slots w"
    using unchangedD [OF frame_generateAndSaveKey slot(4), of w_clients]
      unchangedD [OF frame_generateAndSaveKey slot(4), of w_tenants] unchangedD [OF frame_tenant_slot(4) slot(3), of w_tenants]
      unchangedD [OF frame_generateAndSaveKey slot(4), of w_slots] unchangedD [OF frame_tenant_slot(4) slot(3), of w_slots]
    by auto
  then have w': "w_clients w' = w_clients u" "w_tenants w' = w_tenants w" "w_slots w' = w_slots w" "w_tok w' = w_tok y"
    by (simp_all add: slot(5) track_fields track_token x(2))
  obtain c where "map_of (w_clients w') ?n = Some c"
    using Manager_GenerateKeyPair_Ok [OF gen] x(1) w'(1) by auto
  moreover have "slot_of_tenant w' (id_TenantID i) slot"
    using tenant_slot_Ok [OF slot(3)] w' by (simp add: slot_of_tenant_def)
  ultimately show ?thesis using gen w'(4) by blast
next
  case (refused u)
  then show ?thesis using refused(1) [of k] by simp
qed

lemma SignHash_rows: "SignHash e ctx kid d i w = (r, w') \<Longrightarrow> w_keys w' = w_keys w"
  using unchangedD [OF signing_bodies(3)] by (fastforce simp: SignHash_run auditAndTrack_fields)

section \<open>Properties\<close>

text \<open>
  C1. A signature is only ever returned for a stored key of the caller's own tenant that is active and whose
  purpose is signing or both; it is what the HSM client of the tenant's slot returned for that key's label.
  The same holds of a verdict of \<^verbatim>\<open>VerifyHashSignature\<close>.
\<close>

theorem signing_needs_an_active_signing_key_of_the_tenant:
  "(SignHash e ctx kid d i w = (Ok sig, w') \<longrightarrow>
      (\<exists>row \<in> set (w_keys w). k_ID row = kid \<and> k_TenantID row = id_TenantID i \<and> k_IsActive row
        \<and> CanSign (k_Purpose row)
        \<and> (\<exists>slot u v. slot_of_tenant w (id_TenantID i) slot
             \<and> Manager_SignHash e ctx (k_KeyLabel row) d (int_of_uint (sl_SlotNumber slot)) i u = (Ok sig, v))))
   \<and> (VerifyHashSignature e ctx kid d s i w = (Ok b, w') \<longrightarrow>
      (\<exists>row \<in> set (w_keys w). k_ID row = kid \<and> k_TenantID row = id_TenantID i \<and> k_IsActive row
        \<and> CanSign (k_Purpose row)
        \<and> (\<exists>slot u v. slot_of_tenant w (id_TenantID i) slot
             \<and> Manager_VerifySignature e ctx (k_KeyLabel row) d s (int_of_uint (sl_SlotNumber slot)) u = (Ok b, v))))"
  by (intro conjI impI SignHash_Ok VerifyHashSignature_Ok)

lemma sample_sign:
  assumes "id_TenantID i = ''T''"
  shows "\<exists>w'. SignHash sample_env ctx ''k1'' [1, 2] i (keyed_world\<lparr>w_tick := n\<rparr>) = (Ok [0x5A, 1, 2], w')"
  by (simp add: assms SignHash_run sign_body_def validateKeyAndGetSlot_def Keys_FindByIDAndTenant_def Manager_SignHash_def
      Client_SignHash_def keyed_world_def stored_key_def zero_key_def scan_by_tenant_def service_run)

lemma sample_sign_run:
  "\<exists>w'. SignHash sample_env Background ''k1'' [1, 2] sample_identity keyed_world = (Ok [0x5A, 1, 2], w')"
  using sample_sign [of sample_identity Background 0]
  by (simp add: sample_identity_def zero_identity_def keyed_world_def service_world_def fresh_world_def)

theorem signing_needs_an_active_signing_key_of_the_tenant_witness:
  "(\<exists>w'. SignHash sample_env Background ''k1'' [1, 2] sample_identity keyed_world = (Ok [0x5A, 1, 2], w'))
   \<and> (\<exists>row \<in> set (w_keys keyed_world). k_ID row = ''k1'' \<and> CanSign (k_Purpose row))"
proof -
  obtain w' where run: "SignHash sample_env Background ''k1'' [1, 2] sample_identity keyed_world = (Ok [0x5A, 1, 2], w')"
    using sample_sign_run by blast
  then show ?thesis
    using signing_needs_an_active_signing_key_of_the_tenant [of sample_env Background "''k1''" "[1, 2]" sample_identity
        keyed_world "[0x5A, 1, 2]" w' "[]" True] by blast
qed

text \<open>
  C7. What \<^verbatim>\<open>CreateKey\<close> has made can be used for what it was made for, by its tenant: while the database
  answers, a call of \<^verbatim>\<open>SignHash\<close> for the new key is refused as not found for an identity of any other tenant,
  refused for its usage where the key was not made for signing, both without a look at the token, and otherwise
  passes every check and gives what the client of the tenant's slot answers for the label under which that slot
  generated the pair, over the token as the generation left it.
\<close>

theorem created_key_signs:
  assumes create: "CreateKey e ctx name alg n usage i w = (Ok k, w')"
    and db: "\<And>x. db_err_at e x = None" and unique: "db_unique e \<noteq> None"
  shows "if id_TenantID j \<noteq> id_TenantID i
    then fst (SignHash e ctx' (k_ID k) d j w') = Err (WithDetail ''tenant_id'' (DStr (id_TenantID j))
        (WithDetail ''key_id'' (DStr (k_ID k)) (NewDomainError ErrKeyNotFound ''key not found'')))
      \<and> w_tok (snd (SignHash e ctx' (k_ID k) d j w')) = w_tok w'
    else if usage \<notin> {KeyUsageSigning, KeyUsageBoth}
    then fst (SignHash e ctx' (k_ID k) d j w') = Err (WithDetail ''usage'' (DStr usage) (WithDetail ''key_id'' (DStr (k_ID k))
        (NewDomainError ErrInvalidKeyUsage ''key usage does not allow this operation'')))
      \<and> w_tok (snd (SignHash e ctx' (k_ID k) d j w')) = w_tok w'
    else \<exists>slot c u v v'. slot_of_tenant w' (id_TenantID i) slot
      \<and> map_of (w_clients w') (int_of_uint (sl_SlotNumber slot)) = Some c
      \<and> Manager_GenerateKeyPair e (tenant_ctx ctx i) alg n (k_KeyLabel k) (int_of_uint (sl_SlotNumber slot)) v =
          (Ok (k_PublicKey k, k_KeyHandle k), v')
      \<and> w_tok u = w_tok v'
      \<and> fst (SignHash e ctx' (k_ID k) d j w') =
          fst (wrapErr (in_slot ''failed to sign hash'' (k_ID k) slot) (Client_SignHash e c ctx' (k_KeyLabel k) d j) u)"
proof -
  let ?w = "w'\<lparr>w_tick := Suc (w_tick w')\<rparr>"
  obtain slot c v v' where slot: "slot_of_tenant w' (id_TenantID i) slot"
    and c: "map_of (w_clients w') (int_of_uint (sl_SlotNumber slot)) = Some c"
    and gen: "Manager_GenerateKeyPair e (tenant_ctx ctx i) alg n (k_KeyLabel k) (int_of_uint (sl_SlotNumber slot)) v =
        (Ok (k_PublicKey k, k_KeyHandle k), v')" and tok: "w_tok w' = w_tok v'"
    using CreateKey_generated [OF create] by blast
  obtain r where rows: "w_keys w' = w_keys w @ [r]" "stored_as r k" "k_ID k \<notin> k_ID ` set (w_keys w)"
    and k: "k_TenantID k = id_TenantID i" "k_IsActive k" "k_Purpose k = usage"
    using CreateKey_Ok [OF create] unique by (auto simp: new_key_def)
  have old: "List.find (\<lambda>r. k_ID r = k_ID k \<and> k_TenantID r = tn) (w_keys w) = None" for tn
    unfolding find_None_iff using rows(3) by (metis image_eqI)
  have found: "List.find (\<lambda>r. k_ID r = k_ID k \<and> k_TenantID r = tn) (w_keys w') = (if tn = id_TenantID i then Some r else None)" for tn
    using rows k(1) old by (simp add: stored_as_def find_append)
  show ?thesis
  proof (cases "id_TenantID j = id_TenantID i")
    case False
    then show ?thesis
      using validateKeyAndGetSlot_missing [of "k_ID k" "id_TenantID j" ?w e ctx' KeyUsageSigning] found db
        SignHash_refused [of e ctx' "k_ID k" j w'] by auto
  next
    case same: True
    show ?thesis
    proof (cases "usage \<in> {KeyUsageSigning, KeyUsageBoth}")
      case False
      then show ?thesis
        using validateKeyAndGetSlot_unusable [of "k_ID k" "id_TenantID j" ?w r KeyUsageSigning e ctx'] found db same rows(2) k
          SignHash_refused [of e ctx' "k_ID k" j w'] by (auto simp: stored_as_def)
    next
      case True
      then obtain u where "w_tok u = w_tok w'" and "fst (SignHash e ctx' (k_ID k) d j w') =
          fst (wrapErr (in_slot ''failed to sign hash'' (k_ID k) slot) (Client_SignHash e c ctx' (k_KeyLabel k) d j) u)"
        using SignHash_reaches_client [of "k_ID k" j w' r slot e c ctx' d] found rows(2) k slot c same db
        by (auto simp: stored_as_def CanSign_def)
      then have "\<exists>slot c u v v'. slot_of_tenant w' (id_TenantID i) slot
        \<and> map_of (w_clients w') (int_of_uint (sl_SlotNumber slot)) = Some c
        \<and> Manager_GenerateKeyPair e (tenant_ctx ctx i) alg n (k_KeyLabel k) (int_of_uint (sl_SlotNumber slot)) v =
            (Ok (k_PublicKey k, k_KeyHandle k), v')
        \<and> w_tok u = w_tok v'
        \<and> fst (SignHash e ctx' (k_ID k) d j w') =
            fst (wrapErr (in_slot ''failed to sign hash'' (k_ID k) slot) (Client_SignHash e c ctx' (k_KeyLabel k) d j) u)"
        using slot c gen tok by (intro exI [of _ slot] exI [of _ c] exI [of _ u] exI [of _ v] exI [of _ v']) simp
      then show ?thesis using same True by simp
    qed
  qed
qed

theorem created_key_signs_witness:
  "\<exists>k w' slot c u. CreateKey sample_env Background ''sig'' alg_RSA 2048 KeyUsageSigning sample_identity service_world = (Ok k, w')
     \<and> fst (SignHash sample_env Background (k_ID k) [1, 2] sample_identity w') =
         fst (wrapErr (in_slot ''failed to sign hash'' (k_ID k) slot)
           (Client_SignHash sample_env c Background (k_KeyLabel k) [1, 2] sample_identity) u)
     \<and> fst (SignHash sample_env Background (k_ID k) [1, 2] (sample_identity\<lparr>id_TenantID := ''U''\<rparr>) w') =
         Err (WithDetail ''tenant_id'' (DStr ''U'') (WithDetail ''key_id'' (DStr (k_ID k)) (NewDomainError ErrKeyNotFound ''key not found'')))"
proof -
  obtain k w' where run: "CreateKey sample_env Background ''sig'' alg_RSA 2048 KeyUsageSigning sample_identity
      service_world = (Ok k, w')" using sample_create_run by blast
  have env: "\<And>x. db_err_at sample_env x = None" "db_unique sample_env \<noteq> None" by (simp_all add: sample_env_def)
  have "id_TenantID sample_identity \<noteq> ''U''" by (simp add: sample_identity_def)
  then have "fst (SignHash sample_env Background (k_ID k) [1, 2] (sample_identity\<lparr>id_TenantID := ''U''\<rparr>) w') =
         Err (WithDetail ''tenant_id'' (DStr ''U'') (WithDetail ''key_id'' (DStr (k_ID k)) (NewDomainError ErrKeyNotFound ''key not found'')))"
    using created_key_signs [OF run env, of "sample_identity\<lparr>id_TenantID := ''U''\<rparr>" Background "[1, 2]"] by simp
  moreover obtain slot c u where "fst (SignHash sample_env Background (k_ID k) [1, 2] sample_identity w') =
         fst (wrapErr (in_slot ''failed to sign hash'' (k_ID k) slot)
           (Client_SignHash sample_env c Background (k_KeyLabel k) [1, 2] sample_identity) u)"
    using created_key_signs [OF run env, of sample_identity Background "[1, 2]"] by auto
  ultimately show ?thesis using run by blast
qed

text \<open>
  C20. Every call of \<^verbatim>\<open>SignHash\<close> and of \<^verbatim>\<open>VerifyHashSignature\<close>, whatever its outcome and whatever fails, is
  audited with its error's code as its last event, and ends with the attempt to save one key operation, of its key
  and tenant, that says success exactly when there was no error: the row is there unless that last call of the
  database failed, and a call never adds another. The table of keys is never changed.
\<close>

theorem every_signing_call_is_audited_and_tracked:
  assumes "SignHash e ctx kid d i w = (r, w') \<and> err = outcome_error r \<and> ty = OperationKeyTypeSigning
     \<or> VerifyHashSignature e ctx kid d s i w = (q, w') \<and> err = outcome_error q \<and> ty = OperationKeyTypeVerify"
    and "audit_on e" and "track_on e"
  shows "w_keys w' = w_keys w
    \<and> (\<exists>more data. w_audit w' = w_audit w @ more @ [(ctx, data, None)]
         \<and> ad_Success data = (err = None) \<and> ad_StatusCode data = GetCode err)
    \<and> (\<exists>op1. w_ops w' = w_ops w @ (if db_err_at e (w_tick w' - 1) = None then [op1] else []) \<and> op_KeyID op1 = kid
         \<and> op_TenantID op1 = id_TenantID i \<and> op_OperationType op1 = ty
         \<and> (op_Status op1 = OperationKeyStatusSuccess \<longleftrightarrow> err = None))"
proof -
  have finish: "?thesis" if u: "m (w\<lparr>w_tick := Suc (w_tick w)\<rparr>) = (x, u)"
    and w': "w' = auditAndTrack e ctx kid i ty start op1 md err u"
    and grow: "within audit_grows m" and keep: "unchanged w_keys m" "unchanged w_ops m"
    for m :: "('a, 'z) wprog" and x u start op1 md
  proof (intro conjI)
    show "w_keys w' = w_keys w" using unchangedD [OF keep(1) u] by (simp add: w' auditAndTrack_fields)
    show "\<exists>more data. w_audit w' = w_audit w @ more @ [(ctx, data, None)]
         \<and> ad_Success data = (err = None) \<and> ad_StatusCode data = GetCode err"
      using withinD [OF grow u] assms(2) by (auto simp: w' auditAndTrack_fields audit_grows_def)
    let ?op = "tracked_operation kid i ty err (millis_since start (now_at e (Suc (w_tick u))))"
    show "\<exists>op1. w_ops w' = w_ops w @ (if db_err_at e (w_tick w' - 1) = None then [op1] else []) \<and> op_KeyID op1 = kid
         \<and> op_TenantID op1 = id_TenantID i \<and> op_OperationType op1 = ty
         \<and> (op_Status op1 = OperationKeyStatusSuccess \<longleftrightarrow> err = None)"
      using unchangedD [OF keep(2) u] assms(3)
      by (intro exI [of _ ?op])
        (auto simp: w' auditAndTrack_fields auditAndTrack_tick tracked_operation_def getOperationStatus_def split: option.split)
  qed
  show ?thesis
    using assms(1)
  proof (elim disjE conjE)
    assume "SignHash e ctx kid d i w = (r, w')" and o: "err = outcome_error r" "ty = OperationKeyTypeSigning"
    then obtain u where u: "sign_body e ctx kid d i (w\<lparr>w_tick := Suc (w_tick w)\<rparr>) = (r, u)"
      and w': "w' = auditAndTrack e ctx kid i ty (now_at e (w_tick w)) ''SIGN''
        (sign_metadata kid (length d)) err u" by (auto simp: SignHash_run)
    show ?thesis by (rule finish [where m = "sign_body e ctx kid d i", OF u w']) (rule signing_bodies)+
  next
    assume "VerifyHashSignature e ctx kid d s i w = (q, w')" and o: "err = outcome_error q" "ty = OperationKeyTypeVerify"
    then obtain u md where u: "verify_body e ctx kid d s i (w\<lparr>w_tick := Suc (w_tick w)\<rparr>) = (q, u)"
      and w': "w' = auditAndTrack e ctx kid i ty (now_at e (w_tick w)) ''VERIFY_HASH_SIGNATURE'' md err u"
      by (auto simp: VerifyHashSignature_run)
    show ?thesis by (rule finish [where m = "verify_body e ctx kid d s i", OF u w']) (rule signing_bodies)+
  qed
qed

text \<open>Once with a database that works, and once with one that is down: the failure is audited, and not tracked.\<close>

theorem every_signing_call_is_audited_and_tracked_witness:
  "\<exists>w' op1 err w'' more data. SignHash sample_env Background ''k1'' [1, 2] sample_identity keyed_world = (Ok [0x5A, 1, 2], w')
     \<and> w_ops w' = [op1] \<and> op_Status op1 = OperationKeyStatusSuccess
     \<and> SignHash (sample_env\<lparr>db_err_at := \<lambda>_. Some ''down''\<rparr>) Background ''k1'' [1, 2] sample_identity keyed_world = (Err err, w'')
     \<and> w_ops w'' = [] \<and> w_audit w'' = more @ [(Background, data, None)] \<and> \<not> ad_Success data"
proof -
  let ?e = "sample_env\<lparr>db_err_at := \<lambda>_. Some ''down''\<rparr>"
  have on: "audit_on sample_env" "track_on sample_env" "audit_on ?e" "track_on ?e" by (simp_all add: sample_env_def)
  have empty: "w_ops keyed_world = []" "w_audit keyed_world = []"
    by (simp_all add: keyed_world_def service_world_def fresh_world_def)
  have claim: "SignHash e Background ''k1'' [1, 2] sample_identity keyed_world = (r, w')
      \<and> outcome_error r = outcome_error r \<and> OperationKeyTypeSigning = OperationKeyTypeSigning
    \<or> VerifyHashSignature e Background ''k1'' [1, 2] [] sample_identity keyed_world = (Ok True, w')
      \<and> outcome_error r = outcome_error (Ok True :: (go_error, bool) outcome) \<and> OperationKeyTypeSigning = OperationKeyTypeVerify"
    if "SignHash e Background ''k1'' [1, 2] sample_identity keyed_world = (r, w')" for e r w'
    using that by simp
  obtain w' where run: "SignHash sample_env Background ''k1'' [1, 2] sample_identity keyed_world = (Ok [0x5A, 1, 2], w')"
    using sample_sign_run by blast
  obtain err w'' where down: "SignHash ?e Background ''k1'' [1, 2] sample_identity keyed_world = (Err err, w'')"
  proof -
    have "\<exists>err u. validateKeyAndGetSlot ?e Background ''k1'' (id_TenantID sample_identity) KeyUsageSigning
        (keyed_world\<lparr>w_tick := Suc (w_tick keyed_world)\<rparr>) = (Err err, u)"
      by (simp add: validateKeyAndGetSlot_def Keys_FindByIDAndTenant_def queryRowM_def queryM_def bindM_def catchM_def
          wrapErr_def run_dbM run_basic)
    then show ?thesis using that SignHash_refused by (metis prod.collapse)
  qed
  obtain op1 where op1: "w_ops w' = [op1]" "op_Status op1 = OperationKeyStatusSuccess"
    using every_signing_call_is_audited_and_tracked [OF claim [OF run] on(1,2)] empty by (auto simp: sample_env_def)
  obtain more data where "w_ops w'' = []" "w_audit w'' = more @ [(Background, data, None)]" "\<not> ad_Success data"
    using every_signing_call_is_audited_and_tracked [OF claim [OF down] on(3,4)] empty by auto
  then show ?thesis using run op1 down by (intro exI conjI) assumption+
qed

end
