(* ===== verification/Http.thy ===== *)
theory Http
  imports Jwt Request Slot_Service Signing_Service
begin

text \<open>
  \<^verbatim>\<open>internal/interfaces/http\<close>: the middlewares, the handlers and the routes. A handler is a program over the
  state that reads what gin hands it (the request, the path's parameters, the keys set so far) and gives the
  response, which every handler of the code writes last; a middleware takes the rest of the chain as an argument.

  What gin and its validator do is a parameter: which route a path takes, and the binding of a JSON body to a
  request (\<open>http_deps\<close>). \<^verbatim>\<open>gin.Recovery\<close> is documented to answer a panic with status 500 and no body. JSON
  encoding and logging are left out: a body is the value that is encoded.
\<close>

section \<open>Requests and responses\<close>

datatype gin_val = GIdent identity_context | GSession session | GStr string | GOptStr "string option" | GDuration int

record gin_ctx =
  gc_request :: http_request
  gc_body :: string
  gc_params :: "(string \<times> string) list"
  gc_keys :: "(string \<times> gin_val) list"

datatype jval =
  JStr string | JInt int | JBool bool | JBytes bytes | JTime time | JDetails details | JUints "u64 list"
| JStrings "(string \<times> string) list"

datatype response_body = NoBody | Obj "(string \<times> jval) list" | KeyList "cryptographic_key list"

type_synonym response = "nat \<times> response_body"

type_synonym ('t, 'k) handler = "gin_ctx \<Rightarrow> ('t, 'k, response) app_prog"

definition gin_set :: "string \<Rightarrow> gin_val \<Rightarrow> gin_ctx \<Rightarrow> gin_ctx" where
  "gin_set k v c = c\<lparr>gc_keys := AList.update k v (gc_keys c)\<rparr>"

definition gin_param :: "gin_ctx \<Rightarrow> string \<Rightarrow> string" where
  "gin_param c k = (case map_of (gc_params c) k of Some v \<Rightarrow> v | None \<Rightarrow> '''')"

definition gin_header :: "gin_ctx \<Rightarrow> string \<Rightarrow> string" where
  "gin_header c k = header_get (rq_Header (gc_request c)) k"

record create_key_request =
  cr_Name :: string
  cr_Algorithm :: string
  cr_KeySize :: int
  cr_Usage :: string

record sign_hash_request =
  sr_KeyID :: string
  sr_Hash :: string

record verify_signature_request =
  vr_KeyID :: string
  vr_Hash :: string
  vr_Signature :: string

text \<open>What the handlers are made with, the bindings of \<^verbatim>\<open>ShouldBindJSON\<close>, which fail with a text, and the text that
  \<^verbatim>\<open>encoding/base64\<close> reports for a string it refuses; and whether there is an HSM manager.\<close>

record ('t, 'k) http_deps =
  dp_env :: "'t env"
  dp_io :: "'k auth_io"
  dp_auth :: auth_config
  dp_parse :: "('t, 'k) jwt_parser"
  dp_validator :: validator
  dp_km :: aes_strategy
  dp_exec :: "string list \<Rightarrow> ('t, unit) ck_call"
  dp_bind_create :: "string \<Rightarrow> string + create_key_request"
  dp_bind_sign :: "string \<Rightarrow> string + sign_hash_request"
  dp_base64_error :: "string \<Rightarrow> string"
  dp_bind_verify :: "string \<Rightarrow> string + verify_signature_request"
  dp_hsm :: bool

section \<open>base_handler.go\<close>

definition mapDomainErrorToHTTP :: "error_code \<Rightarrow> nat" where
  "mapDomainErrorToHTTP code =
     (let is = (\<lambda>codes. code_string code \<in> set (map code_string codes)) in
      if is [ErrInvalidKeyName, ErrInvalidAlgorithm, ErrInvalidKeySize, ErrInvalidKeyUsage, ErrInvalidTenant, ErrInvalidInput]
      then 400
      else if is [ErrKeyNotFound, ErrTenantNotFound] then 404
      else if is [ErrKeyInactive] then 409
      else if is [ErrHSMOperationFailed] then 503
      else if is [ErrInvalidToken, ErrSessionExpired] then 401
      else if is [ErrSessionNotFound] then 404
      else 500)"

text \<open>The details of a predefined error are those its shared value has by now.\<close>

definition HandleError :: "go_error \<Rightarrow> ('t, 'k, response) app_prog" where
  "HandleError err =
     (case as_domain_error err of
        Some (code, message, details) \<Rightarrow>
          bindM (getsM (\<lambda>s. case details of Some d \<Rightarrow> d | None \<Rightarrow> w_errs (app_world s) code)) (\<lambda>d.
          ret (mapDomainErrorToHTTP code,
            Obj ([(''error'', JStr (code_string code)), (''message'', JStr message)]
                 @ (if d = [] then [] else [(''details'', JDetails d)]))))
      | None \<Rightarrow>
          ret (500, Obj [(''error'', JStr ''INTERNAL_ERROR''), (''message'', JStr ''An internal error occurred''),
                         (''details'', JDetails [(''original_error'', DStr (error_text err))])]))"

text \<open>The validator's errors, each a field, a tag and its parameter; a later one of a field replaces an earlier.\<close>

definition validation_message :: "string \<Rightarrow> string \<Rightarrow> string" where
  "validation_message tag param =
     (if tag = ''required'' then ''field is required''
      else if tag = ''oneof'' then ''value must be one of: '' @ param
      else if tag = ''min'' then ''value must be at least '' @ param
      else if tag = ''max'' then ''value must be at most '' @ param
      else if tag = ''uuid'' then ''value must be a valid UUID''
      else if tag = ''base64'' then ''value must be valid base64''
      else ''validation failed for '' @ tag)"

definition handleValidationError :: "(string \<times> string \<times> string) list \<Rightarrow> response" where
  "handleValidationError errs =
     (400, Obj [(''error'', JStr ''VALIDATION_ERROR''), (''message'', JStr ''One or more fields failed validation''),
       (''details'', JStrings (fold (\<lambda>(field, tag, param). AList.update field (validation_message tag param)) errs []))])"

text \<open>
  \<^verbatim>\<open>BindAndValidate\<close>: gin's binding of the body, then the validator's engine, where it is the expected one. No
  handler calls it.
\<close>

definition BindAndValidate ::
  "(string \<Rightarrow> go_error + 'a) \<Rightarrow> ('a \<Rightarrow> go_error option) option \<Rightarrow> gin_ctx \<Rightarrow> go_error + 'a" where
  "BindAndValidate bind engine c =
     (case bind (gc_body c) of
        Inl err \<Rightarrow> Inl err
      | Inr obj \<Rightarrow>
          (case engine of
             None \<Rightarrow> Inr obj
           | Some validate \<Rightarrow> (case validate obj of Some err \<Rightarrow> Inl err | None \<Rightarrow> Inr obj)))"

definition GetTenantID :: "gin_ctx \<Rightarrow> ('s, 'e, string) prog" where
  "GetTenantID c =
     (case map_of (gc_keys c) ''tenant_id'' of
        None \<Rightarrow> ret ''''
      | Some (GStr t) \<Rightarrow> ret t
      | Some _ \<Rightarrow> panicM ''interface conversion: interface {} is not string'')"

section \<open>Middlewares\<close>

definition unauthorized :: "string \<Rightarrow> response" where
  "unauthorized message = (401, Obj [(''error'', JStr ''Unauthorized''), (''message'', JStr message)])"

definition owner_type_of :: "custom_claims \<Rightarrow> owner_type" where
  "owner_type_of claims =
     (if cc_OwnerType claims = ''TENANT'' then OwnerTypeTenant
      else if cc_OwnerType claims = ''USER'' then OwnerTypeUser
      else if cc_OwnerType claims = ''ORGANIZATION'' then OwnerTypeOrganization
      else OwnerTypeUser)"

definition createIdentityContext :: "custom_claims \<Rightarrow> identity_context" where
  "createIdentityContext claims =
     \<lparr>id_TenantID = cc_TenantID claims, id_OwnerType = owner_type_of claims, id_OwnerID = cc_OwnerID claims,
      id_OrganizationID = cc_OrganizationID claims, id_ParentKeyID = cc_ParentKeyID claims,
      id_UserID = cc_UserID claims, id_CertLevel = cc_CertLevel claims, id_MaxCertLevel = cc_MaxCertLevel claims,
      id_CanCertify = cc_CanCertify claims, id_CertificationPath = cc_CertificationPath claims,
      id_Permissions = cc_Permissions claims\<rparr>"

definition createSessionContext :: "custom_claims \<Rightarrow> session" where
  "createSessionContext claims =
     zero_session\<lparr>se_TenantID := cc_TenantID claims, se_OwnerType := owner_type_of claims,
       se_OwnerID := cc_OwnerID claims, se_OrganizationID := cc_OrganizationID claims,
       se_ParentKeyID := cc_ParentKeyID claims, se_CertLevel := cc_CertLevel claims,
       se_CertificationPath := cc_CertificationPath claims, se_CanCertify := cc_CanCertify claims,
       se_MaxCertLevel := cc_MaxCertLevel claims, se_Permissions := cc_Permissions claims,
       se_TokenID := cc_ID claims\<rparr>"

definition identified :: "custom_claims \<Rightarrow> gin_ctx \<Rightarrow> gin_ctx" where
  "identified claims c =
     (let identity = createIdentityContext claims in
      gin_set ''organization_id'' (GOptStr (id_OrganizationID identity))
     (gin_set ''owner_id'' (GStr (id_OwnerID identity))
     (gin_set ''tenant_id'' (GStr (id_TenantID identity))
     (gin_set ''identity'' (GIdent identity)
     (gin_set ''session'' (GSession (createSessionContext claims))
     (gin_set ''identity_context'' (GIdent identity) c))))))"

definition handleProductionMode :: "('t, 'k) http_deps \<Rightarrow> string \<Rightarrow> ('t, 'k) handler \<Rightarrow> ('t, 'k) handler" where
  "handleProductionMode d tokenString rest c =
     tryM (ValidateToken (dp_env d) (dp_io d) (dp_auth d) (dp_parse d) (dp_validator d) tokenString)
       (\<lambda>err. ret (unauthorized (''Invalid token: '' @ error_text err)))
       (\<lambda>claims. rest (identified claims c))"

definition ValidateJWT :: "('t, 'k) http_deps \<Rightarrow> ('t, 'k) handler \<Rightarrow> ('t, 'k) handler" where
  "ValidateJWT d rest c =
     (let authHeader = gin_header c ''Authorization'' in
      if authHeader = '''' then ret (unauthorized ''Authorization header required'')
      else handleProductionMode d (trim_prefix ''Bearer '' authHeader) rest c)"

definition extractTenantFromToken :: "string \<Rightarrow> string" where
  "extractTenantFromToken token =
     (if contains token ''-'' then hd (split_char CHR ''-'' token) else ''default-tenant'')"

text \<open>\<^verbatim>\<open>ValidateToken\<close> of the middleware, which no route uses.\<close>

definition mock_session :: "string \<Rightarrow> session" where
  "mock_session token =
     (if token = '''' then zero_session\<lparr>se_ID := ''dev-session'', se_UserID := ''dev-user'',
        se_TenantID := ''dev-tenant'', se_IsActive := True\<rparr>
      else zero_session\<lparr>se_ID := ''mock-session'', se_UserID := ''mock-user'',
        se_TenantID := extractTenantFromToken (trim_prefix ''Bearer '' token), se_IsActive := True\<rparr>)"

definition Middleware_ValidateToken :: "('t, 'k) handler \<Rightarrow> ('t, 'k) handler" where
  "Middleware_ValidateToken rest c =
     (let s = mock_session (gin_header c ''Authorization'') in
      rest (gin_set ''tenant_id'' (GStr (se_TenantID s)) (gin_set ''session'' (GSession s) c)))"

text \<open>A panic becomes a response.\<close>

definition recovered :: "response \<Rightarrow> ('t, 'k) handler \<Rightarrow> ('t, 'k) handler" where
  "recovered resp rest c s = (case rest c s of (Panic p, s') \<Rightarrow> (Ok resp, s') | r \<Rightarrow> r)"

definition RecoveryMiddleware :: "('t, 'k) handler \<Rightarrow> ('t, 'k) handler" where
  "RecoveryMiddleware rest = recovered
     (500, Obj [(''error'', JStr ''INTERNAL_ERROR''), (''message'', JStr ''An internal error occurred'')]) rest"

definition gin_Recovery :: "('t, 'k) handler \<Rightarrow> ('t, 'k) handler" where
  "gin_Recovery rest = recovered (500, NoBody) rest"

text \<open>The duration is taken before the rest of the chain runs.\<close>

definition LoggingMiddleware :: "'t env \<Rightarrow> ('t, 'k) handler \<Rightarrow> ('t, 'k) handler" where
  "LoggingMiddleware e rest c =
     bindM (on_world (nowM e)) (\<lambda>start.
     bindM (on_world (nowM e)) (\<lambda>now.
     rest (gin_set ''duration_ms'' (GDuration (time_since start now)) c)))"

end
