(* ===== verification/Handlers.thy ===== *)
theory Handlers
  imports Http
begin

text \<open>
  The handlers of keys and slots, the routes of \<^verbatim>\<open>SetupRouter\<close>, and a request on its whole way through the
  chain of middlewares to its handler.
\<close>

section \<open>key_handler.go\<close>

text \<open>\<^verbatim>\<open>c.Get("identity_context")\<close> and the type assertion on it.\<close>

definition identityNotFound :: response where
  "identityNotFound = (401, Obj [(''error'', JStr ''identity not found'')])"

definition with_identity :: "gin_ctx \<Rightarrow> (identity_context \<Rightarrow> ('t, 'k, response) app_prog) \<Rightarrow> ('t, 'k, response) app_prog" where
  "with_identity c f =
     (case map_of (gc_keys c) ''identity_context'' of
        None \<Rightarrow> ret identityNotFound
      | Some (GIdent i) \<Rightarrow> f i
      | Some _ \<Rightarrow> panicM ''interface conversion: interface {} is not *valueobjects.IdentityContext'')"

definition bad_request :: "string \<Rightarrow> string \<Rightarrow> string \<Rightarrow> response" where
  "bad_request code message reason =
     (400, Obj [(''error'', JStr code), (''message'', JStr message),
       (''details'', JDetails [(''reason'', DStr reason)])])"

text \<open>A call of a service: its error goes through \<^verbatim>\<open>HandleError\<close>.\<close>

definition answer :: "('t, 'a) wprog \<Rightarrow> ('a \<Rightarrow> response) \<Rightarrow> ('t, 'k, response) app_prog" where
  "answer m f = tryM (on_world m) HandleError (\<lambda>x. ret (f x))"

definition req_ctx :: "gin_ctx \<Rightarrow> gctx" where
  "req_ctx c = rq_Context (gc_request c)"

definition Handler_CreateKey :: "('t, 'k) http_deps \<Rightarrow> ('t, 'k) handler" where
  "Handler_CreateKey d c =
     (case dp_bind_create d (gc_body c) of
        Inl err \<Rightarrow> ret (bad_request ''INVALID_REQUEST'' ''Invalid JSON format or structure'' err)
      | Inr req \<Rightarrow> with_identity c (\<lambda>identity.
          answer (CreateKey (dp_env d) (req_ctx c) (cr_Name req) (cr_Algorithm req) (cr_KeySize req) (cr_Usage req) identity)
            (\<lambda>key. (201, Obj [(''id'', JStr (k_ID key)), (''name'', JStr (k_Name key)),
               (''algorithm'', JStr (k_Algorithm key)), (''key_size'', JInt (k_KeySize key)),
               (''usage'', JStr (k_Purpose key)), (''tenant_id'', JStr (k_TenantID key)),
               (''created_at'', JTime (k_CreatedAt key)), (''is_active'', JBool (k_IsActive key))]))))"

definition Handler_ListKeys :: "('t, 'k) http_deps \<Rightarrow> ('t, 'k) handler" where
  "Handler_ListKeys d c =
     (let tenantID = gin_param c ''tenant_id'' in
      if tenantID = '''' then ret (400, Obj [(''error'', JStr ''tenant_id is required'')])
      else answer (ListKeys (dp_env d) tenantID) (\<lambda>keys. (200, KeyList keys)))"

text \<open>The identity's type is asserted after the hash has been decoded.\<close>

definition Handler_SignHash :: "('t, 'k) http_deps \<Rightarrow> ('t, 'k) handler" where
  "Handler_SignHash d c =
     (if map_of (gc_keys c) ''identity_context'' = None then ret identityNotFound
      else case dp_bind_sign d (gc_body c) of
        Inl err \<Rightarrow> ret (400, Obj [(''error'', JStr err)])
      | Inr req \<Rightarrow>
          (case base64_decode (sr_Hash req) of
             None \<Rightarrow> HandleError (PlainErr (dp_base64_error d (sr_Hash req)))
           | Some hash \<Rightarrow> with_identity c (\<lambda>identity.
               answer (SignHash (dp_env d) (req_ctx c) (sr_KeyID req) hash identity)
                 (\<lambda>signature. (200, Obj [(''signature'', JStr (base64_encode signature)), (''key_id'', JStr (sr_KeyID req))])))))"

definition verdict_message :: "bool \<Rightarrow> string" where
  "verdict_message isValid = (if isValid then ''Signature is valid'' else ''Signature is invalid'')"

definition Handler_VerifyHashSignature :: "('t, 'k) http_deps \<Rightarrow> ('t, 'k) handler" where
  "Handler_VerifyHashSignature d c =
     (if map_of (gc_keys c) ''identity_context'' = None then ret identityNotFound
      else case dp_bind_verify d (gc_body c) of
        Inl err \<Rightarrow> ret (bad_request ''INVALID_REQUEST'' ''Invalid JSON format or structure'' err)
      | Inr req \<Rightarrow> with_identity c (\<lambda>identity.
          (case base64_decode (vr_Hash req) of
             None \<Rightarrow> ret (bad_request ''INVALID_HASH'' ''Hash must be valid base64 encoded data''
               (dp_base64_error d (vr_Hash req)))
           | Some hash \<Rightarrow>
               (case base64_decode (vr_Signature req) of
                  None \<Rightarrow> ret (bad_request ''INVALID_SIGNATURE'' ''Signature must be valid base64 encoded data''
                    (dp_base64_error d (vr_Signature req)))
                | Some signature \<Rightarrow>
                    answer (VerifyHashSignature (dp_env d) (req_ctx c) (vr_KeyID req) hash signature identity)
                      (\<lambda>isValid. (200, Obj [(''is_valid'', JBool isValid), (''key_id'', JStr (vr_KeyID req)),
                        (''message'', JStr (verdict_message isValid))]))))))"

definition Handler_GetPublicKey :: "('t, 'k) http_deps \<Rightarrow> ('t, 'k) handler" where
  "Handler_GetPublicKey d c =
     (let keyID = gin_param c ''key_id''; tenantID = gin_param c ''tenant_id'' in
      answer (Signing_GetPublicKey (dp_env d) (req_ctx c) keyID tenantID)
        (\<lambda>publicKey. (200, Obj [(''public_key'', JBytes publicKey), (''key_id'', JStr keyID)])))"

section \<open>slot_handler.go\<close>

definition internal_error :: "go_error \<Rightarrow> response" where
  "internal_error err = (500, Obj [(''error'', JStr (error_text err))])"

definition answer_or_500 :: "('t, 'a) wprog \<Rightarrow> ('a \<Rightarrow> response) \<Rightarrow> ('t, 'k, response) app_prog" where
  "answer_or_500 m f = tryM (on_world m) (\<lambda>err. ret (internal_error err)) (\<lambda>x. ret (f x))"

definition Handler_InitializeSlot :: "('t, 'k) http_deps \<Rightarrow> ('t, 'k) handler" where
  "Handler_InitializeSlot d c =
     with_identity c (\<lambda>identity.
       answer_or_500 (InitializeSlot (dp_env d) (dp_km d) (req_ctx c) identity)
         (\<lambda>slotID. (201, Obj [(''message'', JStr ''Slot initialized successfully''), (''slot'', JStr slotID),
            (''tenant_id'', JStr (id_TenantID identity))])))"

definition Handler_GetAvailableSlots :: "('t, 'k) http_deps \<Rightarrow> ('t, 'k) handler" where
  "Handler_GetAvailableSlots d c =
     answer_or_500 (GetAvailableSlots (dp_env d)) (\<lambda>slots. (200, Obj [(''available_slots'', JUints slots)]))"

definition Handler_GetAllSlots :: "('t, 'k) http_deps \<Rightarrow> ('t, 'k) handler" where
  "Handler_GetAllSlots d c =
     answer_or_500 (GetAllSlots (dp_env d)) (\<lambda>slots. (200, Obj [(''all_slots'', JUints slots)]))"

text \<open>
  \<^verbatim>\<open>fmt.Sscanf(s, "%d", &slot)\<close> into a \<^verbatim>\<open>uint\<close>: leading blanks are skipped, what follows the digits is ignored.
\<close>

definition sscanf_uint :: "string \<Rightarrow> u64 option" where
  "sscanf_uint s =
     (let digits = takeWhile is_digit (dropWhile (\<lambda>c. is_space c \<and> c \<noteq> CHR 0x0A) s) in
      if digits = '''' then None else parse_uint64 digits)"

definition Handler_DeleteSlot :: "('t, 'k) http_deps \<Rightarrow> ('t, 'k) handler" where
  "Handler_DeleteSlot d c =
     (case sscanf_uint (gin_param c ''slot'') of
        None \<Rightarrow> ret (400, Obj [(''error'', JStr ''Invalid slot parameter'')])
      | Some slot \<Rightarrow>
          answer_or_500 (Service_DeleteSlot (dp_env d) (dp_exec d) (req_ctx c) slot)
            (\<lambda>_. (200, Obj [(''message'', JStr ''Slot deleted successfully'')])))"

section \<open>auth_handler.go\<close>

definition Login :: response where
  "Login = (200, Obj [(''status'', JStr ''success''), (''message'', JStr ''login endpoint - to be implemented'')])"

definition Register :: response where
  "Register = (200, Obj [(''status'', JStr ''success''), (''message'', JStr ''register endpoint - to be implemented'')])"

section \<open>router.go\<close>

datatype endpoint =
  EHealth | EHsmHealth | EReady | EPublicKey
| ECreateKey | EListKeys | ESign | EVerify
| EInitializeSlot | EAvailableSlots | EAllSlots | EDeleteSlot

text \<open>Method, path, whether \<^verbatim>\<open>ValidateJWT\<close> stands before the handler, and the handler.\<close>

definition routes :: "(string \<times> string \<times> bool \<times> endpoint) list" where
  "routes =
     [(''GET'', ''/health'', False, EHealth), (''GET'', ''/hsm-health'', False, EHsmHealth), (''GET'', ''/ready'', False, EReady),
      (''GET'', ''/api/v1/public/keys/:key_id/public-key'', False, EPublicKey),
      (''POST'', ''/api/v1/keys'', True, ECreateKey), (''GET'', ''/api/v1/keys/:tenant_id'', True, EListKeys),
      (''POST'', ''/api/v1/keys/sign'', True, ESign), (''POST'', ''/api/v1/keys/verify'', True, EVerify),
      (''POST'', ''/internal/hsm/slots/initialize'', True, EInitializeSlot),
      (''GET'', ''/internal/hsm/slots/available'', True, EAvailableSlots),
      (''GET'', ''/internal/hsm/slots/all'', True, EAllSlots), (''DELETE'', ''/internal/hsm/slots/:slot'', True, EDeleteSlot)]"

definition health_text :: "bool \<Rightarrow> string" where
  "health_text healthy = (if healthy then ''healthy'' else ''unhealthy'')"

definition Health :: "('t, 'k) http_deps \<Rightarrow> ('t, 'k) handler" where
  "Health d c = bindM (on_world (nowM (dp_env d))) (\<lambda>now.
     ret (200, Obj [(''status'', JStr ''healthy''), (''service'', JStr ''hsm-service''), (''timestamp'', JTime now)]))"

definition HsmHealth :: "('t, 'k) http_deps \<Rightarrow> ('t, 'k) handler" where
  "HsmHealth d c =
     (if \<not> dp_hsm d
      then ret (503, Obj [(''status'', JStr ''HSM client not configured''), (''error'', JStr ''HSMClient dependency not injected'')])
      else bindM (on_world (HealthCheckAll (dp_env d))) (\<lambda>health.
     ret (200, Obj (map (\<lambda>(slot, healthy). (''slot_'' @ dec_int slot, JStr (health_text healthy))) health))))"

primrec endpoint_handler :: "('t, 'k) http_deps \<Rightarrow> endpoint \<Rightarrow> ('t, 'k) handler" where
  "endpoint_handler d EHealth = Health d"
| "endpoint_handler d EHsmHealth = HsmHealth d"
| "endpoint_handler d EReady = (\<lambda>c. ret (200, Obj [(''status'', JStr ''ready'')]))"
| "endpoint_handler d EPublicKey = Handler_GetPublicKey d"
| "endpoint_handler d ECreateKey = Handler_CreateKey d"
| "endpoint_handler d EListKeys = Handler_ListKeys d"
| "endpoint_handler d ESign = Handler_SignHash d"
| "endpoint_handler d EVerify = Handler_VerifyHashSignature d"
| "endpoint_handler d EInitializeSlot = Handler_InitializeSlot d"
| "endpoint_handler d EAvailableSlots = Handler_GetAvailableSlots d"
| "endpoint_handler d EAllSlots = Handler_GetAllSlots d"
| "endpoint_handler d EDeleteSlot = Handler_DeleteSlot d"

definition route_handler :: "('t, 'k) http_deps \<Rightarrow> bool \<Rightarrow> endpoint \<Rightarrow> ('t, 'k) handler" where
  "route_handler d protected ep = (if protected then ValidateJWT d (endpoint_handler d ep) else endpoint_handler d ep)"

text \<open>
  The chain \<^verbatim>\<open>SetupRouter\<close> builds with \<^verbatim>\<open>router.Use\<close>: the request's metadata, the service's own recovery, the
  log, gin's recovery, then the route's handlers.
\<close>

definition serve ::
  "('t, 'k) http_deps \<Rightarrow> http_request \<Rightarrow> string \<Rightarrow> (string \<times> string) list \<Rightarrow> bool \<Rightarrow> endpoint \<Rightarrow>
     ('t, 'k, response \<times> http_header) app_prog" where
  "serve d req body params protected ep =
     bindM (on_world (GinMiddleware (dp_env d) req)) (\<lambda>(req', headers, keys).
     bindM (RecoveryMiddleware (LoggingMiddleware (dp_env d) (gin_Recovery (route_handler d protected ep)))
              \<lparr>gc_request = req', gc_body = body, gc_params = params, gc_keys = map (\<lambda>(k, v). (k, GStr v)) keys\<rparr>)
       (\<lambda>resp. ret (resp, headers)))"

section \<open>Facts\<close>

text \<open>A program that gives a response of one of the statuses, or panics.\<close>

fun answered :: "nat set \<Rightarrow> (go_error, response) outcome \<Rightarrow> bool" where
  "answered S (Ok r) = (fst r \<in> S)"
| "answered S (Err err) = False"
| "answered S (Panic p) = True"

definition answers :: "nat set \<Rightarrow> ('t, 'k, response) app_prog \<Rightarrow> bool" where
  "answers S m \<longleftrightarrow> (\<forall>s. answered S (fst (m s)))"

definition statuses :: "nat set" where
  "statuses = {200, 201, 400, 401, 404, 409, 500, 503}"

lemma in_statuses [simp]: "200 \<in> statuses" "201 \<in> statuses" "400 \<in> statuses" "401 \<in> statuses" "500 \<in> statuses" "503 \<in> statuses"
  by (simp_all add: statuses_def)

lemma answers_ret: "fst r \<in> S \<Longrightarrow> answers S (ret r)"
  by (simp add: answers_def run_basic)

lemma answers_panic: "answers S (panicM p)"
  by (simp add: answers_def run_basic)

lemma answers_bind:
  assumes "\<And>s err s'. m s \<noteq> (Err err, s')" and "\<And>x. answers S (f x)"
  shows "answers S (bindM m f)"
  unfolding answers_def
proof
  fix s
  obtain q u where m: "m s = (q, u)" by fastforce
  show "answered S (fst (bindM m f s))"
    using assms m by (cases q) (auto simp: answers_def)
qed

lemma answers_try:
  assumes "\<And>err. answers S (h err)" and "\<And>x. answers S (f x)"
  shows "answers S (tryM m h f)"
  unfolding answers_def
proof
  fix s
  obtain q u where m: "m s = (q, u)" by fastforce
  show "answered S (fst (tryM m h f s))"
    using assms m by (cases q) (auto simp: answers_def)
qed

lemma mapDomainErrorToHTTP_statuses: "mapDomainErrorToHTTP c \<in> {400, 401, 404, 409, 500, 503}"
  by (simp add: mapDomainErrorToHTTP_def Let_def)

lemma answers_HandleError: "answers statuses (HandleError err)"
proof -
  have "mapDomainErrorToHTTP c \<in> statuses" for c
    using mapDomainErrorToHTTP_statuses [of c] by (auto simp: statuses_def)
  then show ?thesis
    by (auto simp: HandleError_def answers_def bindM_def run_basic split: option.split)
qed

lemma answers_answer: "(\<And>x. fst (f x) \<in> statuses) \<Longrightarrow> answers statuses (answer m f)"
  unfolding answer_def by (intro answers_try answers_HandleError answers_ret)

lemma answers_answer_or_500: "(\<And>x. fst (f x) \<in> statuses) \<Longrightarrow> answers statuses (answer_or_500 m f)"
  unfolding answer_or_500_def
  by (intro answers_try answers_ret) (simp_all add: internal_error_def)

lemma answers_with_identity: "(\<And>i. answers statuses (f i)) \<Longrightarrow> answers statuses (with_identity c f)"
  unfolding with_identity_def
  by (auto split: option.split gin_val.split intro!: answers_ret answers_panic simp: identityNotFound_def)

lemmas answers_intros = answers_with_identity answers_answer answers_answer_or_500 answers_HandleError answers_ret

lemma check_clients_no_Err: "check_clients e cs w \<noteq> (Err err, w')"
  by (induction cs arbitrary: w) (auto simp: run_simps)

lemma nowM_no_Err: "on_world (nowM e) s \<noteq> (Err err, s')"
  by (simp add: on_world_iff run_tick)

lemma endpoint_answers: "answers statuses (endpoint_handler d ep c)"
proof (cases ep)
  case EHealth
  then show ?thesis
    by (auto simp: Health_def intro!: answers_bind answers_ret nowM_no_Err)
next
  case EHsmHealth
  have "on_world (HealthCheckAll (dp_env d)) s \<noteq> (Err err, s')" for s s' :: "('a, 'b) app" and err
    by (auto simp: on_world_iff HealthCheckAll_def run_simps check_clients_no_Err)
  then show ?thesis using EHsmHealth by (auto simp: HsmHealth_def intro!: answers_bind answers_ret)
qed (auto simp: Handler_CreateKey_def Handler_ListKeys_def Handler_SignHash_def Handler_VerifyHashSignature_def
    Handler_GetPublicKey_def Handler_InitializeSlot_def Handler_GetAvailableSlots_def Handler_GetAllSlots_def
    Handler_DeleteSlot_def bad_request_def identityNotFound_def Let_def
    split: sum.split option.split intro!: answers_intros)

lemma route_answers: "answers statuses (route_handler d protected ep c)"
proof -
  have "answers statuses (ValidateJWT d (endpoint_handler d ep) c)"
    unfolding ValidateJWT_def handleProductionMode_def Let_def unauthorized_def
    by (auto intro!: answers_try answers_ret endpoint_answers)
  then show ?thesis by (simp add: route_handler_def endpoint_answers)
qed

lemma recovered_cases:
  obtains p u where "rest c s = (Panic p, u)" "recovered resp rest c s = (Ok resp, u)"
  | "\<And>p u. rest c s \<noteq> (Panic p, u)" "recovered resp rest c s = rest c s"
  by (cases "rest c s" rule: prod.exhaust; cases "fst (rest c s)") (auto simp: recovered_def)

lemma frame_recovered: "unchanged f (rest c) \<Longrightarrow> unchanged f (recovered resp rest c)"
  by (auto simp: within_def recovered_def split: prod.splits outcome.splits) (metis snd_conv)+

lemma recovered_total:
  assumes "answers statuses (rest c)" and "fst resp \<in> statuses"
  shows "\<exists>r s'. recovered resp rest c s = (Ok r, s') \<and> fst r \<in> statuses"
proof (cases rule: recovered_cases [of rest c s resp])
  case (1 p u)
  then show ?thesis using assms(2) by simp
next
  case 2
  have "answered statuses (fst (rest c s))" using assms(1) by (simp add: answers_def)
  then show ?thesis using 2 by (cases "rest c s"; cases "fst (rest c s)") auto
qed

lemma GinMiddleware_total: "\<exists>x w'. GinMiddleware e r w = (Ok x, w')"
  by (auto simp: GinMiddleware_def request_id_def ExtractCorrelationID_def generateRequestID_def Let_def bindM_def
      run_tick run_basic)

lemma logged_total:
  "\<exists>r s'. LoggingMiddleware e (gin_Recovery (route_handler d protected ep)) c s = (Ok r, s') \<and> fst r \<in> statuses"
  using recovered_total [OF route_answers, of "(500, NoBody)"]
  by (simp add: LoggingMiddleware_def gin_Recovery_def bindM_def on_world_def run_tick)

text \<open>
  So the recovery of the service never sees a panic: gin's own, which stands inside it, has answered it.
\<close>

lemma RecoveryMiddleware_unused:
  "RecoveryMiddleware (LoggingMiddleware e (gin_Recovery (route_handler d protected ep))) c s
     = LoggingMiddleware e (gin_Recovery (route_handler d protected ep)) c s"
  using logged_total [of e d protected ep c s] by (auto simp: RecoveryMiddleware_def recovered_def)

lemma serve_total:
  "\<exists>st body headers s'. serve d req b params protected ep s = (Ok ((st, body), headers), s')
     \<and> st \<in> {200, 201, 400, 401, 404, 409, 500, 503}"
proof -
  obtain x w where gin: "GinMiddleware (dp_env d) req (app_world s) = (Ok x, w)"
    using GinMiddleware_total by blast
  obtain req' headers ks where x: "x = (req', headers, ks)" by (metis prod_cases3)
  obtain r s' where "LoggingMiddleware (dp_env d) (gin_Recovery (route_handler d protected ep))
      \<lparr>gc_request = req', gc_body = b, gc_params = params, gc_keys = map (\<lambda>(k, v). (k, GStr v)) ks\<rparr> (s\<lparr>app_world := w\<rparr>) = (Ok r, s')"
    and "fst r \<in> statuses"
    using logged_total by blast
  then show ?thesis
    using gin x by (cases r) (simp add: serve_def bindM_def RecoveryMiddleware_unused run_basic statuses_def)
qed

text \<open>A request that a protected route answers with neither 401 nor 500 came with a token that was accepted.\<close>

definition bearer :: "http_request \<Rightarrow> string" where
  "bearer req = trim_prefix ''Bearer '' (header_get (rq_Header req) ''Authorization'')"

lemma frame_GinMiddleware:
  assumes f: "\<And>w k. f (w\<lparr>w_tick := k\<rparr>) = f w"
  shows "unchanged f (GinMiddleware e r)"
  unfolding GinMiddleware_def request_id_def ExtractCorrelationID_def generateRequestID_def Let_def
  by (intro unchanged_intros f)

lemma GinMiddleware_request:
  "GinMiddleware e r w = (Ok (r', h, ks), w') \<Longrightarrow> rq_Header r' = rq_Header r"
  by (auto simp: GinMiddleware_def run_simps)

text \<open>What reaches gin's recovery of a request, and what becomes of its answer.\<close>

lemma serve_chain:
  assumes "serve d req body params protected ep s = (Ok (resp, headers), s')"
    and f: "\<And>w k. f (w\<lparr>w_tick := k\<rparr>) = f w"
  obtains c u where "gin_Recovery (route_handler d protected ep) c u = (Ok resp, s')"
    and "gin_header c ''Authorization'' = header_get (rq_Header req) ''Authorization''"
    and "gc_params c = params" "gc_body c = body" "f (app_world u) = f (app_world s)" "km_keys u = km_keys s"
proof -
  let ?h = "route_handler d protected ep"
  obtain req' ks w where gin: "GinMiddleware (dp_env d) req (app_world s) = (Ok (req', headers, ks), w)"
    and run: "RecoveryMiddleware (LoggingMiddleware (dp_env d) (gin_Recovery ?h))
       \<lparr>gc_request = req', gc_body = body, gc_params = params, gc_keys = map (\<lambda>(k, v). (k, GStr v)) ks\<rparr> (s\<lparr>app_world := w\<rparr>)
       = (Ok resp, s')"
    using assms(1) by (auto simp: serve_def run_simps)
  define c where "c = gin_set ''duration_ms'' (GDuration (time_since (now_at (dp_env d) (w_tick w)) (now_at (dp_env d) (Suc (w_tick w)))))
      \<lparr>gc_request = req', gc_body = body, gc_params = params, gc_keys = map (\<lambda>(k, v). (k, GStr v)) ks\<rparr>"
  define u where "u = s\<lparr>app_world := w\<lparr>w_tick := Suc (Suc (w_tick w))\<rparr>\<rparr>"
  have "gin_Recovery ?h c u = (Ok resp, s')"
    using run unfolding RecoveryMiddleware_unused
    by (simp add: LoggingMiddleware_def bindM_def on_world_def run_tick c_def u_def)
  moreover have "gin_header c ''Authorization'' = header_get (rq_Header req) ''Authorization''"
    using GinMiddleware_request [OF gin] by (simp add: gin_header_def c_def gin_set_def)
  moreover have "f w = f (app_world s)" using unchangedD [OF frame_GinMiddleware [OF f] gin] .
  ultimately show thesis
    by (intro that [of c u]) (simp_all add: c_def u_def gin_set_def f)
qed

lemma serve_protected:
  assumes "serve d req body params True ep s = (Ok ((st, b), headers), s')" and "st \<notin> {401, 500}"
    and f: "\<And>w k. f (w\<lparr>w_tick := k\<rparr>) = f w"
  obtains claims c u v where "ValidateToken (dp_env d) (dp_io d) (dp_auth d) (dp_parse d) (dp_validator d) (bearer req) u = (Ok claims, v)"
    and "endpoint_handler d ep (identified claims c) v = (Ok (st, b), s')"
    and "gc_params c = params" "gc_body c = body" "f (app_world u) = f (app_world s)"
    and "km_keys u = km_keys s"
proof -
  let ?h = "route_handler d True ep"
  obtain c u where chain: "gin_Recovery ?h c u = (Ok (st, b), s')"
    and head: "gin_header c ''Authorization'' = header_get (rq_Header req) ''Authorization''"
    and parts: "gc_params c = params" "gc_body c = body" "f (app_world u) = f (app_world s)" "km_keys u = km_keys s"
    using serve_chain [OF assms(1) f] by blast
  have "?h c u = (Ok (st, b), s')"
    using chain assms(2) by (cases rule: recovered_cases [of ?h c u "(500, NoBody)"]) (auto simp: gin_Recovery_def)
  then obtain claims v where "ValidateToken (dp_env d) (dp_io d) (dp_auth d) (dp_parse d) (dp_validator d) (bearer req) u = (Ok claims, v)"
    "endpoint_handler d ep (identified claims c) v = (Ok (st, b), s')"
    using assms(2) head
    by (auto simp: route_handler_def ValidateJWT_def handleProductionMode_def bearer_def Let_def run_simps unauthorized_def
        split: if_split_asm)
  from that [OF this parts] show thesis .
qed

text \<open>Validating a token moves nothing in the world but the counter of calls.\<close>

lemma GetKeyFunc_frame:
  fixes e :: "'t env" and io :: "'k auth_io" and f :: "'t world \<Rightarrow> 'z"
  assumes f: "\<And>w k. f (w\<lparr>w_tick := k\<rparr>) = f w"
  shows "unchanged (\<lambda>s. f (app_world s)) (GetKeyFunc e io cfg h)"
proof -
  have tick: "unchanged (\<lambda>s. f (app_world s)) (on_world tickM :: ('t, 'k, nat) app_prog)"
    "unchanged (\<lambda>s. f (app_world s)) (on_world (nowM e) :: ('t, 'k, time) app_prog)"
    by (simp_all add: within_def on_world_def run_tick f)
  have fetch: "unchanged (\<lambda>s. f (app_world s)) (fetchJWKS e io cfg :: ('t, 'k, unit) app_prog)"
    unfolding fetchJWKS_def by (intro unchanged_intros tick) simp_all
  show ?thesis
    unfolding GetKeyFunc_def GetPublicKey_def by (intro unchanged_intros tick fetch)
qed

lemma ValidateToken_frame:
  assumes "jwt_parse_sound parse carries" and "ValidateToken e io cfg parse v tok s = (Ok claims, s')"
    and f: "\<And>w k. f (w\<lparr>w_tick := k\<rparr>) = f w"
  shows "f (app_world s') = f (app_world s)" and "\<exists>h k. carries tok h claims k"
proof -
  obtain u where parse: "parse tok valid_methods (GetKeyFunc e io cfg) s = (Ok (True, claims), u)"
    and claims: "validateClaims e io v claims u = (Ok (), s')"
    using assms(2) by (auto simp: ValidateToken_def run_simps split: if_split_asm)
  obtain h k x n where key: "GetKeyFunc e io cfg h s = (Ok k, x)" "u = x\<lparr>app_world := (app_world x)\<lparr>w_tick := n\<rparr>\<rparr>"
    and carried: "carries tok h claims k"
    using assms(1) parse unfolding jwt_parse_sound_def by blast
  have "f (app_world x) = f (app_world s)" using unchangedD [OF GetKeyFunc_frame [OF f] key(1)] .
  moreover have "f (app_world s') = f (app_world u)"
    using claims by (auto simp: validateClaims_def run_simps f split: if_split_asm option.split_asm)
  ultimately show "f (app_world s') = f (app_world s)" using key(2) f by simp
  show "\<exists>h k. carries tok h claims k" using carried by blast
qed

lemma identity_of_claims: "map_of (gc_keys (identified claims c)) ''identity_context'' = Some (GIdent (createIdentityContext claims))"
  by (simp add: identified_def gin_set_def Let_def map_of_update)

lemma identified_parts [simp]:
  "gc_params (identified claims c) = gc_params c" "gc_body (identified claims c) = gc_body c"
  by (simp_all add: identified_def gin_set_def Let_def)

lemma HandleError_status: "HandleError err s = (Ok (st, b), s') \<Longrightarrow> st \<notin> {200, 201}"
proof (cases "as_domain_error err")
  case (Some x)
  assume run: "HandleError err s = (Ok (st, b), s')"
  obtain code where "st = mapDomainErrorToHTTP code"
    using run Some by (cases x) (auto simp: HandleError_def run_simps)
  then show ?thesis using mapDomainErrorToHTTP_statuses [of code] by auto
qed (auto simp: HandleError_def run_basic)

lemma answer_Ok:
  assumes "answer m f s = (Ok (st, b), s')" and "st \<in> {200, 201}"
  shows "\<exists>x w. m (app_world s) = (Ok x, w) \<and> s' = s\<lparr>app_world := w\<rparr> \<and> f x = (st, b)"
proof -
  obtain r w where m: "m (app_world s) = (r, w)" by fastforce
  then show ?thesis
    using assms HandleError_status [of _ "s\<lparr>app_world := w\<rparr>" st b s'] by (cases r) (auto simp: answer_def run_basic)
qed

definition rows_of_tenant :: "string \<Rightarrow> 't world \<Rightarrow> cryptographic_key list" where
  "rows_of_tenant tn w = newest_first (filter (\<lambda>r. k_TenantID r = tn) (w_keys w))"

lemma list_keys_tenant: "Keys_FindByTenant e tn w = (Ok ks, w') \<Longrightarrow> ks = map scan_listed (rows_of_tenant tn w)"
  by (auto simp: Keys_FindByTenant_def list_keys_def queryM_def rows_of_tenant_def run_simps)

section \<open>Properties\<close>

text \<open>
  C34. Every request to every route gets a response, with one of the statuses 200, 201, 400, 401, 404, 409, 500
  and 503: no error of a service and no panic gets past the chain. The recovery that the service registers
  itself never acts, as gin's stands inside it and answers first, without a body.
\<close>

theorem every_request_gets_a_response:
  "(\<exists>st body headers s'. serve d req b params protected ep s = (Ok ((st, body), headers), s')
     \<and> st \<in> {200, 201, 400, 401, 404, 409, 500, 503})
   \<and> RecoveryMiddleware (LoggingMiddleware e (gin_Recovery (route_handler d protected ep))) c u
       = LoggingMiddleware e (gin_Recovery (route_handler d protected ep)) c u"
  using serve_total [of d req b params protected ep s] RecoveryMiddleware_unused by fastforce

text \<open>
  C12. Only a tenant's own tokens sign with its keys: a request to the route of \<^verbatim>\<open>SignHash\<close> that is answered with
  200 came with a token whose claims are carried under a signature that verifies; the key that the body names is
  in the table as an active signing key of the claims' tenant, and the answer holds the base64 text of what the
  HSM manager gave for that key's label and the decoded hash in the tenant's slot. The table is left as it was.
\<close>

theorem signatures_need_a_token_of_the_keys_tenant:
  assumes "jwt_parse_sound (dp_parse d) carries"
    and "serve d req body params True ESign s = (Ok ((200, b), headers), s')"
  shows "\<exists>claims h k sr hash row slot ctx sig u v. carries (bearer req) h claims k
    \<and> dp_bind_sign d body = Inr sr \<and> base64_decode (sr_Hash sr) = Some hash
    \<and> row \<in> set (w_keys (app_world s)) \<and> k_ID row = sr_KeyID sr \<and> k_TenantID row = cc_TenantID claims
    \<and> k_IsActive row \<and> CanSign (k_Purpose row) \<and> slot_of_tenant (app_world s) (cc_TenantID claims) slot
    \<and> Manager_SignHash (dp_env d) ctx (k_KeyLabel row) hash (int_of_uint (sl_SlotNumber slot))
        (createIdentityContext claims) u = (Ok sig, v)
    \<and> b = Obj [(''signature'', JStr (base64_encode sig)), (''key_id'', JStr (k_ID row))]
    \<and> w_keys (app_world s') = w_keys (app_world s)"
proof -
  let ?tables = "\<lambda>w. (w_keys w, w_tenants w, w_slots w)"
  obtain claims c u v where token: "ValidateToken (dp_env d) (dp_io d) (dp_auth d) (dp_parse d) (dp_validator d) (bearer req) u = (Ok claims, v)"
    and run: "endpoint_handler d ESign (identified claims c) v = (Ok (200, b), s')"
    and body: "gc_body c = body" and tables: "?tables (app_world u) = ?tables (app_world s)"
    by (rule serve_protected [OF assms(2), of ?tables]) simp_all
  obtain sr hash where sr: "dp_bind_sign d body = Inr sr" "base64_decode (sr_Hash sr) = Some hash"
    using run body
    by (cases "dp_bind_sign d body"; cases "base64_decode (sr_Hash (projr (dp_bind_sign d body)))")
      (auto simp: Handler_SignHash_def identity_of_claims run_basic dest!: HandleError_status)
  obtain sig w where sign: "SignHash (dp_env d) (req_ctx (identified claims c)) (sr_KeyID sr) hash
        (createIdentityContext claims) (app_world v) = (Ok sig, w)"
    and s': "s' = v\<lparr>app_world := w\<rparr>"
    and b: "b = Obj [(''signature'', JStr (base64_encode sig)), (''key_id'', JStr (sr_KeyID sr))]"
    using run body sr
    by (auto simp: Handler_SignHash_def with_identity_def identity_of_claims dest!: answer_Ok)
  have same: "?tables (app_world v) = ?tables (app_world s)"
    using ValidateToken_frame(1) [OF assms(1) token, of ?tables] tables by simp
  then have "slot_of_tenant (app_world v) = slot_of_tenant (app_world s)"
    by (intro ext) (simp add: slot_of_tenant_def)
  moreover obtain row slot x y where "row \<in> set (w_keys (app_world v))" "k_ID row = sr_KeyID sr"
    "k_TenantID row = cc_TenantID claims" "k_IsActive row" "CanSign (k_Purpose row)"
    "slot_of_tenant (app_world v) (cc_TenantID claims) slot"
    "Manager_SignHash (dp_env d) (req_ctx (identified claims c)) (k_KeyLabel row) hash
       (int_of_uint (sl_SlotNumber slot)) (createIdentityContext claims) x = (Ok sig, y)"
    using SignHash_Ok [OF sign] by (auto simp: createIdentityContext_def)
  moreover obtain h k where "carries (bearer req) h claims k"
    using ValidateToken_frame(2) [OF assms(1) token, of ?tables] by auto
  ultimately show ?thesis
    using sr b s' same SignHash_rows [OF sign] by fastforce
qed

text \<open>
  C35. Listing keys does not look at who asks: a request to \<^verbatim>\<open>GET /api/v1/keys/:tenant_id\<close> with any valid token
  that is answered with 200 gets every key of the table with the tenant of the path, newest first, whatever tenant the token names.
\<close>

theorem listed_keys_are_those_of_the_path:
  assumes "jwt_parse_sound (dp_parse d) carries"
    and "serve d req body [(''tenant_id'', tn)] True EListKeys s = (Ok ((200, b), headers), s')"
  shows "b = KeyList (map scan_listed (rows_of_tenant tn (app_world s))) \<and> (\<exists>claims h k. carries (bearer req) h claims k)"
proof -
  obtain claims c u v where token: "ValidateToken (dp_env d) (dp_io d) (dp_auth d) (dp_parse d) (dp_validator d) (bearer req) u = (Ok claims, v)"
    and run: "endpoint_handler d EListKeys (identified claims c) v = (Ok (200, b), s')"
    and keys: "w_keys (app_world u) = w_keys (app_world s)" and params: "gc_params c = [(''tenant_id'', tn)]"
    by (rule serve_protected [OF assms(2), of w_keys]) simp_all
  obtain ks w where list: "Keys_FindByTenant (dp_env d) tn (app_world v) = (Ok ks, w)" and b: "b = KeyList ks"
    using run params
    by (auto simp: Handler_ListKeys_def ListKeys_def gin_param_def Let_def run_basic split: if_split_asm dest!: answer_Ok)
  have "w_keys (app_world v) = w_keys (app_world s)"
    using ValidateToken_frame(1) [OF assms(1) token, of w_keys] keys by simp
  then show ?thesis
    using ValidateToken_frame(2) [OF assms(1) token, of w_keys] list_keys_tenant [OF list] b
    by (auto simp: rows_of_tenant_def)
qed

text \<open>For the witnesses: the table holds a key of the tenant U, the token names the tenant T.\<close>

definition sample_deps :: "(sample_token, nat) http_deps" where
  "sample_deps = \<lparr>dp_env = sample_env, dp_io = sample_io, dp_auth = sample_auth, dp_parse = sample_parse,
     dp_validator = sample_validator, dp_km = sample_km, dp_exec = \<lambda>_ s. (Inr (), s),
     dp_bind_create = \<lambda>_. Inr \<lparr>cr_Name = ''sig'', cr_Algorithm = ''RSA'', cr_KeySize = 2048, cr_Usage = ''SIGNING''\<rparr>,
     dp_bind_sign = \<lambda>_. Inr \<lparr>sr_KeyID = ''k1'', sr_Hash = base64_encode [1, 2]\<rparr>, dp_base64_error = \<lambda>_. '''', dp_bind_verify = \<lambda>_. Inl '''', dp_hsm = True\<rparr>"

definition good_request :: http_request where
  "good_request = \<lparr>rq_Method = ''POST'', rq_Path = ''/api/v1/keys'', rq_RawQuery = '''',
     rq_Header = [(''Authorization'', [''Bearer good'']), (''X-Correlation-Id'', [''c''])], rq_RemoteAddr = ''10.0.0.1:4711'', rq_Context = Background\<rparr>"

lemma GinMiddleware_run:
  "\<exists>r' h ks n. GinMiddleware e r w = (Ok (r', h, ks), w\<lparr>w_tick := n\<rparr>) \<and> rq_Header r' = rq_Header r"
proof -
  have "\<exists>n. w = w\<lparr>w_tick := n\<rparr>" by (rule exI [of _ "w_tick w"]) simp
  then show ?thesis
    by (auto simp: GinMiddleware_def request_id_def ExtractCorrelationID_def generateRequestID_def Let_def bindM_def
        run_tick run_basic)
qed

lemma canonical_Authorization: "canonical_key ''Authorization'' = ''Authorization''"
  by code_simp

lemma serve_good:
  assumes "km_keys s = [(''dev-key'', 0)]"
  shows "\<exists>c n headers. gc_params c = params \<and> serve sample_deps good_request body params True ep s =
    bindM (gin_Recovery (\<lambda>_. endpoint_handler sample_deps ep (identified sample_claims c)) c) (\<lambda>resp. ret (resp, headers))
      (s\<lparr>app_world := (app_world s)\<lparr>w_tick := n\<rparr>\<rparr>)"
proof -
  obtain req' headers ks n where gin: "GinMiddleware sample_env good_request (app_world s) = (Ok (req', headers, ks), (app_world s)\<lparr>w_tick := n\<rparr>)"
    and head: "rq_Header req' = rq_Header good_request"
    using GinMiddleware_run by blast
  define c where "c = gin_set ''duration_ms'' (GDuration (time_since (now_at sample_env n) (now_at sample_env (Suc n))))
      \<lparr>gc_request = req', gc_body = body, gc_params = params, gc_keys = map (\<lambda>(k, v). (k, GStr v)) ks\<rparr>"
  have "gin_header c ''Authorization'' = ''Bearer good''"
    using head by (simp add: gin_header_def c_def gin_set_def good_request_def header_get_def canonical_Authorization)
  moreover have "trim_prefix ''Bearer '' ''Bearer good'' = ''good''" using trim_prefix_append [of "''Bearer ''" "''good''"] by simp
  ultimately have "gin_Recovery (route_handler sample_deps True ep) c (s\<lparr>app_world := (app_world s)\<lparr>w_tick := Suc (Suc n)\<rparr>\<rparr>)
      = gin_Recovery (\<lambda>_. endpoint_handler sample_deps ep (identified sample_claims c)) c
          (s\<lparr>app_world := (app_world s)\<lparr>w_tick := Suc (Suc (Suc n))\<rparr>\<rparr>)"
    using assms
    by (simp add: gin_Recovery_def recovered_def route_handler_def ValidateJWT_def handleProductionMode_def tryM_def
        sample_validate sample_deps_def)
  then have "serve sample_deps good_request body params True ep s =
    bindM (gin_Recovery (\<lambda>_. endpoint_handler sample_deps ep (identified sample_claims c)) c) (\<lambda>resp. ret (resp, headers))
      (s\<lparr>app_world := (app_world s)\<lparr>w_tick := Suc (Suc (Suc n))\<rparr>\<rparr>)"
    using gin
    by (simp add: serve_def RecoveryMiddleware_unused LoggingMiddleware_def bindM_def run_tick c_def sample_deps_def)
  moreover have "gc_params c = params" by (simp add: c_def gin_set_def)
  ultimately show ?thesis by blast
qed

definition signed_in :: "sample_token world \<Rightarrow> (sample_token, nat) app" where
  "signed_in w = \<lparr>app_world = w, km_keys = [(''dev-key'', 0)], km_lastFetch = 0\<rparr>"

lemma sample_served:
  assumes "\<And>c n. gc_params c = params \<Longrightarrow> \<exists>s'. endpoint_handler sample_deps ep (identified sample_claims c)
      (signed_in (w\<lparr>w_tick := n\<rparr>)) = (Ok (r c n), s')"
  shows "\<exists>c n headers s'. serve sample_deps good_request body params True ep (signed_in w) = (Ok (r c n, headers), s')"
proof -
  obtain c n headers where c: "gc_params c = params" and chain: "serve sample_deps good_request body params True ep (signed_in w) =
    bindM (gin_Recovery (\<lambda>_. endpoint_handler sample_deps ep (identified sample_claims c)) c) (\<lambda>resp. ret (resp, headers))
      (signed_in (w\<lparr>w_tick := n\<rparr>))"
    using serve_good [of "signed_in w"] by (fastforce simp: signed_in_def)
  obtain s' where "endpoint_handler sample_deps ep (identified sample_claims c) (signed_in (w\<lparr>w_tick := n\<rparr>)) = (Ok (r c n), s')"
    using assms [OF c] by blast
  then show ?thesis
    by (intro exI [of _ c] exI [of _ n] exI [of _ headers] exI [of _ s'])
      (simp add: chain gin_Recovery_def recovered_def bindM_def run_basic)
qed

lemma sample_create_served:
  "\<exists>b headers s'. serve sample_deps good_request '''' [] True ECreateKey (signed_in service_world) = (Ok ((201, b), headers), s')"
proof -
  have keys: "dp_env sample_deps = sample_env" "dp_bind_create sample_deps x =
      Inr \<lparr>cr_Name = ''sig'', cr_Algorithm = alg_RSA, cr_KeySize = 2048, cr_Usage = KeyUsageSigning\<rparr>" for x
    by (simp_all add: sample_deps_def)
  have "\<exists>b. \<exists>s'. endpoint_handler sample_deps ECreateKey (identified sample_claims c) (signed_in (service_world\<lparr>w_tick := n\<rparr>))
      = (Ok (201, b), s')" for c n
    using sample_create [of "createIdentityContext sample_claims" "req_ctx (identified sample_claims c)" n]
    by (auto simp: createIdentityContext_def sample_claims_def Handler_CreateKey_def keys with_identity_def
        identity_of_claims answer_def tryM_def on_world_def signed_in_def run_basic)
  then obtain b where "\<And>c n. \<exists>s'. endpoint_handler sample_deps ECreateKey (identified sample_claims c)
      (signed_in (service_world\<lparr>w_tick := n\<rparr>)) = (Ok (201, b c n), s')" by metis
  from sample_served [OF this] show ?thesis by blast
qed

theorem signatures_need_a_token_of_the_keys_tenant_witness:
  "\<exists>b headers s' row. serve sample_deps good_request '''' [] True ESign (signed_in keyed_world) = (Ok ((200, b), headers), s')
     \<and> row \<in> set (w_keys keyed_world) \<and> k_ID row = ''k1'' \<and> k_TenantID row = ''T''"
proof -
  have keys: "dp_env sample_deps = sample_env"
    "dp_bind_sign sample_deps x = Inr \<lparr>sr_KeyID = ''k1'', sr_Hash = base64_encode [1, 2]\<rparr>" for x
    by (simp_all add: sample_deps_def)
  have "id_TenantID (createIdentityContext sample_claims) = ''T''"
    by (simp add: createIdentityContext_def sample_claims_def)
  then have "\<exists>b. \<exists>s'. endpoint_handler sample_deps ESign (identified sample_claims c) (signed_in (keyed_world\<lparr>w_tick := n\<rparr>))
      = (Ok (200, b), s')" for c n
    using sample_sign [of "createIdentityContext sample_claims" "req_ctx (identified sample_claims c)" n]
    by (auto simp: Handler_SignHash_def keys with_identity_def base64_decode_encode identity_of_claims answer_def
        tryM_def on_world_def signed_in_def run_basic simp del: base64_encode.simps)
  then obtain b where "\<And>c n. \<exists>s'. endpoint_handler sample_deps ESign (identified sample_claims c)
      (signed_in (keyed_world\<lparr>w_tick := n\<rparr>)) = (Ok (200, b c n), s')" by metis
  from sample_served [OF this]
  obtain b headers s' where run: "serve sample_deps good_request '''' [] True ESign (signed_in keyed_world) = (Ok ((200, b), headers), s')"
    by blast
  have sound: "jwt_parse_sound (dp_parse sample_deps) (\<lambda>tok h claims k. tok = ''good'' \<and> claims = sample_claims)"
    using sample_parse_sound by (simp add: sample_deps_def)
  from signatures_need_a_token_of_the_keys_tenant [OF sound run] run show ?thesis
    by (auto simp: signed_in_def sample_claims_def keys)
qed

theorem listed_keys_are_those_of_the_path_witness:
  "\<exists>headers s' k. serve sample_deps good_request '''' [(''tenant_id'', ''U'')] True EListKeys
       (signed_in (service_world\<lparr>w_keys := [zero_key\<lparr>k_ID := ''k1'', k_TenantID := ''U''\<rparr>]\<rparr>)) = (Ok ((200, KeyList [k]), headers), s')
     \<and> k_ID k = ''k1'' \<and> k_TenantID k = ''U'' \<and> cc_TenantID sample_claims = ''T''"
proof -
  let ?w = "service_world\<lparr>w_keys := [zero_key\<lparr>k_ID := ''k1'', k_TenantID := ''U''\<rparr>]\<rparr>"
  have "\<exists>s'. endpoint_handler sample_deps EListKeys (identified sample_claims c) (signed_in (?w\<lparr>w_tick := n\<rparr>))
      = (Ok (200, KeyList (map scan_listed (rows_of_tenant ''U'' ?w))), s')"
    if "gc_params c = [(''tenant_id'', ''U'')]" for c n
    by (simp add: Handler_ListKeys_def ListKeys_def gin_param_def that answer_def tryM_def on_world_def signed_in_def
        Keys_FindByTenant_def list_keys_def queryM_def rows_of_tenant_def sample_deps_def bindM_def wrapErr_def catchM_def
        run_dbM run_basic service_world_def fresh_world_def)
  from sample_served [OF this]
  obtain b headers s' where run: "serve sample_deps good_request '''' [(''tenant_id'', ''U'')] True EListKeys (signed_in ?w) = (Ok ((200, b), headers), s')"
    by blast
  have sound: "jwt_parse_sound (dp_parse sample_deps) (\<lambda>tok h claims k. tok = ''good'' \<and> claims = sample_claims)"
    using sample_parse_sound by (simp add: sample_deps_def)
  from listed_keys_are_those_of_the_path [OF sound run]
  have "b = KeyList (map scan_listed (rows_of_tenant ''U'' ?w))" by (simp add: sample_deps_def signed_in_def)
  then show ?thesis using run
    by (auto simp: rows_of_tenant_def newest_first_def scan_listed_def Let_def zero_key_def sample_claims_def)
qed

end
