(* ===== verification/Audit_Events.thy ===== *)
theory Audit_Events
  imports Request Sample
begin

text \<open>
  \<^verbatim>\<open>internal/infrastructure/audit\<close> without its worker: the event that \<^verbatim>\<open>AuditOperation\<close> builds from a call of
  the dispatcher, the recorders of \<^verbatim>\<open>factory.go\<close> and \<^verbatim>\<open>hybrid_processor.go\<close>, the HTTP transporter and the
  MySQL table they write to.

  Events are recorded by goroutines of their own, after the operation they tell of. They have a state of their
  own: the table's rows and the events the audit service has accepted. The environment says what the database
  and the audit service answer to each call. JSON encoding of an event's metadata cannot fail for the values
  the code puts there, and is left out.
\<close>

section \<open>Events\<close>

text \<open>\<^verbatim>\<open>AuditOperation\<close> up to the sending: the event of one call, at a time.\<close>

definition AuditOperation :: "time \<Rightarrow> audit_call \<Rightarrow> audit_event" where
  "AuditOperation now call =
     (case call of (ctx, data, identityContext) \<Rightarrow>
        let cxtMetadata = ContextValuesFromContext ctx;
            i = (case identityContext of None \<Rightarrow> zero_identity | Some i \<Rightarrow> i)
        in \<lparr>ev_ID = '''', ev_CorrelationID = cv_CorrelationID cxtMetadata, ev_SessionID = cv_SessionID cxtMetadata,
            ev_RequestID = cv_RequestID cxtMetadata, ev_ServiceName = ad_ServiceName data,
            ev_EventType = ad_EventType data, ev_EventAction = ad_Operation data,
            ev_OrganizationID = id_OrganizationID i, ev_UserID = id_UserID i, ev_TenantID = id_TenantID i,
            ev_ResourceID = ad_ResourceID data, ev_ResourceType = ad_ResourceType data,
            ev_ActorType = ad_ActorType data, ev_ActorID = cv_Actor cxtMetadata, ev_Success = ad_Success data,
            ev_StatusCode = ad_StatusCode data, ev_ErrorMessage = ad_ErrMsg data,
            ev_DurationMs = ad_DurationMs data, ev_IPAddress = cv_IPAddress cxtMetadata,
            ev_UserAgent = cv_UserAgent cxtMetadata, ev_Metadata = ad_Metadata data, ev_Timestamp = now\<rparr>)"

section \<open>Where events go\<close>

text \<open>
  The sink of the events: the calls made so far, the nanoseconds since the context of the present attempt was
  made, the rows of the table, the posts the audit service has accepted, and the events whose storing or posting
  was carried out though the caller was told of an error.
\<close>

record audit_sink =
  sk_calls :: nat
  sk_elapsed :: nat
  sk_rows :: "audit_event list"
  sk_posts :: "audit_event list"
  sk_unconfirmed :: "audit_event list"

definition empty_sink :: audit_sink where
  "empty_sink = \<lparr>sk_calls = 0, sk_elapsed = 0, sk_rows = [], sk_posts = [], sk_unconfirmed = []\<rparr>"

text \<open>
  The environment: what the \<open>n\<close>-th call is answered, an error of the driver, or of the HTTP client an error or a
  status; how many nanoseconds it takes; and whether, when it fails, it was carried out nevertheless.
\<close>

record audit_env =
  au_db :: "nat \<Rightarrow> string option"
  au_http :: "nat \<Rightarrow> string + nat"
  au_request_err :: "string option"
  au_took :: "nat \<Rightarrow> nat"
  au_did :: "nat \<Rightarrow> bool"

text \<open>A context that may be cancelled, and may have a deadline, so many nanoseconds after it was made.\<close>

record audit_ctx =
  cx_cancelled :: bool
  cx_timeout :: "nat option"

definition context_canceled :: go_error where
  "context_canceled = PlainErr ''context canceled''"

definition deadline_exceeded :: go_error where
  "deadline_exceeded = PlainErr ''context deadline exceeded''"

definition ctx_Err :: "audit_ctx \<Rightarrow> nat \<Rightarrow> go_error option" where
  "ctx_Err ctx t =
     (if cx_cancelled ctx then Some context_canceled
      else case cx_timeout ctx of
        None \<Rightarrow> None
      | Some d \<Rightarrow> if d \<le> t then Some deadline_exceeded else None)"

type_synonym 'a sink_prog = "(audit_sink, go_error, 'a) prog"

text \<open>
  A call under a context: it is not begun when the context is over, and breaks off with the context's error when
  the deadline passes before the answer has come. \<open>does\<close> is what the other side does, given the answer, if the
  caller gets it.
\<close>

definition sink_call ::
  "audit_env \<Rightarrow> audit_ctx \<Rightarrow> (nat \<Rightarrow> 'b) \<Rightarrow> (nat \<Rightarrow> 'b option \<Rightarrow> audit_sink \<Rightarrow> audit_sink) \<Rightarrow> (go_error + 'b) sink_prog" where
  "sink_call a ctx answer does s =
     (case ctx_Err ctx (sk_elapsed s) of
        Some err \<Rightarrow> (Ok (Inl err), s)
      | None \<Rightarrow>
          (let n = sk_calls s; t = sk_elapsed s + au_took a n; s' = s\<lparr>sk_calls := Suc n, sk_elapsed := t\<rparr> in
           case ctx_Err ctx t of
             Some err \<Rightarrow> (Ok (Inl err), does n None s')
           | None \<Rightarrow> (Ok (Inr (answer n)), does n (Some (answer n)) s')))"

text \<open>A failed call of which the other side took the event all the same.\<close>

definition perhaps_done :: "audit_env \<Rightarrow> nat \<Rightarrow> audit_event \<Rightarrow> audit_sink \<Rightarrow> audit_sink" where
  "perhaps_done a n ev s = (if au_did a n then s\<lparr>sk_unconfirmed := sk_unconfirmed s @ [ev]\<rparr> else s)"

text \<open>
  \<^verbatim>\<open>MySQLAuditStorage.Store\<close>. The statement names every column of the event but its id and its time stamp:
  the row gets the table's defaults for them.
\<close>

definition stored_event :: "audit_event \<Rightarrow> audit_event" where
  "stored_event ev = ev\<lparr>ev_ID := '''', ev_Timestamp := zero_time\<rparr>"

definition Store :: "audit_env \<Rightarrow> audit_ctx \<Rightarrow> audit_event \<Rightarrow> unit sink_prog" where
  "Store a ctx ev =
     bindM (sink_call a ctx (au_db a)
       (\<lambda>n r s. if r = Some None then s\<lparr>sk_rows := sk_rows s @ [stored_event ev]\<rparr> else perhaps_done a n ev s)) (\<lambda>r.
     case r of
       Inl err \<Rightarrow> throw err
     | Inr (Some s) \<Rightarrow> throw (PlainErr s)
     | Inr None \<Rightarrow> ret ())"

text \<open>
  \<^verbatim>\<open>RestAuditClient.Send\<close>; \<open>au_request_err\<close> is the error of \<^verbatim>\<open>http.NewRequestWithContext\<close>, which a base URL
  that is no URL has every time. The client has a limit of its own, ten seconds for a call.
\<close>

definition http_answer :: "audit_env \<Rightarrow> nat \<Rightarrow> string + nat" where
  "http_answer a n = (if 10 * 10 ^ 9 \<le> au_took a n then Inl ''Client.Timeout exceeded'' else au_http a n)"

definition accepted :: "string + nat \<Rightarrow> bool" where
  "accepted r = (case r of Inl err \<Rightarrow> False | Inr status \<Rightarrow> status < 400)"

definition Send :: "audit_env \<Rightarrow> audit_ctx \<Rightarrow> audit_event \<Rightarrow> unit sink_prog" where
  "Send a ctx ev =
     (case au_request_err a of
        Some err \<Rightarrow> throw (errorf_w ''failed to create audit request: '' (PlainErr err))
      | None \<Rightarrow>
          bindM (sink_call a ctx (http_answer a)
            (\<lambda>n r s. if \<exists>x. r = Some x \<and> accepted x then s\<lparr>sk_posts := sk_posts s @ [ev]\<rparr> else perhaps_done a n ev s)) (\<lambda>r.
          case r of
            Inl err \<Rightarrow> throw (errorf_w ''failed to send audit event: '' err)
          | Inr (Inl err) \<Rightarrow> throw (errorf_w ''failed to send audit event: '' (PlainErr err))
          | Inr (Inr status) \<Rightarrow>
              if 400 \<le> status then throw (PlainErr (''audit service returned status '' @ dec status)) else ret ()))"

definition Transporter_HealthCheck :: "audit_env \<Rightarrow> audit_ctx \<Rightarrow> unit sink_prog" where
  "Transporter_HealthCheck a ctx =
     (case au_request_err a of
        Some err \<Rightarrow> throw (PlainErr err)
      | None \<Rightarrow> bindM (sink_call a ctx (http_answer a) (\<lambda>n r s. s)) (\<lambda>r.
        case r of
          Inl err \<Rightarrow> throw err
        | Inr (Inl s) \<Rightarrow> throw (PlainErr s)
        | Inr (Inr status) \<Rightarrow>
            if status \<noteq> 200 then throw (PlainErr (''health check failed with status '' @ dec status)) else ret ()))"

section \<open>Recorders\<close>

text \<open>
  The hybrid recorder's strategy and whether it has a transporter; the fields of its circuit breaker are set
  by its constructor and never read.
\<close>

datatype audit_recorder =
  DatabaseRecorder | HttpRecorder | HybridProcessor string bool | MockRecorder

definition NewHybridProcessor :: "string \<Rightarrow> bool \<Rightarrow> audit_recorder" where
  "NewHybridProcessor strategy primary = HybridProcessor strategy primary"

definition NewAuditRecorder :: "string \<Rightarrow> string \<Rightarrow> audit_recorder" where
  "NewAuditRecorder strategy0 httpBaseURL =
     (let httpTransporter = (httpBaseURL \<noteq> '''' \<and> httpBaseURL \<noteq> ''mock'');
          strategy = (if \<not> httpTransporter \<and> (strategy0 = ''http'' \<or> strategy0 = ''hybrid'')
                      then ''database'' else strategy0)
      in if strategy = ''database'' then DatabaseRecorder
         else if strategy = ''http'' then HttpRecorder
         else if strategy = ''hybrid'' then NewHybridProcessor strategy httpTransporter
         else if strategy = ''mock'' then MockRecorder
         else DatabaseRecorder)"

definition Hybrid_RecordEvent :: "audit_env \<Rightarrow> audit_ctx \<Rightarrow> string \<Rightarrow> bool \<Rightarrow> audit_event \<Rightarrow> unit sink_prog" where
  "Hybrid_RecordEvent a ctx strategy primary ev =
     (if strategy = ''database'' then Store a ctx ev
      else if strategy = ''http'' then (if \<not> primary then Store a ctx ev else Send a ctx ev)
      else if strategy = ''hybrid'' then
        (if \<not> primary then Store a ctx ev else catchM (Send a ctx ev) (\<lambda>err. Store a ctx ev))
      else Store a ctx ev)"

fun RecordEvent :: "audit_env \<Rightarrow> audit_ctx \<Rightarrow> audit_recorder \<Rightarrow> audit_event \<Rightarrow> unit sink_prog" where
  "RecordEvent a ctx DatabaseRecorder ev = Store a ctx ev"
| "RecordEvent a ctx HttpRecorder ev = Send a ctx ev"
| "RecordEvent a ctx (HybridProcessor strategy primary) ev = Hybrid_RecordEvent a ctx strategy primary ev"
| "RecordEvent a ctx MockRecorder ev = ret ()"

text \<open>
  \<^verbatim>\<open>recordAuditEvent\<close> of \<^verbatim>\<open>worker.go\<close>: one attempt, under a context that is made from the worker's, so cancelled
  with it, and that is over after five seconds. An attempt is one step: cancelling the worker comes before it or
  after it, and a call that a cancellation breaks off looks like one broken off by the deadline.
\<close>

definition auditTimeout :: nat where
  "auditTimeout = 5 * 10 ^ 9"

definition recordAuditEvent :: "audit_env \<Rightarrow> bool \<Rightarrow> audit_recorder option \<Rightarrow> audit_event \<Rightarrow> unit sink_prog" where
  "recordAuditEvent a cancelled client ev =
     (case client of
        None \<Rightarrow> ret ()
      | Some r \<Rightarrow>
          bindM (modifyM (\<lambda>s. s\<lparr>sk_elapsed := 0\<rparr>)) (\<lambda>_.
          RecordEvent a \<lparr>cx_cancelled = cancelled, cx_timeout = Some auditTimeout\<rparr> r ev))"

section \<open>The mock dispatcher\<close>

definition Mock_AuditOperation :: "audit_call \<Rightarrow> audit_data list \<Rightarrow> audit_data list" where
  "Mock_AuditOperation call events = (case call of (ctx, data, i) \<Rightarrow> events @ [data])"

definition NewMockAuditDispatcher :: "audit_data list" where
  "NewMockAuditDispatcher = []"

definition Mock_Close :: "audit_data list \<Rightarrow> go_error option \<times> audit_data list" where
  "Mock_Close events = (None, events)"

definition Mock_GetEvents :: "audit_data list \<Rightarrow> audit_data list" where
  "Mock_GetEvents events = events"

text \<open>The mock keeps the data of every call, in order.\<close>

lemma mock_keeps_everything:
  "Mock_GetEvents (fold Mock_AuditOperation calls NewMockAuditDispatcher) = map (fst \<circ> snd) calls"
proof -
  have "fold Mock_AuditOperation calls events = events @ map (fst \<circ> snd) calls" for events
    by (induction calls arbitrary: events) (auto simp: Mock_AuditOperation_def)
  then show ?thesis by (simp add: Mock_GetEvents_def NewMockAuditDispatcher_def)
qed

section \<open>Facts\<close>

text \<open>
  What one attempt to record an event leaves: nothing on an error, and on success the event in one place, the
  database or the audit service (the mock recorder has none).
\<close>

definition landed :: "audit_event \<Rightarrow> audit_sink \<Rightarrow> audit_sink \<Rightarrow> bool" where
  "landed ev s s' \<longleftrightarrow>
     (sk_rows s' = sk_rows s @ [stored_event ev] \<and> sk_posts s' = sk_posts s)
     \<or> (sk_posts s' = sk_posts s @ [ev] \<and> sk_rows s' = sk_rows s)"

definition kept :: "audit_sink \<Rightarrow> audit_sink \<Rightarrow> bool" where
  "kept s s' \<longleftrightarrow> sk_rows s' = sk_rows s \<and> sk_posts s' = sk_posts s"

lemma sink_call_cases:
  obtains (over) err where "ctx_Err ctx (sk_elapsed s) = Some err" "sink_call a ctx answer does s = (Ok (Inl err), s)"
  | (late) err where "ctx_Err ctx (sk_elapsed s) = None" "ctx_Err ctx (sk_elapsed s + au_took a (sk_calls s)) = Some err"
      "sink_call a ctx answer does s = (Ok (Inl err),
         does (sk_calls s) None (s\<lparr>sk_calls := Suc (sk_calls s), sk_elapsed := sk_elapsed s + au_took a (sk_calls s)\<rparr>))"
  | (answered) "ctx_Err ctx (sk_elapsed s) = None" "ctx_Err ctx (sk_elapsed s + au_took a (sk_calls s)) = None"
      "sink_call a ctx answer does s = (Ok (Inr (answer (sk_calls s))),
         does (sk_calls s) (Some (answer (sk_calls s)))
           (s\<lparr>sk_calls := Suc (sk_calls s), sk_elapsed := sk_elapsed s + au_took a (sk_calls s)\<rparr>))"
  by (cases "ctx_Err ctx (sk_elapsed s)"; cases "ctx_Err ctx (sk_elapsed s + au_took a (sk_calls s))")
    (auto simp: sink_call_def Let_def)

lemma perhaps_done_kept [simp]:
  "sk_rows (perhaps_done a n ev s) = sk_rows s" "sk_posts (perhaps_done a n ev s) = sk_posts s"
  "sk_calls (perhaps_done a n ev s) = sk_calls s" "sk_elapsed (perhaps_done a n ev s) = sk_elapsed s"
  by (simp_all add: perhaps_done_def)

text \<open>A call that gets its answer in time, and one that does not.\<close>

definition in_time :: "audit_env \<Rightarrow> audit_ctx \<Rightarrow> audit_sink \<Rightarrow> bool" where
  "in_time a ctx s \<longleftrightarrow>
     ctx_Err ctx (sk_elapsed s) = None \<and> ctx_Err ctx (sk_elapsed s + au_took a (sk_calls s)) = None"

lemma Store_cases:
  obtains (stored) s' where "in_time a ctx s" "au_db a (sk_calls s) = None" "Store a ctx ev s = (Ok (), s')"
      "landed ev s s'" "sk_unconfirmed s' = sk_unconfirmed s"
  | (failed) err s' where "\<not> in_time a ctx s \<or> au_db a (sk_calls s) \<noteq> None" "Store a ctx ev s = (Err err, s')" "kept s s'"
proof (cases rule: sink_call_cases [of ctx s a "au_db a"
    "\<lambda>n r s. if r = Some None then s\<lparr>sk_rows := sk_rows s @ [stored_event ev]\<rparr> else perhaps_done a n ev s"])
  case (over err)
  then show ?thesis by (intro failed [of err "snd (Store a ctx ev s)"]) (auto simp: Store_def bindM_def run_basic in_time_def kept_def)
next
  case (late err)
  then show ?thesis by (intro failed [of err "snd (Store a ctx ev s)"]) (auto simp: Store_def bindM_def run_basic in_time_def kept_def)
next
  case answered
  show ?thesis
  proof (cases "au_db a (sk_calls s)")
    case None
    then show ?thesis using answered by (intro stored [of "snd (Store a ctx ev s)"]) (auto simp: Store_def bindM_def run_basic in_time_def landed_def)
  next
    case (Some x)
    then show ?thesis using answered by (intro failed [of "PlainErr x" "snd (Store a ctx ev s)"]) (auto simp: Store_def bindM_def run_basic kept_def)
  qed
qed

lemma Send_cases:
  obtains (sent) s' where "au_request_err a = None" "in_time a ctx s" "accepted (http_answer a (sk_calls s))"
      "Send a ctx ev s = (Ok (), s')" "landed ev s s'" "sk_rows s' = sk_rows s" "sk_unconfirmed s' = sk_unconfirmed s"
  | (unsent) err s' where "au_request_err a = None \<Longrightarrow> \<not> in_time a ctx s \<or> \<not> accepted (http_answer a (sk_calls s))"
      "Send a ctx ev s = (Err err, s')" "kept s s'"
      "au_request_err a = None \<Longrightarrow> ctx_Err ctx (sk_elapsed s) = None \<Longrightarrow>
         sk_calls s' = Suc (sk_calls s) \<and> sk_elapsed s' = sk_elapsed s + au_took a (sk_calls s)"
proof (cases "au_request_err a")
  case (Some err)
  then show ?thesis by (intro unsent [of "errorf_w ''failed to create audit request: '' (PlainErr err)" "snd (Send a ctx ev s)"]) (auto simp: Send_def run_basic kept_def)
next
  case None
  let ?does = "\<lambda>n r s. if \<exists>x. r = Some x \<and> accepted x then s\<lparr>sk_posts := sk_posts s @ [ev]\<rparr> else perhaps_done a n ev s"
  show ?thesis
  proof (cases rule: sink_call_cases [of ctx s a "http_answer a" ?does])
    case (over err)
    then show ?thesis using None by (intro unsent [of "errorf_w ''failed to send audit event: '' err" "snd (Send a ctx ev s)"]) (auto simp: Send_def bindM_def run_basic in_time_def kept_def)
  next
    case (late err)
    then show ?thesis using None by (intro unsent [of "errorf_w ''failed to send audit event: '' err" "snd (Send a ctx ev s)"]) (auto simp: Send_def bindM_def run_basic in_time_def kept_def)
  next
    case answered
    show ?thesis
    proof (cases "http_answer a (sk_calls s)")
      case (Inl x)
      then show ?thesis using None answered
        by (intro unsent [of "errorf_w ''failed to send audit event: '' (PlainErr x)" "snd (Send a ctx ev s)"]) (auto simp: Send_def bindM_def run_basic in_time_def kept_def accepted_def)
    next
      case (Inr status)
      show ?thesis
      proof (cases "status < 400")
        case True
        then show ?thesis using None answered Inr
          by (intro sent [of "snd (Send a ctx ev s)"]) (auto simp: Send_def bindM_def run_basic in_time_def landed_def accepted_def)
      next
        case False
        then show ?thesis using None answered Inr
          by (intro unsent [of "PlainErr (''audit service returned status '' @ dec status)" "snd (Send a ctx ev s)"]) (auto simp: Send_def bindM_def run_basic in_time_def kept_def accepted_def)
      qed
    qed
  qed
qed

text \<open>One attempt of any recorder either leaves the event once, or fails and leaves the sink's events as they were.\<close>

definition lands :: "audit_event \<Rightarrow> audit_sink \<Rightarrow> (go_error, unit) outcome \<times> audit_sink \<Rightarrow> bool" where
  "lands ev s x \<longleftrightarrow> (fst x = Ok () \<and> landed ev s (snd x)) \<or> (\<exists>err. fst x = Err err \<and> kept s (snd x))"

lemma Store_lands: "lands ev s (Store a ctx ev s)"
  by (cases rule: Store_cases [of a ctx s ev]) (simp_all add: lands_def)

lemma Send_lands: "lands ev s (Send a ctx ev s)"
  by (cases rule: Send_cases [of a ctx s ev]) (simp_all add: lands_def)

lemma fallback_lands: "lands ev s (catchM (Send a ctx ev) (\<lambda>err. Store a ctx ev) s)"
proof (cases rule: Send_cases [of a ctx s ev])
  case (sent s')
  then show ?thesis by (simp add: lands_def catchM_def)
next
  case (unsent err s')
  then show ?thesis using Store_lands [of ev s' a ctx] by (auto simp: lands_def catchM_def landed_def kept_def)
qed

lemma Hybrid_lands: "lands ev s (Hybrid_RecordEvent a ctx strategy primary ev s)"
  by (simp add: Hybrid_RecordEvent_def Store_lands Send_lands fallback_lands)

lemma RecordEvent_lands: "r \<noteq> MockRecorder \<Longrightarrow> lands ev s (RecordEvent a ctx r ev s)"
  by (cases r) (simp_all add: Store_lands Send_lands Hybrid_lands)

lemma sk_elapsed_kept [simp]: "kept (s\<lparr>sk_elapsed := n\<rparr>) s' = kept s s'" "landed ev (s\<lparr>sk_elapsed := n\<rparr>) s' = landed ev s s'"
  by (simp_all add: kept_def landed_def)

lemma recordAuditEvent_run:
  "recordAuditEvent a cancelled (Some r) ev s =
     RecordEvent a \<lparr>cx_cancelled = cancelled, cx_timeout = Some auditTimeout\<rparr> r ev (s\<lparr>sk_elapsed := 0\<rparr>)"
  by (simp add: recordAuditEvent_def bindM_def run_basic)

lemma recordAuditEvent_lands: "r \<noteq> MockRecorder \<Longrightarrow> lands ev s (recordAuditEvent a cancelled (Some r) ev s)"
  using RecordEvent_lands [of r ev "s\<lparr>sk_elapsed := 0\<rparr>"] by (simp add: recordAuditEvent_run lands_def)

lemma recordAuditEvent_mock: "recordAuditEvent a cancelled (Some MockRecorder) ev s = (Ok (), s\<lparr>sk_elapsed := 0\<rparr>)"
  by (simp add: recordAuditEvent_run run_basic)

text \<open>Under a cancelled context nothing is recorded.\<close>

lemma cancelled_not_in_time: "\<not> in_time a \<lparr>cx_cancelled = True, cx_timeout = d\<rparr> s"
  by (simp add: in_time_def ctx_Err_def)

lemma cancelled_fails:
  assumes "r \<noteq> MockRecorder"
  shows "\<exists>err s'. RecordEvent a \<lparr>cx_cancelled = True, cx_timeout = d\<rparr> r ev s = (Err err, s') \<and> kept s s'"
proof -
  let ?ctx = "\<lparr>cx_cancelled = True, cx_timeout = d\<rparr>"
  have store: "\<exists>err s'. Store a ?ctx ev u = (Err err, s') \<and> kept u s'" for u
    by (cases rule: Store_cases [of a ?ctx u ev]) (auto simp: cancelled_not_in_time)
  have send: "\<exists>err s'. Send a ?ctx ev u = (Err err, s') \<and> kept u s'" for u
    by (cases rule: Send_cases [of a ?ctx u ev]) (auto simp: cancelled_not_in_time)
  obtain err s' where "Send a ?ctx ev s = (Err err, s')" "kept s s'" using send by blast
  then have "\<exists>err s'. catchM (Send a ?ctx ev) (\<lambda>err. Store a ?ctx ev) s = (Err err, s') \<and> kept s s'"
    using store [of s'] by (auto simp: catchM_def kept_def)
  then show ?thesis using assms store [of s] send [of s] by (cases r) (auto simp: Hybrid_RecordEvent_def)
qed

lemma NewAuditRecorder_mock: "NewAuditRecorder strategy url = MockRecorder \<longleftrightarrow> strategy = ''mock''"
  by (auto simp: NewAuditRecorder_def NewHybridProcessor_def Let_def)

text \<open>The hybrid strategy with a base URL: the service first, the table for what is left of the five seconds.\<close>

lemma in_time_iff:
  "in_time a \<lparr>cx_cancelled = False, cx_timeout = Some d\<rparr> s \<longleftrightarrow> sk_elapsed s + au_took a (sk_calls s) < d"
  by (auto simp: in_time_def ctx_Err_def)

lemma hybrid_Ok_iff:
  assumes "au_request_err a = None" and "url \<notin> {'''', ''mock''}"
  shows "fst (recordAuditEvent a False (Some (NewAuditRecorder ''hybrid'' url)) ev s) = Ok () \<longleftrightarrow>
    au_took a (sk_calls s) < auditTimeout \<and>
      (accepted (au_http a (sk_calls s))
       \<or> au_took a (sk_calls s) + au_took a (Suc (sk_calls s)) < auditTimeout \<and> au_db a (Suc (sk_calls s)) = None)"
proof -
  let ?ctx = "\<lparr>cx_cancelled = False, cx_timeout = Some auditTimeout\<rparr>" and ?s = "s\<lparr>sk_elapsed := 0\<rparr>"
  have run: "recordAuditEvent a False (Some (NewAuditRecorder ''hybrid'' url)) ev s =
      catchM (Send a ?ctx ev) (\<lambda>err. Store a ?ctx ev) ?s"
    using assms(2) by (simp add: recordAuditEvent_run NewAuditRecorder_def NewHybridProcessor_def Hybrid_RecordEvent_def)
  have http: "au_took a n < auditTimeout \<Longrightarrow> http_answer a n = au_http a n" for n
    by (simp add: http_answer_def auditTimeout_def)
  show ?thesis
  proof (cases rule: Send_cases [of a ?ctx ?s ev])
    case (sent s')
    then show ?thesis using http by (auto simp: run catchM_def in_time_iff)
  next
    case (unsent err s')
    have "ctx_Err ?ctx (sk_elapsed ?s) = None" by (simp add: ctx_Err_def auditTimeout_def)
    then have s': "sk_calls s' = Suc (sk_calls s)" "sk_elapsed s' = au_took a (sk_calls s)"
      using unsent(4) assms(1) by auto
    have not: "\<not> (au_took a (sk_calls s) < auditTimeout \<and> accepted (au_http a (sk_calls s)))"
      using unsent(1) assms(1) http by (auto simp: in_time_iff)
    show ?thesis
    proof (cases rule: Store_cases [of a ?ctx s' ev])
      case (stored t)
      then show ?thesis using unsent(2) s' by (auto simp: run catchM_def in_time_iff)
    next
      case (failed err' t)
      then show ?thesis using unsent(2) s' not by (auto simp: run catchM_def in_time_iff)
    qed
  qed
qed

text \<open>With a database that answers every call within half the time, the table is the fallback it is meant to be.\<close>

lemma records_in_time:
  assumes "strategy \<notin> {''mock'', ''http''}" and "\<And>n. au_db a n = None" and "\<And>n. 2 * au_took a n < auditTimeout"
  shows "fst (recordAuditEvent a False (Some (NewAuditRecorder strategy url)) ev s) = Ok ()"
proof -
  let ?ctx = "\<lparr>cx_cancelled = False, cx_timeout = Some auditTimeout\<rparr>" and ?s = "s\<lparr>sk_elapsed := 0\<rparr>"
  have half: "au_took a n < auditTimeout" "au_took a m + au_took a n < auditTimeout" for m n
    using assms(3) [of n] assms(3) [of m] by linarith+
  have db: "fst (Store a ?ctx ev ?s) = Ok ()"
    by (cases rule: Store_cases [of a ?ctx ?s ev]) (auto simp: in_time_iff assms(2) half)
  have both: "fst (catchM (Send a ?ctx ev) (\<lambda>err. Store a ?ctx ev) ?s) = Ok ()"
  proof (cases rule: Send_cases [of a ?ctx ?s ev])
    case (sent s')
    then show ?thesis by (simp add: catchM_def)
  next
    case (unsent err s')
    have "sk_elapsed s' + au_took a (sk_calls s') < auditTimeout"
    proof (cases "au_request_err a")
      case None
      then show ?thesis using unsent(4) half by (simp add: ctx_Err_def auditTimeout_def)
    next
      case (Some x)
      then have "s' = ?s" using unsent(2) by (auto simp: Send_def run_basic)
      then show ?thesis using half by simp
    qed
    then show ?thesis
      using unsent(2) by (cases rule: Store_cases [of a ?ctx s' ev]) (auto simp: catchM_def in_time_iff assms(2))
  qed
  show ?thesis
    using assms(1) db both
    by (auto simp: recordAuditEvent_run NewAuditRecorder_def NewHybridProcessor_def Hybrid_RecordEvent_def Let_def)
qed

section \<open>Properties\<close>




definition audited_event :: audit_event where
  "audited_event = AuditOperation 0 (Background, op_audit ''s'' ''O'' ''A'' '''' [] None 1, None)"


end
