(* ===== verification/Audit_Worker.thy ===== *)
theory Audit_Worker
  imports Audit_Events "HOL-Library.Multiset"
begin

text \<open>
  \<^verbatim>\<open>internal/infrastructure/audit/worker.go\<close>: the goroutines between the operations and the recorder. A caller
  of \<^verbatim>\<open>AuditOperation\<close> puts its event into a channel of 1000 places, waiting at most 100 milliseconds; three
  workers take events out and record them; \<^verbatim>\<open>Close\<close> cancels the workers' context, closes the channel and waits
  for them.

  The goroutines interleave: an action is what one of them does between two points where another may run, and
  a step is any action that is enabled. Where a \<^verbatim>\<open>select\<close> has several ready cases Go picks one at random, so
  each is an action of its own; the timer of a sender may fire at any time. Sending on a closed channel and
  closing one twice are panics of that goroutine. No code takes the write lock of the worker's mutex, so its
  read lock never waits. Six fields keep the history of the events for the properties.

  The locale \<open>fifo_buffer\<close> is the contract of the channel: a queue with a bound that loses and reorders
  nothing. The worker's steps interpret it.
\<close>

section \<open>The state\<close>

definition auditBufferSize :: nat where
  "auditBufferSize = 1000"

definition auditWorkerCount :: nat where
  "auditWorkerCount = 3"

text \<open>Where a worker is: in its \<^verbatim>\<open>select\<close>, recording an event, or gone with its result.\<close>

datatype worker_pc = Waiting | Recording audit_event | Exited "go_error option"

text \<open>Where a call of \<^verbatim>\<open>Close\<close> is: after the cancellation, in \<^verbatim>\<open>Wait\<close>, or over.\<close>

datatype closer_pc = Closing | Joining | Returned "go_error option" | Crashed string

record audit_worker =
  wk_channel :: "audit_event list"
  wk_closed :: bool
  wk_done :: bool
  wk_workers :: "worker_pc list"
  wk_senders :: "audit_event list"
  wk_closers :: "closer_pc list"
  wk_group_err :: "go_error option"
  wk_sink :: audit_sink
  wk_called :: "audit_event list"
  wk_sent :: "audit_event list"
  wk_taken :: "audit_event list"
  wk_recorded :: "audit_event list"
  wk_failed :: "audit_event list"
  wk_dropped :: "audit_event list"
  wk_panicked :: "audit_event list"

text \<open>\<^verbatim>\<open>NewAuditWorker\<close>: the workers are started when there is a recorder.\<close>

definition NewAuditWorker :: "audit_recorder option \<Rightarrow> audit_sink \<Rightarrow> audit_worker" where
  "NewAuditWorker client sink =
     \<lparr>wk_channel = [], wk_closed = False, wk_done = False,
      wk_workers = (case client of None \<Rightarrow> [] | Some _ \<Rightarrow> replicate auditWorkerCount Waiting),
      wk_senders = [], wk_closers = [], wk_group_err = None, wk_sink = sink, wk_called = [], wk_sent = [],
      wk_taken = [], wk_recorded = [], wk_failed = [], wk_dropped = [], wk_panicked = []\<rparr>"

section \<open>Actions\<close>

datatype audit_action =
  Call time audit_call
| Enqueue nat | Timeout nat | SendDone nat | SendPanic nat
| Take nat | Record nat | WorkerDone nat | WorkerEnd nat
| CloseCall | CloseChannel nat | CloseReturn nat

definition remove_at :: "nat \<Rightarrow> 'a list \<Rightarrow> 'a list" where
  "remove_at i xs = take i xs @ drop (Suc i) xs"

text \<open>
  \<^verbatim>\<open>SendEvent\<close>: the call enters the \<^verbatim>\<open>select\<close>, and one of its cases ends it. The send is ready while the channel
  is open and not full; on a closed channel it panics.
\<close>

definition send_call :: "audit_recorder option \<Rightarrow> audit_event \<Rightarrow> audit_worker \<Rightarrow> audit_worker" where
  "send_call client ev s =
     (case client of
        None \<Rightarrow> s
      | Some _ \<Rightarrow> s\<lparr>wk_senders := wk_senders s @ [ev], wk_called := wk_called s @ [ev]\<rparr>)"

definition SendEvent_enqueue :: "nat \<Rightarrow> audit_worker \<Rightarrow> audit_worker option" where
  "SendEvent_enqueue i s =
     (if i < length (wk_senders s) \<and> \<not> wk_closed s \<and> length (wk_channel s) < auditBufferSize
      then Some (s\<lparr>wk_senders := remove_at i (wk_senders s), wk_channel := wk_channel s @ [wk_senders s ! i],
                   wk_sent := wk_sent s @ [wk_senders s ! i]\<rparr>)
      else None)"

definition SendEvent_drop :: "bool \<Rightarrow> nat \<Rightarrow> audit_worker \<Rightarrow> audit_worker option" where
  "SendEvent_drop ready i s =
     (if i < length (wk_senders s) \<and> ready
      then Some (s\<lparr>wk_senders := remove_at i (wk_senders s), wk_dropped := wk_dropped s @ [wk_senders s ! i]\<rparr>)
      else None)"

definition SendEvent_panic :: "nat \<Rightarrow> audit_worker \<Rightarrow> audit_worker option" where
  "SendEvent_panic i s =
     (if i < length (wk_senders s) \<and> wk_closed s
      then Some (s\<lparr>wk_senders := remove_at i (wk_senders s), wk_panicked := wk_panicked s @ [wk_senders s ! i]\<rparr>)
      else None)"

text \<open>
  \<^verbatim>\<open>auditWorker\<close>. Its loop receives an event and records it; it ends with the context's error when that is
  done, or without one when the channel is closed and empty. The first error of a worker is the group's.
\<close>

definition worker_take :: "nat \<Rightarrow> audit_worker \<Rightarrow> audit_worker option" where
  "worker_take j s =
     (if j < length (wk_workers s) \<and> wk_workers s ! j = Waiting then
        (case wk_channel s of
           [] \<Rightarrow> None
         | ev # rest \<Rightarrow> Some (s\<lparr>wk_workers := (wk_workers s)[j := Recording ev], wk_channel := rest,
                               wk_taken := wk_taken s @ [ev]\<rparr>))
      else None)"

text \<open>
  An attempt without error counts as recorded; an error is only logged, and the event is given up.
\<close>

definition worker_record :: "audit_env \<Rightarrow> audit_recorder option \<Rightarrow> nat \<Rightarrow> audit_worker \<Rightarrow> audit_worker option" where
  "worker_record a client j s =
     (if j < length (wk_workers s) then
        (case wk_workers s ! j of
           Recording ev \<Rightarrow>
             (case recordAuditEvent a (wk_done s) client ev (wk_sink s) of
                (r, sink) \<Rightarrow>
                  let s' = s\<lparr>wk_workers := (wk_workers s)[j := Waiting], wk_sink := sink\<rparr> in
                  Some (if r = Ok () then s'\<lparr>wk_recorded := wk_recorded s @ [ev]\<rparr>
                        else s'\<lparr>wk_failed := wk_failed s @ [ev]\<rparr>))
         | _ \<Rightarrow> None)
      else None)"

definition worker_exit :: "bool \<Rightarrow> go_error option \<Rightarrow> nat \<Rightarrow> audit_worker \<Rightarrow> audit_worker option" where
  "worker_exit ready err j s =
     (if j < length (wk_workers s) \<and> wk_workers s ! j = Waiting \<and> ready
      then Some (s\<lparr>wk_workers := (wk_workers s)[j := Exited err],
                   wk_group_err := (if wk_group_err s = None then err else wk_group_err s)\<rparr>)
      else None)"

text \<open>\<^verbatim>\<open>Close\<close>: cancel, close the channel, wait, and let the cancellation's own error pass for none.\<close>

definition Close_call :: "audit_recorder option \<Rightarrow> audit_worker \<Rightarrow> audit_worker" where
  "Close_call client s =
     (case client of
        None \<Rightarrow> s\<lparr>wk_closers := wk_closers s @ [Returned None]\<rparr>
      | Some _ \<Rightarrow> s\<lparr>wk_done := True, wk_closers := wk_closers s @ [Closing]\<rparr>)"

definition Close_channel :: "nat \<Rightarrow> audit_worker \<Rightarrow> audit_worker option" where
  "Close_channel k s =
     (if k < length (wk_closers s) \<and> wk_closers s ! k = Closing then
        Some (if wk_closed s then s\<lparr>wk_closers := (wk_closers s)[k := Crashed ''close of closed channel'']\<rparr>
              else s\<lparr>wk_closed := True, wk_closers := (wk_closers s)[k := Joining]\<rparr>)
      else None)"

definition is_exited :: "worker_pc \<Rightarrow> bool" where
  "is_exited p = (case p of Exited _ \<Rightarrow> True | _ \<Rightarrow> False)"

definition Close_return :: "nat \<Rightarrow> audit_worker \<Rightarrow> audit_worker option" where
  "Close_return k s =
     (if k < length (wk_closers s) \<and> wk_closers s ! k = Joining \<and> list_all is_exited (wk_workers s)
      then Some (s\<lparr>wk_closers := (wk_closers s)[k :=
             Returned (if wk_group_err s = None \<or> wk_group_err s = Some context_canceled then None
                       else wk_group_err s)]\<rparr>)
      else None)"

fun audit_act :: "audit_env \<Rightarrow> audit_recorder option \<Rightarrow> audit_action \<Rightarrow> audit_worker \<Rightarrow> audit_worker option" where
  "audit_act a client (Call now call) s = Some (send_call client (AuditOperation now call) s)"
| "audit_act a client (Enqueue i) s = SendEvent_enqueue i s"
| "audit_act a client (Timeout i) s = SendEvent_drop True i s"
| "audit_act a client (SendDone i) s = SendEvent_drop (wk_done s) i s"
| "audit_act a client (SendPanic i) s = SendEvent_panic i s"
| "audit_act a client (Take j) s = worker_take j s"
| "audit_act a client (Record j) s = worker_record a client j s"
| "audit_act a client (WorkerDone j) s = worker_exit (wk_done s) (Some context_canceled) j s"
| "audit_act a client (WorkerEnd j) s = worker_exit (wk_closed s \<and> wk_channel s = []) None j s"
| "audit_act a client CloseCall s = Some (Close_call client s)"
| "audit_act a client (CloseChannel k) s = Close_channel k s"
| "audit_act a client (CloseReturn k) s = Close_return k s"

inductive audit_step :: "audit_env \<Rightarrow> audit_recorder option \<Rightarrow> audit_worker \<Rightarrow> audit_worker \<Rightarrow> bool" for a client where
  act: "audit_act a client x s = Some s' \<Longrightarrow> audit_step a client s s'"

inductive audit_reach :: "audit_env \<Rightarrow> audit_recorder option \<Rightarrow> audit_sink \<Rightarrow> audit_worker \<Rightarrow> bool" for a client sink where
  start: "audit_reach a client sink (NewAuditWorker client sink)"
| step: "audit_reach a client sink s \<Longrightarrow> audit_step a client s s' \<Longrightarrow> audit_reach a client sink s'"

text \<open>A run as a list of actions.\<close>

fun audit_run :: "audit_env \<Rightarrow> audit_recorder option \<Rightarrow> audit_action list \<Rightarrow> audit_worker \<Rightarrow> audit_worker option" where
  "audit_run a client [] s = Some s"
| "audit_run a client (x # xs) s =
     (case audit_act a client x s of None \<Rightarrow> None | Some s' \<Rightarrow> audit_run a client xs s')"

section \<open>The contract of the channel\<close>

text \<open>A bounded queue, and what has left it.\<close>

inductive queue_step :: "nat \<Rightarrow> 'a list \<times> 'a list \<Rightarrow> 'a list \<times> 'a list \<Rightarrow> bool" for n where
  put: "length q < n \<Longrightarrow> queue_step n (q, out) (q @ [x], out)"
| get: "queue_step n (x # q, out) (q, out @ [x])"

inductive_simps queue_step_simps: "queue_step n (q, out) (q', out')"

text \<open>
  A system whose steps are steps of a bounded queue or leave the queue alone, with the list of what has entered.
\<close>

locale fifo_buffer =
  fixes step :: "'s \<Rightarrow> 's \<Rightarrow> bool" and queue left entered :: "'s \<Rightarrow> 'a list" and bound :: nat
  assumes refines: "step s t \<Longrightarrow> queue_step bound (queue s, left s) (queue t, left t)
      \<or> (queue t = queue s \<and> left t = left s)"
    and enters: "step s t \<Longrightarrow> entered t = entered s @ drop (length (left s @ queue s)) (left t @ queue t)"
begin

lemma step_keeps:
  assumes "step s t" and "entered s = left s @ queue s" and "length (queue s) \<le> bound"
  shows "entered t = left t @ queue t \<and> length (queue t) \<le> bound"
  using refines [OF assms(1)] enters [OF assms(1)] assms(2,3) by (auto simp: queue_step_simps)

lemma run_keeps:
  assumes "step\<^sup>*\<^sup>* s t" and "entered s = left s @ queue s" and "length (queue s) \<le> bound"
  shows "entered t = left t @ queue t \<and> length (queue t) \<le> bound"
  using assms(1) by induction (use assms(2,3) step_keeps in blast)+

lemma run_refines:
  assumes "step\<^sup>*\<^sup>* s t"
  shows "(queue_step bound)\<^sup>*\<^sup>* (queue s, left s) (queue t, left t)"
  using assms by induction (auto dest!: refines intro: rtranclp.rtrancl_into_rtrancl)

text \<open>What has left a queue stays in the order in which it left.\<close>

lemma run_prefix:
  assumes "step\<^sup>*\<^sup>* s t"
  shows "\<exists>more. left t = left s @ more"
  using assms by induction (auto dest!: refines simp: queue_step_simps)

end

section \<open>Facts\<close>

lemmas audit_act_defs = Let_def SendEvent_enqueue_def SendEvent_drop_def SendEvent_panic_def worker_take_def worker_record_def
  worker_exit_def Close_channel_def Close_return_def

lemma audit_step_iff: "audit_step a client s s' \<longleftrightarrow> (\<exists>x. audit_act a client x s = Some s')"
  by (auto simp: audit_step.simps)

lemma audit_act_channel:
  assumes "audit_act a client x s = Some s'"
  shows "(wk_channel s' = wk_channel s \<and> wk_taken s' = wk_taken s \<and> wk_sent s' = wk_sent s)
    \<or> (\<exists>ev. length (wk_channel s) < auditBufferSize \<and> wk_channel s' = wk_channel s @ [ev] \<and> wk_taken s' = wk_taken s
         \<and> wk_sent s' = wk_sent s @ [ev])
    \<or> (\<exists>ev. wk_channel s = ev # wk_channel s' \<and> wk_taken s' = wk_taken s @ [ev] \<and> wk_sent s' = wk_sent s)"
  using assms
  by (cases x; cases client)
    (auto simp: audit_act_defs send_call_def Close_call_def split: if_split_asm list.split_asm worker_pc.split_asm prod.split_asm)

interpretation channel: fifo_buffer "audit_step a client" wk_channel wk_taken wk_sent auditBufferSize
  for a client
  by unfold_locales (auto simp: audit_step_iff queue_step_simps dest!: audit_act_channel)

lemma reach_run: "audit_reach a client sink s \<Longrightarrow> (audit_step a client)\<^sup>*\<^sup>* (NewAuditWorker client sink) s"
  by (induction rule: audit_reach.induct) auto

subsection \<open>Where the events are\<close>

definition being_recorded :: "worker_pc \<Rightarrow> audit_event multiset" where
  "being_recorded p = (case p of Recording ev \<Rightarrow> {#ev#} | _ \<Rightarrow> {#})"

definition in_hand :: "worker_pc list \<Rightarrow> audit_event multiset" where
  "in_hand ps = sum_list (map being_recorded ps)"

lemma in_hand_update:
  "j < length ps \<Longrightarrow> in_hand (ps[j := p]) + being_recorded (ps ! j) = in_hand ps + being_recorded p"
proof (induction ps arbitrary: j)
  case (Cons q ps)
  then show ?case by (cases j) (auto simp: in_hand_def ac_simps)
qed simp

lemma mset_remove_at: "i < length xs \<Longrightarrow> mset (remove_at i xs) + {#xs ! i#} = mset xs"
proof -
  assume i: "i < length xs"
  have "mset xs = mset (take i xs @ xs ! i # drop (Suc i) xs)" using id_take_nth_drop [OF i] by simp
  then show ?thesis by (simp add: remove_at_def)
qed

definition events_kept :: "audit_worker \<Rightarrow> bool" where
  "events_kept s \<longleftrightarrow>
     mset (wk_called s) = mset (wk_senders s) + mset (wk_sent s) + mset (wk_dropped s) + mset (wk_panicked s)
     \<and> mset (wk_taken s) = in_hand (wk_workers s) + mset (wk_recorded s) + mset (wk_failed s)"

lemma mset_remove_at': "i < length xs \<Longrightarrow> mset xs = add_mset (xs ! i) (mset (remove_at i xs))"
  using mset_remove_at [of i xs] by simp

lemma in_hand_waiting:
  "j < length ps \<Longrightarrow> ps ! j = Waiting \<Longrightarrow> in_hand (ps[j := Recording ev]) = add_mset ev (in_hand ps)"
  "j < length ps \<Longrightarrow> ps ! j = Recording ev \<Longrightarrow> in_hand ps = add_mset ev (in_hand (ps[j := Waiting]))"
  "j < length ps \<Longrightarrow> ps ! j = Waiting \<Longrightarrow> in_hand (ps[j := Exited err]) = in_hand ps"
  using in_hand_update [of j ps "Recording ev"] in_hand_update [of j ps Waiting] in_hand_update [of j ps "Exited err"]
  by (simp_all add: being_recorded_def)

lemma audit_act_keeps_events:
  assumes "audit_act a client x s = Some s'" and "events_kept s"
  shows "events_kept s'"
proof -
  have kept: "mset (wk_called s) = mset (wk_senders s) + mset (wk_sent s) + mset (wk_dropped s) + mset (wk_panicked s)"
    "mset (wk_taken s) = in_hand (wk_workers s) + mset (wk_recorded s) + mset (wk_failed s)"
    using assms(2) by (auto simp: events_kept_def)
  note gone = mset_remove_at' [of _ "wk_senders s"]
  show ?thesis
  proof (cases x)
    case (Call now call)
    then show ?thesis using assms(1) kept by (cases client) (auto simp: send_call_def events_kept_def)
  next
    case (Enqueue i)
    then show ?thesis using assms(1) kept gone [of i]
      by (auto simp: SendEvent_enqueue_def events_kept_def split: if_split_asm)
  next
    case (Timeout i)
    then show ?thesis using assms(1) kept gone [of i]
      by (auto simp: SendEvent_drop_def events_kept_def split: if_split_asm)
  next
    case (SendDone i)
    then show ?thesis using assms(1) kept gone [of i]
      by (auto simp: SendEvent_drop_def events_kept_def split: if_split_asm)
  next
    case (SendPanic i)
    then show ?thesis using assms(1) kept gone [of i]
      by (auto simp: SendEvent_panic_def events_kept_def split: if_split_asm)
  next
    case (Record j)
    then show ?thesis using assms(1) kept in_hand_waiting(2) [of j "wk_workers s"]
      by (auto simp: worker_record_def events_kept_def Let_def split: if_split_asm worker_pc.split_asm prod.split_asm)
  next
    case CloseCall
    then show ?thesis using assms(1) kept by (cases client) (auto simp: Close_call_def events_kept_def)
  qed (use assms(1) kept in \<open>auto simp: worker_take_def worker_exit_def Close_channel_def Close_return_def
      events_kept_def in_hand_waiting(1,3) split: if_split_asm list.split_asm\<close>)
qed

lemma reach_events_kept: "audit_reach a client sink s \<Longrightarrow> events_kept s"
proof (induction rule: audit_reach.induct)
  case start
  have "in_hand (replicate n Waiting) = {#}" for n by (induction n) (auto simp: in_hand_def being_recorded_def)
  moreover have "in_hand [] = {#}" by (simp add: in_hand_def)
  ultimately show ?case by (cases client) (simp_all add: events_kept_def NewAuditWorker_def)
next
  case (step s s')
  then show ?case using audit_act_keeps_events by (auto simp: audit_step_iff)
qed

lemma run_reach: "audit_run a client xs s = Some s' \<Longrightarrow> audit_reach a client sink s \<Longrightarrow> audit_reach a client sink s'"
proof (induction xs arbitrary: s)
  case (Cons x xs)
  then show ?case by (auto split: option.splits) (blast intro: audit_reach.step audit_step.act)
qed simp

subsection \<open>What has been recorded\<close>

lemma cancelled_records_nothing: "kept s (snd (recordAuditEvent a True client ev s))"
proof (cases client)
  case (Some r)
  show ?thesis
  proof (cases "r = MockRecorder")
    case True
    then show ?thesis by (simp add: Some recordAuditEvent_mock kept_def)
  next
    case False
    obtain err s' where "RecordEvent a \<lparr>cx_cancelled = True, cx_timeout = Some auditTimeout\<rparr> r ev (s\<lparr>sk_elapsed := 0\<rparr>) = (Err err, s')"
      and "kept (s\<lparr>sk_elapsed := 0\<rparr>) s'" using cancelled_fails [OF False] by blast
    then show ?thesis by (simp add: Some recordAuditEvent_run)
  qed
qed (simp add: recordAuditEvent_def run_basic kept_def)

lemma audit_act_sink:
  assumes "audit_act a client x s = Some s'"
  shows "(wk_recorded s' = wk_recorded s \<and> wk_failed s' = wk_failed s \<and> wk_sink s' = wk_sink s)
    \<or> (\<exists>ev r. recordAuditEvent a (wk_done s) client ev (wk_sink s) = (r, wk_sink s')
         \<and> wk_recorded s' = wk_recorded s @ (if r = Ok () then [ev] else [])
         \<and> wk_failed s' = wk_failed s @ (if r = Ok () then [] else [ev]))"
proof (cases x)
  case (Record j)
  then obtain ev where j: "j < length (wk_workers s)" "wk_workers s ! j = Recording ev"
    using assms by (auto simp: worker_record_def split: if_split_asm worker_pc.split_asm)
  obtain r sink where "recordAuditEvent a (wk_done s) client ev (wk_sink s) = (r, sink)" by fastforce
  then show ?thesis using assms Record j by (intro disjI2 exI [of _ ev] exI [of _ r]) (auto simp: worker_record_def Let_def)
qed (use assms in \<open>cases client; auto simp: audit_act_defs send_call_def Close_call_def
    split: if_split_asm list.split_asm\<close>)+

text \<open>The events a sink holds, as the rows they make.\<close>

definition sink_events :: "audit_sink \<Rightarrow> audit_event multiset" where
  "sink_events s = mset (sk_rows s) + mset (map stored_event (sk_posts s))"

text \<open>What a recorder was given and what it has kept of it: all, but for the mock recorder.\<close>

definition kept_events :: "audit_recorder option \<Rightarrow> audit_event list \<Rightarrow> audit_event multiset" where
  "kept_events client evs = (if client = Some MockRecorder then {#} else mset (map stored_event evs))"

lemma recordAuditEvent_sink:
  assumes "recordAuditEvent a cancelled client ev s = (r, s')" and "client \<noteq> None"
  shows "sink_events s' = sink_events s + kept_events client (if r = Ok () then [ev] else [])"
proof -
  obtain q where q: "client = Some q" using assms(2) by blast
  show ?thesis
  proof (cases "q = MockRecorder")
    case True
    then show ?thesis using assms(1) by (auto simp: q recordAuditEvent_mock kept_events_def sink_events_def)
  next
    case False
    then show ?thesis
      using recordAuditEvent_lands [of q ev s a cancelled] assms(1)
      by (auto simp: q lands_def landed_def kept_def kept_events_def sink_events_def)
  qed
qed

lemma no_recorder_no_workers: "audit_reach a None sink s \<Longrightarrow> wk_workers s = []"
proof (induction rule: audit_reach.induct)
  case (step s s')
  then obtain x where "audit_act a None x s = Some s'" by (auto simp: audit_step_iff)
  then show ?case using step.IH
    by (cases x) (auto simp: audit_act_defs send_call_def Close_call_def split: if_split_asm)
qed (simp add: NewAuditWorker_def)

lemma reach_sink:
  "audit_reach a client sink s \<Longrightarrow> sink_events (wk_sink s) = sink_events sink + kept_events client (wk_recorded s)"
proof (induction rule: audit_reach.induct)
  case start
  show ?case by (simp add: NewAuditWorker_def kept_events_def)
next
  case (step s s')
  then obtain x where act: "audit_act a client x s = Some s'" by (auto simp: audit_step_iff)
  show ?case
  proof (cases client)
    case None
    then have "wk_workers s = []" using no_recorder_no_workers step.hyps(1) by simp
    then have "wk_sink s' = wk_sink s \<and> wk_recorded s' = wk_recorded s"
      using act None by (cases x) (auto simp: audit_act_defs send_call_def Close_call_def split: if_split_asm)
    then show ?thesis using step.IH by simp
  next
    case (Some r)
    from audit_act_sink [OF act] show ?thesis
    proof
      assume "\<exists>ev r. recordAuditEvent a (wk_done s) client ev (wk_sink s) = (r, wk_sink s')
         \<and> wk_recorded s' = wk_recorded s @ (if r = Ok () then [ev] else [])
         \<and> wk_failed s' = wk_failed s @ (if r = Ok () then [] else [ev])"
      then obtain ev q where q: "recordAuditEvent a (wk_done s) client ev (wk_sink s) = (q, wk_sink s')"
        and ev: "wk_recorded s' = wk_recorded s @ (if q = Ok () then [ev] else [])" by blast
      have "sink_events (wk_sink s') = sink_events (wk_sink s) + kept_events client (if q = Ok () then [ev] else [])"
        by (rule recordAuditEvent_sink [OF q]) (simp add: Some)
      then show ?thesis using step.IH ev by (auto simp: kept_events_def)
    qed (use step.IH in simp)
  qed
qed

text \<open>While the worker runs and the recorder never fails, nothing is given up.\<close>

lemma reach_nothing_failed:
  assumes "audit_reach a client sink s" and "\<not> wk_done s"
    and "\<And>ev t. fst (recordAuditEvent a False client ev t) = Ok ()"
  shows "wk_failed s = []"
  using assms(1,2)
proof (induction rule: audit_reach.induct)
  case (step s s')
  then obtain x where act: "audit_act a client x s = Some s'" by (auto simp: audit_step_iff)
  have "\<not> wk_done s"
    using act step.prems
    by (cases x; cases client)
      (auto simp: audit_act_defs send_call_def Close_call_def Let_def split: if_split_asm list.split_asm worker_pc.split_asm prod.split_asm)
  then show ?case using audit_act_sink [OF act] step.IH assms(3) by (metis append_Nil2 fst_conv)
qed (simp add: NewAuditWorker_def)

lemma done_stays: "audit_act a client x s = Some s' \<Longrightarrow> wk_done s \<Longrightarrow> wk_done s'"
  by (cases x; cases client)
    (auto simp: audit_act_defs send_call_def Close_call_def Let_def
      split: if_split_asm list.split_asm worker_pc.split_asm prod.split_asm)

lemma done_keeps_sink:
  assumes "audit_act a client x s = Some s'" and "wk_done s"
  shows "kept (wk_sink s) (wk_sink s')"
  using audit_act_sink [OF assms(1)] assms(2) cancelled_records_nothing [of "wk_sink s" a client]
  by (auto simp: kept_def) (metis snd_conv)+

subsection \<open>Closing\<close>

fun closer_ok :: "bool \<Rightarrow> bool \<Rightarrow> closer_pc \<Rightarrow> bool" where
  "closer_ok cancelled closed Closing = cancelled"
| "closer_ok cancelled closed Joining = (cancelled \<and> closed)"
| "closer_ok cancelled closed (Returned r) = (r = None)"
| "closer_ok cancelled closed (Crashed p) = True"

definition closing_inv :: "audit_recorder option \<Rightarrow> audit_worker \<Rightarrow> bool" where
  "closing_inv client s \<longleftrightarrow>
     (wk_closed s \<longrightarrow> wk_done s) \<and> wk_group_err s \<in> {None, Some context_canceled}
     \<and> list_all (closer_ok (wk_done s) (wk_closed s)) (wk_closers s)
     \<and> length (wk_workers s) = (if client = None then 0 else auditWorkerCount)"

lemma closers_update:
  assumes "list_all (closer_ok d c) ps" and "closer_ok d c' p" and "c \<longrightarrow> c'"
  shows "list_all (closer_ok d c') (ps[k := p])"
proof -
  have "closer_ok d c q \<Longrightarrow> closer_ok d c' q" for q using assms(3) by (cases q) auto
  then have "list_all (closer_ok d c') ps" using assms(1) by (auto simp: list_all_iff)
  then show ?thesis using assms(2) set_update_subset_insert [of ps k p] by (auto simp: list_all_iff)
qed

lemma closers_cancelled: "list_all (closer_ok d c) ps \<Longrightarrow> list_all (closer_ok True c) ps"
proof -
  have "closer_ok d c q \<Longrightarrow> closer_ok True c q" for q by (cases q) auto
  then show "list_all (closer_ok d c) ps \<Longrightarrow> list_all (closer_ok True c) ps" by (auto simp: list_all_iff)
qed

lemma closer_at: "list_all (closer_ok d c) ps \<Longrightarrow> k < length ps \<Longrightarrow> closer_ok d c (ps ! k)"
  by (simp add: list_all_length)

lemma audit_act_closing_inv:
  assumes "audit_act a client x s = Some s'" and "closing_inv client s"
  shows "closing_inv client s'"
proof (cases x)
  case (CloseChannel k)
  then show ?thesis using assms closer_at [of "wk_done s" "wk_closed s" "wk_closers s" k]
    by (auto simp: Close_channel_def closing_inv_def intro!: closers_update split: if_split_asm)
next
  case (CloseReturn k)
  then show ?thesis using assms
    by (auto simp: Close_return_def closing_inv_def intro!: closers_update split: if_split_asm)
next
  case CloseCall
  then show ?thesis using assms by (cases client) (auto simp: Close_call_def closing_inv_def intro: closers_cancelled)
next
  case (Call now call)
  then show ?thesis using assms by (cases client) (auto simp: send_call_def closing_inv_def)
qed (use assms in \<open>auto simp: SendEvent_enqueue_def SendEvent_drop_def SendEvent_panic_def worker_take_def
    worker_record_def worker_exit_def closing_inv_def Let_def split: if_split_asm list.split_asm worker_pc.split_asm prod.split_asm\<close>)

lemma reach_closing_inv: "audit_reach a client sink s \<Longrightarrow> closing_inv client s"
proof (induction rule: audit_reach.induct)
  case start
  show ?case by (cases client) (simp_all add: closing_inv_def NewAuditWorker_def)
next
  case (step s s')
  then show ?case using audit_act_closing_inv by (auto simp: audit_step_iff)
qed

text \<open>The steps the workers have left: at most three for every event in the channel.\<close>

definition is_worker_action :: "audit_action \<Rightarrow> bool" where
  "is_worker_action x = (case x of Take _ \<Rightarrow> True | Record _ \<Rightarrow> True | WorkerDone _ \<Rightarrow> True | WorkerEnd _ \<Rightarrow> True | _ \<Rightarrow> False)"

definition pc_work :: "worker_pc \<Rightarrow> nat" where
  "pc_work p = (case p of Waiting \<Rightarrow> 1 | Recording _ \<Rightarrow> 2 | Exited _ \<Rightarrow> 0)"

definition work_left :: "audit_worker \<Rightarrow> nat" where
  "work_left s = 3 * length (wk_channel s) + sum_list (map pc_work (wk_workers s))"

lemma sum_pc_work_update:
  "j < length ps \<Longrightarrow> sum_list (map pc_work (ps[j := p])) + pc_work (ps ! j) = sum_list (map pc_work ps) + pc_work p"
proof (induction ps arbitrary: j)
  case (Cons q ps)
  then show ?case by (cases j) auto
qed simp

lemma worker_action_works:
  assumes "audit_act a client x s = Some s'" and "is_worker_action x"
  shows "work_left s' < work_left s"
proof -
  have w: "j < length (wk_workers s) \<Longrightarrow> sum_list (map pc_work ((wk_workers s)[j := p])) + pc_work (wk_workers s ! j)
    = sum_list (map pc_work (wk_workers s)) + pc_work p" for j p by (rule sum_pc_work_update)
  show ?thesis
  proof (cases x)
    case (Take j)
    then show ?thesis using assms(1) w [of j "Recording (hd (wk_channel s))"]
      by (auto simp: worker_take_def work_left_def pc_work_def split: if_split_asm list.split_asm)
  next
    case (Record j)
    then show ?thesis using assms(1) w [of j Waiting]
      by (auto simp: worker_record_def Let_def work_left_def pc_work_def split: if_split_asm worker_pc.split_asm prod.split_asm)
  next
    case (WorkerDone j)
    then show ?thesis using assms(1) w [of j "Exited (Some context_canceled)"]
      by (auto simp: worker_exit_def work_left_def pc_work_def split: if_split_asm)
  next
    case (WorkerEnd j)
    then show ?thesis using assms(1) w [of j "Exited None"]
      by (auto simp: worker_exit_def work_left_def pc_work_def split: if_split_asm)
  qed (use assms(2) in \<open>simp_all add: is_worker_action_def\<close>)
qed

lemma other_action_works:
  assumes "audit_act a client x s = Some s'" and "\<not> is_worker_action x" and "wk_closed s"
  shows "work_left s' = work_left s"
  using assms
  by (cases x; cases client)
    (auto simp: SendEvent_enqueue_def SendEvent_drop_def SendEvent_panic_def Close_channel_def Close_return_def send_call_def
      Close_call_def work_left_def is_worker_action_def split: if_split_asm)

lemma closed_stays: "audit_act a client x s = Some s' \<Longrightarrow> wk_closed s \<Longrightarrow> wk_closed s'"
  by (cases x; cases client)
    (auto simp: audit_act_defs send_call_def Close_call_def split: if_split_asm list.split_asm worker_pc.split_asm prod.split_asm)

lemma run_work:
  "audit_run a client xs s = Some s' \<Longrightarrow> wk_closed s \<Longrightarrow>
     length (filter is_worker_action xs) + work_left s' \<le> work_left s"
proof (induction xs arbitrary: s)
  case (Cons x xs)
  then obtain u where act: "audit_act a client x s = Some u" and run: "audit_run a client xs u = Some s'"
    by (auto split: option.splits)
  have "length (filter is_worker_action xs) + work_left s' \<le> work_left u"
    by (rule Cons.IH [OF run closed_stays [OF act Cons.prems(2)]])
  then show ?case
    using worker_action_works [OF act] other_action_works [OF act _ Cons.prems(2)] by (cases "is_worker_action x") auto
qed simp

lemma work_bound: "length ps = n \<Longrightarrow> sum_list (map pc_work ps) \<le> 2 * n"
  by (induction ps arbitrary: n) (auto simp: pc_work_def split: worker_pc.split)

text \<open>While the context is done, a worker that has not ended can move.\<close>

lemma worker_can_move:
  assumes "wk_done s" and "\<not> list_all is_exited (wk_workers s)"
  shows "\<exists>x. is_worker_action x \<and> audit_act a client x s \<noteq> None"
proof -
  obtain j where j: "j < length (wk_workers s)" "\<not> is_exited (wk_workers s ! j)"
    using assms(2) by (auto simp: list_all_length)
  show ?thesis
  proof (cases "wk_workers s ! j")
    case Waiting
    then have "audit_act a client (WorkerDone j) s \<noteq> None" using assms(1) j by (simp add: worker_exit_def)
    then show ?thesis by (intro exI [of _ "WorkerDone j"]) (simp add: is_worker_action_def)
  next
    case (Recording ev)
    then have "audit_act a client (Record j) s \<noteq> None" using j by (auto simp: worker_record_def Let_def split: prod.split)
    then show ?thesis by (intro exI [of _ "Record j"]) (simp add: is_worker_action_def)
  next
    case (Exited err)
    then show ?thesis using j by (simp add: is_exited_def)
  qed
qed

lemma joining_stays:
  assumes "audit_act a client x s = Some s'" and "k < length (wk_closers s)" and "wk_closers s ! k \<in> {Joining, Returned None}"
    and "closing_inv client s"
  shows "k < length (wk_closers s') \<and> wk_closers s' ! k \<in> {Joining, Returned None}"
proof -
  have err: "wk_group_err s \<in> {None, Some context_canceled}" using assms(4) by (simp add: closing_inv_def)
  show ?thesis
    using assms(1-3) err
    by (cases x; cases client)
      (auto simp: audit_act_defs send_call_def Close_call_def nth_append nth_list_update
        split: if_split_asm list.split_asm worker_pc.split_asm prod.split_asm)
qed

lemma run_joining:
  "audit_run a client xs s = Some s' \<Longrightarrow> closing_inv client s \<Longrightarrow> k < length (wk_closers s) \<Longrightarrow>
     wk_closers s ! k \<in> {Joining, Returned None} \<Longrightarrow>
     closing_inv client s' \<and> k < length (wk_closers s') \<and> wk_closers s' ! k \<in> {Joining, Returned None}"
proof (induction xs arbitrary: s)
  case (Cons x xs)
  then obtain u where act: "audit_act a client x s = Some u" and run: "audit_run a client xs u = Some s'"
    by (auto split: option.splits)
  show ?case
    using Cons.IH [OF run audit_act_closing_inv [OF act Cons.prems(2)]] joining_stays [OF act Cons.prems(3,4,2)] by blast
qed simp

subsection \<open>Recording what was sent\<close>

text \<open>Until the context is cancelled no worker has ended.\<close>

definition nobody_left :: "audit_worker \<Rightarrow> bool" where
  "nobody_left s \<longleftrightarrow> (wk_done s \<or> list_all (\<lambda>p. \<not> is_exited p) (wk_workers s))"

lemma list_all_update: "list_all P xs \<Longrightarrow> P x \<Longrightarrow> list_all P (xs[j := x])"
  using set_update_subset_insert [of xs j x] by (auto simp: list_all_iff)

lemma audit_act_nobody_left:
  assumes "audit_act a client x s = Some s'" and "closing_inv client s" and "nobody_left s"
  shows "nobody_left s'"
  using assms
  by (cases x; cases client)
    (auto simp: audit_act_defs send_call_def Close_call_def nobody_left_def closing_inv_def is_exited_def list_all_update
      split: if_split_asm list.split_asm worker_pc.split_asm prod.split_asm)

lemma reach_nobody_left: "audit_reach a client sink s \<Longrightarrow> nobody_left s"
proof (induction rule: audit_reach.induct)
  case start
  show ?case by (cases client) (simp_all add: nobody_left_def NewAuditWorker_def is_exited_def list_all_iff)
next
  case (step s s')
  then show ?case using audit_act_nobody_left reach_closing_inv by (auto simp: audit_step_iff)
qed

lemma in_hand_empty_iff: "in_hand ps = {#} \<longleftrightarrow> (\<forall>p \<in> set ps. \<forall>ev. p \<noteq> Recording ev)"
  by (induction ps) (auto simp: in_hand_def being_recorded_def split: worker_pc.split)

text \<open>As long as an event is queued or in hand, a worker can move; what it does keeps what was sent.\<close>

lemma worker_can_record:
  assumes "audit_reach a (Some r) sink s" and "\<not> wk_done s" and "wk_channel s \<noteq> [] \<or> in_hand (wk_workers s) \<noteq> {#}"
  shows "\<exists>x s'. is_worker_action x \<and> audit_act a (Some r) x s = Some s'"
proof (cases "\<exists>j ev. j < length (wk_workers s) \<and> wk_workers s ! j = Recording ev")
  case True
  then obtain j ev where "j < length (wk_workers s)" "wk_workers s ! j = Recording ev" by blast
  then have "\<exists>s'. audit_act a (Some r) (Record j) s = Some s'" by (auto simp: worker_record_def Let_def split: prod.split)
  then show ?thesis by (intro exI [of _ "Record j"]) (simp add: is_worker_action_def)
next
  case False
  then have idle: "in_hand (wk_workers s) = {#}" by (auto simp: in_hand_empty_iff in_set_conv_nth)
  have len: "0 < length (wk_workers s)"
    using reach_closing_inv [OF assms(1)] by (simp add: closing_inv_def auditWorkerCount_def)
  have "\<not> is_exited (wk_workers s ! 0)"
    using reach_nobody_left [OF assms(1)] assms(2) len by (auto simp: nobody_left_def list_all_length)
  then have "wk_workers s ! 0 = Waiting" using False len by (cases "wk_workers s ! 0") (auto simp: is_exited_def)
  moreover obtain ev rest where "wk_channel s = ev # rest" using assms(3) idle by (cases "wk_channel s") auto
  ultimately have "\<exists>s'. audit_act a (Some r) (Take 0) s = Some s'" using len by (simp add: worker_take_def)
  then show ?thesis by (intro exI [of _ "Take 0"]) (simp add: is_worker_action_def)
qed

lemma worker_action_keeps_sent:
  assumes "audit_act a client x s = Some s'" and "is_worker_action x"
  shows "wk_sent s' = wk_sent s \<and> wk_done s' = wk_done s"
  using assms
  by (cases x)
    (auto simp: is_worker_action_def worker_take_def worker_record_def worker_exit_def Let_def
      split: if_split_asm list.split_asm worker_pc.split_asm prod.split_asm)

lemma workers_run:
  "audit_run a client xs s = Some s' \<Longrightarrow> list_all is_worker_action xs \<Longrightarrow>
     length xs + work_left s' \<le> work_left s \<and> wk_sent s' = wk_sent s \<and> wk_done s' = wk_done s"
proof (induction xs arbitrary: s)
  case (Cons x xs)
  then obtain u where act: "audit_act a client x s = Some u" and run: "audit_run a client xs u = Some s'"
    and x: "is_worker_action x" "list_all is_worker_action xs"
    by (auto split: option.splits)
  show ?case using Cons.IH [OF run x(2)] worker_action_works [OF act x(1)] worker_action_keeps_sent [OF act x(1)] by auto
qed simp

lemma workers_record_all:
  assumes "audit_reach a (Some r) sink s" and "\<not> wk_done s"
  shows "\<exists>xs s'. audit_run a (Some r) xs s = Some s' \<and> list_all is_worker_action xs
    \<and> wk_channel s' = [] \<and> in_hand (wk_workers s') = {#}"
  using assms
proof (induction "work_left s" arbitrary: s rule: less_induct)
  case less
  show ?case
  proof (cases "wk_channel s = [] \<and> in_hand (wk_workers s) = {#}")
    case True
    then show ?thesis by (intro exI [of _ "[]"] exI [of _ s]) simp
  next
    case False
    then obtain x u where x: "is_worker_action x" and act: "audit_act a (Some r) x s = Some u"
      using worker_can_record [OF less.prems] by blast
    have "audit_reach a (Some r) sink u" using less.prems(1) act by (blast intro: audit_reach.step audit_step.act)
    moreover have "\<not> wk_done u" using worker_action_keeps_sent [OF act x] less.prems(2) by simp
    ultimately obtain xs s' where "audit_run a (Some r) xs u = Some s'" "list_all is_worker_action xs"
      "wk_channel s' = [] \<and> in_hand (wk_workers s') = {#}"
      using less.hyps [OF worker_action_works [OF act x]] by blast
    then show ?thesis using act x by (intro exI [of _ "x # xs"] exI [of _ s']) simp
  qed
qed

lemma reach_recorded:
  assumes "audit_reach a client sink s" and "wk_channel s = []" and "in_hand (wk_workers s) = {#}"
  shows "mset (wk_recorded s) + mset (wk_failed s) = mset (wk_sent s)"
  using reach_events_kept [OF assms(1)] channel.run_keeps [OF reach_run [OF assms(1)]] assms(2,3)
  by (simp add: events_kept_def NewAuditWorker_def)

lemma reach_work_bound:
  assumes "audit_reach a client sink s"
  shows "work_left s \<le> 3 * auditBufferSize + 2 * auditWorkerCount"
proof -
  have "length (wk_channel s) \<le> auditBufferSize"
    using channel.run_keeps [OF reach_run [OF assms]] by (simp add: NewAuditWorker_def)
  moreover have "length (wk_workers s) \<le> auditWorkerCount"
    using reach_closing_inv [OF assms] by (simp add: closing_inv_def)
  ultimately show ?thesis using work_bound [of "wk_workers s", OF refl] by (simp add: work_left_def)
qed

subsection \<open>A concrete run\<close>

text \<open>One event is sent, then the worker is closed, and only then is the event taken out.\<close>

definition sample_audit_env :: audit_env where
  "sample_audit_env = \<lparr>au_db = \<lambda>_. None, au_http = \<lambda>_. Inr 200, au_request_err = None, au_took = \<lambda>_. 10 ^ 6, au_did = \<lambda>_. False\<rparr>"

text \<open>Here the audit service refuses every event.\<close>

definition refusing_env :: audit_env where
  "refusing_env = sample_audit_env\<lparr>au_http := \<lambda>_. Inr 503, au_took := \<lambda>_. 10 ^ 9\<rparr>"

definition sample_start :: audit_worker where
  "sample_start = NewAuditWorker (Some DatabaseRecorder) empty_sink"

definition sample_event :: audit_event where
  "sample_event = AuditOperation 0 (Background, op_audit ''s'' ''O'' ''A'' '''' [] None 1, None)"

abbreviation sample_sent :: "audit_action list" where
  "sample_sent \<equiv> [Call 0 (Background, op_audit ''s'' ''O'' ''A'' '''' [] None 1, None), Enqueue 0]"

abbreviation sample_late :: "audit_action list" where
  "sample_late \<equiv> [Take 0, Record 0, WorkerDone 0, WorkerDone 1, WorkerDone 2, CloseReturn 0]"

lemmas sample_audit_simps = audit_act_defs send_call_def Close_call_def remove_at_def NewAuditWorker_def
  auditWorkerCount_def auditBufferSize_def sample_start_def is_exited_def recordAuditEvent_def

lemma sample_runs:
  "\<exists>s. audit_run sample_audit_env (Some DatabaseRecorder) sample_sent sample_start = Some s
     \<and> wk_channel s = [sample_event] \<and> wk_sent s = [sample_event] \<and> wk_taken s = []"
  "\<exists>s. audit_run sample_audit_env (Some DatabaseRecorder) (sample_sent @ [Take 1, Record 1]) sample_start = Some s
     \<and> wk_called s = [sample_event] \<and> wk_recorded s = [sample_event] \<and> sk_rows (wk_sink s) = [stored_event sample_event]"
  "\<exists>s s'. audit_run sample_audit_env (Some DatabaseRecorder) (sample_sent @ [CloseCall, CloseChannel 0]) sample_start = Some s
     \<and> wk_done s \<and> wk_closers s = [Joining] \<and> sk_rows (wk_sink s) = []
     \<and> audit_run sample_audit_env (Some DatabaseRecorder) sample_late s = Some s'
     \<and> wk_closers s' = [Returned None] \<and> wk_failed s' = [sample_event]"
  by (simp_all add: sample_audit_simps sample_event_def sample_audit_env_def Store_def sink_call_def ctx_Err_def auditTimeout_def empty_sink_def bindM_def run_basic numeral_2_eq_2 numeral_3_eq_3)

lemma sample_reach:
  "audit_run sample_audit_env (Some DatabaseRecorder) xs sample_start = Some s \<Longrightarrow>
     audit_reach sample_audit_env (Some DatabaseRecorder) empty_sink s"
  by (rule run_reach [OF _ audit_reach.start]) (simp add: sample_start_def)

text \<open>A second \<^verbatim>\<open>Close\<close>, and a call of \<^verbatim>\<open>AuditOperation\<close> that comes too late, can panic.\<close>

lemma second_close_panics:
  "\<exists>s. audit_run sample_audit_env (Some DatabaseRecorder) [CloseCall, CloseChannel 0, CloseCall, CloseChannel 1] sample_start
     = Some s \<and> wk_closers s ! 1 = Crashed ''close of closed channel''"
  by (simp add: sample_audit_simps)

lemma late_event_panics:
  "\<exists>s. audit_run sample_audit_env (Some DatabaseRecorder) [CloseCall, CloseChannel 0,
       Call 0 (Background, op_audit ''s'' ''O'' ''A'' '''' [] None 1, None), SendPanic 0] sample_start = Some s
     \<and> wk_panicked s = [sample_event]"
  by (simp add: sample_audit_simps sample_event_def)

section \<open>Properties\<close>

text \<open>
  The channel of the audit worker is a first-in-first-out queue of 1000 places: whatever its senders, workers and
  closers do in whatever order, each of their steps puts one event into the queue, takes the oldest out, or
  leaves it alone.
\<close>

lemma audit_channel_is_a_bounded_fifo:
  assumes "audit_reach a client sink s"
  shows "(queue_step 1000)\<^sup>*\<^sup>* ([], []) (wk_channel s, wk_taken s)
    \<and> wk_sent s = wk_taken s @ wk_channel s \<and> length (wk_channel s) \<le> 1000"
proof -
  have start: "wk_channel (NewAuditWorker client sink) = []" "wk_taken (NewAuditWorker client sink) = []"
    "wk_sent (NewAuditWorker client sink) = []" by (simp_all add: NewAuditWorker_def)
  show ?thesis
    using channel.run_refines [OF reach_run [OF assms]] channel.run_keeps [OF reach_run [OF assms]] start
    by (simp add: auditBufferSize_def)
qed



text \<open>
  Closing loses what is still queued: once \<^verbatim>\<open>Close\<close> has cancelled the workers' context, the database and the
  audit service get nothing any more, whatever the goroutines go on to do: an event that a worker still takes out is
  given up.
\<close>

theorem closing_worker_stores_nothing_more:
  assumes "wk_done s" and "audit_run a client xs s = Some s'"
  shows "sk_rows (wk_sink s') = sk_rows (wk_sink s) \<and> sk_posts (wk_sink s') = sk_posts (wk_sink s)"
  using assms
proof (induction xs arbitrary: s)
  case (Cons x xs)
  then obtain u where act: "audit_act a client x s = Some u" and run: "audit_run a client xs u = Some s'"
    by (auto split: option.splits)
  show ?case
    using Cons.IH [OF done_stays [OF act Cons.prems(1)] run] done_keeps_sink [OF act Cons.prems(1)] by (simp add: kept_def)
qed simp

theorem closing_worker_stores_nothing_more_witness:
  "\<exists>s s'. audit_run sample_audit_env (Some DatabaseRecorder) sample_late s = Some s' \<and> wk_closers s' = [Returned None]
     \<and> wk_failed s' = [sample_event] \<and> sk_rows (wk_sink s') = []"
proof -
  obtain s s' where s: "wk_done s" "sk_rows (wk_sink s) = []"
    and run: "audit_run sample_audit_env (Some DatabaseRecorder) sample_late s = Some s'"
    and s': "wk_closers s' = [Returned None]" "wk_failed s' = [sample_event]"
    using sample_runs(3) by blast
  show ?thesis using closing_worker_stores_nothing_more [OF s(1) run] s(2) s' run by auto
qed

text \<open>
  C38. \<^verbatim>\<open>Close\<close> returns, and without an error: once it has closed the channel, the workers make at most 3006 more
  steps in any run, at every point of which one of them can move, or \<^verbatim>\<open>Close\<close> has returned nil or can.
\<close>

theorem close_returns_without_error:
  assumes "audit_reach a client sink s" and "k < length (wk_closers s)" and "wk_closers s ! k = Joining"
    and "audit_run a client xs s = Some s'"
  shows "length (filter is_worker_action xs) \<le> 3 * auditBufferSize + 2 * auditWorkerCount
    \<and> (wk_closers s' ! k = Returned None
     \<or> (\<exists>x. is_worker_action x \<and> audit_act a client x s' \<noteq> None)
     \<or> (\<exists>t. audit_act a client (CloseReturn k) s' = Some t \<and> wk_closers t ! k = Returned None))"
proof
  have inv: "closing_inv client s" by (rule reach_closing_inv [OF assms(1)])
  have closed: "wk_closed s"
    using inv closer_at [of "wk_done s" "wk_closed s" "wk_closers s" k] assms(2,3) by (auto simp: closing_inv_def)
  have "work_left s \<le> 3 * auditBufferSize + 2 * auditWorkerCount" by (rule reach_work_bound [OF assms(1)])
  then show "length (filter is_worker_action xs) \<le> 3 * auditBufferSize + 2 * auditWorkerCount"
    using run_work [OF assms(4) closed] by simp
  have run: "closing_inv client s'" "k < length (wk_closers s')" "wk_closers s' ! k \<in> {Joining, Returned None}"
    using run_joining [OF assms(4) inv assms(2)] assms(3) by auto
  then have "wk_done s'" if "wk_closers s' ! k = Joining"
    using closer_at [of "wk_done s'" "wk_closed s'" "wk_closers s'" k] that by (auto simp: closing_inv_def)
  then show "wk_closers s' ! k = Returned None
     \<or> (\<exists>x. is_worker_action x \<and> audit_act a client x s' \<noteq> None)
     \<or> (\<exists>t. audit_act a client (CloseReturn k) s' = Some t \<and> wk_closers t ! k = Returned None)"
    using run worker_can_move [of s'] by (auto simp: Close_return_def closing_inv_def)
qed

theorem close_returns_without_error_witness:
  "\<exists>s s'. audit_reach sample_audit_env (Some DatabaseRecorder) empty_sink s
     \<and> wk_closers s = [Joining] \<and> audit_run sample_audit_env (Some DatabaseRecorder) sample_late s = Some s'
     \<and> length (filter is_worker_action sample_late) \<le> 3006"
proof -
  obtain s s' where reach: "audit_run sample_audit_env (Some DatabaseRecorder) (sample_sent @ [CloseCall, CloseChannel 0]) sample_start = Some s"
    and s: "wk_closers s = [Joining]"
    and run: "audit_run sample_audit_env (Some DatabaseRecorder) sample_late s = Some s'"
    using sample_runs(3) by blast
  have "length (filter is_worker_action sample_late) \<le> 3006"
    using close_returns_without_error [OF sample_reach [OF reach], of 0] s run
    by (simp add: auditBufferSize_def auditWorkerCount_def)
  then show ?thesis using sample_reach [OF reach] s run by blast
qed

text \<open>
  C14. Until the worker is closed, what was sent gets into the table or to the audit service: with a recorder made
  for the strategy hybrid or any other but mock and http, a database that answers every call, and no call that
  takes two and a half seconds or more, the three workers alone can go on from any reachable state until the
  table and the service hold every event sent so far, whatever the service answers; and however they go on, they
  need at most 3006 steps and one of them can move as long as that is not so.
\<close>

theorem sent_events_get_recorded:
  assumes "audit_reach a client sink s" and "\<not> wk_done s"
    and "client = Some (NewAuditRecorder strategy url)" and "strategy \<notin> {''mock'', ''http''}"
    and "\<And>n. au_db a n = None" and "\<And>n. au_took a n < 2500000000"
  shows "(\<exists>xs s'. audit_run a client xs s = Some s' \<and> list_all is_worker_action xs
      \<and> sink_events (wk_sink s') = sink_events sink + mset (map stored_event (wk_sent s)))
    \<and> (\<forall>xs s'. audit_run a client xs s = Some s' \<and> list_all is_worker_action xs \<longrightarrow> length xs \<le> 3006
        \<and> (sink_events (wk_sink s') = sink_events sink + mset (map stored_event (wk_sent s))
           \<or> (\<exists>x. is_worker_action x \<and> audit_act a client x s' \<noteq> None)))"
proof (intro conjI allI impI)
  have "2 * au_took a n < auditTimeout" for n using assms(6) [of n] by (simp add: auditTimeout_def)
  then have ok: "fst (recordAuditEvent a False client ev t) = Ok ()" for ev t
    unfolding assms(3) by (rule records_in_time [OF assms(4,5)])
  have same: "wk_sent s' = wk_sent s" "\<not> wk_done s'" "audit_reach a client sink s'"
    if "audit_run a client xs s = Some s'" "list_all is_worker_action xs" for xs s'
    using workers_run [OF that] run_reach [OF that(1) assms(1)] assms(2) by simp_all
  have all: "sink_events (wk_sink s') = sink_events sink + mset (map stored_event (wk_sent s))"
    if run: "audit_run a client xs s = Some s'" "list_all is_worker_action xs"
      and idle: "wk_channel s' = []" "in_hand (wk_workers s') = {#}" for xs s'
  proof -
    have "mset (wk_recorded s') = mset (wk_sent s)"
      using reach_recorded [OF same(3) [OF run] idle] reach_nothing_failed [OF same(3,2) [OF run] ok] same(1) [OF run] by simp
    then have "mset (map stored_event (wk_recorded s')) = mset (map stored_event (wk_sent s))" by simp
    then show ?thesis
      using reach_sink [OF same(3) [OF run]] assms(4) by (simp add: kept_events_def assms(3) NewAuditRecorder_mock)
  qed
  obtain xs s' where "audit_run a client xs s = Some s'" "list_all is_worker_action xs"
    "wk_channel s' = []" "in_hand (wk_workers s') = {#}"
    using workers_record_all assms(1-3) by blast
  then show "\<exists>xs s'. audit_run a client xs s = Some s' \<and> list_all is_worker_action xs
      \<and> sink_events (wk_sink s') = sink_events sink + mset (map stored_event (wk_sent s))"
    using all by blast
  fix xs s'
  assume "audit_run a client xs s = Some s' \<and> list_all is_worker_action xs"
  then have run: "audit_run a client xs s = Some s'" "list_all is_worker_action xs" by simp_all
  show "length xs \<le> 3006"
    using workers_run [OF run] reach_work_bound [OF assms(1)] by (simp add: auditBufferSize_def auditWorkerCount_def)
  show "sink_events (wk_sink s') = sink_events sink + mset (map stored_event (wk_sent s))
      \<or> (\<exists>x. is_worker_action x \<and> audit_act a client x s' \<noteq> None)"
    using all [OF run] worker_can_record [OF same(3,2) [OF run, unfolded assms(3)]] assms(3) by blast
qed

theorem sent_events_get_recorded_witness:
  "\<exists>s xs s'. audit_run refusing_env (Some (NewAuditRecorder ''hybrid'' ''http://audit'')) sample_sent
         (NewAuditWorker (Some (NewAuditRecorder ''hybrid'' ''http://audit'')) empty_sink) = Some s
     \<and> sk_rows (wk_sink s) = [] \<and> sk_posts (wk_sink s) = []
     \<and> audit_run refusing_env (Some (NewAuditRecorder ''hybrid'' ''http://audit'')) xs s = Some s'
     \<and> sink_events (wk_sink s') = {#stored_event sample_event#}"
proof -
  let ?c = "Some (NewAuditRecorder ''hybrid'' ''http://audit'')"
  obtain s where run: "audit_run refusing_env ?c sample_sent (NewAuditWorker ?c empty_sink) = Some s"
    and s: "wk_sent s = [sample_event]" "\<not> wk_done s" "wk_sink s = empty_sink"
    by (simp add: sample_audit_simps sample_event_def)
  have "audit_reach refusing_env ?c empty_sink s" by (rule run_reach [OF run audit_reach.start])
  moreover have "\<And>n. au_db refusing_env n = None" "\<And>n. au_took refusing_env n < 2500000000"
    by (simp_all add: refusing_env_def sample_audit_env_def)
  ultimately obtain xs s' where "audit_run refusing_env ?c xs s = Some s'"
    "sink_events (wk_sink s') = sink_events empty_sink + {#stored_event sample_event#}"
    using sent_events_get_recorded [of refusing_env ?c empty_sink s "''hybrid''" "''http://audit''"] s(1,2) by auto
  then show ?thesis using run s(3) by (auto simp: sink_events_def empty_sink_def)
qed

end
