(* ===== verification/App_Config.thy ===== *)
theory App_Config
  imports Secrets Go_Net
begin

text \<open>
  \<^verbatim>\<open>internal/infrastructure/config/app_config.go\<close>: what the service reads of its environment. The library viper is
  a parameter: from the environment variables bound to keys and the defaults of keys it gives the decoded
  structure, or the error of \<^verbatim>\<open>Unmarshal\<close>. The tables of both are the code's; a duration counts nanoseconds.
\<close>

section \<open>The structures\<close>

record server_config =
  sv_Address :: string

record hsm_config =
  hs_LibraryPath :: string
  hs_TokenLabel :: string
  hs_Pin :: string
  hs_Slot :: u64
  hs_NoSlots :: u64
  hs_SessionTimeout :: int
  hs_MaxSessions :: int

record redis_config =
  rd_Address :: string
  rd_Password :: string
  rd_DB :: int
  rd_AuditStream :: string

record circuit_breaker_config =
  cb_MaxFailures :: int
  cb_ResetTimeout :: int

record audit_config =
  ad_Enabled :: bool
  ad_Strategy :: string
  ad_HTTPTimeout :: int
  ad_HTTPBaseURL :: string
  ad_CircuitBreaker :: circuit_breaker_config

record aes_local_config =
  al_MasterKey :: string
  al_KeyID :: string

record vault_config =
  vc_Address :: string
  vc_Token :: string
  vc_SecretPath :: string
  vc_Path :: string
  vc_KeyName :: string

record aes_config =
  ae_Strategy :: string
  ae_Local :: aes_local_config
  ae_K8S :: k8s_config
  ae_Vault :: vault_config

record auth_settings =
  as_Mode :: string
  as_PublicKeyPath :: string
  as_JWKSUrl :: string
  as_JWKSCacheMinutes :: int

record app_config =
  cf_Environment :: string
  cf_ConnectionString :: string
  cf_Server :: server_config
  cf_HSM :: hsm_config
  cf_Redis :: redis_config
  cf_Audit :: audit_config
  cf_AESKeyManager :: aes_config
  cf_Auth :: auth_settings

definition IsAuditEnabled :: "app_config \<Rightarrow> bool" where
  "IsAuditEnabled c = ad_Enabled (cf_Audit c)"

section \<open>Keys, variables and defaults\<close>

definition hsm_var :: "string \<Rightarrow> string \<times> string list" where
  "hsm_var key = (key, [''HSM_'' @ map (\<lambda>c. if c = CHR ''.'' then CHR ''_'' else upper c) key])"

text \<open>\<^verbatim>\<open>BindEnv\<close>: a key and the variables it is read from, the first that is set.\<close>

definition env_bindings :: "(string \<times> string list) list" where
  "env_bindings =
     (''database.connection_string'', [''DATABASE_URL'', ''HSM_DATABASE_CONNECTION_STRING'']) #
     map hsm_var
       [''aeskeymanager.strategy'', ''aeskeymanager.local.master_key'', ''aeskeymanager.local.key_id'',
        ''aeskeymanager.k8s.in_cluster'', ''aeskeymanager.k8s.kubeconfig_path'', ''aeskeymanager.k8s.secret_name'',
        ''aeskeymanager.k8s.secret_namespace'', ''aeskeymanager.k8s.key_id'', ''aeskeymanager.k8s.master_key_key'',
        ''aeskeymanager.k8s.old_master_key_key'', ''aeskeymanager.vault.address'', ''aeskeymanager.vault.token'',
        ''aeskeymanager.vault.secret_path'', ''aeskeymanager.vault.path'', ''aeskeymanager.vault.key_name'',
        ''auth.mode'', ''auth.public_key_path'', ''auth.jwks_url'', ''auth.jwks_cache_minutes'']"

datatype config_value = CStr string | CInt int | CBool bool

definition setDefaults :: "(string \<times> config_value) list" where
  "setDefaults =
     [(''server.address'', CStr '':8080''),
      (''hsm.library_path'', CStr ''/usr/lib/softhsm/libsofthsm2.so''), (''hsm.token_label'', CStr ''digsigna-token''),
      (''hsm.pin'', CStr ''1234''), (''hsm.slot'', CInt 0), (''hsm.no_slots'', CInt 4),
      (''hsm.session_timeout'', CStr ''30s''), (''hsm.max_sessions'', CInt 10),
      (''redis.address'', CStr ''localhost:6379''), (''redis.password'', CStr ''''), (''redis.db'', CInt 0),
      (''redis.audit_stream'', CStr ''hsm-audit-events''),
      (''audit.enabled'', CBool True), (''audit.strategy'', CStr ''hybrid''),
      (''audit.http.base_url'', CStr ''http://audit-service:8080''), (''audit.http.timeout'', CStr ''5s''),
      (''audit.hybrid.circuit_breaker.max_failures'', CInt 5),
      (''audit.hybrid.circuit_breaker.reset_timeout'', CStr ''30s''),
      (''aeskeymanager.strategy'', CStr ''local''),
      (''aeskeymanager.local.master_key'', CStr ''LLvxgXPJCEY1sek2eTNihV7laqAIVdQVxz11eYcA8oU=''),
      (''aeskeymanager.local.key_id'', CStr ''master-aes-key-v1''),
      (''aeskeymanager.k8s.in_cluster'', CBool True), (''aeskeymanager.k8s.kubeconfig_path'', CStr ''''),
      (''auth.mode'', CStr ''development''), (''auth.public_key_path'', CStr ''./certs/public.pem''),
      (''auth.jwks_url'', CStr ''http://localhost:8080/.well-known/jwks.json''), (''auth.jwks_cache_minutes'', CInt 60)]"

section \<open>Loading\<close>

type_synonym viper = "(string \<times> string list) list \<Rightarrow> (string \<times> config_value) list \<Rightarrow> string + app_config"

text \<open>\<^verbatim>\<open>log.Fatalf\<close> ends the process: its text is the left value.\<close>

definition LoadConfig :: "viper \<Rightarrow> string + app_config" where
  "LoadConfig viper =
     (case viper env_bindings setDefaults of
        Inl err \<Rightarrow> Inl (''Unable to decode config into struct: '' @ err)
      | Inr config \<Rightarrow>
          if cf_ConnectionString config = ''''
          then Inl ''Database connection string is required. Set DATABASE_URL or HSM_DATABASE_CONNECTION_STRING''
          else Inr config)"

section \<open>Facts\<close>

text \<open>
  Each key is bound once and has one default. The names of the variables are derived from the keys as the code
  spells them. Without any variable set the local strategy runs with a master key that stands in the source.
\<close>

lemma config_keys_distinct: "distinct (map fst env_bindings)" "distinct (map fst setDefaults)"
  by (simp_all add: env_bindings_def hsm_var_def setDefaults_def)

lemma env_variable_names:
  "snd (hsm_var ''aeskeymanager.local.master_key'') = [''HSM_AESKEYMANAGER_LOCAL_MASTER_KEY'']"
  "snd (hsm_var ''auth.jwks_cache_minutes'') = [''HSM_AUTH_JWKS_CACHE_MINUTES'']"
  by (code_simp, code_simp)



text \<open>The environment name is read from a variable but no key of it is bound or has a default.\<close>

lemma environment_is_not_a_key: "''environment'' \<notin> fst ` set env_bindings \<union> fst ` set setDefaults"
  by (simp add: env_bindings_def hsm_var_def setDefaults_def)

lemma LoadConfig_Ok: "LoadConfig viper = Inr c \<longleftrightarrow> viper env_bindings setDefaults = Inr c \<and> cf_ConnectionString c \<noteq> ''''"
  by (auto simp: LoadConfig_def split: sum.split)

end
