(* ===== verification/Mysql_Dsn.thy ===== *)
theory Mysql_Dsn
  imports Exceptions Go_Net
begin

text \<open>
  \<^verbatim>\<open>internal/infrastructure/database\<close>: the connection string. Both \<^verbatim>\<open>main.go\<close> and \<^verbatim>\<open>ConnectMySQL\<close> parse it, the
  second what the first gave. \<^verbatim>\<open>net/url\<close> is written out as far as a string with the scheme \<^verbatim>\<open>mysql\<close> needs it;
  opening the database is a parameter.
\<close>

section \<open>net/url\<close>

text \<open>\<^verbatim>\<open>strconv.Quote\<close>, on bytes outside ASCII the identity (they are taken to be printable).\<close>

definition quote_char :: "char \<Rightarrow> string" where
  "quote_char c =
     (let n = of_char c :: nat; bs = CHR 0x5C in
      if c = CHR 0x22 \<or> c = bs then [bs, c]
      else if n = 7 then [bs, CHR ''a''] else if n = 8 then [bs, CHR ''b''] else if n = 12 then [bs, CHR ''f'']
      else if n = 10 then [bs, CHR ''n''] else if n = 13 then [bs, CHR ''r''] else if n = 9 then [bs, CHR ''t'']
      else if n = 11 then [bs, CHR ''v'']
      else if n < 32 \<or> n = 127 then [bs, CHR ''x'', digit_char (n div 16), digit_char (n mod 16)]
      else [c])"

definition go_quote :: "string \<Rightarrow> string" where
  "go_quote s = CHR 0x22 # concat (map quote_char s) @ [CHR 0x22]"

record url =
  u_User :: string
  u_Pass :: string
  u_Host :: string
  u_Path :: string
  u_RawQuery :: string

text \<open>
  \<^verbatim>\<open>unescape\<close> with the test \<open>ok\<close> of a decoded byte and \<open>plain\<close> of a byte that stands for itself: \<open>Inl\<close> is the
  text of the error.
\<close>

fun unescape :: "(char \<Rightarrow> bool) \<Rightarrow> (char \<Rightarrow> bool) \<Rightarrow> string \<Rightarrow> string + string" where
  "unescape ok plain [] = Inr []"
| "unescape ok plain (c # s) =
     (if c = CHR ''%'' then
        (case s of
           a # b # r \<Rightarrow>
             if is_hex_digit a \<and> is_hex_digit b then
               (let x = char_of (16 * the (digit_value a) + the (digit_value b)) in
                if ok x then map_sum id (Cons x) (unescape ok plain r)
                else Inl (''invalid URL escape '' @ go_quote [c, a, b]))
             else Inl (''invalid URL escape '' @ go_quote [c, a, b])
         | _ \<Rightarrow> Inl (''invalid URL escape '' @ go_quote (c # s)))
      else if plain c then map_sum id (Cons c) (unescape ok plain s)
      else Inl (''invalid character '' @ go_quote [c] @ '' in host name''))"

abbreviation any_char :: "char \<Rightarrow> bool" where
  "any_char c \<equiv> True"

definition is_alnum :: "char \<Rightarrow> bool" where
  "is_alnum c = (is_digit c \<or> c \<in> set ''abcdefghijklmnopqrstuvwxyz'' \<or> c \<in> set ''ABCDEFGHIJKLMNOPQRSTUVWXYZ'')"

definition host_char :: "char \<Rightarrow> bool" where
  "host_char c = (is_alnum c \<or> c \<in> set ''!$&()*+,;=:[]<>-_.~'' \<or> c = CHR 0x22 \<or> c = CHR 0x27 \<or> 128 \<le> (of_char c :: nat))"

text \<open>In a host only bytes outside ASCII may be escaped, and the percent sign itself.\<close>

definition host_escape :: "char \<Rightarrow> bool" where
  "host_escape c = (128 \<le> (of_char c :: nat) \<or> c = CHR ''%'')"

definition zone_escape :: "char \<Rightarrow> bool" where
  "zone_escape c = (c = CHR ''%'' \<or> c = CHR '' '' \<or> host_char c)"

definition user_char :: "char \<Rightarrow> bool" where
  "user_char c = (is_alnum c \<or> c \<in> set ''-._:~!$&()*+,;=%@'' \<or> c = CHR 0x27)"

definition valid_port :: "string \<Rightarrow> bool" where
  "valid_port p = (case p of [] \<Rightarrow> True | c # ds \<Rightarrow> c = CHR '':'' \<and> list_all is_digit ds)"

text \<open>The length of what stands before the first occurrence of a text.\<close>

fun find_at :: "string \<Rightarrow> string \<Rightarrow> nat option" where
  "find_at p [] = (if p = [] then Some 0 else None)"
| "find_at p (c # s) = (if has_prefix p (c # s) then Some 0 else map_option Suc (find_at p s))"

text \<open>
  \<^verbatim>\<open>parseHost\<close>: an address in brackets must be an IPv6 address, possibly with a zone.
\<close>

definition literal_host :: "string \<Rightarrow> string + string" where
  "literal_host h =
     (let zone = (case find_at ''%25'' h of Some i \<Rightarrow> i | None \<Rightarrow> length h) in
      case unescape host_escape host_char (take zone h) of
        Inl err \<Rightarrow> Inl err
      | Inr a \<Rightarrow>
          (case unescape zone_escape host_char (drop zone h) of
             Inl err \<Rightarrow> Inl err
           | Inr z \<Rightarrow> if valid_ipv6 a \<and> z \<noteq> ''%'' then Inr (a @ z) else Inl ''invalid host''))"

definition bad_port :: "string \<Rightarrow> string" where
  "bad_port p = ''invalid port '' @ go_quote p @ '' after host''"

definition parse_host :: "string \<Rightarrow> string + string" where
  "parse_host host =
     (case last_index_of CHR ''['' host of
        Some i \<Rightarrow>
          (case last_index_of CHR '']'' host of
             None \<Rightarrow> Inl (''missing '' @ [CHR 0x27, CHR '']'', CHR 0x27] @ '' in host'')
           | Some j \<Rightarrow>
               if \<not> valid_port (drop (Suc j) host) then Inl (bad_port (drop (Suc j) host))
               else (case literal_host (drop (Suc i) (take j host)) of
                  Inl err \<Rightarrow> Inl err
                | Inr h \<Rightarrow> Inr (CHR ''['' # h @ CHR '']'' # drop (Suc j) host)))
      | None \<Rightarrow>
          (case last_index_of CHR '':'' host of
             Some k \<Rightarrow>
               if valid_port (drop k host) then unescape host_escape host_char host else Inl (bad_port (drop k host))
           | None \<Rightarrow> unescape host_escape host_char host))"

text \<open>\<^verbatim>\<open>parseAuthority\<close>: user, password and host, split at the last \<^verbatim>\<open>@\<close> and the first colon before it.\<close>

definition parse_authority :: "string \<Rightarrow> string + string \<times> string \<times> string" where
  "parse_authority a =
     (case last_index_of CHR ''@'' a of
        None \<Rightarrow> map_sum id (\<lambda>h. ('''', '''', h)) (parse_host a)
      | Some i \<Rightarrow>
          (case parse_host (drop (Suc i) a) of
             Inl err \<Rightarrow> Inl err
           | Inr h \<Rightarrow>
               if \<not> list_all user_char (take i a) then Inl ''net/url: invalid userinfo''
               else (case cut_char CHR '':'' (take i a) of (u, p) \<Rightarrow>
                 (case unescape any_char any_char u of
                    Inl err \<Rightarrow> Inl err
                  | Inr user \<Rightarrow> map_sum id (\<lambda>pass. (user, pass, h)) (unescape any_char any_char p)))))"

text \<open>\<^verbatim>\<open>url.Parse\<close> of a string that starts with \<^verbatim>\<open>mysql://\<close>; its fragment must be well escaped and is dropped.\<close>

definition control_char :: "char \<Rightarrow> bool" where
  "control_char c = ((of_char c :: nat) < 32 \<or> (of_char c :: nat) = 127)"

definition url_error :: "string \<Rightarrow> string \<Rightarrow> string" where
  "url_error s err = ''parse '' @ go_quote s @ '': '' @ err"

definition url_parse :: "string \<Rightarrow> string + url" where
  "url_parse s =
     (case cut_char CHR ''#'' s of (u, fragment) \<Rightarrow>
      if list_ex control_char u then Inl (url_error u ''net/url: invalid control character in URL'')
      else (case cut_char CHR ''?'' (drop 8 u) of (rest, query) \<Rightarrow>
        (let n = (case index_of CHR ''/'' rest of Some i \<Rightarrow> i | None \<Rightarrow> length rest) in
         case parse_authority (take n rest) of
           Inl err \<Rightarrow> Inl (url_error u err)
         | Inr (user, pass, host) \<Rightarrow>
             (case unescape any_char any_char (drop n rest) of
                Inl err \<Rightarrow> Inl (url_error u err)
              | Inr path \<Rightarrow>
                  (case unescape any_char any_char fragment of
                     Inl err \<Rightarrow> Inl (url_error s err)
                   | Inr _ \<Rightarrow>
                       Inr \<lparr>u_User = user, u_Pass = pass, u_Host = host, u_Path = path, u_RawQuery = query\<rparr>)))))"

section \<open>parse.go\<close>

definition MySQL_prefix :: string where
  "MySQL_prefix = ''mysql://''"

text \<open>A parameter is appended unless its name occurs somewhere in the text.\<close>

definition ensure_param :: "string \<Rightarrow> string \<Rightarrow> string \<Rightarrow> string" where
  "ensure_param name value s = (if contains s (name @ ''='') then s else s @ CHR ''&'' # name @ CHR ''='' # value)"

definition dsn_of_url :: "url \<Rightarrow> string" where
  "dsn_of_url u =
     (let params = replace_first (u_RawQuery u) ''ssl-mode=REQUIRED'' ''tls=true'';
          params = replace_first params ''ssl-mode=PREFERRED'' ''tls=true'';
          params = ensure_param ''tls'' ''true'' params;
          params = ensure_param ''parseTime'' ''true'' params;
          params = ensure_param ''timeout'' ''30s'' params
      in u_User u @ '':'' @ u_Pass u @ ''@tcp('' @ u_Host u @ '')/'' @ trim_prefix ''/'' (u_Path u) @ ''?'' @ params)"

definition complete_dsn :: "string \<Rightarrow> string" where
  "complete_dsn s =
     (let s = (if contains s ''tls='' then s else if contains s ''?'' then s @ ''&tls=true'' else s @ ''?tls=true'')
      in ensure_param ''timeout'' ''30s'' (ensure_param ''parseTime'' ''true'' s))"

definition trimmed :: "string \<Rightarrow> string" where
  "trimmed s = trim_cutset [CHR 0x22, CHR 0x27] (trim_space s)"

definition ParseMySQLConnectionString :: "string \<Rightarrow> go_error + string" where
  "ParseMySQLConnectionString connStr =
     (let s = trimmed connStr in
      if has_prefix MySQL_prefix s then
        (case url_parse s of
           Inl err \<Rightarrow> Inl (errorf_w ''invalid MySQL URL: '' (PlainErr err))
         | Inr u \<Rightarrow> Inr (dsn_of_url u))
      else Inr (complete_dsn s))"

section \<open>mysql.go\<close>

text \<open>
  A connection pool with the settings the code gives it. The lifetime is a number of nanoseconds: the code
  writes \<^verbatim>\<open>5 * 60\<close> without a unit.
\<close>

record db_pool =
  dbp_DSN :: string
  dbp_MaxOpen :: nat
  dbp_MaxIdle :: nat
  dbp_MaxLifetime :: int

text \<open>\<open>open\<close> and \<open>ping\<close> are the driver's calls, with the text of their errors.\<close>

definition ConnectMySQL :: "(string \<Rightarrow> string option) \<Rightarrow> (string \<Rightarrow> string option) \<Rightarrow> string \<Rightarrow> go_error + db_pool" where
  "ConnectMySQL open_err ping_err dsn =
     (case ParseMySQLConnectionString dsn of
        Inl err \<Rightarrow> Inl (errorf_w ''failed to parse connection string: '' err)
      | Inr parsedDSN \<Rightarrow>
          (case open_err parsedDSN of
             Some err \<Rightarrow> Inl (PlainErr (''failed to open DB: '' @ err))
           | None \<Rightarrow>
               (case ping_err parsedDSN of
                  Some err \<Rightarrow> Inl (errorf_w ''failed to ping db: '' (PlainErr err))
                | None \<Rightarrow> Inr \<lparr>dbp_DSN = parsedDSN, dbp_MaxOpen = 10, dbp_MaxIdle = 5, dbp_MaxLifetime = 5 * 60\<rparr>)))"

text \<open>Reading the CA bundle, adding it to the pool of roots and registering the configuration.\<close>

definition RegisterCustomTLS :: "(string + bytes) \<Rightarrow> (bytes \<Rightarrow> bool) \<Rightarrow> (bytes \<Rightarrow> go_error option) \<Rightarrow> go_error option" where
  "RegisterCustomTLS bundle append_ok register =
     (case bundle of
        Inl err \<Rightarrow> Some (errorf_w ''cannot load CA bundle: '' (PlainErr err))
      | Inr pem \<Rightarrow> if \<not> append_ok pem then Some (PlainErr ''failed to append CA'') else register pem)"

section \<open>Facts\<close>

lemma ensure_param_present: "contains s (name @ ''='') \<Longrightarrow> ensure_param name value s = s"
  by (simp add: ensure_param_def)

lemma ensure_param_keeps: "contains s p \<Longrightarrow> contains (ensure_param name value s) p"
  by (simp add: ensure_param_def contains_append_left)

lemma ensure_param_has: "contains (ensure_param name value s) (name @ ''='')"
proof -
  have "s @ CHR ''&'' # name @ CHR ''='' # value = (s @ ''&'') @ (name @ ''='') @ value" by simp
  then have "contains (s @ CHR ''&'' # name @ CHR ''='' # value) (name @ ''='')"
    by (metis contains_append contains_self)
  then show ?thesis by (simp add: ensure_param_def)
qed

definition complete :: "string \<Rightarrow> bool" where
  "complete s \<longleftrightarrow> contains s ''tls='' \<and> contains s ''parseTime='' \<and> contains s ''timeout=''"

lemma complete_dsn_id: "complete s \<Longrightarrow> complete_dsn s = s"
  by (simp add: complete_def complete_dsn_def ensure_param_def)

lemma contains_tls: "contains (s @ ''&tls=true'') ''tls=''" "contains (s @ ''?tls=true'') ''tls=''"
  using contains_append [of "''tls=''" "''tls=''" "s @ ''&''" "''true''"]
    contains_append [of "''tls=''" "''tls=''" "s @ ''?''" "''true''"]
  by (simp_all add: contains_self)

lemma complete_complete_dsn: "complete (complete_dsn s)"
  using ensure_param_has [of "''timeout''"] ensure_param_has [of "''parseTime''"] contains_tls
  by (simp add: complete_def complete_dsn_def Let_def ensure_param_keeps)

lemma complete_dsn_of_url: "complete (dsn_of_url u)"
  using ensure_param_has [of "''timeout''"] ensure_param_has [of "''parseTime''"] ensure_param_has [of "''tls''"]
  by (simp add: complete_def dsn_of_url_def Let_def ensure_param_keeps contains_append_right)

text \<open>What the parser returns names the three parameters, and parsing it again does nothing but trim it.\<close>

lemma parsed_dsn:
  assumes "ParseMySQLConnectionString s = Inr dsn"
  shows "complete dsn" and "trimmed dsn = dsn \<Longrightarrow> \<not> has_prefix MySQL_prefix dsn \<Longrightarrow> ParseMySQLConnectionString dsn = Inr dsn"
proof -
  show "complete dsn"
    using assms complete_complete_dsn complete_dsn_of_url
    by (auto simp: ParseMySQLConnectionString_def Let_def split: if_split_asm sum.split_asm)
  then show "ParseMySQLConnectionString dsn = Inr dsn" if "trimmed dsn = dsn" "\<not> has_prefix MySQL_prefix dsn"
    using that by (simp add: ParseMySQLConnectionString_def complete_dsn_id)
qed

text \<open>
  A parameter is found anywhere in the text: with \<^verbatim>\<open>tls=\<close> in the password, no TLS is asked for and what is
  appended becomes part of the name of the database.
\<close>

lemma parameter_in_password:
  "ParseMySQLConnectionString ''u:tls=x@tcp(h)/db'' = Inr ''u:tls=x@tcp(h)/db&parseTime=true&timeout=30s''"
  by code_simp

lemma url_example:
  "ParseMySQLConnectionString ''mysql://u:p%40@h:25060/db?ssl-mode=REQUIRED'' =
     Inr ''u:p@@tcp(h:25060)/db?tls=true&parseTime=true&timeout=30s''"
  by code_simp

lemma url_errors:
  "url_parse ''mysql://u:p@h:port/db'' = Inl (url_error ''mysql://u:p@h:port/db'' (bad_port '':port''))"
  "url_parse ''mysql://u:p%4@h/db'' = Inl (url_error ''mysql://u:p%4@h/db'' (''invalid URL escape '' @ go_quote ''%4''))"
  by (code_simp, code_simp)

end
