(* ===== verification/Logger.thy ===== *)
theory Logger
  imports Exceptions
begin

text \<open>
  \<^verbatim>\<open>pkg/logger/logger.go\<close>: the application's logger over zap. What zap does is a parameter: whether its two
  constructors succeed, and what a logger does with an entry and with \<^verbatim>\<open>Sync\<close> (\<open>'l\<close> is a logger of zap, \<open>'o\<close>
  the place the entries go to). The other theories leave the entries out, as nothing reads them.
\<close>

datatype zap_preset = NewProduction | NewDevelopment

datatype zap_level = InfoLevel | ErrorLevel | DebugLevel | WarnLevel

type_synonym zap_fields = "(string \<times> string) list"

record ('l, 'o) zap =
  zap_new :: "zap_preset \<Rightarrow> go_error + 'l"
  zap_log :: "'l \<Rightarrow> zap_level \<Rightarrow> string \<Rightarrow> zap_fields \<Rightarrow> 'o \<Rightarrow> 'o"
  zap_sync :: "'l \<Rightarrow> 'o \<Rightarrow> go_error option \<times> 'o"

record 'l zap_logger =
  zl_logger :: 'l

definition zap_preset_of :: "string \<Rightarrow> zap_preset" where
  "zap_preset_of environment = (if environment = ''production'' then NewProduction else NewDevelopment)"

definition NewZapLogger :: "(zap_preset \<Rightarrow> go_error + 'l) \<Rightarrow> string \<Rightarrow> ('s, 'e, 'l zap_logger) prog" where
  "NewZapLogger new environment =
     (case new (zap_preset_of environment) of
        Inl err \<Rightarrow> panicM (''failed to create logger: '' @ error_text err)
      | Inr zapLogger \<Rightarrow> ret \<lparr>zl_logger = zapLogger\<rparr>)"

definition ZapLogger_Info :: "('l, 'o) zap \<Rightarrow> 'l zap_logger \<Rightarrow> string \<Rightarrow> zap_fields \<Rightarrow> 'o \<Rightarrow> 'o" where
  "ZapLogger_Info z l msg args = zap_log z (zl_logger l) InfoLevel msg args"

definition ZapLogger_Error :: "('l, 'o) zap \<Rightarrow> 'l zap_logger \<Rightarrow> string \<Rightarrow> zap_fields \<Rightarrow> 'o \<Rightarrow> 'o" where
  "ZapLogger_Error z l msg args = zap_log z (zl_logger l) ErrorLevel msg args"

definition ZapLogger_Debug :: "('l, 'o) zap \<Rightarrow> 'l zap_logger \<Rightarrow> string \<Rightarrow> zap_fields \<Rightarrow> 'o \<Rightarrow> 'o" where
  "ZapLogger_Debug z l msg args = zap_log z (zl_logger l) DebugLevel msg args"

definition ZapLogger_Warn :: "('l, 'o) zap \<Rightarrow> 'l zap_logger \<Rightarrow> string \<Rightarrow> zap_fields \<Rightarrow> 'o \<Rightarrow> 'o" where
  "ZapLogger_Warn z l msg args = zap_log z (zl_logger l) WarnLevel msg args"

definition ZapLogger_Sync :: "('l, 'o) zap \<Rightarrow> 'l zap_logger \<Rightarrow> 'o \<Rightarrow> go_error option \<times> 'o" where
  "ZapLogger_Sync z l = zap_sync z (zl_logger l)"

section \<open>Facts\<close>

lemma NewZapLogger_run [run_simps]:
  "NewZapLogger new env s = (r, s') \<longleftrightarrow> s' = s \<and>
     (case new (zap_preset_of env) of
        Inl err \<Rightarrow> r = Panic (''failed to create logger: '' @ error_text err)
      | Inr l \<Rightarrow> r = Ok \<lparr>zl_logger = l\<rparr>)"
  by (auto simp: NewZapLogger_def run_basic split: sum.split)

text \<open>Only the exact word asks for the production logger.\<close>

lemma zap_preset_production: "zap_preset_of env = NewProduction \<longleftrightarrow> env = ''production''"
  by (simp add: zap_preset_of_def)

end
