(* ===== verification/Startup.thy ===== *)
theory Startup
  imports Handlers Audit_Worker App_Config Mysql_Dsn Logger
begin

text \<open>
  \<^verbatim>\<open>cmd/api/main.go\<close>: the order in which the service is put together, serves and is taken down.

  A program runs over the state of the process: the state of the handlers, the audit worker, and the milestones
  passed so far. \<^verbatim>\<open>log.Fatal\<close> is an error with its text; it ends the process without the deferred calls.
  Parameters are what the process reads (viper, a variable, the answers of the database driver, of Kubernetes and
  of the identity service), whether zap makes a logger, the requests it serves, and what the workers of the audit
  worker do while somebody waits for them. The entries of the log are left out, and with them the deferred
  \<^verbatim>\<open>Sync\<close>, whose error nobody reads.
\<close>

section \<open>The process\<close>

datatype milestone = DbOpened | Bootstrapped | ServerRan | ManagerClosing | WorkerClosing | DbClosing

record ('t, 'k) proc =
  pr_app :: "('t, 'k) app"
  pr_worker :: audit_worker
  pr_trace :: "milestone list"

type_synonym ('t, 'k, 'a) proc_prog = "(('t, 'k) proc, string, 'a) prog"

text \<open>How listening ends: with an error, or by a signal, after which \<^verbatim>\<open>Shutdown\<close> and \<^verbatim>\<open>Close\<close> may fail.\<close>

datatype server_end = ListenFailed string | Signalled bool bool

type_synonym served = "http_request \<times> string \<times> (string \<times> string) list \<times> bool \<times> endpoint"

record ('t, 'k, 'c) start_deps =
  sd_viper :: viper
  sd_zap :: "zap_preset \<Rightarrow> go_error + unit"
  sd_DATABASE_URL :: string
  sd_open :: "string \<Rightarrow> string option"
  sd_ping :: "string \<Rightarrow> string option"
  sd_k8s :: "k8s_config \<Rightarrow> go_error + 'c"
  sd_sink :: audit_sink
  sd_wait :: "audit_worker \<Rightarrow> audit_worker"
  sd_http :: "('t, 'k) http_deps"
  sd_requests :: "served list"
  sd_meanwhile :: "audit_worker \<Rightarrow> audit_worker"
  sd_end :: server_end

definition reached :: "milestone \<Rightarrow> ('t, 'k, unit) proc_prog" where
  "reached x = modifyM (\<lambda>p. p\<lparr>pr_trace := pr_trace p @ [x]\<rparr>)"

text \<open>An operation of the service, whose error is reported with the given prefix and ends the process.\<close>

definition fatal_app :: "string \<Rightarrow> ('t, 'k, 'a) app_prog \<Rightarrow> ('t, 'k, 'a) proc_prog" where
  "fatal_app message m p =
     (case m (pr_app p) of
        (Ok x, s) \<Rightarrow> (Ok x, p\<lparr>pr_app := s\<rparr>)
      | (Err err, s) \<Rightarrow> (Err (message @ error_text err), p\<lparr>pr_app := s\<rparr>)
      | (Panic q, s) \<Rightarrow> (Panic q, p\<lparr>pr_app := s\<rparr>))"

definition fatal_sum :: "string \<Rightarrow> go_error + 'a \<Rightarrow> ('t, 'k, 'a) proc_prog" where
  "fatal_sum message r = (case r of Inl err \<Rightarrow> throw (message @ error_text err) | Inr x \<Rightarrow> ret x)"

text \<open>
  \<^verbatim>\<open>defer\<close> of a call whose error is only logged: it runs after a return and after a panic, and not when the
  process is ended; a panic of its own replaces the outcome.
\<close>

definition deferring :: "('s, string, unit) prog \<Rightarrow> ('s, string, 'a) prog \<Rightarrow> ('s, string, 'a) prog" where
  "deferring d m s =
     (case m s of
        (Err err, t) \<Rightarrow> (Err err, t)
      | (r, t) \<Rightarrow> (case d t of (Panic p, u) \<Rightarrow> (Panic p, u) | (_, u) \<Rightarrow> (r, u)))"

section \<open>Closing\<close>

text \<open>
  \<^verbatim>\<open>AuditWorker.Close\<close> as its caller sees it: \<open>wait\<close> is what happens to the worker until the group of its
  goroutines has ended. Without a recorder there is nothing to close.
\<close>

definition Worker_Close :: "audit_recorder option \<Rightarrow> (audit_worker \<Rightarrow> audit_worker) \<Rightarrow> (audit_worker, go_error, unit) prog" where
  "Worker_Close client wait s =
     (let t = Close_call client s in
      case Close_channel (length (wk_closers s)) t of
        None \<Rightarrow> (Ok (), t)
      | Some u \<Rightarrow>
          if wk_closed t then (Panic ''close of closed channel'', u)
          else (let v = wait u in
                (case wk_group_err v of
                   Some err \<Rightarrow> if err = context_canceled then Ok () else Err err
                 | None \<Rightarrow> Ok (), v)))"

definition close_worker :: "audit_recorder option \<Rightarrow> (audit_worker \<Rightarrow> audit_worker) \<Rightarrow> ('t, 'k, unit) proc_prog" where
  "close_worker client wait p =
     (case Worker_Close client wait (pr_worker p) of
        (Ok _, w) \<Rightarrow> (Ok (), p\<lparr>pr_worker := w\<rparr>)
      | (Err err, w) \<Rightarrow> (Err (error_text err), p\<lparr>pr_worker := w\<rparr>)
      | (Panic q, w) \<Rightarrow> (Panic q, p\<lparr>pr_worker := w\<rparr>))"

text \<open>
  \<^verbatim>\<open>hsmManager.CloseAll\<close>, whose dispatcher is the same worker: closing the clients never fails, so the
  dispatcher's \<^verbatim>\<open>Close\<close> is always called.
\<close>

definition close_manager :: "'t env \<Rightarrow> audit_recorder option \<Rightarrow> (audit_worker \<Rightarrow> audit_worker) \<Rightarrow> ('t, 'k, unit) proc_prog" where
  "close_manager e client wait p =
     (case Worker_Close client wait (pr_worker p) of
        (q, wk) \<Rightarrow>
          (case CloseAll e (\<lambda>w. (q, w)) (app_world (pr_app p)) of
             (r, w) \<Rightarrow>
               (case r of Ok _ \<Rightarrow> Ok () | Err err \<Rightarrow> Err (error_text err) | Panic x \<Rightarrow> Panic x,
                p\<lparr>pr_app := (pr_app p)\<lparr>app_world := w\<rparr>, pr_worker := wk\<rparr>)))"

section \<open>main.go\<close>

definition initializeDatabase ::
  "string \<Rightarrow> (string \<Rightarrow> string option) \<Rightarrow> (string \<Rightarrow> string option) \<Rightarrow> app_config \<Rightarrow> go_error + db_pool" where
  "initializeDatabase database_url open_err ping_err cfg =
     (let raw = (if cf_ConnectionString cfg = '''' then database_url else cf_ConnectionString cfg) in
      if raw = '''' then Inl (PlainErr ''DATABASE_URL not provided'')
      else case ParseMySQLConnectionString raw of
        Inl err \<Rightarrow> Inl (PlainErr (''failed to parse DB connection string: '' @ error_text err))
      | Inr dsn \<Rightarrow>
          (case ConnectMySQL open_err ping_err dsn of
             Inl err \<Rightarrow> Inl (PlainErr (''failed to initialize DB: '' @ error_text err))
           | Inr db \<Rightarrow> Inr db))"

definition createAESKeyManager :: "(k8s_config \<Rightarrow> go_error + 'c) \<Rightarrow> app_config \<Rightarrow> go_error + aes_strategy" where
  "createAESKeyManager client cfg =
     (let c = cf_AESKeyManager cfg in
      NewAESKeyManager client
        \<lparr>sc_Strategy = ae_Strategy c,
         sc_Local = \<lparr>lc_MasterKeyKey = al_MasterKey (ae_Local c), lc_KeyID = al_KeyID (ae_Local c)\<rparr>,
         sc_K8S = ae_K8S c, sc_VaultAddress = vc_Address (ae_Vault c)\<rparr>)"

text \<open>What the configuration decides of the environment of the components; auditing and tracking are always on.\<close>

definition main_env :: "app_config \<Rightarrow> 't env \<Rightarrow> 't env" where
  "main_env cfg e = e\<lparr>LibraryPath := hs_LibraryPath (cf_HSM cfg), SO_Pin := hs_Pin (cf_HSM cfg), audit_on := True, track_on := True\<rparr>"

definition main_auth :: "app_config \<Rightarrow> auth_config" where
  "main_auth cfg =
     \<lparr>ac_Mode = as_Mode (cf_Auth cfg), ac_PublicKeyPath = as_PublicKeyPath (cf_Auth cfg),
      ac_JWKSUrl = as_JWKSUrl (cf_Auth cfg), ac_JWKSCacheMinutes = 60\<rparr>"

definition main_http :: "app_config \<Rightarrow> aes_strategy \<Rightarrow> ('t, 'k) http_deps \<Rightarrow> ('t, 'k) http_deps" where
  "main_http cfg km d =
     d\<lparr>dp_env := main_env cfg (dp_env d), dp_auth := main_auth cfg, dp_km := km, dp_hsm := True,
       dp_validator := \<lparr>va_issuer = ''identification-service'', va_audience = ''hsm-service''\<rparr>\<rparr>"

text \<open>The requests, one after the other, and the responses.\<close>

fun serve_all :: "('t, 'k) http_deps \<Rightarrow> served list \<Rightarrow> ('t, 'k, (response \<times> http_header) list) app_prog" where
  "serve_all d [] = ret []"
| "serve_all d ((req, body, params, protected, ep) # rs) =
     bindM (serve d req body params protected ep) (\<lambda>resp.
     bindM (serve_all d rs) (\<lambda>resps. ret (resp # resps)))"

text \<open>An error of listening is logged, and so is one of shutting down; no error is returned.\<close>

definition runServerWithTimeouts :: "server_end \<Rightarrow> go_error option" where
  "runServerWithTimeouts how = (case how of ListenFailed err \<Rightarrow> None | Signalled shut closed \<Rightarrow> None)"

definition run_server :: "('t, 'k, 'c) start_deps \<Rightarrow> ('t, 'k) http_deps \<Rightarrow> ('t, 'k, unit) proc_prog" where
  "run_server d h =
     bindM (fatal_app '''' (serve_all h (sd_requests d))) (\<lambda>_.
     bindM (modifyM (\<lambda>p. p\<lparr>pr_worker := sd_meanwhile d (pr_worker p)\<rparr>)) (\<lambda>_.
     bindM (reached ServerRan) (\<lambda>_.
     case runServerWithTimeouts (sd_end d) of
       Some err \<Rightarrow> throw (''Server error: '' @ error_text err)
     | None \<Rightarrow> ret ())))"

definition main_recorder :: "app_config \<Rightarrow> audit_recorder option" where
  "main_recorder cfg = Some (NewAuditRecorder (ad_Strategy (cf_Audit cfg)) (ad_HTTPBaseURL (cf_Audit cfg)))"

text \<open>
  \<^verbatim>\<open>main\<close>, in pieces from the inside out: what runs once the manager's \<^verbatim>\<open>CloseAll\<close> is deferred, what runs once
  the worker's \<^verbatim>\<open>Close\<close> is deferred, what runs once there is a logger, and the whole.
\<close>

definition serving :: "('t, 'k, 'c) start_deps \<Rightarrow> app_config \<Rightarrow> aes_strategy \<Rightarrow> ('t, 'k, unit) proc_prog" where
  "serving d cfg km =
     bindM (fatal_app ''Failed to create key manager: ''
       (NewKeyManager (main_env cfg (dp_env (sd_http d))) (dp_io (sd_http d)) (main_auth cfg))) (\<lambda>_.
     run_server d (main_http cfg km (sd_http d)))"

text \<open>
  The context of the bootstrapper has no values and ends after 30 seconds; only calls of the database and of
  Kubernetes look at it, and one that is broken off is one of their failures.
\<close>

definition managed :: "('t, 'k, 'c) start_deps \<Rightarrow> app_config \<Rightarrow> ('t, 'k, unit) proc_prog" where
  "managed d cfg =
     bindM (fatal_sum ''Failed to create AESKeyManager:'' (createAESKeyManager (sd_k8s d) cfg)) (\<lambda>km.
     bindM (fatal_app ''Failed to bootstrap HSM:'' (on_world (Bootstrap (main_env cfg (dp_env (sd_http d))) km Background))) (\<lambda>_.
     bindM (reached Bootstrapped) (\<lambda>_.
     deferring (bindM (reached ManagerClosing) (\<lambda>_.
         close_manager (main_env cfg (dp_env (sd_http d))) (main_recorder cfg) (sd_wait d)))
       (serving d cfg km))))"

definition connected :: "('t, 'k, 'c) start_deps \<Rightarrow> app_config \<Rightarrow> ('t, 'k, unit) proc_prog" where
  "connected d cfg =
     bindM (fatal_sum ''Failed to initialize DB: '' (initializeDatabase (sd_DATABASE_URL d) (sd_open d) (sd_ping d) cfg)) (\<lambda>db.
     bindM (reached DbOpened) (\<lambda>_.
     deferring (reached DbClosing)
       (bindM (modifyM (\<lambda>p. p\<lparr>pr_worker := NewAuditWorker (main_recorder cfg) (sd_sink d)\<rparr>)) (\<lambda>_.
        deferring (bindM (reached WorkerClosing) (\<lambda>_. close_worker (main_recorder cfg) (sd_wait d)))
          (managed d cfg)))))"

definition main :: "('t, 'k, 'c) start_deps \<Rightarrow> ('t, 'k, unit) proc_prog" where
  "main d =
     (case LoadConfig (sd_viper d) of
        Inl err \<Rightarrow> throw err
      | Inr cfg \<Rightarrow> bindM (NewZapLogger (sd_zap d) (cf_Environment cfg)) (\<lambda>_. connected d cfg))"

section \<open>Facts\<close>

lemma deferring_eq:
  "m s = (Err err, t) \<Longrightarrow> deferring d m s = (Err err, t)"
  "m s = (Ok x, t) \<Longrightarrow> deferring d m s = (case d t of (Panic p, u) \<Rightarrow> (Panic p, u) | (_, u) \<Rightarrow> (Ok x, u))"
  "m s = (Panic q, t) \<Longrightarrow> deferring d m s = (case d t of (Panic p, u) \<Rightarrow> (Panic p, u) | (_, u) \<Rightarrow> (Panic q, u))"
  by (simp_all add: deferring_def)

lemma reached_run: "reached x p = (Ok (), p\<lparr>pr_trace := pr_trace p @ [x]\<rparr>)"
  by (simp add: reached_def run_basic)

lemma fatal_app_frame:
  assumes "fatal_app msg m p = (r, p')"
  shows "pr_trace p' = pr_trace p" and "pr_worker p' = pr_worker p"
proof -
  obtain q s where "m (pr_app p) = (q, s)" by fastforce
  then show "pr_trace p' = pr_trace p" "pr_worker p' = pr_worker p"
    using assms by (auto simp: fatal_app_def split: outcome.split_asm)
qed

lemma fatal_sum_frame: "fatal_sum msg r p = (q, p') \<Longrightarrow> p' = p \<and> (\<forall>x. q \<noteq> Panic x)"
  by (auto simp: fatal_sum_def run_basic split: sum.split_asm)

lemma serve_all_total: "\<exists>resps s'. serve_all d rs s = (Ok resps, s') \<and> length resps = length rs"
proof (induction rs arbitrary: s)
  case (Cons x rs)
  obtain req body params protected ep where x: "x = (req, body, params, protected, ep)" by (metis prod_cases5)
  obtain resp u where u: "serve d req body params protected ep s = (Ok resp, u)"
    using serve_total [of d req body params protected ep s] by blast
  obtain resps v where "serve_all d rs u = (Ok resps, v)" "length resps = length rs" using Cons.IH by blast
  then show ?case using u by (simp add: x run_basic)
qed (simp add: run_basic)

lemma run_server_run:
  "\<exists>p'. run_server d h p = (Ok (), p') \<and> pr_trace p' = pr_trace p @ [ServerRan]"
proof -
  obtain resps s' where "serve_all h (sd_requests d) (pr_app p) = (Ok resps, s')" using serve_all_total by blast
  then show ?thesis
    by (simp add: run_server_def fatal_app_def bindM_def reached_run run_basic runServerWithTimeouts_def
        split: server_end.split)
qed

text \<open>
  The scheduler's part: while somebody waits for a worker that is told to stop, the goroutines take steps until
  all have ended. \<open>drain\<close> is one such schedule.
\<close>

definition waits :: "audit_env \<Rightarrow> audit_recorder option \<Rightarrow> (audit_worker \<Rightarrow> audit_worker) \<Rightarrow> bool" where
  "waits a client wait \<longleftrightarrow>
     (\<forall>s. wk_closed s \<and> wk_done s \<longrightarrow>
        (\<exists>xs. audit_run a client xs s = Some (wait s)) \<and> list_all is_exited (wk_workers (wait s)))"

lemma run_closed_stays: "audit_run a client xs s = Some s' \<Longrightarrow> wk_closed s \<Longrightarrow> wk_closed s'"
proof (induction xs arbitrary: s)
  case (Cons x xs)
  then show ?case using closed_stays by (auto split: option.split_asm)
qed simp

lemma Worker_Close_closes:
  assumes "waits a (Some c) wait" and "Worker_Close (Some c) wait s = (r, s')"
  shows "wk_closed s'" and "wk_closed s \<Longrightarrow> r = Panic ''close of closed channel''"
proof -
  let ?t = "Close_call (Some c) s"
  obtain u where u: "Close_channel (length (wk_closers s)) ?t = Some u" "wk_closed u" "wk_done u"
    by (auto simp: Close_channel_def Close_call_def)
  have "wk_closed (wait u)" using assms(1) u run_closed_stays unfolding waits_def by blast
  then show "wk_closed s'" using assms(2) u
    by (auto simp: Worker_Close_def Let_def split: if_split_asm)
  show "r = Panic ''close of closed channel''" if "wk_closed s"
    using assms(2) u that by (auto simp: Worker_Close_def Let_def Close_call_def)
qed

lemma close_manager_run:
  assumes "waits a (Some c) wait" and "close_manager e (Some c) wait p = (r, p')"
  shows "wk_closed (pr_worker p')" and "pr_trace p' = pr_trace p"
proof -
  obtain q wk where wk: "Worker_Close (Some c) wait (pr_worker p) = (q, wk)" by fastforce
  obtain x w where w: "CloseAll e (\<lambda>w. (q, w)) (app_world (pr_app p)) = (x, w)" by fastforce
  show "wk_closed (pr_worker p')" "pr_trace p' = pr_trace p"
    using assms(2) wk w Worker_Close_closes(1) [OF assms(1) wk] by (auto simp: close_manager_def)
qed

lemma close_worker_run:
  assumes "waits a (Some c) wait" and "close_worker (Some c) wait p = (r, p')"
  shows "pr_trace p' = pr_trace p" and "wk_closed (pr_worker p) \<Longrightarrow> r = Panic ''close of closed channel''"
proof -
  obtain q wk where wk: "Worker_Close (Some c) wait (pr_worker p) = (q, wk)" by fastforce
  then show "pr_trace p' = pr_trace p" "wk_closed (pr_worker p) \<Longrightarrow> r = Panic ''close of closed channel''"
    using assms(2) Worker_Close_closes(2) [OF assms(1) wk]
    by (auto simp: close_worker_def split: outcome.split_asm)
qed

lemma serving_run:
  assumes "serving d cfg km s = (r, s')"
  shows "(r \<noteq> Ok () \<and> pr_trace s' = pr_trace s) \<or> (r = Ok () \<and> pr_trace s' = pr_trace s @ [ServerRan])"
proof -
  obtain q u where q: "fatal_app ''Failed to create key manager: ''
      (NewKeyManager (main_env cfg (dp_env (sd_http d))) (dp_io (sd_http d)) (main_auth cfg)) s = (q, u)" by fastforce
  obtain v where "run_server d (main_http cfg km (sd_http d)) u = (Ok (), v)" "pr_trace v = pr_trace u @ [ServerRan]"
    using run_server_run by blast
  then show ?thesis using assms q fatal_app_frame(1) [OF q] by (cases q) (auto simp: serving_def)
qed

lemma managed_run:
  assumes "waits a (main_recorder cfg) (sd_wait d)" and "managed d cfg s = (r, s')" and "pr_trace s = [DbOpened]"
  shows "(\<exists>err. r = Err err \<and> set (pr_trace s') \<subseteq> {DbOpened, Bootstrapped}) \<or> (\<exists>p. r = Panic p \<and> pr_trace s' = [DbOpened])
    \<or> ((\<forall>err. r \<noteq> Err err) \<and> wk_closed (pr_worker s')
       \<and> pr_trace s' \<in> {[DbOpened, Bootstrapped, ManagerClosing], [DbOpened, Bootstrapped, ServerRan, ManagerClosing]})"
proof (cases "createAESKeyManager (sd_k8s d) cfg")
  case (Inl err)
  then show ?thesis using assms by (auto simp: managed_def fatal_sum_def run_basic bindM_def)
next
  case (Inr km)
  obtain q u where q: "fatal_app ''Failed to bootstrap HSM:''
      (on_world (Bootstrap (main_env cfg (dp_env (sd_http d))) km Background)) s = (q, u)" by fastforce
  have trace: "pr_trace u = [DbOpened]" using fatal_app_frame(1) [OF q] assms(3) by simp
  show ?thesis
  proof (cases q)
    case (Ok x)
    obtain r1 v where v: "serving d cfg km (u\<lparr>pr_trace := [DbOpened, Bootstrapped]\<rparr>) = (r1, v)" by fastforce
    obtain r2 w where w: "close_manager (main_env cfg (dp_env (sd_http d))) (main_recorder cfg) (sd_wait d)
        (v\<lparr>pr_trace := pr_trace v @ [ManagerClosing]\<rparr>) = (r2, w)" by fastforce
    have closed: "wk_closed (pr_worker w)" "pr_trace w = pr_trace v @ [ManagerClosing]"
      using close_manager_run [of a _ "sd_wait d", OF assms(1) [unfolded main_recorder_def] w [unfolded main_recorder_def]] by simp_all
    have "managed d cfg s = deferring (bindM (reached ManagerClosing) (\<lambda>_.
         close_manager (main_env cfg (dp_env (sd_http d))) (main_recorder cfg) (sd_wait d))) (serving d cfg km)
         (u\<lparr>pr_trace := [DbOpened, Bootstrapped]\<rparr>)"
      using Inr q Ok trace by (simp add: managed_def fatal_sum_def run_basic reached_run bindM_def)
    then show ?thesis
      using assms(2) serving_run [OF v] v w closed
      by (cases r1; cases r2) (auto simp: deferring_eq reached_run bindM_def)
  next
    case (Err err)
    then show ?thesis using assms(2) Inr q trace by (auto simp: managed_def fatal_sum_def run_basic bindM_def)
  next
    case (Panic p)
    then show ?thesis using assms(2) Inr q trace by (auto simp: managed_def fatal_sum_def run_basic bindM_def)
  qed
qed

text \<open>A schedule of the goroutines: each finishes the event it has in hand, and leaves.\<close>

primrec drain_from :: "worker_pc list \<Rightarrow> nat \<Rightarrow> audit_action list" where
  "drain_from [] j = []"
| "drain_from (pc # pcs) j =
     (case pc of Recording ev \<Rightarrow> [Record j, WorkerDone j] | Waiting \<Rightarrow> [WorkerDone j] | Exited err \<Rightarrow> [])
     @ drain_from pcs (Suc j)"

definition drain :: "audit_env \<Rightarrow> audit_recorder option \<Rightarrow> audit_worker \<Rightarrow> audit_worker" where
  "drain a client s = (case audit_run a client (drain_from (wk_workers s) 0) s of Some t \<Rightarrow> t | None \<Rightarrow> s)"

lemma drain_run:
  "wk_done s \<Longrightarrow> wk_workers s = ps @ qs \<Longrightarrow> list_all is_exited ps \<Longrightarrow>
     \<exists>t. audit_run a client (drain_from qs (length ps)) s = Some t \<and> list_all is_exited (wk_workers t)"
proof (induction qs arbitrary: s ps)
  case (Cons q qs)

  show ?case
  proof (cases q)
    case Waiting
    let ?u = "s\<lparr>wk_workers := (ps @ [Exited (Some context_canceled)]) @ qs,
        wk_group_err := (if wk_group_err s = None then Some context_canceled else wk_group_err s)\<rparr>"
    have "audit_act a client (WorkerDone (length ps)) s = Some ?u"
      using Cons.prems Waiting by (simp add: worker_exit_def nth_append)
    then show ?thesis using Cons.IH [of ?u "ps @ [Exited (Some context_canceled)]"] Cons.prems Waiting
      by (auto simp: is_exited_def)
  next
    case (Recording ev)
    obtain v where v: "worker_record a client (length ps) s = Some v" "wk_done v" "wk_workers v = ps @ Waiting # qs"
      using Cons.prems Recording
      by (cases "recordAuditEvent a (wk_done s) client ev (wk_sink s)") (auto simp: worker_record_def nth_append Let_def)
    let ?u = "v\<lparr>wk_workers := (ps @ [Exited (Some context_canceled)]) @ qs,
        wk_group_err := (if wk_group_err v = None then Some context_canceled else wk_group_err v)\<rparr>"
    have "audit_act a client (Record (length ps)) s = Some v" "audit_act a client (WorkerDone (length ps)) v = Some ?u"
      using v by (simp_all add: worker_exit_def nth_append)
    then show ?thesis using Cons.IH [of ?u "ps @ [Exited (Some context_canceled)]"] Cons.prems Recording v
      by (auto simp: is_exited_def)
  next
    case (Exited e)
    then show ?thesis using Cons.IH [of s "ps @ [q]"] Cons.prems by (auto simp: is_exited_def)
  qed
qed simp

lemma drain_waits: "waits a client (drain a client)"
  unfolding waits_def
proof (intro allI impI)
  fix s :: audit_worker
  assume "wk_closed s \<and> wk_done s"
  then obtain t where "audit_run a client (drain_from (wk_workers s) 0) s = Some t" "list_all is_exited (wk_workers t)"
    using drain_run [of s "[]" "wk_workers s" a client] by auto
  then show "(\<exists>xs. audit_run a client xs s = Some (drain a client s)) \<and> list_all is_exited (wk_workers (drain a client s))"
    by (auto simp: drain_def)
qed

lemma connected_run:
  assumes "waits a (main_recorder cfg) (sd_wait d)" and "connected d cfg p = (r, p')" and "pr_trace p = []"
  shows "r \<noteq> Ok ()
    \<and> (ServerRan \<in> set (pr_trace p') \<longrightarrow> r = Panic ''close of closed channel''
         \<and> pr_trace p' = [DbOpened, Bootstrapped, ServerRan, ManagerClosing, WorkerClosing, DbClosing])
    \<and> (\<forall>err. r = Err err \<longrightarrow> set (pr_trace p') \<subseteq> {DbOpened, Bootstrapped})"
proof -
  obtain q u where q: "fatal_sum ''Failed to initialize DB: ''
      (initializeDatabase (sd_DATABASE_URL d) (sd_open d) (sd_ping d) cfg) p = (q, u)" by fastforce
  have u: "u = p" "\<And>x. q \<noteq> Panic x" using fatal_sum_frame [OF q] by auto
  let ?s = "p\<lparr>pr_trace := [DbOpened], pr_worker := NewAuditWorker (main_recorder cfg) (sd_sink d)\<rparr>"
  show ?thesis
  proof (cases q)
    case (Ok db)
    obtain r1 v where v: "managed d cfg ?s = (r1, v)" by fastforce
    have stage: "(\<exists>err. r1 = Err err \<and> set (pr_trace v) \<subseteq> {DbOpened, Bootstrapped}) \<or> (\<exists>p. r1 = Panic p \<and> pr_trace v = [DbOpened])
      \<or> ((\<forall>err. r1 \<noteq> Err err) \<and> wk_closed (pr_worker v)
         \<and> pr_trace v \<in> {[DbOpened, Bootstrapped, ManagerClosing], [DbOpened, Bootstrapped, ServerRan, ManagerClosing]})"
      using managed_run [OF assms(1) v] by simp
    obtain r2 w where w: "close_worker (main_recorder cfg) (sd_wait d) (v\<lparr>pr_trace := pr_trace v @ [WorkerClosing]\<rparr>) = (r2, w)"
      by fastforce
    have closed: "pr_trace w = pr_trace v @ [WorkerClosing]" "wk_closed (pr_worker v) \<Longrightarrow> r2 = Panic ''close of closed channel''"
      using close_worker_run [of a _ "sd_wait d", OF assms(1) [unfolded main_recorder_def] w [unfolded main_recorder_def]]
      by simp_all
    have "connected d cfg p = deferring (reached DbClosing) (\<lambda>_. deferring (bindM (reached WorkerClosing)
        (\<lambda>_. close_worker (main_recorder cfg) (sd_wait d))) (managed d cfg) ?s) p"
      using q Ok u(1) assms(3) by (simp add: connected_def bindM_def reached_run run_basic deferring_def)
    then show ?thesis
      using assms(2) stage v w closed
      by (cases r1; cases r2) (auto simp: deferring_eq deferring_def reached_run bindM_def)
  next
    case (Err err)
    then show ?thesis using assms q u(1) by (auto simp: connected_def bindM_def)
  qed (use u in simp)
qed

section \<open>Properties\<close>


definition sample_config :: app_config where
  "sample_config = \<lparr>cf_Environment = '''', cf_ConnectionString = ''u:p@tcp(h)/db'', cf_Server = \<lparr>sv_Address = '':8080''\<rparr>,
     cf_HSM = \<lparr>hs_LibraryPath = LibraryPath sample_env, hs_TokenLabel = ''digsigna-token'', hs_Pin = ''0000'', hs_Slot = 0,
       hs_NoSlots = 4, hs_SessionTimeout = 30000000000, hs_MaxSessions = 10\<rparr>,
     cf_Redis = \<lparr>rd_Address = '''', rd_Password = '''', rd_DB = 0, rd_AuditStream = ''''\<rparr>,
     cf_Audit = \<lparr>ad_Enabled = True, ad_Strategy = ''hybrid'', ad_HTTPTimeout = 0, ad_HTTPBaseURL = ''http://audit'',
       ad_CircuitBreaker = \<lparr>cb_MaxFailures = 5, cb_ResetTimeout = 0\<rparr>\<rparr>,
     cf_AESKeyManager = \<lparr>ae_Strategy = ''local'', ae_Local = \<lparr>al_MasterKey = base64_encode (replicate 32 7), al_KeyID = ''k1''\<rparr>,
       ae_K8S = \<lparr>kc_SecretName = '''', kc_SecretNamespace = '''', kc_KeyID = '''', kc_MasterKeyKey = '''', kc_OldMasterKeyKey = '''',
         kc_KubeconfigPath = '''', kc_InCluster = True\<rparr>,
       ae_Vault = \<lparr>vc_Address = '''', vc_Token = '''', vc_SecretPath = '''', vc_Path = '''', vc_KeyName = ''''\<rparr>\<rparr>,
     cf_Auth = \<lparr>as_Mode = ''development'', as_PublicKeyPath = ''p'', as_JWKSUrl = '''', as_JWKSCacheMinutes = 60\<rparr>\<rparr>"

definition sample_start :: "(sample_token, nat, unit) start_deps" where
  "sample_start = \<lparr>sd_viper = \<lambda>_ _. Inr sample_config, sd_zap = \<lambda>_. Inr (), sd_DATABASE_URL = '''', sd_open = \<lambda>_. None, sd_ping = \<lambda>_. None,
     sd_k8s = \<lambda>_. Inr (), sd_sink = empty_sink,
     sd_wait = drain sample_audit_env (main_recorder sample_config),
     sd_http = sample_deps\<lparr>dp_io := sample_io\<lparr>io_pem := \<lambda>_. Inr (Some (''PUBLIC KEY'', [])), io_pkix := \<lambda>_. Inr (Some 0)\<rparr>\<rparr>,
     sd_requests = [(good_request, '''', [], False, EReady)], sd_meanwhile = \<lambda>s. s, sd_end = Signalled True True\<rparr>"

lemma main_serves:
  assumes config: "LoadConfig (sd_viper d) = Inr cfg" "sd_zap d (zap_preset_of (cf_Environment cfg)) = Inr l"
    and "initializeDatabase (sd_DATABASE_URL d) (sd_open d) (sd_ping d) cfg = Inr db"
    and "createAESKeyManager (sd_k8s d) cfg = Inr km"
    and "on_world (Bootstrap (main_env cfg (dp_env (sd_http d))) km Background) (pr_app p) = (Ok (), s)"
    and "NewKeyManager (main_env cfg (dp_env (sd_http d))) (dp_io (sd_http d)) (main_auth cfg) s = (Ok (), t)"
    and "waits a (main_recorder cfg) (sd_wait d)"
  shows "ServerRan \<in> set (pr_trace (snd (main d p)))"
proof -
  let ?e = "main_env cfg (dp_env (sd_http d))"
  let ?p = "p\<lparr>pr_trace := pr_trace p @ [DbOpened], pr_worker := NewAuditWorker (main_recorder cfg) (sd_sink d)\<rparr>"
  let ?q = "?p\<lparr>pr_app := s, pr_trace := pr_trace p @ [DbOpened, Bootstrapped]\<rparr>"
  obtain v where v: "run_server d (main_http cfg km (sd_http d)) (?q\<lparr>pr_app := t\<rparr>) = (Ok (), v)"
    and ran: "ServerRan \<in> set (pr_trace v)"
    using run_server_run [of d "main_http cfg km (sd_http d)" "?q\<lparr>pr_app := t\<rparr>"] by auto
  have serving: "serving d cfg km ?q = (Ok (), v)"
    using assms(6) v by (simp add: serving_def fatal_app_def bindM_def)
  obtain r2 w where w: "close_manager ?e (main_recorder cfg) (sd_wait d) (v\<lparr>pr_trace := pr_trace v @ [ManagerClosing]\<rparr>) = (r2, w)"
    by fastforce
  have wtrace: "pr_trace w = pr_trace v @ [ManagerClosing]"
    using close_manager_run(2) [OF assms(7) [unfolded main_recorder_def] w [unfolded main_recorder_def]] by simp
  have "managed d cfg ?p = deferring (bindM (reached ManagerClosing) (\<lambda>_. close_manager ?e (main_recorder cfg) (sd_wait d)))
      (serving d cfg km) ?q"
    using assms(4,5) by (simp add: managed_def fatal_sum_def fatal_app_def reached_run bindM_def run_basic)
  then obtain r3 where managed: "managed d cfg ?p = (r3, w)" "\<And>err. r3 \<noteq> Err err"
    using serving w by (cases r2) (auto simp: deferring_eq reached_run bindM_def)
  obtain r4 x where x: "close_worker (main_recorder cfg) (sd_wait d) (w\<lparr>pr_trace := pr_trace w @ [WorkerClosing]\<rparr>) = (r4, x)"
    by fastforce
  have xtrace: "pr_trace x = pr_trace w @ [WorkerClosing]"
    using close_worker_run(1) [OF assms(7) [unfolded main_recorder_def] x [unfolded main_recorder_def]] by simp
  have "main d p = deferring (reached DbClosing) (\<lambda>_. deferring (bindM (reached WorkerClosing)
      (\<lambda>_. close_worker (main_recorder cfg) (sd_wait d))) (managed d cfg) ?p) p"
    using assms(1,2,3) by (simp add: main_def connected_def NewZapLogger_def fatal_sum_def bindM_def reached_run run_basic deferring_def)
  then show ?thesis
    using managed x wtrace xtrace ran
    by (cases r3; cases r4) (auto simp: deferring_eq deferring_def reached_run bindM_def)
qed


end
