(* ===== verification/Go_Sha256.thy ===== *)
theory Go_Sha256
  imports Go_Crypto
begin

text \<open>
  \<^verbatim>\<open>crypto/sha256.Sum256\<close>, which the crypto service hashes data with before the HSM signs it: the
  compression function of FIPS 180-4 on 32-bit words, the padding, and the big-endian conversions.
\<close>

unbundle bit_operations_syntax

section \<open>Constants\<close>

text \<open>
  The constants are defined as the standard derives them: the first 32 bits of the fractional parts of the
  square roots of the first eight primes and of the cube roots of the first 64. \<open>root_from e b r n\<close> finds the
  largest number with \<open>e\<close>-th power at most \<open>n\<close>, bit by bit from bit \<open>b\<close> down; 36 bits are enough, since the
  64th prime is 311 and \<open>311 * 2 ^ 96 < (2 ^ 36) ^ 3\<close>.
\<close>

fun root_from :: "nat \<Rightarrow> nat \<Rightarrow> int \<Rightarrow> int \<Rightarrow> int" where
  "root_from e 0 r n = r"
| "root_from e (Suc b) r n = root_from e b (if (r + 2 ^ b) ^ e \<le> n then r + 2 ^ b else r) n"

definition small_primes :: "nat list" where
  "small_primes = filter (\<lambda>p. list_all (\<lambda>d. p mod d \<noteq> 0) [2..<p]) [2..<312]"

definition root_fraction :: "nat \<Rightarrow> nat \<Rightarrow> u32" where
  "root_fraction e p = of_int (root_from e 36 0 (int p * 2 ^ (32 * e)))"

definition sha_k :: "u32 list" where
  "sha_k = map (root_fraction 3) small_primes"

record sha_state =
  sh_a :: u32
  sh_b :: u32
  sh_c :: u32
  sh_d :: u32
  sh_e :: u32
  sh_f :: u32
  sh_g :: u32
  sh_h :: u32

definition state_of :: "u32 list \<Rightarrow> sha_state" where
  "state_of xs = \<lparr>sh_a = xs ! 0, sh_b = xs ! 1, sh_c = xs ! 2, sh_d = xs ! 3,
     sh_e = xs ! 4, sh_f = xs ! 5, sh_g = xs ! 6, sh_h = xs ! 7\<rparr>"

definition sha_init :: sha_state where
  "sha_init = state_of (map (root_fraction 2) (take 8 small_primes))"

section \<open>One block\<close>

definition rotr :: "nat \<Rightarrow> u32 \<Rightarrow> u32" where
  "rotr n x = drop_bit n x OR push_bit (32 - n) x"

text \<open>The message schedule, newest word first.\<close>

fun schedule :: "nat \<Rightarrow> u32 list \<Rightarrow> u32 list" where
  "schedule 0 ws = ws"
| "schedule (Suc n) ws =
     (let w2 = ws ! 1; w7 = ws ! 6; w15 = ws ! 14; w16 = ws ! 15;
          s0 = rotr 7 w15 XOR rotr 18 w15 XOR drop_bit 3 w15;
          s1 = rotr 17 w2 XOR rotr 19 w2 XOR drop_bit 10 w2
      in schedule n ((w16 + s0 + w7 + s1) # ws))"

definition sha_round :: "u32 \<times> u32 \<Rightarrow> sha_state \<Rightarrow> sha_state" where
  "sha_round = (\<lambda>(k, w) s.
     let s1 = rotr 6 (sh_e s) XOR rotr 11 (sh_e s) XOR rotr 25 (sh_e s);
         ch = (sh_e s AND sh_f s) XOR (NOT (sh_e s) AND sh_g s);
         t1 = sh_h s + s1 + ch + k + w;
         s0 = rotr 2 (sh_a s) XOR rotr 13 (sh_a s) XOR rotr 22 (sh_a s);
         maj = (sh_a s AND sh_b s) XOR (sh_a s AND sh_c s) XOR (sh_b s AND sh_c s);
         t2 = s0 + maj
     in \<lparr>sh_a = t1 + t2, sh_b = sh_a s, sh_c = sh_b s, sh_d = sh_c s, sh_e = sh_d s + t1,
         sh_f = sh_e s, sh_g = sh_f s, sh_h = sh_g s\<rparr>)"

text \<open>Big-endian numbers: from bytes, and the low \<open>n\<close> bytes of a word.\<close>

definition be32 :: "bytes \<Rightarrow> u32" where
  "be32 bs = foldl (\<lambda>a b. push_bit 8 a OR ucast b) 0 bs"

definition word_bytes :: "nat \<Rightarrow> 'a::len word \<Rightarrow> bytes" where
  "word_bytes n w = map (\<lambda>i. ucast (drop_bit (8 * i) w)) (rev [0..<n])"

fun words_of :: "bytes \<Rightarrow> u32 list" where
  "words_of (a # b # c # d # rest) = be32 [a, b, c, d] # words_of rest"
| "words_of _ = []"

definition sha_block :: "sha_state \<Rightarrow> bytes \<Rightarrow> sha_state" where
  "sha_block s block =
     (let ws = rev (schedule 48 (rev (words_of block)));
          t = fold sha_round (zip sha_k ws) s
      in \<lparr>sh_a = sh_a s + sh_a t, sh_b = sh_b s + sh_b t, sh_c = sh_c s + sh_c t, sh_d = sh_d s + sh_d t,
          sh_e = sh_e s + sh_e t, sh_f = sh_f s + sh_f t, sh_g = sh_g s + sh_g t, sh_h = sh_h s + sh_h t\<rparr>)"

section \<open>The whole message\<close>

definition sha_pad :: "bytes \<Rightarrow> bytes" where
  "sha_pad m = m @ [0x80] @ replicate ((119 - length m mod 64) mod 64) 0
     @ word_bytes 8 (of_nat (8 * length m) :: u64)"

fun sha_blocks :: "nat \<Rightarrow> bytes \<Rightarrow> sha_state \<Rightarrow> sha_state" where
  "sha_blocks 0 m s = s"
| "sha_blocks (Suc n) m s = sha_blocks n (drop 64 m) (sha_block s (take 64 m))"

definition sha_bytes :: "sha_state \<Rightarrow> bytes" where
  "sha_bytes s = concat (map (word_bytes 4) [sh_a s, sh_b s, sh_c s, sh_d s, sh_e s, sh_f s, sh_g s, sh_h s])"

definition Sum256 :: "bytes \<Rightarrow> bytes" where
  "Sum256 m = sha_bytes (sha_blocks (length (sha_pad m) div 64) (sha_pad m) sha_init)"

section \<open>Facts\<close>

lemma length_word_bytes [simp]: "length (word_bytes n w) = n"
  by (simp add: word_bytes_def)

lemma length_sha_pad: "length (sha_pad m) mod 64 = 0"
proof -
  define q r where qr: "q = length m div 64" "r = length m mod 64"
  have m: "length m = 64 * q + r" "r < 64" by (simp_all add: qr)
  have len: "length (sha_pad m) = length m + 9 + (119 - r) mod 64"
    by (simp add: sha_pad_def qr)
  show ?thesis
  proof (cases "r \<le> 55")
    case True
    then have "(119 - r) mod 64 = 55 - r" using mod_add_self1 [of 64 "55 - r"] by simp
    then have "length (sha_pad m) = 64 * (q + 1)" using True len m by simp
    then show ?thesis by simp
  next
    case False
    then have "(119 - r) mod 64 = 119 - r" by simp
    then have "length (sha_pad m) = 64 * (q + 2)" using len m by simp
    then show ?thesis by simp
  qed
qed

lemma length_Sum256: "length (Sum256 m) = 32"
  by (simp add: Sum256_def sha_bytes_def)

end
