(* ===== verification/Crypto_Service.thy ===== *)
theory Crypto_Service
  imports Signing_Service Go_Sha256
begin

text \<open>
  \<^verbatim>\<open>internal/application/services/crypto_service.go\<close>: signing, verifying, encrypting and decrypting with a
  key found on the token by its label and its tenant. The six methods differ in the usage they ask for, in
  their names and in the last call; \<open>crypto_operation\<close> is the text they share.
\<close>

section \<open>crypto\_service.go\<close>

definition validateKeyUsageForOperation :: "hsm_key \<Rightarrow> key_usage \<Rightarrow> go_error option" where
  "validateKeyUsageForOperation key requiredUsage =
     (if hk_Usage key \<noteq> requiredUsage \<and> hk_Usage key \<noteq> KeyUsageBoth
      then Some (PlainErr (code_string ErrInvalidKeyUsage)) else None)"

definition getSlotForTenant :: "'t env \<Rightarrow> gctx \<Rightarrow> string \<Rightarrow> ('t, hsm_slot) wprog" where
  "getSlotForTenant e = tenant_slot e slotErrorMsg"

definition auditCryptoOperation :: "string \<Rightarrow> string \<Rightarrow> (go_error, 'a) outcome \<Rightarrow> int \<Rightarrow> audit_data" where
  "auditCryptoOperation operation keyLabel r d =
     op_audit ''CRYPTO_SERVICE'' operation ''SERVICE'' '''' [(''label'', DStr keyLabel)] (outcome_error r) d"

text \<open>The first listed key with the label and the tenant.\<close>

definition getHSMKeyByLabel :: "'t env \<Rightarrow> gctx \<Rightarrow> string \<Rightarrow> string \<Rightarrow> ('t, hsm_key) wprog" where
  "getHSMKeyByLabel e ctx label tenantID =
     bindM (getSlotForTenant e ctx tenantID) (\<lambda>slot.
     bindM (Manager_ListKeys e ctx (int_of_uint (sl_SlotNumber slot))) (\<lambda>allKeys.
     case List.find (\<lambda>k. hk_Label k = label \<and> hk_TenantID k = tenantID) allKeys of
       None \<Rightarrow> throw (PlainErr (code_string ErrKeyNotFound))
     | Some key \<Rightarrow> ret key))"

definition crypto_failed :: "string \<Rightarrow> go_error \<Rightarrow> go_error" where
  "crypto_failed opname err = PlainErr (code_string ErrHSMOperationFailed @ '': operation='' @ opname)"

definition crypto_body :: "'t env \<Rightarrow> gctx \<Rightarrow> string \<Rightarrow> string \<Rightarrow> key_usage \<Rightarrow> string \<Rightarrow>
    (string \<Rightarrow> int \<Rightarrow> ('t, 'a) wprog) \<Rightarrow> ('t, 'a) wprog" where
  "crypto_body e ctx keyLabel tenantID usage opname call =
     bindM (getHSMKeyByLabel e ctx keyLabel tenantID) (\<lambda>hsmKey.
     case validateKeyUsageForOperation hsmKey usage of
       Some err \<Rightarrow> throw err
     | None \<Rightarrow>
         bindM (getSlotForTenant e ctx tenantID) (\<lambda>slot.
         wrapErr (crypto_failed opname) (call (hk_KeyHandle hsmKey) (int_of_uint (sl_SlotNumber slot)))))"

definition crypto_operation :: "'t env \<Rightarrow> gctx \<Rightarrow> string \<Rightarrow> string \<Rightarrow> string \<Rightarrow> key_usage \<Rightarrow> string \<Rightarrow>
    (string \<Rightarrow> int \<Rightarrow> ('t, 'a) wprog) \<Rightarrow> ('t, 'a) wprog" where
  "crypto_operation e ctx operation keyLabel tenantID usage opname call =
     audited e (audit_on e) ctx None (auditCryptoOperation operation keyLabel)
       (crypto_body e ctx keyLabel tenantID usage opname call)"

definition SignData :: "'t env \<Rightarrow> gctx \<Rightarrow> string \<Rightarrow> bytes \<Rightarrow> string \<Rightarrow> identity_context \<Rightarrow> ('t, bytes) wprog" where
  "SignData e ctx keyLabel data tenantID identity =
     crypto_operation e ctx ''SIGN_DATA'' keyLabel tenantID KeyUsageSigning ''sign_data''
       (\<lambda>keyHandle slot. Manager_SignHash e ctx keyHandle (Sum256 data) slot identity)"

definition Crypto_VerifySignature ::
  "'t env \<Rightarrow> gctx \<Rightarrow> string \<Rightarrow> bytes \<Rightarrow> bytes \<Rightarrow> string \<Rightarrow> ('t, bool) wprog" where
  "Crypto_VerifySignature e ctx keyLabel data signature tenantID =
     crypto_operation e ctx ''VERIFY_SIGNATURE'' keyLabel tenantID KeyUsageSigning ''verify_signature''
       (\<lambda>keyHandle slot. Manager_VerifySignature e ctx keyHandle (Sum256 data) signature slot)"

definition EncryptData :: "'t env \<Rightarrow> gctx \<Rightarrow> string \<Rightarrow> bytes \<Rightarrow> string \<Rightarrow> ('t, bytes) wprog" where
  "EncryptData e ctx keyLabel plaintext tenantID =
     crypto_operation e ctx ''ENCRYPT_DATA'' keyLabel tenantID KeyUsageEncryption ''encrypt''
       (\<lambda>keyHandle slot. Manager_Encrypt e keyHandle plaintext slot)"

definition DecryptData :: "'t env \<Rightarrow> gctx \<Rightarrow> string \<Rightarrow> bytes \<Rightarrow> string \<Rightarrow> ('t, bytes) wprog" where
  "DecryptData e ctx keyLabel ciphertext tenantID =
     crypto_operation e ctx ''DECRYPT_DATA'' keyLabel tenantID KeyUsageEncryption ''decrypt''
       (\<lambda>keyHandle slot. Manager_Decrypt e keyHandle ciphertext slot)"

definition Crypto_SignHash ::
  "'t env \<Rightarrow> gctx \<Rightarrow> string \<Rightarrow> bytes \<Rightarrow> string \<Rightarrow> identity_context \<Rightarrow> ('t, bytes) wprog" where
  "Crypto_SignHash e ctx keyLabel hash tenantID identity =
     crypto_operation e ctx ''SIGN_HASH'' keyLabel tenantID KeyUsageSigning ''sign_hash''
       (\<lambda>keyHandle slot. Manager_SignHash e ctx keyHandle hash slot identity)"

definition Crypto_VerifyHashSignature ::
  "'t env \<Rightarrow> gctx \<Rightarrow> string \<Rightarrow> bytes \<Rightarrow> bytes \<Rightarrow> string \<Rightarrow> ('t, bool) wprog" where
  "Crypto_VerifyHashSignature e ctx keyLabel hash signature tenantID =
     crypto_operation e ctx ''VERIFY_HASH_SIGNATURE'' keyLabel tenantID KeyUsageSigning ''verify_hash_signature''
       (\<lambda>keyHandle slot. Manager_VerifySignature e ctx keyHandle hash signature slot)"

lemmas crypto_service_defs = SignData_def Crypto_VerifySignature_def EncryptData_def DecryptData_def
  Crypto_SignHash_def Crypto_VerifyHashSignature_def

section \<open>Facts\<close>

lemma getHSMKeyByLabel_Ok:
  assumes "getHSMKeyByLabel e ctx label tn w = (Ok k, w')"
  shows "hk_Label k = label" "hk_TenantID k = tn"
    and "\<exists>slot u v ks. slot_of_tenant w tn slot
        \<and> Manager_ListKeys e ctx (int_of_uint (sl_SlotNumber slot)) u = (Ok ks, v) \<and> k \<in> set ks"
proof -
  obtain slot u ks where "tenant_slot e slotErrorMsg ctx tn w = (Ok slot, u)"
    and list: "Manager_ListKeys e ctx (int_of_uint (sl_SlotNumber slot)) u = (Ok ks, w')"
    and find: "List.find (\<lambda>k. hk_Label k = label \<and> hk_TenantID k = tn) ks = Some k"
    using assms
    by (auto simp: getHSMKeyByLabel_def getSlotForTenant_def bindM_Ok run_basic split: option.split_asm)
  then show "hk_Label k = label" "hk_TenantID k = tn"
    and "\<exists>slot u v ks. slot_of_tenant w tn slot
        \<and> Manager_ListKeys e ctx (int_of_uint (sl_SlotNumber slot)) u = (Ok ks, v) \<and> k \<in> set ks"
    using tenant_slot_Ok find_SomeD [OF find] by blast+
qed

lemma frame_getHSMKeyByLabel:
  assumes f: "service_frame f"
  shows "unchanged f (getHSMKeyByLabel e ctx label tn)"
  unfolding getHSMKeyByLabel_def getSlotForTenant_def
  by (intro unchanged_intros frame_tenant_slot frame_manager secrets_frame_service service_frame_client f)

text \<open>\<open>usable w tn label usage k\<close>: a key of the tenant's slot lists as \<open>k\<close>, and \<open>k\<close> may be used so.\<close>

definition usable :: "'t env \<Rightarrow> gctx \<Rightarrow> 't world \<Rightarrow> string \<Rightarrow> string \<Rightarrow> key_usage \<Rightarrow> hsm_slot \<Rightarrow> hsm_key \<Rightarrow> bool" where
  "usable e ctx w tn label usage slot k \<longleftrightarrow> slot_of_tenant w tn slot \<and> hk_Label k = label \<and> hk_TenantID k = tn
     \<and> hk_Usage k \<in> {usage, KeyUsageBoth}
     \<and> (\<exists>u v ks. Manager_ListKeys e ctx (int_of_uint (sl_SlotNumber slot)) u = (Ok ks, v) \<and> k \<in> set ks)"

lemma crypto_operation_Ok:
  assumes "crypto_operation e ctx operation label tn usage opname call w = (Ok x, w')"
  obtains slot k u v where "usable e ctx w tn label usage slot k"
    and "call (hk_KeyHandle k) (int_of_uint (sl_SlotNumber slot)) u = (Ok x, v)"
proof -
  let ?w = "w\<lparr>w_tick := Suc (w_tick w)\<rparr>"
  obtain k u slot u' v where get: "getHSMKeyByLabel e ctx label tn ?w = (Ok k, u)"
    and ok: "hk_Usage k \<in> {usage, KeyUsageBoth}"
    and slot: "tenant_slot e slotErrorMsg ctx tn u = (Ok slot, u')"
    and run: "call (hk_KeyHandle k) (int_of_uint (sl_SlotNumber slot)) u' = (Ok x, v)"
    using assms
    by (auto simp: crypto_operation_def crypto_body_def audited_run bindM_Ok wrapErr_Ok run_basic getSlotForTenant_def
        validateKeyUsageForOperation_def split: if_split_asm)
  have "slot_of_tenant w tn slot"
    using tenant_slot_Ok [OF slot] unchangedD [OF frame_getHSMKeyByLabel get, of w_tenants]
      unchangedD [OF frame_getHSMKeyByLabel get, of w_slots]
    by (simp add: slot_of_tenant_def)
  moreover obtain slot' a b ks where "slot_of_tenant w tn slot'"
    "Manager_ListKeys e ctx (int_of_uint (sl_SlotNumber slot')) a = (Ok ks, b)" "k \<in> set ks"
    using getHSMKeyByLabel_Ok(3) [OF get] by (auto simp: slot_of_tenant_def)
  ultimately have "usable e ctx w tn label usage slot k"
    using getHSMKeyByLabel_Ok(1,2) [OF get] ok slot_of_tenant_unique unfolding usable_def by blast
  then show thesis using run by (rule that)
qed

text \<open>Two operations that differ in their names only do the same.\<close>

lemma audited_parts:
  "fst (audited e on ctx i mk m w) = fst (m (w\<lparr>w_tick := Suc (w_tick w)\<rparr>))"
  "w_tok (snd (audited e on ctx i mk m w)) = w_tok (snd (m (w\<lparr>w_tick := Suc (w_tick w)\<rparr>)))"
  by (simp_all add: audited_def bindM_def run_tick deferM_def split: prod.split)

lemma crypto_body_rename:
  "fst (crypto_body e ctx l tn usage n1 call u) = Ok x \<longleftrightarrow> fst (crypto_body e ctx l tn usage n2 call u) = Ok x"
  "snd (crypto_body e ctx l tn usage n1 call u) = snd (crypto_body e ctx l tn usage n2 call u)"
  by (simp_all add: crypto_body_def bindM_def wrapErr_def catchM_def run_basic
      split: prod.split outcome.split option.split)

lemma crypto_operation_rename:
  "fst (crypto_operation e ctx op1 l tn usage n1 call w) = Ok x \<longleftrightarrow>
   fst (crypto_operation e ctx op2 l tn usage n2 call w) = Ok x"
  "w_tok (snd (crypto_operation e ctx op1 l tn usage n1 call w)) =
   w_tok (snd (crypto_operation e ctx op2 l tn usage n2 call w))"
  unfolding crypto_operation_def audited_parts
  by (rule crypto_body_rename) (rule arg_cong [OF crypto_body_rename(2)])

lemma crypto_operation_never:
  assumes "ids_empty e" and "tn \<noteq> ''''"
  shows "fst (crypto_operation e ctx operation label tn usage opname call w) \<noteq> Ok x"
proof
  assume "fst (crypto_operation e ctx operation label tn usage opname call w) = Ok x"
  then obtain w' where "crypto_operation e ctx operation label tn usage opname call w = (Ok x, w')"
    by (metis prod.collapse)
  then obtain slot k u v where "usable e ctx w tn label usage slot k" by (rule crypto_operation_Ok)
  then obtain u v ks where "hk_TenantID k = tn" "k \<in> set ks"
    and "Manager_ListKeys e ctx (int_of_uint (sl_SlotNumber slot)) u = (Ok ks, v)" by (auto simp: usable_def)
  then show False using ListKeys_tenant [OF assms(1)] assms(2)
    by (fastforce simp: Manager_ListKeys_def bindM_Ok)
qed

section \<open>Properties\<close>

text \<open>
  The crypto service returns a signature, a verdict, a ciphertext or a plaintext only for a key that the
  client of the tenant's slot lists under the label and the tenant and whose usage allows the operation, and
  it is what the client returned for that key, over the SHA-256 hash where the data is not hashed yet.
\<close>

theorem crypto_service_uses_a_listed_key:
  "(SignData e ctx l d tn i w = (Ok x, w') \<longrightarrow>
      (\<exists>slot k u v. usable e ctx w tn l KeyUsageSigning slot k
         \<and> Manager_SignHash e ctx (hk_KeyHandle k) (Sum256 d) (int_of_uint (sl_SlotNumber slot)) i u = (Ok x, v)))
   \<and> (Crypto_SignHash e ctx l d tn i w = (Ok x, w') \<longrightarrow>
      (\<exists>slot k u v. usable e ctx w tn l KeyUsageSigning slot k
         \<and> Manager_SignHash e ctx (hk_KeyHandle k) d (int_of_uint (sl_SlotNumber slot)) i u = (Ok x, v)))
   \<and> (EncryptData e ctx l d tn w = (Ok x, w') \<longrightarrow>
      (\<exists>slot k u v. usable e ctx w tn l KeyUsageEncryption slot k
         \<and> Manager_Encrypt e (hk_KeyHandle k) d (int_of_uint (sl_SlotNumber slot)) u = (Ok x, v)))
   \<and> (DecryptData e ctx l d tn w = (Ok x, w') \<longrightarrow>
      (\<exists>slot k u v. usable e ctx w tn l KeyUsageEncryption slot k
         \<and> Manager_Decrypt e (hk_KeyHandle k) d (int_of_uint (sl_SlotNumber slot)) u = (Ok x, v)))
   \<and> (Crypto_VerifySignature e ctx l d sg tn w = (Ok b, w') \<longrightarrow>
      (\<exists>slot k u v. usable e ctx w tn l KeyUsageSigning slot k
         \<and> Manager_VerifySignature e ctx (hk_KeyHandle k) (Sum256 d) sg (int_of_uint (sl_SlotNumber slot)) u = (Ok b, v)))
   \<and> (Crypto_VerifyHashSignature e ctx l d sg tn w = (Ok b, w') \<longrightarrow>
      (\<exists>slot k u v. usable e ctx w tn l KeyUsageSigning slot k
         \<and> Manager_VerifySignature e ctx (hk_KeyHandle k) d sg (int_of_uint (sl_SlotNumber slot)) u = (Ok b, v)))"
  unfolding crypto_service_defs
  by (intro conjI impI; erule crypto_operation_Ok; intro exI conjI; assumption)

text \<open>A token that stores the tenant in \<^verbatim>\<open>CKA_ID\<close>, as no code of the repository does.\<close>

definition tagged_env :: "sample_token env" where
  "tagged_env = sample_env\<lparr>pkcs11 := sample_ck\<lparr>ck_GetAttributeValue :=
     (\<lambda>s x ks t. (Inr [(CKA_LABEL, bytes_of_string ''k''), (CKA_KEY_TYPE, [0]), (CKA_ID, bytes_of_string ''T''),
        (CKA_MODULUS, [5])], t))\<rparr>\<rparr>"

lemma bytes_of_string_Nil [simp]: "bytes_of_string s = [] \<longleftrightarrow> s = []"
  by (simp add: bytes_of_string_def)

lemma sample_sign_data:
  "\<exists>w'. SignData tagged_env Background ''k'' d ''T'' sample_identity service_world = (Ok (0x5A # Sum256 d), w')"
  by (simp add: SignData_def crypto_operation_def crypto_body_def getHSMKeyByLabel_def getSlotForTenant_def
      Manager_ListKeys_def Client_ListKeys_def getKeyInfo_def Client_GetPublicKey_def first_nonempty_def
      objectBatchSize_def validateKeyUsageForOperation_def Manager_SignHash_def Client_SignHash_def tagged_env_def
      service_run)

theorem crypto_service_uses_a_listed_key_witness:
  "\<exists>slot k. usable tagged_env Background service_world ''T'' ''k'' KeyUsageSigning slot k"
proof -
  obtain w' where "SignData tagged_env Background ''k'' [] ''T'' sample_identity service_world = (Ok (0x5A # Sum256 []), w')"
    using sample_sign_data by blast
  then show ?thesis
    using crypto_service_uses_a_listed_key [of tagged_env Background "''k''" "[]" "''T''" sample_identity
        service_world "0x5A # Sum256 []" w' "[]" True] by blast
qed

text \<open>
  C33. Over a token whose keys have an empty \<^verbatim>\<open>CKA_ID\<close>, as the keys that this service generates have, none of
  the six operations ever succeeds for a tenant: the listed keys carry no tenant, so none is found.
\<close>

theorem crypto_service_refuses_untagged_keys:
  assumes "ids_empty e" and "tn \<noteq> ''''"
  shows "(\<forall>x. fst (SignData e ctx l d tn i w) \<noteq> Ok x) \<and> (\<forall>x. fst (Crypto_SignHash e ctx l d tn i w) \<noteq> Ok x)
    \<and> (\<forall>x. fst (EncryptData e ctx l d tn w) \<noteq> Ok x) \<and> (\<forall>x. fst (DecryptData e ctx l d tn w) \<noteq> Ok x)
    \<and> (\<forall>x. fst (Crypto_VerifySignature e ctx l d sg tn w) \<noteq> Ok x)
    \<and> (\<forall>x. fst (Crypto_VerifyHashSignature e ctx l d sg tn w) \<noteq> Ok x)"
  unfolding crypto_service_defs by (intro conjI allI crypto_operation_never assms)

lemma sample_ids_empty: "ids_empty sample_env"
  by (auto simp: ids_empty_def sample_ck_def ck_ok_def ck_fail_def sample_attr_def split: option.splits)

theorem crypto_service_refuses_untagged_keys_witness:
  "(\<exists>pk kh w'. Manager_GenerateKeyPair sample_env Background alg_RSA 2048 ''T_sig'' 7 service_world = (Ok (pk, kh), w'))
   \<and> (\<forall>w x. fst (SignData sample_env Background ''T_sig'' [1] ''T'' sample_identity w) \<noteq> Ok x)"
proof (intro conjI allI)
  show "\<exists>pk kh w'. Manager_GenerateKeyPair sample_env Background alg_RSA 2048 ''T_sig'' 7 service_world = (Ok (pk, kh), w')"
    by (simp add: Manager_GenerateKeyPair_def Client_GenerateKeyPair_def generateRSAKeyPair_def rsa_templates_def
        exportPublicKey_def exportRSAPublicKey_def attr_bytes_def service_run)
  show "fst (SignData sample_env Background ''T_sig'' [1] ''T'' sample_identity w) \<noteq> Ok x" for w x
    using crypto_service_refuses_untagged_keys [OF sample_ids_empty, of "''T''" Background "''T_sig''" "[1]"
        sample_identity w] by blast
qed

text \<open>
  Signing or verifying data is signing or verifying its SHA-256 hash: \<^verbatim>\<open>SignData\<close> and \<^verbatim>\<open>SignHash\<close> of the
  hash return the same signature and leave the token in the same state, and so do the two verifications.
  (The client then asks the token for \<^verbatim>\<open>CKM_SHA256_RSA_PKCS\<close>, which hashes once more.)
\<close>

theorem signing_data_is_signing_its_hash:
  "(fst (SignData e ctx l d tn i w) = Ok x \<longleftrightarrow> fst (Crypto_SignHash e ctx l (Sum256 d) tn i w) = Ok x)
   \<and> w_tok (snd (SignData e ctx l d tn i w)) = w_tok (snd (Crypto_SignHash e ctx l (Sum256 d) tn i w))
   \<and> (fst (Crypto_VerifySignature e ctx l d sg tn w) = Ok b \<longleftrightarrow>
      fst (Crypto_VerifyHashSignature e ctx l (Sum256 d) sg tn w) = Ok b)
   \<and> w_tok (snd (Crypto_VerifySignature e ctx l d sg tn w)) =
     w_tok (snd (Crypto_VerifyHashSignature e ctx l (Sum256 d) sg tn w))"
  unfolding crypto_service_defs by (intro conjI crypto_operation_rename)

end
