(* ===== verification/Hsm_Key_Service.thy ===== *)
theory Hsm_Key_Service
  imports Crypto_Service
begin

text \<open>
  \<^verbatim>\<open>internal/application/services/hsm_key_service.go\<close>: keys that live on the token only, created, listed and
  read by label. Nothing of them is stored in the database.
\<close>

section \<open>hsm\_key\_service.go\<close>

definition hsm_key_audit :: "string \<Rightarrow> details \<Rightarrow> (go_error, 'a) outcome \<Rightarrow> int \<Rightarrow> audit_data" where
  "hsm_key_audit operation metadata r d =
     op_audit ''hsm-key-service'' operation ''SERVICE'' '''' metadata (outcome_error r) d"

definition CreateHSMKey :: "'t env \<Rightarrow> gctx \<Rightarrow> string \<Rightarrow> key_algorithm \<Rightarrow> int \<Rightarrow> string \<Rightarrow> ('t, hsm_key) wprog" where
  "CreateHSMKey e ctx label algorithm ksize tenantID =
     audited e (audit_on e) ctx None
       (hsm_key_audit ''CREATE_HSM_KEY''
         [(''label'', DStr label), (''algorithm'', DStr algorithm), (''size'', DInt ksize)])
       (bindM (tenant_slot e error_text ctx tenantID) (\<lambda>slot.
        bindM (wrapErr (crypto_failed ''generate_key_pair'')
          (Manager_GenerateKeyPair e ctx algorithm ksize label (int_of_uint (sl_SlotNumber slot)))) (\<lambda>(publicKey, keyHandle).
        bindM (nowM e) (\<lambda>now.
        ret \<lparr>hk_Label = label, hk_Type = algorithm, hk_Size = of_int ksize, hk_TenantID = tenantID,
             hk_PublicKey = publicKey, hk_KeyHandle = keyHandle, hk_CreatedAt = now, hk_IsActive = True,
             hk_Usage = KeyUsageBoth\<rparr>))))"

definition ListHSMKeys :: "'t env \<Rightarrow> gctx \<Rightarrow> string \<Rightarrow> ('t, hsm_key list) wprog" where
  "ListHSMKeys e ctx tenantID =
     audited e (audit_on e) ctx None (hsm_key_audit ''LIST_HSM_KEYS'' [])
       (bindM (tenant_slot e error_text ctx tenantID) (\<lambda>slot.
        bindM (Manager_ListKeys e ctx (int_of_uint (sl_SlotNumber slot))) (\<lambda>allKeys.
        ret (filter (\<lambda>k. hk_TenantID k = tenantID) allKeys))))"

definition GetHSMPublicKey :: "'t env \<Rightarrow> gctx \<Rightarrow> string \<Rightarrow> string \<Rightarrow> ('t, bytes) wprog" where
  "GetHSMPublicKey e ctx keyLabel tenantID =
     audited e (audit_on e) ctx None (hsm_key_audit ''GET_HSM_PUBLIC_KEY'' [])
       (bindM (tenant_slot e error_text ctx tenantID) (\<lambda>slot.
        bindM (Manager_ListKeys e ctx (int_of_uint (sl_SlotNumber slot))) (\<lambda>allKeys.
        case List.find (\<lambda>k. hk_Label k = keyLabel \<and> hk_TenantID k = tenantID) allKeys of
          None \<Rightarrow> throw (PlainErr (code_string ErrKeyNotFound))
        | Some key \<Rightarrow> ret (hk_PublicKey key))))"

section \<open>Facts\<close>

lemma Manager_ListKeys_tenant:
  "ids_empty e \<Longrightarrow> Manager_ListKeys e ctx n w = (Ok ks, w') \<Longrightarrow> \<forall>k \<in> set ks. hk_TenantID k = ''''"
  by (fastforce simp: Manager_ListKeys_def bindM_Ok dest: ListKeys_tenant)

lemma frame_CreateHSMKey:
  assumes f: "service_frame f"
  shows "unchanged f (CreateHSMKey e ctx label alg n tn)"
  unfolding CreateHSMKey_def
  by (intro frame_service_audited unchanged_intros frame_tenant_slot frame_manager secrets_frame_service
      service_frame_client f service_frame_D [OF f])

section \<open>Properties\<close>

text \<open>
  \<^verbatim>\<open>CreateHSMKey\<close> returns an active key for both usages with the label as its handle, of an algorithm and
  a size the token can make, and stores nothing: the tables are as before. Over a token whose keys have an
  empty \<^verbatim>\<open>CKA_ID\<close>, as the generated ones have, no such key is ever seen again: \<^verbatim>\<open>ListHSMKeys\<close> of the
  tenant is empty and \<^verbatim>\<open>GetHSMPublicKey\<close> never finds one.
\<close>

theorem hsm_keys_are_made_but_never_listed:
  assumes "CreateHSMKey e ctx label alg n tn w = (Ok k, w')" and "ids_empty e" and "tn \<noteq> ''''"
  shows "hk_Label k = label \<and> hk_KeyHandle k = label \<and> hk_TenantID k = tn \<and> hk_Usage k = KeyUsageBoth
      \<and> hk_IsActive k \<and> int (unat (hk_Size k)) = n \<and> generable alg n
    \<and> w_keys w' = w_keys w \<and> w_ops w' = w_ops w
    \<and> (\<forall>u ks v. ListHSMKeys e ctx tn u = (Ok ks, v) \<longrightarrow> ks = [])
    \<and> (\<forall>u pk v. GetHSMPublicKey e ctx label tn u \<noteq> (Ok pk, v))"
proof -
  have "hk_Label k = label \<and> hk_KeyHandle k = label \<and> hk_TenantID k = tn \<and> hk_Usage k = KeyUsageBoth
      \<and> hk_IsActive k \<and> hk_Size k = of_int n \<and> generable alg n"
    using assms(1)
    by (auto simp: CreateHSMKey_def audited_run bindM_Ok wrapErr_Ok run_tick run_basic dest!: Manager_GenerateKeyPair_Ok)
  moreover from this have "int (unat (hk_Size k)) = n" by (auto simp: generable_def)
  moreover have "w_keys w' = w_keys w" "w_ops w' = w_ops w"
    using unchangedD [OF frame_CreateHSMKey assms(1), of w_keys] unchangedD [OF frame_CreateHSMKey assms(1), of w_ops]
    by auto
  moreover have "ks = []" if "ListHSMKeys e ctx tn u = (Ok ks, v)" for u ks v
    using that assms(3)
    by (auto simp: ListHSMKeys_def audited_run bindM_Ok run_basic filter_empty_conv
        dest!: Manager_ListKeys_tenant [OF assms(2)])
  moreover have "GetHSMPublicKey e ctx label tn u \<noteq> (Ok pk, v)" for u pk v
    using assms(3)
    by (auto simp: GetHSMPublicKey_def audited_run bindM_Ok run_basic split: option.split_asm
        dest!: find_SomeD Manager_ListKeys_tenant [OF assms(2)])
  ultimately show ?thesis by blast
qed

lemma sample_create_hsm_key:
  "\<exists>k w'. CreateHSMKey sample_env Background ''n'' alg_RSA 2048 ''T'' service_world = (Ok k, w')"
  by (simp add: CreateHSMKey_def Manager_GenerateKeyPair_def Client_GenerateKeyPair_def generateRSAKeyPair_def
      rsa_templates_def exportPublicKey_def exportRSAPublicKey_def attr_bytes_def service_run)

theorem hsm_keys_are_made_but_never_listed_witness:
  "\<exists>k w'. CreateHSMKey sample_env Background ''n'' alg_RSA 2048 ''T'' service_world = (Ok k, w')
     \<and> hk_KeyHandle k = ''n'' \<and> fst (GetHSMPublicKey sample_env Background ''n'' ''T'' w') \<noteq> Ok (hk_PublicKey k)"
proof -
  obtain k w' where run: "CreateHSMKey sample_env Background ''n'' alg_RSA 2048 ''T'' service_world = (Ok k, w')"
    using sample_create_hsm_key by blast
  from hsm_keys_are_made_but_never_listed [OF run sample_ids_empty]
  have "hk_KeyHandle k = ''n''" "\<And>u pk v. GetHSMPublicKey sample_env Background ''n'' ''T'' u \<noteq> (Ok pk, v)" by auto
  then show ?thesis using run by (metis prod.collapse)
qed

end
