(* ===== verification/Key_Lifecycle.thy ===== *)
theory Key_Lifecycle
  imports Hsm_Key_Service Slot_Service
begin

text \<open>
  The services of \<^verbatim>\<open>internal/application/services\<close> together: any sequence of calls of the key, signing, crypto,
  HSM key and slot services, with whatever arguments, contexts and outcomes, over one state. \<open>perform\<close> is one
  call and what its caller learns; \<open>vault_step\<close> is what the calls promise of the stored keys, over a plain set of
  rows. The services refine the vault, so what holds of a key in the vault holds of the table of keys: a deleted
  key stays dead, the keys of a tenant are touched by calls for that tenant only, and every row stays well-formed.
\<close>

section \<open>Runs\<close>

inductive run_of :: "('l \<Rightarrow> 's \<Rightarrow> 's \<Rightarrow> bool) \<Rightarrow> 's \<Rightarrow> 'l list \<Rightarrow> 's \<Rightarrow> bool" for step where
  stop: "run_of step s [] s"
| go: "step l s t \<Longrightarrow> run_of step t ls u \<Longrightarrow> run_of step s (l # ls) u"

inductive_simps run_of_simps [simp]: "run_of step s [] t" "run_of step s (l # ls) t"

text \<open>A contract that every step keeps, and a step relation that is refined by another.\<close>

locale kept =
  fixes step :: "'l \<Rightarrow> 's \<Rightarrow> 's \<Rightarrow> bool" and inv :: "'s \<Rightarrow> bool"
  assumes keeps: "inv s \<Longrightarrow> step l s t \<Longrightarrow> inv t"
begin

lemma run_keeps: "run_of step s ls t \<Longrightarrow> inv s \<Longrightarrow> inv t"
  by (induction rule: run_of.induct) (auto intro: keeps)

end

locale refined = kept step inv
  for step :: "'l \<Rightarrow> 's \<Rightarrow> 's \<Rightarrow> bool" and inv :: "'s \<Rightarrow> bool" +
  fixes spec :: "'l \<Rightarrow> 'a \<Rightarrow> 'a \<Rightarrow> bool" and abs :: "'s \<Rightarrow> 'a"
  assumes refines: "inv s \<Longrightarrow> step l s t \<Longrightarrow> spec l (abs s) (abs t)"
begin

lemma run_refines: "run_of step s ls t \<Longrightarrow> inv s \<Longrightarrow> run_of spec (abs s) ls (abs t)"
  by (induction rule: run_of.induct) (auto intro: run_of.intros refines keeps)

end

section \<open>The calls\<close>

datatype service_call =
    CreateKeyCall gctx string key_algorithm int key_usage identity_context
  | RotateKeyCall gctx string identity_context
  | DeleteKeyCall gctx string string
  | GetKeyCall string string
  | ListKeysCall string
  | SignHashCall gctx string bytes identity_context
  | VerifyHashCall gctx string bytes bytes identity_context
  | GetPublicKeyCall gctx string string
  | SignDataCall gctx string bytes string identity_context
  | VerifyDataCall gctx string bytes bytes string
  | EncryptCall gctx string bytes string
  | DecryptCall gctx string bytes string
  | CryptoSignHashCall gctx string bytes string identity_context
  | CryptoVerifyHashCall gctx string bytes bytes string
  | CreateHSMKeyCall gctx string key_algorithm int string
  | ListHSMKeysCall gctx string
  | GetHSMPublicKeyCall gctx string string
  | InitializeSlotCall gctx identity_context
  | GetAvailableSlotsCall
  | GetAllSlotsCall
  | DeleteSlotCall gctx u64

text \<open>
  What a call leads to: a new key with its identifier, another result, or an error or a panic. A rotation that
  fails may leave the key it made behind, as the last case.
\<close>

datatype reply = Named string | Answered | Refused | Orphaned string

definition reply_of :: "('a \<Rightarrow> reply) \<Rightarrow> (go_error, 'a) outcome \<times> 't world \<Rightarrow> reply \<times> 't world" where
  "reply_of f x = (case x of (Ok a, w) \<Rightarrow> (f a, w) | (Err err, w) \<Rightarrow> (Refused, w) | (Panic p, w) \<Rightarrow> (Refused, w))"

abbreviation answered :: "(go_error, 'a) outcome \<times> 't world \<Rightarrow> reply \<times> 't world" where
  "answered \<equiv> reply_of (\<lambda>_. Answered)"

definition new_rows :: "'t world \<Rightarrow> 't world \<Rightarrow> cryptographic_key list" where
  "new_rows w w' = filter (\<lambda>r. k_ID r \<notin> k_ID ` set (w_keys w)) (w_keys w')"

definition rotate_reply :: "'t world \<Rightarrow> (go_error, cryptographic_key) outcome \<times> 't world \<Rightarrow> reply \<times> 't world" where
  "rotate_reply w x =
     (case reply_of (Named \<circ> k_ID) x of
        (Refused, w') \<Rightarrow> (case new_rows w w' of [] \<Rightarrow> Refused | r # _ \<Rightarrow> Orphaned (k_ID r), w')
      | named \<Rightarrow> named)"

text \<open>What the services are put together with: the key manager, and the shell that runs \<^verbatim>\<open>softhsm2-util\<close>.\<close>

record 't service_deps =
  sv_env :: "'t env"
  sv_km :: aes_strategy
  sv_exec :: "string list \<Rightarrow> ('t, unit) ck_call"

fun perform :: "'t service_deps \<Rightarrow> service_call \<Rightarrow> 't world \<Rightarrow> reply \<times> 't world" where
  "perform d (CreateKeyCall c name alg n usage i) w = reply_of (Named \<circ> k_ID) (CreateKey (sv_env d) c name alg n usage i w)"
| "perform d (RotateKeyCall c kid i) w = rotate_reply w (RotateKey (sv_env d) c kid i w)"
| "perform d (DeleteKeyCall c kid tn) w = answered (DeleteKey (sv_env d) c kid tn w)"
| "perform d (GetKeyCall kid tn) w = answered (GetKey (sv_env d) kid tn w)"
| "perform d (ListKeysCall tn) w = answered (ListKeys (sv_env d) tn w)"
| "perform d (SignHashCall c kid h i) w = answered (SignHash (sv_env d) c kid h i w)"
| "perform d (VerifyHashCall c kid h s i) w = answered (VerifyHashSignature (sv_env d) c kid h s i w)"
| "perform d (GetPublicKeyCall c kid tn) w = answered (Signing_GetPublicKey (sv_env d) c kid tn w)"
| "perform d (SignDataCall c l x tn i) w = answered (SignData (sv_env d) c l x tn i w)"
| "perform d (VerifyDataCall c l x s tn) w = answered (Crypto_VerifySignature (sv_env d) c l x s tn w)"
| "perform d (EncryptCall c l x tn) w = answered (EncryptData (sv_env d) c l x tn w)"
| "perform d (DecryptCall c l x tn) w = answered (DecryptData (sv_env d) c l x tn w)"
| "perform d (CryptoSignHashCall c l h tn i) w = answered (Crypto_SignHash (sv_env d) c l h tn i w)"
| "perform d (CryptoVerifyHashCall c l h s tn) w = answered (Crypto_VerifyHashSignature (sv_env d) c l h s tn w)"
| "perform d (CreateHSMKeyCall c l alg n tn) w = answered (CreateHSMKey (sv_env d) c l alg n tn w)"
| "perform d (ListHSMKeysCall c tn) w = answered (ListHSMKeys (sv_env d) c tn w)"
| "perform d (GetHSMPublicKeyCall c l tn) w = answered (GetHSMPublicKey (sv_env d) c l tn w)"
| "perform d (InitializeSlotCall c i) w = answered (InitializeSlot (sv_env d) (sv_km d) c i w)"
| "perform d GetAvailableSlotsCall w = answered (GetAvailableSlots (sv_env d) w)"
| "perform d GetAllSlotsCall w = answered (GetAllSlots (sv_env d) w)"
| "perform d (DeleteSlotCall c n) w = answered (Service_DeleteSlot (sv_env d) (sv_exec d) c n w)"

definition performs :: "'t service_deps \<Rightarrow> service_call \<times> reply \<Rightarrow> 't world \<Rightarrow> 't world \<Rightarrow> bool" where
  "performs d l w w' \<longleftrightarrow> perform d (fst l) w = (snd l, w')"

section \<open>The vault\<close>

text \<open>The stored keys a call can be answered for, where it asks for one.\<close>

fun usable_key :: "service_call \<Rightarrow> (cryptographic_key \<Rightarrow> bool) option" where
  "usable_key (SignHashCall c kid h i) =
     Some (\<lambda>r. k_ID r = kid \<and> k_TenantID r = id_TenantID i \<and> k_IsActive r \<and> CanSign (k_Purpose r))"
| "usable_key (VerifyHashCall c kid h s i) =
     Some (\<lambda>r. k_ID r = kid \<and> k_TenantID r = id_TenantID i \<and> k_IsActive r \<and> CanSign (k_Purpose r))"
| "usable_key (GetKeyCall kid tn) = Some (\<lambda>r. k_ID r = kid \<and> k_TenantID r = tn)"
| "usable_key (GetPublicKeyCall c kid tn) = Some (\<lambda>r. k_ID r = kid)"
| "usable_key (CreateKeyCall c name alg n usage i) = Some (\<lambda>_. False)"
| "usable_key (RotateKeyCall c kid i) = Some (\<lambda>_. False)"
| "usable_key (DeleteKeyCall c kid tn) = Some (\<lambda>_. False)"
| "usable_key _ = None"

inductive vault_step :: "service_call \<times> reply \<Rightarrow> cryptographic_key set \<Rightarrow> cryptographic_key set \<Rightarrow> bool" where
  create: "made_for i r \<Longrightarrow> k_ID r \<notin> k_ID ` V \<Longrightarrow> k_Name r = name \<Longrightarrow> k_Algorithm r = alg \<Longrightarrow> k_KeySize r = n \<Longrightarrow>
     k_Purpose r = usage \<Longrightarrow> vault_step (CreateKeyCall c name alg n usage i, Named (k_ID r)) V (insert r V)"
| orphan: "made_for i r \<Longrightarrow> k_ID r \<notin> k_ID ` V \<Longrightarrow> vault_step (RotateKeyCall c kid i, Orphaned (k_ID r)) V (insert r V)"
| destroy: "r \<in> V \<Longrightarrow> k_ID r = kid \<Longrightarrow> k_TenantID r = tn \<Longrightarrow>
     vault_step (DeleteKeyCall c kid tn, Answered) V {x \<in> V. k_ID x \<noteq> kid}"
| answer: "(case usable_key call of None \<Rightarrow> True | Some P \<Rightarrow> \<exists>r \<in> V. P r) \<Longrightarrow> vault_step (call, Answered) V V"
| refuse: "vault_step (call, Refused) V V"

inductive_cases vault_stepE: "vault_step l V V'"

section \<open>Calls that leave the table of keys alone\<close>

lemma key_reads: "unchanged w_keys (GetKey e kid tn)" "unchanged w_keys (ListKeys e tn)"
  unfolding GetKey_def ListKeys_def by (intro unchanged_intros; simp)+

lemma Signing_GetPublicKey_rows: "unchanged w_keys (Signing_GetPublicKey e ctx kid tn)"
  unfolding Signing_GetPublicKey_def
  by (intro unchanged_intros; simp add: auditSimpleOperation_def)

lemma Keys_FindByID_Ok: "Keys_FindByID e i w = (Ok k, w') \<Longrightarrow> \<exists>row \<in> set (w_keys w). k_ID row = i"
  by (auto simp: Keys_FindByID_def queryRowM_def queryM_def run_simps split: if_split_asm dest!: find_SomeD)

lemma Signing_GetPublicKey_Ok:
  "Signing_GetPublicKey e ctx kid tn w = (Ok k, w') \<Longrightarrow> \<exists>row \<in> set (w_keys w). k_ID row = kid"
  by (auto simp: Signing_GetPublicKey_def bindM_Ok run_tick deferM_iff wrapErr_Ok dest!: Keys_FindByID_Ok)

lemma VerifyHashSignature_rows: "VerifyHashSignature e ctx kid d s i w = (r, w') \<Longrightarrow> w_keys w' = w_keys w"
  using unchangedD [OF signing_bodies(4)] by (fastforce simp: VerifyHashSignature_run auditAndTrack_fields)

lemma frame_crypto_operation:
  assumes "service_frame f" and "\<And>kh n. unchanged f (call kh n)"
  shows "unchanged f (crypto_operation e ctx operation l tn usage opname call)"
  unfolding crypto_operation_def crypto_body_def getSlotForTenant_def
  by (intro frame_service_audited unchanged_intros frame_getHSMKeyByLabel frame_tenant_slot secrets_frame_service assms)

lemma frame_crypto_service:
  assumes f: "service_frame f"
  shows "unchanged f (SignData e ctx l x tn i)" "unchanged f (Crypto_VerifySignature e ctx l x s tn)"
    "unchanged f (EncryptData e ctx l x tn)" "unchanged f (DecryptData e ctx l x tn)"
    "unchanged f (Crypto_SignHash e ctx l h tn i)" "unchanged f (Crypto_VerifyHashSignature e ctx l h s tn)"
  unfolding crypto_service_defs
  by (intro frame_crypto_operation frame_manager service_frame_client f)+

lemma frame_hsm_key_service:
  assumes f: "service_frame f"
  shows "unchanged f (ListHSMKeys e ctx tn)" "unchanged f (GetHSMPublicKey e ctx l tn)"
  unfolding ListHSMKeys_def GetHSMPublicKey_def
  by (intro frame_service_audited unchanged_intros frame_tenant_slot frame_manager secrets_frame_service
      service_frame_client f)+

text \<open>What making and claiming a slot leaves alone.\<close>

lemma frame_initializeSlotInternal:
  assumes f: "service_frame f" "slots_frame f"
  shows "unchanged f (initializeSlotInternal e km n tn pin)"
proof -
  have close: "f (snd (dropErr (ckM p (ck_CloseSession (pkcs11 e) h)) w)) = f w" for p h w
    by (rule unchangedD [where m = "dropErr (ckM p (ck_CloseSession (pkcs11 e) h))", OF _ prod.collapse [symmetric]])
      (intro frame_steps service_frame_token f)
  show ?thesis
    unfolding initializeSlotInternal_def Let_def
    by (intro frame_steps frame_context frame_createHSMSlot service_frame_token f close)
qed

lemma frame_slot_service:
  assumes f: "service_frame f" "slots_frame f" and c: "\<And>w c. f (w\<lparr>w_clients := c\<rparr>) = f w"
  shows "unchanged f (InitializeSlot e km ctx i)" "unchanged f (GetAllSlots e)" "unchanged f (Service_DeleteSlot e exec ctx m)"
proof -
  have "unchanged f (claim_slot e km tn pin ns)" for tn pin ns
    unfolding claim_slot_def
    by (cases ns; simp; intro unchanged_intros frame_initializeSlotInternal frame_new_client frame_RegisterClient
        service_frame_client f c)
  then show "unchanged f (InitializeSlot e km ctx i)"
    unfolding InitializeSlot_def
    by (intro frame_service_audited unchanged_intros frame_free_slots secrets_frame_service service_frame_D f)
  show "unchanged f (GetAllSlots e)" "unchanged f (Service_DeleteSlot e exec ctx m)"
    unfolding GetAllSlots_def Service_DeleteSlot_def
    by (intro frame_service_audited frame_steps frame_context service_frame_token secrets_frame_service f)+
qed

section \<open>The services refine the vault\<close>

definition vault :: "'t world \<Rightarrow> cryptographic_key set" where
  "vault w = set (w_keys w)"

definition ids_differ :: "'t world \<Rightarrow> bool" where
  "ids_differ w \<longleftrightarrow> distinct (map k_ID (w_keys w))"

lemma new_rows_append [simp]: "w_keys w' = w_keys w @ [r] \<Longrightarrow> k_ID r \<notin> k_ID ` set (w_keys w) \<Longrightarrow> new_rows w w' = [r]"
  by (auto simp: new_rows_def filter_empty_conv)

lemma new_rows_same [simp]: "w_keys w' = w_keys w \<Longrightarrow> new_rows w w' = []"
  by (auto simp: new_rows_def filter_empty_conv)

lemma reply_of_cases:
  assumes "reply_of f x = (reply, w')"
  obtains (ok) a where "x = (Ok a, w')" "reply = f a"
  | (not_ok) r where "x = (r, w')" "\<And>a. r \<noteq> Ok a" "reply = Refused"
  using assms by (cases x; cases "fst x") (auto simp: reply_of_def)

text \<open>A call whose program leaves the table alone, and is answered only for a key it may use.\<close>

lemma quiet_call:
  assumes "answered (m w) = (reply, w')" and "unchanged w_keys m"
    and "\<And>a u. m w = (Ok a, u) \<Longrightarrow> case usable_key call of None \<Rightarrow> True | Some P \<Rightarrow> \<exists>r \<in> set (w_keys w). P r"
  shows "vault_step (call, reply) (vault w) (vault w') \<and> ids_differ w' = ids_differ w"
  using assms(1)
proof (cases rule: reply_of_cases)
  case (ok a)
  have "w_keys w' = w_keys w" using unchangedD [OF assms(2) ok(1)] .
  then show ?thesis using ok(2) assms(3) [OF ok(1)] vault_step.answer [where call = call] by (simp add: vault_def ids_differ_def)
next
  case (not_ok r)
  have "w_keys w' = w_keys w" using unchangedD [OF assms(2) not_ok(1)] .
  then show ?thesis using not_ok(3) vault_step.refuse [where call = call] by (simp add: vault_def ids_differ_def)
qed

lemma stored_key:
  assumes "w_keys w' = w_keys w @ [r]" and "stored_as r k" and "k_ID k \<notin> k_ID ` set (w_keys w)" and "ids_differ w"
  shows "vault w' = insert r (vault w) \<and> ids_differ w' \<and> k_ID r = k_ID k \<and> k_ID r \<notin> k_ID ` vault w"
  using assms by (simp add: vault_def ids_differ_def stored_as_def)

lemma create_refines:
  assumes unique: "db_unique e \<noteq> None" and inv: "ids_differ w"
    and run: "reply_of (Named \<circ> k_ID) (CreateKey e c name alg n usage i w) = (reply, w')"
  shows "vault_step (CreateKeyCall c name alg n usage i, reply) (vault w) (vault w') \<and> ids_differ w'"
  using run
proof (cases rule: reply_of_cases)
  case (ok k)
  obtain r where r: "w_keys w' = w_keys w @ [r]" "stored_as r k" "made_for i k" "k_ID k \<notin> k_ID ` set (w_keys w)"
    and k: "k_Name k = name" "k_Algorithm k = alg" "k_KeySize k = n" "k_Purpose k = usage"
    using CreateKey_made [OF ok(1)] unique by auto
  have "vault_step (CreateKeyCall c name alg n usage i, Named (k_ID r)) (vault w) (insert r (vault w))"
    using stored_key [OF r(1,2,4) inv] r(2,3) k made_for_stored [OF r(2)]
    by (intro vault_step.create) (auto simp: stored_as_def)
  then show ?thesis using stored_key [OF r(1,2,4) inv] ok(2) by simp
next
  case (not_ok q)
  have "w_keys w' = w_keys w" using CreateKey_fails [OF not_ok(1,2)] by blast
  then show ?thesis using inv not_ok(3) vault_step.refuse by (simp add: vault_def ids_differ_def)
qed

lemma rotate_refines:
  assumes unique: "db_unique e \<noteq> None" and inv: "ids_differ w"
    and run: "rotate_reply w (RotateKey e c kid i w) = (reply, w')"
  shows "vault_step (RotateKeyCall c kid i, reply) (vault w) (vault w') \<and> ids_differ w'"
proof -
  obtain q u where q: "RotateKey e c kid i w = (q, u)" by fastforce
  show ?thesis
  proof (rule RotateKey_cases [OF q])
    assume "\<And>x. q \<noteq> Ok x" and u: "w_keys u = w_keys w"
    then have "reply = Refused \<and> w' = u" using run q by (cases q) (auto simp: rotate_reply_def reply_of_def)
    then show ?thesis using inv u vault_step.refuse by (simp add: vault_def ids_differ_def)
  next
    fix new row
    assume "db_unique e = None"
    then show ?thesis using unique by simp
  next
    fix new row
    assume no: "\<And>x. q \<noteq> Ok x" and row: "stored_as row new" "made_for i new"
      and "db_unique e = None \<or> k_ID new \<notin> k_ID ` set (w_keys w)"
      and u: "w_keys u = w_keys w @ [row] \<or> w_keys u = filter (\<lambda>x. k_ID x \<noteq> k_ID new) (w_keys w @ [row])"
    then have fresh: "k_ID new \<notin> k_ID ` set (w_keys w)" using unique by simp
    have "filter (\<lambda>x. k_ID x \<noteq> k_ID new) (w_keys w @ [row]) = w_keys w"
      using fresh row(1) by (auto simp: stored_as_def filter_id_conv image_iff)
    then have "w_keys u = w_keys w @ [row] \<or> w_keys u = w_keys w" using u by metis
    then show ?thesis
    proof
      assume u: "w_keys u = w_keys w"
      then have "reply = Refused \<and> w' = u" using run q no by (cases q) (auto simp: rotate_reply_def reply_of_def)
      then show ?thesis using inv u vault_step.refuse by (simp add: vault_def ids_differ_def)
    next
      assume u: "w_keys u = w_keys w @ [row]"
      note stored = stored_key [OF u row(1) fresh inv]
      have "reply = Orphaned (k_ID row) \<and> w' = u" using run q no u stored
        by (cases q) (auto simp: rotate_reply_def reply_of_def vault_def)
      moreover have "vault_step (RotateKeyCall c kid i, Orphaned (k_ID row)) (vault w) (insert row (vault w))"
        using stored row made_for_stored [OF row(1)] by (intro vault_step.orphan) auto
      ultimately show ?thesis using stored by simp
    qed
  qed
qed

lemma delete_refines:
  assumes inv: "ids_differ w" and run: "answered (DeleteKey e c kid tn w) = (reply, w')"
  shows "vault_step (DeleteKeyCall c kid tn, reply) (vault w) (vault w') \<and> ids_differ w'"
  using run
proof (cases rule: reply_of_cases)
  case (ok a)
  obtain row where row: "row \<in> set (w_keys w)" "k_ID row = kid" "k_TenantID row = tn"
    and w': "w_keys w' = filter (\<lambda>x. k_ID x \<noteq> kid) (w_keys w)" using DeleteKey_Ok [of e c kid tn w w'] ok(1) by auto
  have "vault w' = {x \<in> vault w. k_ID x \<noteq> kid}" "ids_differ w'"
    using inv w' by (auto simp: vault_def ids_differ_def distinct_map_filter)
  then show ?thesis using ok(2) row vault_step.destroy [of row "vault w" kid tn c] by (simp add: vault_def)
next
  case (not_ok q)
  have "w_keys w' = w_keys w" using DeleteKey_fails [OF not_ok(1)] not_ok(2) by blast
  then show ?thesis using inv not_ok(3) vault_step.refuse by (simp add: vault_def ids_differ_def)
qed

text \<open>The calls that ask for no stored key.\<close>

lemma other_call:
  assumes "usable_key call = None"
  shows "w_keys (snd (perform d call w)) = w_keys w \<and> fst (perform d call w) \<in> {Answered, Refused}"
proof -
  have ans: "w_keys (snd (answered (m w))) = w_keys w" "fst (answered (m w)) = Answered \<or> fst (answered (m w)) = Refused"
    if "unchanged w_keys m" for m :: "('a, 'x) wprog"
    using that by (auto simp: within_def reply_of_def split: prod.split outcome.split) (metis snd_conv)+
  show ?thesis
    using assms
    by (cases call) (simp_all add: ans frame_crypto_service frame_hsm_key_service frame_CreateHSMKey frame_slot_service
      frame_free_slots key_reads)
qed

lemma perform_refines:
  assumes unique: "db_unique (sv_env d) \<noteq> None" and inv: "ids_differ w" and run: "performs d l w w'"
  shows "vault_step l (vault w) (vault w') \<and> ids_differ w'"
proof -
  let ?e = "sv_env d"
  obtain call reply where l: "l = (call, reply)" by fastforce
  have run: "perform d call w = (reply, w')" using assms(3) by (simp add: l performs_def)
  have quiet: ?thesis if "answered (m w) = (reply, w')" "unchanged w_keys m"
    and "\<And>a u. m w = (Ok a, u) \<Longrightarrow> case usable_key call of None \<Rightarrow> True | Some P \<Rightarrow> \<exists>r \<in> set (w_keys w). P r"
    for m :: "('a, 'x) wprog"
    using quiet_call [OF that] inv unfolding l by simp
  show ?thesis
  proof (cases call)
    case (CreateKeyCall c name alg n usage i)
    then show ?thesis using create_refines [OF unique inv] run l by simp
  next
    case (RotateKeyCall c kid i)
    then show ?thesis using rotate_refines [OF unique inv] run l by simp
  next
    case (DeleteKeyCall c kid tn)
    then show ?thesis using delete_refines [OF inv] run l by simp
  next
    case (GetKeyCall kid tn)
    then show ?thesis using run
      by (intro quiet [of "GetKey ?e kid tn"]) (auto simp: key_reads dest: GetKey_Ok)
  next
    case (SignHashCall c kid h i)
    then show ?thesis using run
      by (intro quiet [of "SignHash ?e c kid h i"]) (auto simp: withinI SignHash_rows dest: SignHash_Ok)
  next
    case (VerifyHashCall c kid h s i)
    then show ?thesis using run
      by (intro quiet [of "VerifyHashSignature ?e c kid h s i"])
        (auto simp: withinI VerifyHashSignature_rows dest: VerifyHashSignature_Ok)
  next
    case (GetPublicKeyCall c kid tn)
    then show ?thesis using run
      by (intro quiet [of "Signing_GetPublicKey ?e c kid tn"])
        (auto simp: Signing_GetPublicKey_rows dest: Signing_GetPublicKey_Ok)
  qed (use other_call [of call d w] run inv vault_step.answer [where call = call and V = "vault w"]
      vault_step.refuse [where call = call and V = "vault w"] in \<open>auto simp: l vault_def ids_differ_def\<close>)
qed

definition vault_inv :: "'t service_deps \<Rightarrow> 't world \<Rightarrow> bool" where
  "vault_inv d w \<longleftrightarrow> db_unique (sv_env d) \<noteq> None \<and> ids_differ w"

interpretation services: refined "performs d" "vault_inv d" vault_step vault
  for d :: "'t service_deps"
proof unfold_locales
  fix l and s t :: "'t world"
  assume "vault_inv d s" "performs d l s t"
  then show "vault_inv d t" "vault_step l (vault s) (vault t)"
    using perform_refines [of d s l t] by (simp_all add: vault_inv_def)
qed

section \<open>What holds in the vault\<close>

lemma run_of_restrict: "run_of step s ls t \<Longrightarrow> \<forall>l \<in> set ls. P l \<Longrightarrow> run_of (\<lambda>l s t. step l s t \<and> P l) s ls t"
  by (induction rule: run_of.induct) (auto intro: run_of.intros)

text \<open>Every key is one the service made.\<close>

interpretation vault_made: kept vault_step "\<lambda>V. \<forall>r \<in> V. \<exists>i. made_for i r"
  by unfold_locales (auto elim!: vault_stepE)

text \<open>An identifier that is gone stays away until a call makes it again.\<close>

interpretation vault_dead: kept "\<lambda>l V V'. vault_step l V V' \<and> snd l \<noteq> Named kid \<and> snd l \<noteq> Orphaned kid" "\<lambda>V. kid \<notin> k_ID ` V"
  for kid
  by unfold_locales (auto elim!: vault_stepE)

text \<open>The tenant on whose behalf a call changes keys.\<close>

fun call_tenant :: "service_call \<Rightarrow> string option" where
  "call_tenant (CreateKeyCall c name alg n usage i) = Some (id_TenantID i)"
| "call_tenant (RotateKeyCall c kid i) = Some (id_TenantID i)"
| "call_tenant (DeleteKeyCall c kid tn) = Some tn"
| "call_tenant _ = None"

definition keys_of :: "string \<Rightarrow> cryptographic_key set \<Rightarrow> cryptographic_key set" where
  "keys_of tn V = {r \<in> V. k_TenantID r = tn}"

interpretation vault_apart: kept "\<lambda>l V V'. vault_step l V V' \<and> call_tenant (fst l) \<noteq> Some tn"
    "\<lambda>V. inj_on k_ID V \<and> keys_of tn V = K"
  for tn K
proof unfold_locales
  fix V V' :: "cryptographic_key set" and l
  assume inv: "inj_on k_ID V \<and> keys_of tn V = K" and "vault_step l V V' \<and> call_tenant (fst l) \<noteq> Some tn"
  then have "vault_step l V V'" and other: "call_tenant (fst l) \<noteq> Some tn" by auto
  then show "inj_on k_ID V' \<and> keys_of tn V' = K"
  proof (cases rule: vault_step.cases)
    case (destroy r kid tn' c)
    have "k_TenantID x \<noteq> tn" if "x \<in> V" "k_ID x = kid" for x
      using inj_onD [OF conjunct1 [OF inv], of x r] that destroy other by auto
    then have "keys_of tn V' = keys_of tn V" using destroy by (auto simp: keys_of_def)
    then show ?thesis using inv destroy by (auto simp: inj_on_def)
  qed (use inv other in \<open>auto simp: keys_of_def made_for_def\<close>)
qed

lemma ids_differ_inj: "ids_differ w \<Longrightarrow> inj_on k_ID (vault w)"
  by (simp add: ids_differ_def vault_def distinct_map)

section \<open>Properties\<close>

text \<open>
  C3. The services refine a vault of keys. In any sequence of their calls, over a table whose identifiers are
  unique, a new key is a new row made for the caller's tenant, under an identifier that no row had; a deletion
  that is answered takes the tenant's key with that identifier out and nothing else; signing, verifying and
  reading are answered only for a stored key the caller may use; a failed rotation leaves at most one new key
  behind; nothing else ever changes the stored keys, whatever fails.
\<close>

theorem services_refine_a_key_vault:
  assumes "db_unique (sv_env d) \<noteq> None" and "distinct (map k_ID (w_keys w))" and "run_of (performs d) w ls w'"
  shows "run_of vault_step (vault w) ls (vault w') \<and> distinct (map k_ID (w_keys w'))"
proof -
  have inv: "vault_inv d w" using assms by (simp add: vault_inv_def ids_differ_def)
  then show ?thesis
    using services.run_refines [OF assms(3)] services.run_keeps [OF assms(3)] by (simp add: vault_inv_def ids_differ_def)
qed

text \<open>The sample service: the tenant's slot is taken, and one key is stored.\<close>

definition sample_services :: "sample_token service_deps" where
  "sample_services = \<lparr>sv_env = sample_env, sv_km = sample_km, sv_exec = \<lambda>args t. (Inr (), t)\<rparr>"

lemma sample_services_unique: "db_unique (sv_env sample_services) \<noteq> None"
  by (simp add: sample_services_def sample_env_def)

lemma keyed_world_keys: "w_keys keyed_world = [stored_key]" "k_ID stored_key = ''k1''" "k_TenantID stored_key = ''T''"
  by (simp_all add: keyed_world_def stored_key_def)

lemma performsI: "perform d call w = (reply, w') \<Longrightarrow> run_of (performs d) w [(call, reply)] w'"
  by (simp add: performs_def)

theorem services_refine_a_key_vault_witness:
  "\<exists>w'. run_of (performs sample_services) keyed_world [(DeleteKeyCall Background ''k1'' ''T'', Answered)] w'
     \<and> run_of vault_step {stored_key} [(DeleteKeyCall Background ''k1'' ''T'', Answered)] (vault w')"
proof -
  obtain w' where "DeleteKey sample_env Background ''k1'' ''T'' keyed_world = (Ok (), w')" using sample_delete_run by blast
  then have run: "run_of (performs sample_services) keyed_world [(DeleteKeyCall Background ''k1'' ''T'', Answered)] w'"
    by (intro performsI) (simp add: sample_services_def reply_of_def)
  have "distinct (map k_ID (w_keys keyed_world))" by (simp add: keyed_world_keys)
  from services_refine_a_key_vault [OF sample_services_unique this run] run show ?thesis
    by (auto simp: vault_def keyed_world_keys simp del: run_of_simps)
qed

text \<open>
  C4. A deleted key is dead. After a \<^verbatim>\<open>DeleteKey\<close> that succeeded, and any further calls of the services none of
  which makes the same identifier again, nobody can sign or verify with the key, read it or its public part, rotate
  or delete it: every such call fails.
\<close>

theorem deleted_key_stays_dead:
  assumes "db_unique (sv_env d) \<noteq> None" and "distinct (map k_ID (w_keys w))"
    and "DeleteKey (sv_env d) c kid tn w = (Ok (), w1)" and "run_of (performs d) w1 ls w2"
    and "\<forall>l \<in> set ls. snd l \<noteq> Named kid \<and> snd l \<noteq> Orphaned kid"
  shows "(\<forall>c h i sig v. SignHash (sv_env d) c kid h i w2 \<noteq> (Ok sig, v))
    \<and> (\<forall>c h s i b v. VerifyHashSignature (sv_env d) c kid h s i w2 \<noteq> (Ok b, v))
    \<and> (\<forall>tn' k v. GetKey (sv_env d) kid tn' w2 \<noteq> (Ok k, v))
    \<and> (\<forall>c tn' pk v. Signing_GetPublicKey (sv_env d) c kid tn' w2 \<noteq> (Ok pk, v))
    \<and> (\<forall>c i k v. RotateKey (sv_env d) c kid i w2 \<noteq> (Ok k, v))
    \<and> (\<forall>c tn' v. DeleteKey (sv_env d) c kid tn' w2 \<noteq> (Ok (), v))"
proof -
  have w1: "w_keys w1 = filter (\<lambda>x. k_ID x \<noteq> kid) (w_keys w)" using DeleteKey_Ok [OF assms(3)] by blast
  then have "vault_inv d w1" "kid \<notin> k_ID ` vault w1"
    using assms(1,2) by (auto simp: vault_inv_def ids_differ_def vault_def distinct_map_filter)
  then have "kid \<notin> k_ID ` vault w2"
    using vault_dead.run_keeps [OF run_of_restrict [OF services.run_refines [OF assms(4)] assms(5)]] by blast
  then have gone: "\<forall>row \<in> set (w_keys w2). k_ID row \<noteq> kid" by (auto simp: vault_def)
  moreover have "RotateKey (sv_env d) c kid i w2 \<noteq> (Ok k, v)" for c i k v
    using assms(1) by (auto elim: RotateKey_cases)
  moreover have "DeleteKey (sv_env d) c kid tn' w2 \<noteq> (Ok (), v)" for c tn' v
    using gone DeleteKey_Ok [of "sv_env d" c kid tn' w2 v] by auto
  ultimately show ?thesis
    by (intro conjI allI notI) (blast dest: SignHash_Ok VerifyHashSignature_Ok GetKey_Ok Signing_GetPublicKey_Ok)+
qed

theorem deleted_key_stays_dead_witness:
  "\<exists>w1 w2 reply. DeleteKey sample_env Background ''k1'' ''T'' keyed_world = (Ok (), w1)
     \<and> run_of (performs sample_services) w1 [(ListKeysCall ''T'', reply)] w2
     \<and> fst (SignHash sample_env Background ''k1'' [1, 2] sample_identity w2) \<noteq> Ok [0x5A, 1, 2]"
proof -
  obtain w1 where delete: "DeleteKey sample_env Background ''k1'' ''T'' keyed_world = (Ok (), w1)"
    using sample_delete_run by blast
  obtain reply w2 where "perform sample_services (ListKeysCall ''T'') w1 = (reply, w2)" by fastforce
  then have run: "run_of (performs sample_services) w1 [(ListKeysCall ''T'', reply)] w2"
    and "reply = Answered \<or> reply = Refused"
    using other_call [of "ListKeysCall ''T''" sample_services w1] by (auto intro: performsI simp del: run_of_simps)
  then have quiet: "\<forall>l \<in> set [(ListKeysCall ''T'', reply)]. snd l \<noteq> Named ''k1'' \<and> snd l \<noteq> Orphaned ''k1''" by auto
  have d: "distinct (map k_ID (w_keys keyed_world))" by (simp add: keyed_world_keys)
  have e: "sv_env sample_services = sample_env" by (simp add: sample_services_def)
  have "\<forall>sig v. SignHash sample_env Background ''k1'' [1, 2] sample_identity w2 \<noteq> (Ok sig, v)"
    using conjunct1 [OF deleted_key_stays_dead [OF sample_services_unique d delete [folded e] run quiet]]
    by (simp add: e)
  then show ?thesis using delete run by (metis prod.collapse)
qed

text \<open>
  C5. The tenants are apart. Calls of the services made for other tenants, and calls that are made for no tenant,
  in any number and order and whatever fails, neither add, remove nor change a stored key of a tenant.
\<close>

theorem other_tenants_leave_the_keys_alone:
  assumes "db_unique (sv_env d) \<noteq> None" and "distinct (map k_ID (w_keys w))" and "run_of (performs d) w ls w'"
    and "\<forall>l \<in> set ls. call_tenant (fst l) \<noteq> Some tn"
  shows "keys_of tn (vault w') = keys_of tn (vault w)"
proof -
  have inv: "vault_inv d w" using assms by (simp add: vault_inv_def ids_differ_def)
  then have "inj_on k_ID (vault w)" by (simp add: vault_inv_def ids_differ_inj)
  then show ?thesis
    using vault_apart.run_keeps [OF run_of_restrict [OF services.run_refines [OF assms(3) inv] assms(4)]] by blast
qed

theorem other_tenants_leave_the_keys_alone_witness:
  "\<exists>reply w'. run_of (performs sample_services) keyed_world [(DeleteKeyCall Background ''k1'' ''U'', reply)] w'
     \<and> keys_of ''T'' (vault w') = {stored_key}"
proof -
  obtain reply w' where "perform sample_services (DeleteKeyCall Background ''k1'' ''U'') keyed_world = (reply, w')"
    by fastforce
  then have run: "run_of (performs sample_services) keyed_world [(DeleteKeyCall Background ''k1'' ''U'', reply)] w'"
    by (rule performsI)
  have "distinct (map k_ID (w_keys keyed_world))" by (simp add: keyed_world_keys)
  from other_tenants_leave_the_keys_alone [OF sample_services_unique this run, of "''T''"]
  have "keys_of ''T'' (vault w') = keys_of ''T'' (vault keyed_world)" by simp
  moreover have "keys_of ''T'' (vault keyed_world) = {stored_key}" by (auto simp: keys_of_def vault_def keyed_world_keys)
  ultimately have "keys_of ''T'' (vault w') = {stored_key}" by (rule trans)
  then show ?thesis using run by (intro exI conjI)
qed

text \<open>
  C18. Every stored key is well-formed, always: starting from a table of keys the service made (an empty one, for
  example), each row of any later state has a name, a tenant and a valid usage, an algorithm and a size the token
  can make, version 1, and the label of its pair, which begins with its tenant and its name, as its handle; and it
  is active, since no call ever retires a key.
\<close>

theorem stored_keys_stay_well_formed:
  assumes "db_unique (sv_env d) \<noteq> None" and "distinct (map k_ID (w_keys w))" and "run_of (performs d) w ls w'"
    and "\<forall>r \<in> set (w_keys w). \<exists>i. made_for i r"
  shows "\<forall>r \<in> set (w_keys w'). k_IsActive r \<and> k_Version r = 1 \<and> k_Name r \<noteq> '''' \<and> k_TenantID r \<noteq> ''''
    \<and> KeyUsage_IsValid (k_Purpose r) \<and> generable (k_Algorithm r) (k_KeySize r) \<and> k_KeyHandle r = k_KeyLabel r
    \<and> (\<exists>u. k_KeyLabel r = k_TenantID r @ ''_'' @ k_Name r @ ''_'' @ take 8 u)"
proof -
  have "vault_inv d w" using assms by (simp add: vault_inv_def ids_differ_def)
  then have "\<forall>r \<in> vault w'. \<exists>i. made_for i r"
    using vault_made.run_keeps [OF services.run_refines [OF assms(3)]] assms(4) by (simp add: vault_def)
  then show ?thesis by (auto simp: made_for_def vault_def)
qed

theorem stored_keys_stay_well_formed_witness:
  "\<exists>(k :: cryptographic_key) w'. run_of (performs sample_services) service_world
       [(CreateKeyCall Background ''sig'' alg_RSA 2048 KeyUsageSigning sample_identity, Named (k_ID k))] w'
     \<and> w_keys w' \<noteq> [] \<and> (\<forall>r \<in> set (w_keys w'). k_IsActive r \<and> generable (k_Algorithm r) (k_KeySize r))"
proof -
  obtain k w' where create: "CreateKey sample_env Background ''sig'' alg_RSA 2048 KeyUsageSigning sample_identity
      service_world = (Ok k, w')" using sample_create_run by blast
  then have run: "run_of (performs sample_services) service_world
      [(CreateKeyCall Background ''sig'' alg_RSA 2048 KeyUsageSigning sample_identity, Named (k_ID k))] w'"
    by (intro performsI) (simp add: sample_services_def reply_of_def)
  have w: "w_keys service_world = []" by (simp add: service_world_def fresh_world_def)
  have "\<forall>r \<in> set (w_keys w'). k_IsActive r \<and> generable (k_Algorithm r) (k_KeySize r)"
    using stored_keys_stay_well_formed [OF sample_services_unique _ run] w by simp
  moreover have "w_keys w' \<noteq> []" using CreateKey_made [OF create] by auto
  ultimately show ?thesis using run by (intro exI conjI)
qed

end
