(* ===== verification/Api_Lifecycle.thy ===== *)
theory Api_Lifecycle
  imports Startup Key_Lifecycle
begin

text \<open>
  The service as its callers see it: any sequence of requests to the routes of \<^verbatim>\<open>SetupRouter\<close>, one after the
  other, over the one state. The chain of middlewares, the handlers and the services are followed as relations
  that every program of the chain stays within, so what the routes can do to the table of keys is known whatever
  the requests, the answers of the database and of the token, and the outcome.
\<close>

lemma unchanged_world: "unchanged w_keys m \<Longrightarrow> unchanged (\<lambda>s. w_keys (app_world s)) (on_world m)"
  by (auto simp: within_def on_world_def split: prod.splits) (metis snd_conv)

section \<open>The handlers\<close>

lemma HandleError_reads: "unchanged f (HandleError err)"
  unfolding HandleError_def by (intro unchanged_intros)

lemma answer_rows: "unchanged w_keys m \<Longrightarrow> unchanged (\<lambda>s. w_keys (app_world s)) (answer m g)"
  "unchanged w_keys m \<Longrightarrow> unchanged (\<lambda>s. w_keys (app_world s)) (answer_or_500 m g)"
  unfolding answer_def answer_or_500_def by (intro unchanged_intros unchanged_world HandleError_reads; assumption)+

lemma with_identity_reads: "(\<And>i. unchanged f (g i)) \<Longrightarrow> unchanged f (with_identity c g)"
  unfolding with_identity_def by (auto split: option.split gin_val.split intro!: unchanged_intros)

lemma signing_rows:
  "unchanged w_keys (SignHash e ctx kid d i)" "unchanged w_keys (VerifyHashSignature e ctx kid d s i)"
  by (auto intro!: withinI dest: SignHash_rows VerifyHashSignature_rows)

lemma slot_rows:
  "unchanged w_keys (InitializeSlot e km ctx i)" "unchanged w_keys (GetAllSlots e)"
  "unchanged w_keys (Service_DeleteSlot e exec ctx m)" "unchanged w_keys (GetAvailableSlots e)"
  by (intro frame_slot_service frame_free_slots service_frame_fields slots_frame_fields; simp)+

lemma clock_rows: "unchanged w_keys (nowM e)"
  by (simp add: within_def run_tick)

lemma health_rows: "unchanged w_keys (HealthCheckAll e)"
proof -
  have "unchanged w_keys (check_clients e cs)" for cs
    by (induction cs) (auto intro!: unchanged_intros frame_client)
  then show ?thesis unfolding HealthCheckAll_def by (intro unchanged_intros)
qed

lemma endpoint_rows:
  assumes "ep \<noteq> ECreateKey"
  shows "unchanged (\<lambda>s. w_keys (app_world s)) (endpoint_handler d ep c)"
  using assms
  by (cases ep)
    (auto simp: Health_def HsmHealth_def Handler_ListKeys_def Handler_SignHash_def Handler_VerifyHashSignature_def
      Handler_GetPublicKey_def Handler_InitializeSlot_def Handler_GetAvailableSlots_def Handler_GetAllSlots_def
      Handler_DeleteSlot_def Let_def
      split: sum.split option.split
      intro!: unchanged_intros answer_rows with_identity_reads HandleError_reads signing_rows slot_rows key_reads
        Signing_GetPublicKey_rows unchanged_world clock_rows health_rows)

text \<open>A request to the route of \<^verbatim>\<open>CreateKey\<close> adds one row if it is answered with 201, and none otherwise.\<close>

definition row_per_201 :: "(cryptographic_key \<Rightarrow> bool) \<Rightarrow> (go_error, response) outcome \<Rightarrow> ('t, 'k) app \<Rightarrow> ('t, 'k) app \<Rightarrow> bool" where
  "row_per_201 P r s t \<longleftrightarrow>
     (if \<exists>b. r = Ok (201, b) then \<exists>row. w_keys (app_world t) = w_keys (app_world s) @ [row] \<and> P row
      else w_keys (app_world t) = w_keys (app_world s))"

lemma row_per_201_from: "w_keys (app_world s) = w_keys (app_world s0) \<Longrightarrow> row_per_201 P r s t \<Longrightarrow> row_per_201 P r s0 t"
  by (simp add: row_per_201_def split: if_split_asm)

lemma no_row: "w_keys (app_world t) = w_keys (app_world s) \<Longrightarrow> (\<And>b. r \<noteq> Ok (201, b)) \<Longrightarrow> row_per_201 P r s t"
  by (simp add: row_per_201_def)

lemma create_row:
  assumes "answer (CreateKey e ctx name alg n usage i) (\<lambda>k. (201, g k)) s = (r, t)"
  shows "row_per_201 (made_for i) r s t"
proof -
  obtain q w where run: "CreateKey e ctx name alg n usage i (app_world s) = (q, w)" by fastforce
  show ?thesis
  proof (cases q)
    case (Ok k)
    then have "t = s\<lparr>app_world := w\<rparr>" "r = Ok (201, g k)" using assms run by (auto simp: answer_def run_basic)
    moreover obtain row where "w_keys w = w_keys (app_world s) @ [row]" "stored_as row k" "made_for i k"
      using CreateKey_made run Ok by metis
    ultimately show ?thesis using made_for_stored by (auto simp: row_per_201_def)
  next
    case (Err err)
    then have "w_keys w = w_keys (app_world s)" using CreateKey_fails [OF run] by blast
    moreover have h: "HandleError err (s\<lparr>app_world := w\<rparr>) = (r, t)" using assms run Err by (simp add: answer_def)
    ultimately show ?thesis
      using unchangedD [OF HandleError_reads h, of "\<lambda>s. w_keys (app_world s)"] h
      by (auto dest: HandleError_status intro!: no_row)
  next
    case (Panic p)
    then have "w_keys w = w_keys (app_world s)" using CreateKey_fails [OF run] by blast
    then show ?thesis using assms run Panic by (auto simp: answer_def intro!: no_row)
  qed
qed

lemma create_endpoint:
  assumes "endpoint_handler d ECreateKey (identified claims c) s = (r, t)"
  shows "row_per_201 (made_for (createIdentityContext claims)) r s t"
  using assms
  by (auto simp: Handler_CreateKey_def with_identity_def identity_of_claims bad_request_def run_basic
      split: sum.split_asm intro: create_row no_row)

section \<open>The middlewares\<close>

text \<open>
  What is relied on of the parser beside \<open>jwt_parse_sound\<close>: whatever comes out, it has changed nothing itself but
  the counter of calls, and called the key function at most once.
\<close>

definition jwt_parse_quiet :: "('t, 'k) jwt_parser \<Rightarrow> bool" where
  "jwt_parse_quiet parse \<longleftrightarrow>
     (\<forall>tok ms kf s r s'. parse tok ms kf s = (r, s') \<longrightarrow>
        (\<exists>u n. s' = u\<lparr>app_world := (app_world u)\<lparr>w_tick := n\<rparr>\<rparr> \<and> (u = s \<or> (\<exists>h q. kf h s = (q, u)))))"

lemma token_rows:
  assumes "jwt_parse_quiet parse"
  shows "unchanged (\<lambda>s. w_keys (app_world s)) (ValidateToken e io cfg parse v tok)"
proof -
  have "unchanged (\<lambda>s. w_keys (app_world s)) (parse tok valid_methods (GetKeyFunc e io cfg))"
  proof (rule withinI)
    fix s r s'
    assume "parse tok valid_methods (GetKeyFunc e io cfg) s = (r, s')"
    then obtain u n where s': "s' = u\<lparr>app_world := (app_world u)\<lparr>w_tick := n\<rparr>\<rparr>"
      and u: "u = s \<or> (\<exists>h q. GetKeyFunc e io cfg h s = (q, u))"
      using assms unfolding jwt_parse_quiet_def by blast
    have "w_keys (app_world u) = w_keys (app_world s)"
      using u unchangedD [OF GetKeyFunc_frame [of w_keys]] by auto
    then show "w_keys (app_world s') = w_keys (app_world s)" by (simp add: s')
  qed
  then show ?thesis
    unfolding ValidateToken_def validateClaims_def
    by (intro unchanged_intros unchanged_world clock_rows)
qed

definition vouched :: "(string \<Rightarrow> jwt_header \<Rightarrow> custom_claims \<Rightarrow> 'k \<Rightarrow> bool) \<Rightarrow> string \<Rightarrow> cryptographic_key \<Rightarrow> bool" where
  "vouched carries tok row \<longleftrightarrow> (\<exists>claims h k. carries tok h claims k \<and> made_for (createIdentityContext claims) row)"

lemma protected_create:
  assumes "jwt_parse_sound (dp_parse d) carries" and "jwt_parse_quiet (dp_parse d)"
    and run: "ValidateJWT d (endpoint_handler d ECreateKey) c s = (r, t)"
  shows "row_per_201 (vouched carries (trim_prefix ''Bearer '' (gin_header c ''Authorization''))) r s t"
proof (cases "gin_header c ''Authorization'' = ''''")
  case True
  then show ?thesis using run by (auto simp: ValidateJWT_def unauthorized_def run_basic intro: no_row)
next
  case False
  let ?tok = "trim_prefix ''Bearer '' (gin_header c ''Authorization'')"
  obtain q u where token: "ValidateToken (dp_env d) (dp_io d) (dp_auth d) (dp_parse d) (dp_validator d) ?tok s = (q, u)" by fastforce
  have same: "w_keys (app_world u) = w_keys (app_world s)" using unchangedD [OF token_rows [OF assms(2)] token] .
  show ?thesis
  proof (cases q)
    case (Ok claims)
    have "endpoint_handler d ECreateKey (identified claims c) u = (r, t)"
      using run False token Ok by (simp add: ValidateJWT_def handleProductionMode_def Let_def)
    then have made: "row_per_201 (made_for (createIdentityContext claims)) r u t" by (rule create_endpoint)
    moreover obtain h k where "carries ?tok h claims k"
      using ValidateToken_frame(2) [OF assms(1) token [unfolded Ok], of w_keys] by auto
    ultimately have "row_per_201 (vouched carries ?tok) r u t"
      unfolding row_per_201_def vouched_def by (auto split: if_split_asm)
    then show ?thesis by (rule row_per_201_from [OF same])
  qed (use run False token same in \<open>auto simp: ValidateJWT_def handleProductionMode_def Let_def unauthorized_def run_basic intro!: no_row\<close>)
qed

lemma recovered_rows:
  assumes "recovered (500, NoBody) rest c s = (r, t)" and "\<And>r t. rest c s = (r, t) \<Longrightarrow> row_per_201 P r s t"
  shows "row_per_201 P r s t"
proof (cases rule: recovered_cases [of rest c s "(500, NoBody)"])
  case (1 p u)
  then show ?thesis using assms(1) assms(2) [OF 1(1)] by (auto simp: row_per_201_def)
next
  case 2
  then show ?thesis using assms by simp
qed

lemma other_route_rows:
  assumes "jwt_parse_quiet (dp_parse d)" and "ep \<noteq> ECreateKey"
  shows "unchanged (\<lambda>s. w_keys (app_world s)) (route_handler d protected ep c)"
  unfolding route_handler_def ValidateJWT_def handleProductionMode_def Let_def
  by (auto intro!: unchanged_intros endpoint_rows token_rows assms)

section \<open>Requests\<close>

text \<open>A route of the table, with its protection.\<close>

definition routed :: "bool \<Rightarrow> endpoint \<Rightarrow> bool" where
  "routed protected ep \<longleftrightarrow> (protected, ep) \<in> set (map (\<lambda>(m, p, x). x) routes)"

lemma routed_create: "routed protected ECreateKey \<longleftrightarrow> protected"
  by (auto simp: routed_def routes_def)

lemma serve_rows:
  assumes "jwt_parse_sound (dp_parse d) carries" and "jwt_parse_quiet (dp_parse d)" and "routed protected ep"
    and run: "serve d req body params protected ep s = (Ok (resp, headers), s')"
  shows "if ep = ECreateKey then row_per_201 (vouched carries (bearer req)) (Ok resp) s s'
    else w_keys (app_world s') = w_keys (app_world s)"
proof -
  obtain c u where chain: "recovered (500, NoBody) (route_handler d protected ep) c u = (Ok resp, s')"
    and head: "gin_header c ''Authorization'' = header_get (rq_Header req) ''Authorization''"
    and same: "w_keys (app_world u) = w_keys (app_world s)"
    by (rule serve_chain [OF run, of w_keys]) (simp_all add: gin_Recovery_def)
  show ?thesis
  proof (cases "ep = ECreateKey")
    case True
    then have "row_per_201 (vouched carries (bearer req)) q v t" if "route_handler d protected ep c v = (q, t)" for q v t
      using protected_create [OF assms(1,2), of c v q t] that assms(3) head
      by (simp add: routed_create route_handler_def bearer_def)
    then show ?thesis
      using True row_per_201_from [OF same recovered_rows [OF chain]] by simp
  next
    case False
    have "w_keys (app_world s') = w_keys (app_world u)"
      using unchangedD [OF frame_recovered [OF other_route_rows [OF assms(2) False]] chain] .
    then show ?thesis using False same by simp
  qed
qed

text \<open>The requests that were answered with 201 by the route of \<^verbatim>\<open>CreateKey\<close>, in their order.\<close>

fun creators :: "served list \<Rightarrow> (response \<times> http_header) list \<Rightarrow> http_request list" where
  "creators ((req, body, params, protected, ep) # rs) (((st, b), headers) # resps) =
     (if ep = ECreateKey \<and> st = 201 then [req] else []) @ creators rs resps"
| "creators _ _ = []"

lemma serve_all_rows:
  assumes "jwt_parse_sound (dp_parse d) carries" and "jwt_parse_quiet (dp_parse d)"
    and "serve_all d rs s = (Ok resps, s')" and "\<forall>(req, body, params, protected, ep) \<in> set rs. routed protected ep"
  shows "\<exists>new. w_keys (app_world s') = w_keys (app_world s) @ new
    \<and> list_all2 (\<lambda>req. vouched carries (bearer req)) (creators rs resps) new"
  using assms(3,4)
proof (induction rs arbitrary: s resps)
  case (Cons x rs)
  obtain req body params protected ep where x: "x = (req, body, params, protected, ep)" by (metis prod_cases5)
  obtain st b headers u resps' where first: "serve d req body params protected ep s = (Ok ((st, b), headers), u)"
    and rest: "serve_all d rs u = (Ok resps', s')" and resps: "resps = ((st, b), headers) # resps'"
    using Cons.prems(1) by (auto simp: x bindM_Ok run_basic)
  obtain new where new: "w_keys (app_world s') = w_keys (app_world u) @ new"
    "list_all2 (\<lambda>req. vouched carries (bearer req)) (creators rs resps') new"
    using Cons.IH [OF rest] Cons.prems(2) by auto
  have "routed protected ep" using Cons.prems(2) by (simp add: x)
  from serve_rows [OF assms(1,2) this first] new show ?case
    by (cases "ep = ECreateKey \<and> st = 201") (auto simp: x resps row_per_201_def split: if_split_asm)
qed (simp add: run_basic)

section \<open>Properties\<close>

text \<open>
  C6. However many requests the routes serve, in whatever order and with whatever outcomes, every request is
  answered, no row of the table of keys is changed or removed, and there is one new row, in order, for each 201 of
  the route of \<^verbatim>\<open>CreateKey\<close> and no other; the request came with a token that carries claims under a signature
  that verifies, and the row is an active, well-formed key of the tenant and the owner the claims name.
\<close>

theorem every_new_key_is_vouched_for_by_a_token:
  assumes "jwt_parse_sound (dp_parse d) carries" and "jwt_parse_quiet (dp_parse d)"
    and "\<forall>(req, body, params, protected, ep) \<in> set rs. routed protected ep"
  shows "\<exists>resps s' new. serve_all d rs s = (Ok resps, s') \<and> length resps = length rs
    \<and> w_keys (app_world s') = w_keys (app_world s) @ new
    \<and> list_all2 (\<lambda>req row. \<exists>claims h k. carries (bearer req) h claims k \<and> made_for (createIdentityContext claims) row)
        (creators rs resps) new"
proof -
  obtain resps s' where run: "serve_all d rs s = (Ok resps, s')" "length resps = length rs"
    using serve_all_total by blast
  show ?thesis
    using serve_all_rows [OF assms(1,2) run(1) assms(3)] run unfolding vouched_def by blast
qed

text \<open>For the witness: one request with a token and one without.\<close>

definition stranger :: http_request where
  "stranger = good_request\<lparr>rq_Header := []\<rparr>"

lemma sample_parse_quiet: "jwt_parse_quiet sample_parse"
  unfolding jwt_parse_quiet_def
proof (intro allI impI)
  fix tok ms kf s r s'
  assume "sample_parse tok ms kf s = (r, s')"
  then have "s' = snd (kf sample_header s)"
    by (cases "kf sample_header s"; cases "fst (kf sample_header s)") (auto simp: sample_parse_def bindM_def run_basic)
  then show "\<exists>u n. s' = u\<lparr>app_world := (app_world u)\<lparr>w_tick := n\<rparr>\<rparr> \<and> (u = s \<or> (\<exists>h q. kf h s = (q, u)))"
    by (intro exI [of _ s'] exI [of _ "w_tick (app_world s')"]) (auto intro: prod.collapse [symmetric])
qed

theorem every_new_key_is_vouched_for_by_a_token_witness:
  "\<exists>resps s' row. serve_all sample_deps [(good_request, '''', [], True, ECreateKey), (stranger, '''', [], True, ECreateKey)]
       (signed_in service_world) = (Ok resps, s')
     \<and> w_keys (app_world s') = [row] \<and> k_TenantID row = ''T''"
proof -
  let ?rs = "[(good_request, '''', [], True, ECreateKey), (stranger, '''', [], True, ECreateKey)]"
  let ?carries = "\<lambda>tok h claims k. tok = ''good'' \<and> claims = sample_claims"
  have sound: "jwt_parse_sound (dp_parse sample_deps) ?carries" "jwt_parse_quiet (dp_parse sample_deps)"
    using sample_parse_sound sample_parse_quiet by (simp_all add: sample_deps_def)
  have "\<forall>(req, body, params, protected, ep) \<in> set ?rs. routed protected ep" by (simp add: routed_create)
  from every_new_key_is_vouched_for_by_a_token [OF sound this, of "signed_in service_world"]
  obtain resps s' new where run: "serve_all sample_deps ?rs (signed_in service_world) = (Ok resps, s')"
    and keys: "w_keys (app_world s') = new"
    and all: "list_all2 (\<lambda>req row. \<exists>claims h k. ?carries (bearer req) h claims k \<and> made_for (createIdentityContext claims) row)
      (creators ?rs resps) new"
    by (auto simp: signed_in_def service_world_def fresh_world_def)
  obtain b headers u where first: "serve sample_deps good_request '''' [] True ECreateKey (signed_in service_world) = (Ok ((201, b), headers), u)"
    using sample_create_served by blast
  obtain st b' headers' where resps: "resps = [((201, b), headers), ((st, b'), headers')]"
    using run first by (auto simp: bindM_Ok run_basic)
  have "bearer stranger \<noteq> ''good''"
    by (simp add: bearer_def stranger_def header_get_def trim_prefix_def)
  then show ?thesis
    using run keys all
    by (cases "st = 201")
      (auto simp: resps list_all2_Cons1 made_for_def createIdentityContext_def sample_claims_def)
qed

end
