(* ===== verification/Auth_Service.thy ===== *)
theory Auth_Service
  imports Sample
begin

text \<open>
  \<^verbatim>\<open>internal/application/services/auth_service.go\<close>: sessions behind opaque tokens. The repository of tokens is
  a port without an implementation: its operations are an argument, and a session it finds may be nil.
\<close>

record 't token_repository =
  tr_Save :: "string \<Rightarrow> session \<Rightarrow> ('t, unit) wprog"
  tr_Find :: "string \<Rightarrow> ('t, session option) wprog"
  tr_DeleteBySessionID :: "string \<Rightarrow> ('t, unit) wprog"

definition Auth_ValidateToken :: "'t env \<Rightarrow> 't token_repository \<Rightarrow> string \<Rightarrow> ('t, session) wprog" where
  "Auth_ValidateToken e repo token =
     bindM (wrapErr (\<lambda>_. PlainErr (code_string ErrInvalidToken)) (tr_Find repo token)) (\<lambda>found.
     case found of
       None \<Rightarrow> panicM ''invalid memory address or nil pointer dereference''
     | Some session \<Rightarrow>
         if \<not> se_IsActive session then throw (PlainErr (code_string ErrSessionExpired))
         else bindM (nowM e) (\<lambda>now.
           if IsExpired now session then throw (PlainErr (code_string ErrSessionExpired)) else ret session))"

definition CreateSession ::
  "'t env \<Rightarrow> 't token_repository \<Rightarrow> int \<Rightarrow> string \<Rightarrow> string \<Rightarrow> details \<Rightarrow> ('t, session \<times> string) wprog" where
  "CreateSession e repo tokenExpiry userID tenantID permissions =
     bindM (uuidM e) (\<lambda>sid.
     bindM (nowM e) (\<lambda>created.
     bindM (nowM e) (\<lambda>now.
     let session = zero_session\<lparr>se_ID := sid, se_UserID := userID, se_TenantID := tenantID,
           se_Permissions := permissions, se_CreatedAt := created, se_ExpiresAt := now + tokenExpiry,
           se_IsActive := True\<rparr>
     in bindM (uuidM e) (\<lambda>token.
        bindM (tr_Save repo token session) (\<lambda>_.
        ret (session, token))))))"

definition InvalidateSession :: "'t token_repository \<Rightarrow> string \<Rightarrow> ('t, unit) wprog" where
  "InvalidateSession repo sessionID = tr_DeleteBySessionID repo sessionID"

definition RefreshSession :: "string \<Rightarrow> ('t, session \<times> string) wprog" where
  "RefreshSession sessionID = throw (PlainErr (code_string ErrNotImplemented))"

section \<open>Facts\<close>

lemma Auth_ValidateToken_Ok:
  assumes "Auth_ValidateToken e repo token w = (Ok s, w')"
  shows "\<exists>u. tr_Find repo token w = (Ok (Some s), u) \<and> se_IsActive s \<and> now_at e (w_tick u) \<le> se_ExpiresAt s"
  using assms
  by (auto simp: Auth_ValidateToken_def run_simps IsExpired_def split: if_split_asm)

text \<open>
  A session that was just made is accepted until it expires and no longer, by a repository that finds what it
  saved.
\<close>

lemma created_session_is_accepted_until_it_expires:
  assumes "CreateSession e repo d uid tn ps w = (Ok (s, token), w')"
    and "\<And>w u. tr_Save repo token s w = (Ok (), u) \<Longrightarrow> fst (tr_Find repo token u) = Ok (Some s)"
  shows "se_TenantID s = tn \<and> se_UserID s = uid
    \<and> (let u = snd (tr_Find repo token w') in
       fst (Auth_ValidateToken e repo token w') =
         (if now_at e (w_tick u) \<le> se_ExpiresAt s then Ok s else Err (PlainErr ''SESSION_EXPIRED'')))"
proof -
  obtain u v where s: "se_TenantID s = tn" "se_UserID s = uid" "se_IsActive s"
    and save: "tr_Save repo token s u = (Ok (), w')"
    using assms(1) by (auto simp: CreateSession_def run_simps Let_def)
  obtain x where find: "tr_Find repo token w' = (Ok (Some s), x)"
    using assms(2) [OF save] by (cases "tr_Find repo token w'") auto
  show ?thesis
    using s find by (simp add: Auth_ValidateToken_def bindM_def wrapErr_def catchM_def run_tick run_basic IsExpired_def Let_def)
qed

end
