(* ===== verification/Health_Check.thy ===== *)
theory Health_Check
  imports World
begin

text \<open>
  \<^verbatim>\<open>pkg/health\<close>: named checks and what they report together. The map of checks is an association list; Go visits
  it in any order, and the report does not depend on it. A check is a program over the world; \<^verbatim>\<open>Ping\<close> of the
  database and of redis are parameters, absent where the checker was made without the one or the other.
\<close>

record health_status =
  hl_Status :: string
  hl_Timestamp :: time
  hl_Checks :: "(string \<times> string) list"

type_synonym 't checks = "(string \<times> ('t, unit) wprog) list"

definition RegisterCheck :: "string \<Rightarrow> ('t, unit) wprog \<Rightarrow> 't checks \<Rightarrow> 't checks" where
  "RegisterCheck name check services = AList.update name check services"

definition checkDatabase :: "('t, unit) wprog option \<Rightarrow> ('t, unit) wprog" where
  "checkDatabase db = (case db of None \<Rightarrow> ret () | Some ping \<Rightarrow> ping)"

definition checkRedis :: "('t, unit) wprog option \<Rightarrow> ('t, unit) wprog" where
  "checkRedis redis = (case redis of None \<Rightarrow> ret () | Some ping \<Rightarrow> ping)"

definition NewHealthChecker :: "('t, unit) wprog option \<Rightarrow> ('t, unit) wprog option \<Rightarrow> 't checks" where
  "NewHealthChecker db redis =
     RegisterCheck ''redis'' (checkRedis redis) (RegisterCheck ''database'' (checkDatabase db) [])"

fun run_checks :: "'t checks \<Rightarrow> health_status \<Rightarrow> ('t, health_status) wprog" where
  "run_checks [] status = ret status"
| "run_checks ((name, check) # services) status =
     tryM check
       (\<lambda>err. run_checks services (status\<lparr>hl_Status := ''unhealthy'', hl_Checks := AList.update name (error_text err) (hl_Checks status)\<rparr>))
       (\<lambda>_. run_checks services (status\<lparr>hl_Checks := AList.update name ''ok'' (hl_Checks status)\<rparr>))"

definition Check :: "'t env \<Rightarrow> 't checks \<Rightarrow> ('t, health_status) wprog" where
  "Check e services =
     bindM (nowM e) (\<lambda>now. run_checks services \<lparr>hl_Status = ''healthy'', hl_Timestamp = now, hl_Checks = []\<rparr>)"

section \<open>Facts\<close>

lemma run_checks_step:
  assumes "run_checks ((name, check) # services) status w = (Ok report, w')"
  shows "\<exists>status' u. run_checks services status' u = (Ok report, w')
    \<and> fst ` set (hl_Checks status') = insert name (fst ` set (hl_Checks status))
    \<and> hl_Timestamp status' = hl_Timestamp status \<and> hl_Status status' \<in> {hl_Status status, ''unhealthy''}"
proof -
  obtain q u where q: "check w = (q, u)" by fastforce
  have "fst ` set (AList.update name x (hl_Checks status)) = insert name (fst ` set (hl_Checks status))" for x
    by (simp add: dom_update)
  then show ?thesis
    using assms q by (cases q) (force intro!: exI [of _ u] exI [of _ "_\<lparr>hl_Checks := _\<rparr>"])+
qed

lemma run_checks_names:
  assumes "run_checks services status w = (Ok report, w')"
  shows "fst ` set (hl_Checks report) = fst ` set (hl_Checks status) \<union> fst ` set services
    \<and> hl_Timestamp report = hl_Timestamp status
    \<and> (hl_Status status = ''unhealthy'' \<longrightarrow> hl_Status report = ''unhealthy'')"
  using assms
proof (induction services arbitrary: status w)
  case (Cons s services)
  obtain name check where s: "s = (name, check)" by fastforce
  obtain status' u where "run_checks services status' u = (Ok report, w')"
    and step: "fst ` set (hl_Checks status') = insert name (fst ` set (hl_Checks status))"
    "hl_Timestamp status' = hl_Timestamp status" "hl_Status status' \<in> {hl_Status status, ''unhealthy''}"
    using run_checks_step Cons.prems unfolding s by blast
  then show ?case using Cons.IH [of status' u] by (auto simp: s)
qed (simp add: run_basic)

text \<open>A report names exactly the registered checks; once a check has failed it says unhealthy.\<close>

lemma Check_names:
  assumes "Check e services w = (Ok report, w')"
  shows "fst ` set (hl_Checks report) = fst ` set services" and "hl_Timestamp report = now_at e (w_tick w)"
  using assms run_checks_names [of services "\<lparr>hl_Status = ''healthy'', hl_Timestamp = now_at e (w_tick w), hl_Checks = []\<rparr>" _ report w']
  by (auto simp: Check_def run_tick bindM_def)

lemma failed_check_is_unhealthy:
  assumes "run_checks ((name, check) # services) status w = (Ok report, w')" and "check w = (Err err, u)"
  shows "hl_Status report = ''unhealthy''"
  using assms run_checks_names [of services _ u report w'] by simp

end
