(* ===== verification/Dev_Crypto.thy ===== *)
theory Dev_Crypto
  imports Secrets
begin

text \<open>
  The developer's tools around the AES keys: \<^verbatim>\<open>scripts/aes-cryptografy/main.go\<close>, which encrypts a PIN and
  wraps a key by hand, and \<^verbatim>\<open>scripts/generate-aes-key/main.go\<close>, which writes a fresh master key into a
  file. They are programs of their own, with the text they print, the directories and the files as their state;
  what the random source yields and which calls of the file system fail are the environment's. A
  \<^verbatim>\<open>println\<close>, which goes to the standard error, has no counterpart, and the text of a base64 error leaves out the
  offset it ends with.

  The functions of the first tool are older copies of those of \<^verbatim>\<open>pkg/crypto\<close>; the section on
  agreement says how far they still do the same.
\<close>

section \<open>The programs\<close>

record dev_env =
  de_rand :: "nat \<Rightarrow> rand_read"
  de_fs :: "nat \<Rightarrow> string option"
  de_now :: "nat \<Rightarrow> time"

record dev_state =
  dv_tick :: nat
  dv_out :: "string list"
  dv_dirs :: "string list"
  dv_files :: "(string \<times> string) list"

type_synonym 'a dev_prog = "(dev_state, go_error, 'a) prog"

definition dev_tick :: "nat dev_prog" where
  "dev_tick s = (Ok (dv_tick s), s\<lparr>dv_tick := Suc (dv_tick s)\<rparr>)"

definition print :: "string \<Rightarrow> unit dev_prog" where
  "print line = modifyM (\<lambda>s. s\<lparr>dv_out := dv_out s @ [line]\<rparr>)"

definition dev_random :: "dev_env \<Rightarrow> nat \<Rightarrow> bytes dev_prog" where
  "dev_random e n =
     bindM dev_tick (\<lambda>k. case read_full (de_rand e k) n of Inl err \<Rightarrow> throw (PlainErr err) | Inr bs \<Rightarrow> ret bs)"

definition dev_now :: "dev_env \<Rightarrow> time dev_prog" where
  "dev_now e = bindM dev_tick (\<lambda>k. ret (de_now e k))"

text \<open>A call of the file system that may fail for reasons of its own.\<close>

definition fs_call :: "dev_env \<Rightarrow> unit dev_prog" where
  "fs_call e = bindM dev_tick (\<lambda>k. case de_fs e k of None \<Rightarrow> ret () | Some err \<Rightarrow> throw (PlainErr err))"

text \<open>\<^verbatim>\<open>if err != nil { panic(err) }\<close>.\<close>

definition must :: "'a dev_prog \<Rightarrow> 'a dev_prog" where
  "must m = catchM m (\<lambda>err. panicM (error_text err))"

text \<open>\<^verbatim>\<open>StdEncoding.DecodeString\<close> and \<^verbatim>\<open>aes.NewCipher\<close> with their errors.\<close>

definition decode64 :: "string \<Rightarrow> bytes dev_prog" where
  "decode64 s = (case base64_decode s of None \<Rightarrow> throw (PlainErr ''illegal base64 data'') | Some bs \<Rightarrow> ret bs)"

definition new_cipher :: "bytes \<Rightarrow> unit dev_prog" where
  "new_cipher key = guardM (aes_key_size_ok key) (PlainErr (''crypto/aes: invalid key size '' @ dec (length key)))"

definition open_gcm :: "bytes \<Rightarrow> bytes \<Rightarrow> bytes \<Rightarrow> bytes dev_prog" where
  "open_gcm key nonce ct =
     (case gcm_open key nonce ct of
        None \<Rightarrow> throw (PlainErr ''cipher: message authentication failed'')
      | Some pt \<Rightarrow> ret pt)"

text \<open>The verb \<^verbatim>\<open>%x\<close> on a byte slice.\<close>

definition hex :: "bytes \<Rightarrow> string" where
  "hex bs = concat (map (\<lambda>b. [digit_char (unat b div 16), digit_char (unat b mod 16)]) bs)"

section \<open>aes-cryptografy\<close>

text \<open>\<^verbatim>\<open>NonceSize\<close> is 12 and \<^verbatim>\<open>Overhead\<close> is 16; the nonce stands in front of the sealed text.\<close>

definition encryptAESGCM :: "dev_env \<Rightarrow> string \<Rightarrow> string \<Rightarrow> string dev_prog" where
  "encryptAESGCM e plaintext keyBase64 =
     bindM (decode64 keyBase64) (\<lambda>key.
     bindM (new_cipher key) (\<lambda>_.
     bindM (dev_random e 12) (\<lambda>nonce.
     let ciphertext = nonce @ gcm_seal key nonce (bytes_of_string plaintext);
         tagStart = length ciphertext - gcm_overhead;
         body = drop (length nonce) (take tagStart ciphertext);
         tag = drop tagStart ciphertext
     in bindM (print (''IV: '' @ hex nonce)) (\<lambda>_.
        bindM (print (''Ciphertext: '' @ hex body)) (\<lambda>_.
        bindM (print (''Tag: '' @ hex tag)) (\<lambda>_.
        bindM (print (''IV Base64 Encoded: '' @ base64_encode nonce)) (\<lambda>_.
        bindM (print (''Ciphertext Base64 Encoded: '' @ base64_encode body)) (\<lambda>_.
        bindM (print (''Tag Base64 Encoded: '' @ base64_encode tag)) (\<lambda>_.
        ret (base64_encode ciphertext))))))))))"

text \<open>A text shorter than the nonce makes one of the two slice expressions panic.\<close>

definition decryptAESGCM :: "string \<Rightarrow> string \<Rightarrow> string dev_prog" where
  "decryptAESGCM ciphertextBase64 keyBase64 =
     bindM (decode64 keyBase64) (\<lambda>key.
     bindM (decode64 ciphertextBase64) (\<lambda>ciphertext.
     bindM (new_cipher key) (\<lambda>_.
     if length ciphertext < 12 then panicM ''slice bounds out of range''
     else bindM (open_gcm key (take 12 ciphertext) (drop 12 ciphertext)) (\<lambda>plaintext.
       ret (string_of_bytes plaintext)))))"

definition tool_WrapKey :: "dev_env \<Rightarrow> string \<Rightarrow> string \<Rightarrow> bytes dev_prog" where
  "tool_WrapKey e wrappingKey keyToWrap =
     bindM (decode64 wrappingKey) (\<lambda>wKey.
     bindM (decode64 keyToWrap) (\<lambda>ktWrap.
     if length wKey \<noteq> 32 then panicM ''wrapping key length invalid''
     else if length ktWrap = 0 \<or> length ktWrap > 1024 then panicM ''key to wrap length invalid''
     else bindM (new_cipher wKey) (\<lambda>_.
       bindM (dev_random e 12) (\<lambda>iv. ret (iv @ gcm_seal wKey iv ktWrap)))))"

definition tool_UnwrapKey :: "bytes \<Rightarrow> bytes \<Rightarrow> bytes dev_prog" where
  "tool_UnwrapKey wrappingKey wrappedKey =
     (if length wrappingKey \<noteq> 32 then panicM ''wrapping key length invalid ''
      else if length wrappedKey < 12 + 16 then panicM ''wrapped key length invalid''
      else bindM (new_cipher wrappingKey) (\<lambda>_.
        open_gcm wrappingKey (take 12 wrappedKey) (drop 12 wrappedKey)))"

definition demo_key :: string where
  "demo_key = ''LLvxgXPJCEY1sek2eTNihV7laqAIVdQVxz11eYcA8oU=''"

definition aes_main :: "dev_env \<Rightarrow> unit dev_prog" where
  "aes_main e =
     (let keyBase64 = demo_key; pin = ''1234'' in
      bindM (must (encryptAESGCM e pin keyBase64)) (\<lambda>encrypted.
      bindM (print (''PIN encriptado: '' @ encrypted)) (\<lambda>_.
      bindM (must (decryptAESGCM encrypted keyBase64)) (\<lambda>decrypted.
      bindM (print (''PIN desencriptado: '' @ decrypted)) (\<lambda>_.
      bindM (must (decode64 keyBase64)) (\<lambda>masterKeyDecodedBase64.
      bindM (must (tool_WrapKey e keyBase64 keyBase64)) (\<lambda>wrappedKey.
      bindM (print (''Wrapped Key: '' @ hex wrappedKey)) (\<lambda>_.
      bindM (print (''Wrapped Key (base64): '' @ base64_encode wrappedKey)) (\<lambda>_.
      bindM (must (tool_UnwrapKey masterKeyDecodedBase64 wrappedKey)) (\<lambda>unwrappedKey.
      bindM (print (''Unwrapped Key: '' @ hex unwrappedKey)) (\<lambda>_.
      print (''Unwrapped Key (base64): '' @ base64_encode unwrappedKey))))))))))))"

section \<open>generate-aes-key\<close>

text \<open>
  \<^verbatim>\<open>os.WriteFile\<close>: a failed call leaves the files as they were, as far as the model says. A line break of a
  literal belongs to the line it opens.
\<close>

definition WriteFile :: "dev_env \<Rightarrow> string \<Rightarrow> string \<Rightarrow> unit dev_prog" where
  "WriteFile e path text =
     bindM (fs_call e) (\<lambda>_. modifyM (\<lambda>s. s\<lparr>dv_files := AList.update path text (dv_files s)\<rparr>))"

definition genkey_main :: "dev_env \<Rightarrow> unit dev_prog" where
  "genkey_main e =
     bindM (must (dev_random e 32)) (\<lambda>key.
     let keyBase64 = base64_encode key in
     bindM (print ''Clave AES-256-GCM (base64):'') (\<lambda>_.
     bindM (print keyBase64) (\<lambda>_.
     bindM (print (''\<newline>Longitud: '' @ dec (length keyBase64) @ '' caracteres'')) (\<lambda>_.
     bindM (must (WriteFile e ''aes-key.txt'' keyBase64)) (\<lambda>_.
     print ''\<newline>Clave guardada en aes-key.txt'')))))"

section \<open>Facts\<close>

lemma dev_tick_iff [run_simps]: "dev_tick s = (r, s') \<longleftrightarrow> r = Ok (dv_tick s) \<and> s' = s\<lparr>dv_tick := Suc (dv_tick s)\<rparr>"
  by (auto simp: dev_tick_def)

lemma print_iff [run_simps]: "print line s = (r, s') \<longleftrightarrow> r = Ok () \<and> s' = s\<lparr>dv_out := dv_out s @ [line]\<rparr>"
  by (auto simp: print_def modifyM_def)

lemma dev_random_run:
  "dev_random e n s =
     (case read_full (de_rand e (dv_tick s)) n of Inl err \<Rightarrow> Err (PlainErr err) | Inr bs \<Rightarrow> Ok bs,
      s\<lparr>dv_tick := Suc (dv_tick s)\<rparr>)"
  by (simp add: dev_random_def bindM_def dev_tick_def run_basic split: sum.split)

lemma decode64_encode [simp]: "decode64 (base64_encode bs) = ret bs"
  by (simp add: decode64_def base64_decode_encode)

lemma bindM_ret [simp]: "bindM (ret x) f = f x"
  by (rule ext) (simp add: bindM_def ret_def)

lemma new_cipher_256: "length key = 32 \<Longrightarrow> new_cipher key = ret ()"
  by (simp add: new_cipher_def guardM_def aes_key_size_ok_def)

lemma open_gcm_run:
  "open_gcm key nonce ct s =
     (case gcm_open key nonce ct of
        None \<Rightarrow> Err (PlainErr ''cipher: message authentication failed'') | Some pt \<Rightarrow> Ok pt, s)"
  by (simp add: open_gcm_def run_basic split: option.split)



subsection \<open>The tool and the package\<close>

text \<open>Where \<^verbatim>\<open>pkg/crypto\<close> returns one of these errors the tool panics with this text.\<close>

definition panicking :: "(error_code \<times> string) list \<Rightarrow> go_error + 'a \<Rightarrow> (go_error, 'a) outcome" where
  "panicking texts r =
     (case r of
        Inr x \<Rightarrow> Ok x
      | Inl err \<Rightarrow> (case err of
          PkgErr c \<Rightarrow> (case map_of texts c of Some p \<Rightarrow> Panic p | None \<Rightarrow> Err err)
        | _ \<Rightarrow> Err err))"

lemma tool_WrapKey_panicking:
  "fst (tool_WrapKey e (base64_encode wk) (base64_encode k) s) =
     panicking [(ErrWrappingKeyLength, ''wrapping key length invalid''),
                (ErrKeyToWrapLengthInvalid, ''key to wrap length invalid'')]
       (WrapKey (de_rand e (dv_tick s)) wk k)"
  by (auto simp: tool_WrapKey_def WrapKey_def panicking_def AES256KeySize_def AESGCMIVSize_def run_basic new_cipher_256
      aes_key_size_ok_def bindM_def dev_random_run split: sum.split)

lemma tool_UnwrapKey_panicking:
  "fst (tool_UnwrapKey wk w s) =
     panicking [(ErrWrappingKeyLength, ''wrapping key length invalid ''),
                (ErrWrappingKeyShort, ''wrapped key length invalid'')]
       (UnwrapKey wk w)"
  by (auto simp: tool_UnwrapKey_def UnwrapKey_def panicking_def AES256KeySize_def AESGCMIVSize_def run_basic new_cipher_256
      aes_key_size_ok_def open_gcm_run split: option.split)

lemma encryptAESGCM_run:
  assumes "aes_key_size_ok key" and "read_full (de_rand e (dv_tick s)) 12 = Inr nonce"
  shows "\<exists>lines. encryptAESGCM e pt (base64_encode key) s =
    (Ok (base64_encode (nonce @ gcm_seal key nonce (bytes_of_string pt))),
     s\<lparr>dv_tick := Suc (dv_tick s), dv_out := dv_out s @ lines\<rparr>)"
  using assms
  by (simp add: encryptAESGCM_def new_cipher_def guardM_def bindM_def dev_random_run print_def run_basic Let_def)
    (rule exI, rule refl)

lemma decryptAESGCM_run:
  assumes "aes_key_size_ok key" and "length nonce = 12" and "gcm_open key nonce ct = Some pt"
  shows "decryptAESGCM (base64_encode (nonce @ ct)) (base64_encode key) s = (Ok (string_of_bytes pt), s)"
  using assms
  by (simp add: decryptAESGCM_def new_cipher_def guardM_def open_gcm_run bindM_def run_basic)

text \<open>What is returned, whatever the texts of the errors.\<close>

definition tool_result :: "(go_error, 'a) outcome \<Rightarrow> 'a option" where
  "tool_result r = (case r of Ok x \<Rightarrow> Some x | _ \<Rightarrow> None)"

definition package_result :: "'e + 'a \<Rightarrow> 'a option" where
  "package_result r = (case r of Inr x \<Rightarrow> Some x | Inl _ \<Rightarrow> None)"

lemma package_result_iff: "package_result r = Some x \<longleftrightarrow> r = Inr x" "package_result r = None \<longleftrightarrow> (\<exists>err. r = Inl err)"
  by (auto simp: package_result_def split: sum.splits)

text \<open>The tool encrypts with a key of any AES size, the package with one of 32 bytes.\<close>

lemma tool_encryption:
  "tool_result (fst (encryptAESGCM e pt (base64_encode key) s)) =
     (if aes_key_size_ok key
      then map_option (\<lambda>nonce. base64_encode (nonce @ gcm_seal key nonce (bytes_of_string pt)))
             (package_result (read_full (de_rand e (dv_tick s)) 12))
      else None)"
proof (cases "aes_key_size_ok key")
  case True
  show ?thesis
  proof (cases "read_full (de_rand e (dv_tick s)) 12")
    case (Inl err)
    then show ?thesis using True
      by (simp add: encryptAESGCM_def new_cipher_def guardM_def bindM_def dev_random_run run_basic tool_result_def package_result_def)
  next
    case (Inr nonce)
    then show ?thesis using True encryptAESGCM_run [OF True Inr, of pt] by (auto simp: tool_result_def package_result_def)
  qed
next
  case False
  then show ?thesis by (simp add: encryptAESGCM_def new_cipher_def guardM_def bindM_def run_basic tool_result_def)
qed

lemma package_encryption:
  "map_option (\<lambda>enc. base64_encode (ToBytes enc)) (package_result (EncryptAESGCM r key pt)) =
     (if length key = 32
      then map_option (\<lambda>nonce. base64_encode (nonce @ gcm_seal key nonce pt)) (package_result (read_full r 12))
      else None)"
  by (auto simp: EncryptAESGCM_def package_result_def aes_sizes aes_key_size_ok_def Let_def ToBytes_def split: sum.split)

text \<open>
  The tool decrypts the nonce, the ciphertext and the tag in one text; the package reads the same bytes with
  \<^verbatim>\<open>NewEncryptedDataFromBytes\<close>, and takes no empty ciphertext.
\<close>

definition package_decrypt :: "bytes \<Rightarrow> bytes \<Rightarrow> go_error + bytes" where
  "package_decrypt key b =
     (case NewEncryptedDataFromBytes b of Inl err \<Rightarrow> Inl err | Inr enc \<Rightarrow> DecryptAESGCM key enc)"

lemma tool_decryption:
  "fst (decryptAESGCM (base64_encode b) (base64_encode key) s) =
     (if \<not> aes_key_size_ok key then Err (PlainErr (''crypto/aes: invalid key size '' @ dec (length key)))
      else if length b < 12 then Panic ''slice bounds out of range''
      else case gcm_open key (take 12 b) (drop 12 b) of
        None \<Rightarrow> Err (PlainErr ''cipher: message authentication failed'') | Some pt \<Rightarrow> Ok (string_of_bytes pt))"
  by (simp add: decryptAESGCM_def new_cipher_def guardM_def open_gcm_run bindM_def run_basic split: option.split)

lemma gcm_open_short: "length c < 16 \<Longrightarrow> gcm_open key nonce c = None"
  by (simp add: gcm_open_def gcm_overhead_def)

lemma split_bytes:
  assumes "28 \<le> length b"
  shows "drop 12 (take (length b - 16) b) @ drop (length b - 16) b = drop 12 b"
proof -
  have "drop 12 (take (length b - 16) b @ drop (length b - 16) b) =
      drop 12 (take (length b - 16) b) @ drop (length b - 16) b" using assms by (subst drop_append) simp
  then show ?thesis by simp
qed

lemma package_decryption:
  "package_result (package_decrypt key b) =
     (if length key = 32 \<and> 28 < length b then gcm_open key (take 12 b) (drop 12 b) else None)"
  using split_bytes [of b]
  by (auto simp: package_decrypt_def NewEncryptedDataFromBytes_def DecryptAESGCM_def Encrypt_IsValid_def aes_sizes
      aes_key_size_ok_def package_result_def split: option.split)

subsection \<open>The two programs\<close>

lemma demo_key_bytes:
  "demo_key = base64_encode [44, 187, 241, 129, 115, 201, 8, 70, 53, 177, 233, 54, 121, 51, 98, 133, 94, 229, 106, 160,
     8, 85, 212, 21, 199, 61, 117, 121, 135, 0, 242, 133]"
  by (simp add: demo_key_def quad_of_def b64_char_def) (simp add: char_of_def bit_0)

text \<open>With a working random source the first tool shows the PIN and the key it started from.\<close>

theorem aes_tool_recovers_pin_and_key:
  assumes "\<And>k. \<exists>f. de_rand e k = Inr f"
  shows "\<exists>s'. aes_main e s = (Ok (), s') \<and> ''PIN desencriptado: 1234'' \<in> set (dv_out s')
    \<and> ''Unwrapped Key (base64): '' @ demo_key \<in> set (dv_out s')"
proof -
  obtain key where key: "demo_key = base64_encode key" "length key = 32"
    by (rule that [OF demo_key_bytes]) simp
  have ok: "aes_key_size_ok key" using key(2) by (simp add: aes_key_size_ok_def)
  have rand: "\<exists>bs. read_full (de_rand e k) 12 = Inr bs" for k using assms [of k] by (auto simp: read_full_def)
  obtain n1 where n1: "read_full (de_rand e (dv_tick s)) 12 = Inr n1" using rand by blast
  obtain n2 where n2: "read_full (de_rand e (Suc (dv_tick s))) 12 = Inr n2" using rand by blast
  let ?blob = "n1 @ gcm_seal key n1 (bytes_of_string ''1234'')"
  obtain lines where enc: "encryptAESGCM e ''1234'' demo_key s
      = (Ok (base64_encode ?blob), s\<lparr>dv_tick := Suc (dv_tick s), dv_out := dv_out s @ lines\<rparr>)"
    using encryptAESGCM_run [OF ok n1, of "''1234''"] unfolding key(1) by blast
  have dec: "decryptAESGCM (base64_encode ?blob) demo_key u = (Ok ''1234'', u)" for u
    using decryptAESGCM_run [OF ok read_full_length [OF n1] gcm.open_seal, of _ u] unfolding key(1) by simp
  have wrap: "tool_WrapKey e demo_key demo_key u = (Ok (n2 @ gcm_seal key n2 key), u\<lparr>dv_tick := Suc (dv_tick u)\<rparr>)"
    if "dv_tick u = Suc (dv_tick s)" for u
    using that key(2) n2 unfolding key(1)
    by (simp add: tool_WrapKey_def new_cipher_256 bindM_def dev_random_run run_basic)
  have unwrap: "tool_UnwrapKey key (n2 @ gcm_seal key n2 key) u = (Ok key, u)" for u
    using key(2) read_full_length [OF n2]
    by (simp add: tool_UnwrapKey_def new_cipher_256 gcm.length_seal open_gcm_run gcm.open_seal)
  have "decode64 demo_key = ret key" by (simp add: key(1))
  then show ?thesis
    by (simp add: aes_main_def Let_def must_def catchM_def bindM_def print_def run_basic enc dec wrap unwrap
        flip: key(1))
qed

theorem aes_tool_recovers_pin_and_key_witness:
  "\<exists>s'. aes_main \<lparr>de_rand = \<lambda>k. Inr (\<lambda>i. of_nat (i + k)), de_fs = \<lambda>_. None, de_now = \<lambda>_. 0\<rparr>
       \<lparr>dv_tick = 0, dv_out = [], dv_dirs = [], dv_files = []\<rparr> = (Ok (), s') \<and> ''PIN desencriptado: 1234'' \<in> set (dv_out s')"
  using aes_tool_recovers_pin_and_key [of "\<lparr>de_rand = \<lambda>k. Inr (\<lambda>i. of_nat (i + k)), de_fs = \<lambda>_. None, de_now = \<lambda>_. 0\<rparr>"
      "\<lparr>dv_tick = 0, dv_out = [], dv_dirs = [], dv_files = []\<rparr>"] by auto

lemma length_base64_encode: "length (base64_encode bs) = 4 * ((length bs + 2) div 3)"
proof (induction bs rule: base64_encode.induct)
  case (4 a b c bs)
  have "(length (a # b # c # bs) + 2) div 3 = Suc ((length bs + 2) div 3)" by simp
  then show ?case using 4 by (simp add: quad_of_def)
qed (simp_all add: quad_of_def)

text \<open>
  The file that the second tool leaves is a master key for the local strategy of the key manager: 44 characters
  that decode to 32 bytes, under which every data key can be wrapped.
\<close>

theorem generated_file_is_a_master_key:
  assumes "genkey_main e s = (Ok (), s')"
  shows "\<exists>text. map_of (dv_files s') ''aes-key.txt'' = Some text \<and> length text = 44
    \<and> length (lm_masterKey (NewLocalAESKeyManager \<lparr>lc_MasterKeyKey = text, lc_KeyID = kid\<rparr>)) = 32
    \<and> (\<exists>w. WrapKey (Inr f) (lm_masterKey (NewLocalAESKeyManager \<lparr>lc_MasterKeyKey = text, lc_KeyID = kid\<rparr>))
         (replicate 32 b) = Inr w)"
proof -
  obtain key where key: "read_full (de_rand e (dv_tick s)) 32 = Inr key"
    and stored: "map_of (dv_files s') ''aes-key.txt'' = Some (base64_encode key)"
    using assms
    by (auto simp: genkey_main_def Let_def must_def WriteFile_def fs_call_def dev_random_run run_simps map_of_update
        split: sum.split_asm option.split_asm)
  have "lm_masterKey (NewLocalAESKeyManager \<lparr>lc_MasterKeyKey = base64_encode key, lc_KeyID = kid\<rparr>) = key"
    by (simp add: NewLocalAESKeyManager_def base64_decode_bytes_Some base64_decode_encode)
  moreover have "length key = 32" using key by (rule read_full_length)
  ultimately show ?thesis
    using stored WrapKey_total [of key "replicate 32 b" f] by (auto simp: length_base64_encode)
qed

theorem generated_file_is_a_master_key_witness:
  "\<exists>s' text. genkey_main \<lparr>de_rand = \<lambda>k. Inr (\<lambda>i. of_nat (i + k)), de_fs = \<lambda>_. None, de_now = \<lambda>_. 0\<rparr>
       \<lparr>dv_tick = 0, dv_out = [], dv_dirs = [], dv_files = []\<rparr> = (Ok (), s')
     \<and> map_of (dv_files s') ''aes-key.txt'' = Some text
     \<and> length (lm_masterKey (NewLocalAESKeyManager \<lparr>lc_MasterKeyKey = text, lc_KeyID = ''k''\<rparr>)) = 32"
proof -
  let ?e = "\<lparr>de_rand = \<lambda>k. Inr (\<lambda>i. of_nat (i + k)), de_fs = \<lambda>_. None, de_now = \<lambda>_. 0\<rparr>"
  obtain s' where run: "genkey_main ?e \<lparr>dv_tick = 0, dv_out = [], dv_dirs = [], dv_files = []\<rparr> = (Ok (), s')"
    by (auto simp: genkey_main_def Let_def must_def WriteFile_def fs_call_def dev_random_run run_simps read_full_def)
  then show ?thesis using generated_file_is_a_master_key [OF run, of "''k''"] by auto
qed

section \<open>Properties\<close>

text \<open>
  C32. The tool agrees with \<^verbatim>\<open>pkg/crypto\<close> up to the texts of the errors and three differences. Wrapping and
  unwrapping give the same bytes and the same errors, but panic exactly where the package returns an error for a length.
  With a key that is not of 16 or 24 bytes the tool encrypts exactly when the package does, with the same random bytes to the
  same nonce, ciphertext and tag; and, but for a text with an empty ciphertext (28 bytes), it decrypts exactly
  when the package does, to the same bytes. The differences: with a key of 16 or 24 bytes the package returns its length error and
  the tool goes on with AES-128 or AES-192; the package refuses an empty ciphertext, which the tool opens; and the
  tool panics on a text shorter than the nonce.
\<close>

theorem tool_crypto_is_the_packages:
  "fst (tool_WrapKey e (base64_encode wk) (base64_encode k) s) =
     panicking [(ErrWrappingKeyLength, ''wrapping key length invalid''),
                (ErrKeyToWrapLengthInvalid, ''key to wrap length invalid'')]
       (WrapKey (de_rand e (dv_tick s)) wk k)
   \<and> fst (tool_UnwrapKey wk w s) =
     panicking [(ErrWrappingKeyLength, ''wrapping key length invalid ''),
                (ErrWrappingKeyShort, ''wrapped key length invalid'')]
       (UnwrapKey wk w)
   \<and> (if length key \<in> {16, 24}
      then EncryptAESGCM (de_rand e (dv_tick s)) key (bytes_of_string pt) = Inl (PkgErr ErrInvalidAESKeySize)
         \<and> tool_result (fst (encryptAESGCM e pt (base64_encode key) s)) =
             map_option (\<lambda>nonce. base64_encode (nonce @ gcm_seal key nonce (bytes_of_string pt)))
               (package_result (read_full (de_rand e (dv_tick s)) 12))
      else tool_result (fst (encryptAESGCM e pt (base64_encode key) s)) =
             map_option (\<lambda>enc. base64_encode (ToBytes enc))
               (package_result (EncryptAESGCM (de_rand e (dv_tick s)) key (bytes_of_string pt))))
   \<and> (if length key \<in> {16, 24} \<or> length b = 28
      then package_result (package_decrypt key b) = None
         \<and> tool_result (fst (decryptAESGCM (base64_encode b) (base64_encode key) s)) =
             (if aes_key_size_ok key then map_option string_of_bytes (gcm_open key (take 12 b) (drop 12 b)) else None)
      else tool_result (fst (decryptAESGCM (base64_encode b) (base64_encode key) s)) =
             map_option string_of_bytes (package_result (package_decrypt key b)))
   \<and> ((\<exists>p. fst (decryptAESGCM (base64_encode b) (base64_encode key) s) = Panic p)
        = (aes_key_size_ok key \<and> length b < 12))"
proof -
  have enc: "if length key \<in> {16, 24}
      then EncryptAESGCM (de_rand e (dv_tick s)) key (bytes_of_string pt) = Inl (PkgErr ErrInvalidAESKeySize)
         \<and> tool_result (fst (encryptAESGCM e pt (base64_encode key) s)) =
             map_option (\<lambda>nonce. base64_encode (nonce @ gcm_seal key nonce (bytes_of_string pt)))
               (package_result (read_full (de_rand e (dv_tick s)) 12))
      else tool_result (fst (encryptAESGCM e pt (base64_encode key) s)) =
             map_option (\<lambda>enc. base64_encode (ToBytes enc))
               (package_result (EncryptAESGCM (de_rand e (dv_tick s)) key (bytes_of_string pt)))"
  proof (cases "length key = 32")
    case True
    then show ?thesis by (simp add: tool_encryption package_encryption aes_key_size_ok_def)
  next
    case False
    then have "EncryptAESGCM r key x = Inl (PkgErr ErrInvalidAESKeySize)" for r x
      by (simp add: EncryptAESGCM_def AES256KeySize_def)
    then show ?thesis using False by (auto simp: tool_encryption aes_key_size_ok_def package_result_def)
  qed
  have open_short: "gcm_open key (take 12 b) (drop 12 b) = None" if "length b < 28"
    using that by (simp add: gcm_open_short)
  have dec: "if length key \<in> {16, 24} \<or> length b = 28
      then package_result (package_decrypt key b) = None
         \<and> tool_result (fst (decryptAESGCM (base64_encode b) (base64_encode key) s)) =
             (if aes_key_size_ok key then map_option string_of_bytes (gcm_open key (take 12 b) (drop 12 b)) else None)
      else tool_result (fst (decryptAESGCM (base64_encode b) (base64_encode key) s)) =
             map_option string_of_bytes (package_result (package_decrypt key b))"
    using open_short
    by (auto simp: tool_decryption package_decryption tool_result_def aes_key_size_ok_def split: option.split)
  have "(\<exists>p. fst (decryptAESGCM (base64_encode b) (base64_encode key) s) = Panic p) = (aes_key_size_ok key \<and> length b < 12)"
    by (auto simp: tool_decryption split: option.split)
  then show ?thesis using enc dec by (intro conjI tool_WrapKey_panicking tool_UnwrapKey_panicking)
qed

theorem tool_crypto_is_the_packages_witness:
  "\<exists>enc. EncryptAESGCM (Inr (\<lambda>i. of_nat i)) (replicate 32 7) (bytes_of_string ''1234'') = Inr enc
     \<and> tool_result (fst (encryptAESGCM \<lparr>de_rand = \<lambda>_. Inr (\<lambda>i. of_nat i), de_fs = \<lambda>_. None, de_now = \<lambda>_. 0\<rparr> ''1234''
         (base64_encode (replicate 32 7)) \<lparr>dv_tick = 0, dv_out = [], dv_dirs = [], dv_files = []\<rparr>))
       = Some (base64_encode (ToBytes enc))
     \<and> EncryptAESGCM (Inr (\<lambda>i. of_nat i)) (replicate 16 7) (bytes_of_string ''1234'') = Inl (PkgErr ErrInvalidAESKeySize)
     \<and> tool_result (fst (encryptAESGCM \<lparr>de_rand = \<lambda>_. Inr (\<lambda>i. of_nat i), de_fs = \<lambda>_. None, de_now = \<lambda>_. 0\<rparr> ''1234''
         (base64_encode (replicate 16 7)) \<lparr>dv_tick = 0, dv_out = [], dv_dirs = [], dv_files = []\<rparr>)) \<noteq> None"
proof -
  let ?e = "\<lparr>de_rand = \<lambda>_. Inr (\<lambda>i. of_nat i), de_fs = \<lambda>_. None, de_now = \<lambda>_. 0\<rparr>"
  let ?s = "\<lparr>dv_tick = 0, dv_out = [], dv_dirs = [], dv_files = []\<rparr>"
  obtain enc where enc: "EncryptAESGCM (Inr (\<lambda>i. of_nat i)) (replicate 32 7) (bytes_of_string ''1234'') = Inr enc"
    using EncryptAESGCM_total [of "replicate 32 7"] by auto
  have rand: "package_result (read_full (Inr f) 12) \<noteq> None" for f by (simp add: read_full_def package_result_def)
  show ?thesis
    using tool_crypto_is_the_packages [of ?e "[]" "[]" ?s "[]" "replicate 32 7" "''1234''"]
      tool_crypto_is_the_packages [of ?e "[]" "[]" ?s "[]" "replicate 16 7" "''1234''"] enc rand
    by (simp add: package_result_def)
qed

end
