(* ===== verification/Dev_Tokens.thy ===== *)
theory Dev_Tokens
  imports Http Dev_Crypto
begin

text \<open>
  The developer's tools around the tokens: \<^verbatim>\<open>scripts/generate-keys/main.go\<close>, which writes an RSA key pair
  into \<^verbatim>\<open>certs\<close>, and \<^verbatim>\<open>scripts/generate-jwt/main.go\<close>, which signs five tokens with it; and how the
  service in the mode \<^verbatim>\<open>development\<close> takes them.

  Parameters are \<^verbatim>\<open>crypto/rsa\<close>, the encodings of \<^verbatim>\<open>crypto/x509\<close> and the reader of \<^verbatim>\<open>encoding/pem\<close>
  (\<open>rsa_lib\<close>), and golang-jwt. Paths are relative to the directory the programs are started in.
  \<^verbatim>\<open>log.Fatal\<close> is an error with its text, \<^verbatim>\<open>log.Printf\<close> writes to the standard error and has no counterpart,
  and a deferred \<^verbatim>\<open>Close\<close> of a file changes nothing.
\<close>

section \<open>generate-keys\<close>

text \<open>
  \<open>rl_parse_pkcs8\<close> gives the key, or the name of its type where it is not an RSA key, or an error.
\<close>

record ('sk, 'k) rsa_lib =
  rl_generate :: "nat \<Rightarrow> string + 'sk"
  rl_public :: "'sk \<Rightarrow> 'k"
  rl_marshal_private :: "'sk \<Rightarrow> bytes"
  rl_marshal_public :: "'k \<Rightarrow> bytes"
  rl_parse_pkcs1 :: "bytes \<Rightarrow> string + 'sk"
  rl_parse_pkcs8 :: "bytes \<Rightarrow> string + (string + 'sk)"
  rl_pem_decode :: "string \<Rightarrow> (string \<times> bytes) option"

text \<open>\<^verbatim>\<open>pem.Encode\<close> of a block without headers: lines of 64 base64 characters between two markers.\<close>

definition pem_encode :: "string \<Rightarrow> bytes \<Rightarrow> string" where
  "pem_encode blockType bs =
     ''-----BEGIN '' @ blockType @ ''-----'' @ [CHR 0x0A]
     @ concat (map (\<lambda>line. line @ [CHR 0x0A]) (chunks 64 (base64_encode bs)))
     @ ''-----END '' @ blockType @ ''-----'' @ [CHR 0x0A]"

definition there :: "string \<Rightarrow> dev_state \<Rightarrow> bool" where
  "there path s = (path \<in> set (dv_dirs s) \<or> map_of (dv_files s) path \<noteq> None)"

text \<open>\<^verbatim>\<open>os.IsNotExist\<close> of the error of \<^verbatim>\<open>os.Stat\<close>; another error is not that one.\<close>

definition Stat_IsNotExist :: "dev_env \<Rightarrow> string \<Rightarrow> bool dev_prog" where
  "Stat_IsNotExist e path = tryM (fs_call e) (\<lambda>_. ret False) (\<lambda>_. getsM (\<lambda>s. \<not> there path s))"

definition Mkdir :: "dev_env \<Rightarrow> string \<Rightarrow> unit dev_prog" where
  "Mkdir e path = bindM (fs_call e) (\<lambda>_. modifyM (\<lambda>s. s\<lparr>dv_dirs := dv_dirs s @ [path]\<rparr>))"

definition os_Create :: "dev_env \<Rightarrow> string \<Rightarrow> string \<Rightarrow> unit dev_prog" where
  "os_Create e dir name =
     (let path = dir @ ''/'' @ name in
      bindM (fs_call e) (\<lambda>_. bindM (getsM id) (\<lambda>s.
        if dir \<notin> set (dv_dirs s)
        then throw (PlainErr (''open '' @ path @
          (if there dir s then '': not a directory'' else '': no such file or directory'')))
        else if path \<in> set (dv_dirs s) then throw (PlainErr (''open '' @ path @ '': is a directory''))
        else modifyM (\<lambda>s. s\<lparr>dv_files := AList.update path '''' (dv_files s)\<rparr>))))"

text \<open>\<^verbatim>\<open>if err != nil { panic(fmt.Sprintf("...: %v", err)) }\<close>.\<close>

definition must_say :: "string \<Rightarrow> 'a dev_prog \<Rightarrow> 'a dev_prog" where
  "must_say message m = catchM m (\<lambda>err. panicM (message @ error_text err))"

definition pem_Encode :: "dev_env \<Rightarrow> string \<Rightarrow> string \<Rightarrow> bytes \<Rightarrow> unit dev_prog" where
  "pem_Encode e path blockType bs = WriteFile e path (pem_encode blockType bs)"

definition GenerateKey :: "('sk, 'k) rsa_lib \<Rightarrow> 'sk dev_prog" where
  "GenerateKey L = bindM dev_tick (\<lambda>n. case rl_generate L n of Inl err \<Rightarrow> throw (PlainErr err) | Inr sk \<Rightarrow> ret sk)"

definition keys_main :: "('sk, 'k) rsa_lib \<Rightarrow> dev_env \<Rightarrow> unit dev_prog" where
  "keys_main L e =
     bindM (Stat_IsNotExist e ''certs'') (\<lambda>missing.
     bindM (if missing then dropErr (Mkdir e ''certs'') else ret ()) (\<lambda>_.
     bindM (print ''Generando claves RSA 2048...'') (\<lambda>_.
     bindM (must_say ''Error generando clave privada: '' (GenerateKey L)) (\<lambda>privateKey.
     bindM (must_say ''Error creando archivo private.pem: '' (os_Create e ''certs'' ''private.pem'')) (\<lambda>_.
     bindM (must_say ''Error escribiendo private.pem: ''
       (pem_Encode e ''certs/private.pem'' ''RSA PRIVATE KEY'' (rl_marshal_private L privateKey))) (\<lambda>_.
     bindM (must_say ''Error creando archivo public.pem: '' (os_Create e ''certs'' ''public.pem'')) (\<lambda>_.
     bindM (must_say ''Error escribiendo public.pem: ''
       (pem_Encode e ''certs/public.pem'' ''RSA PUBLIC KEY'' (rl_marshal_public L (rl_public L privateKey)))) (\<lambda>_.
     bindM (must_say ''Error creando jwks.json: '' (os_Create e ''certs'' ''jwks.json'')) (\<lambda>_.
     bindM (print ''Claves generadas exitosamente:'') (\<lambda>_.
     bindM (print ''   - certs/private.pem (NO committear)'') (\<lambda>_.
     bindM (print ''   - certs/public.pem'') (\<lambda>_.
     print ''   - certs/jwks.json (para identification-service)''))))))))))))"

section \<open>generate-jwt\<close>

record dev_claims =
  dc_KID :: string
  dc_TenantID :: string
  dc_OwnerType :: string
  dc_OwnerID :: string
  dc_OrganizationID :: "string option"
  dc_ParentKeyID :: "string option"
  dc_UserID :: string
  dc_CertLevel :: int
  dc_MaxCertLevel :: int
  dc_CanCertify :: bool
  dc_CertificationPath :: string
  dc_Permissions :: details
  dc_Issuer :: string
  dc_Subject :: string
  dc_Audience :: string
  dc_ExpiresAt :: int
  dc_IssuedAt :: int
  dc_NotBefore :: int
  dc_Id :: string

record token_config =
  tc_Name :: string
  tc_KID :: string
  tc_TenantID :: string
  tc_OwnerType :: string
  tc_OwnerID :: string
  tc_OrganizationID :: "string option"
  tc_ParentKeyID :: "string option"
  tc_UserID :: string
  tc_CertLevel :: int
  tc_MaxCertLevel :: int
  tc_CanCertify :: bool
  tc_CertificationPath :: string
  tc_Permissions :: details
  tc_Subject :: string
  tc_JWTID :: string

definition depPublicKey :: string where "depPublicKey = ''dev-key''"
definition rootTenantId :: string where "rootTenantId = ''00000000-0000-0000-0000-000000000001''"
definition devKeyRootId :: string where "devKeyRootId = ''e9195d89-0d7a-4c60-b759-580c714f1fe9''"
definition rootUserId :: string where "rootUserId = ''00000000-0000-0000-0000-000000000001''"
definition celayaTenantId :: string where "celayaTenantId = ''20000000-2000-2000-2000-000000000001''"
definition celayaOrganizationId :: string where "celayaOrganizationId = ''20000000-2000-2000-2000-000000000011''"
definition devKeyCelayaTenantId :: string where "devKeyCelayaTenantId = ''c78fcdc4-ac80-4ef4-a210-143f4cd48782''"
definition celayaTenantUserId :: string where "celayaTenantUserId = ''20000000-2000-2000-2000-000000000101''"
definition celayaDepOrganizationId :: string where "celayaDepOrganizationId = ''20000000-2000-2000-2000-000000000012''"
definition devKeyCelayaDepId :: string where "devKeyCelayaDepId = ''8535ffc9-0d23-4e55-8b0d-1ef91d37e950''"
definition celayaDepUserId :: string where "celayaDepUserId = ''20000000-2000-2000-2000-000000000103''"
definition celayaDirDepUserId :: string where "celayaDirDepUserId = ''20000000-2000-2000-2000-000000000102''"
definition resellerTenantId :: string where "resellerTenantId = ''30000000-3000-3000-3000-000000000001''"
definition resellerUserId :: string where "resellerUserId = ''30000000-3000-3000-3000-000000000001''"

definition permitted :: "string \<Rightarrow> string list \<Rightarrow> string \<times> dval" where
  "permitted resource actions = (resource, DList (map DStr actions))"

text \<open>The five configurations, in their order.\<close>

definition root_config :: token_config where
  "root_config = \<lparr>tc_Name = ''Root Tenant - DigSigna'', tc_KID = depPublicKey, tc_TenantID = rootTenantId,
     tc_OwnerType = ''TENANT'', tc_OwnerID = rootUserId, tc_OrganizationID = None, tc_ParentKeyID = None,
     tc_UserID = rootUserId, tc_CertLevel = 0, tc_MaxCertLevel = 3, tc_CanCertify = True, tc_CertificationPath = '''',
     tc_Permissions = [permitted ''keys'' [''create'', ''read'', ''update'', ''delete'', ''sign''],
       permitted ''certificates'' [''issue'', ''revoke'', ''manage''], permitted ''tenants'' [''create'', ''manage''],
       (''max_key_size'', DInt 4096)],
     tc_Subject = ''tenant-root'', tc_JWTID = ''dev-jti-root''\<rparr>"

definition municipality_config :: token_config where
  "municipality_config = \<lparr>tc_Name = ''Municipality Tenant'', tc_KID = depPublicKey, tc_TenantID = celayaTenantId,
     tc_OwnerType = ''TENANT'', tc_OwnerID = celayaTenantUserId, tc_OrganizationID = Some celayaOrganizationId,
     tc_ParentKeyID = Some devKeyRootId, tc_UserID = celayaTenantUserId, tc_CertLevel = 1, tc_MaxCertLevel = 2,
     tc_CanCertify = True, tc_CertificationPath = devKeyRootId,
     tc_Permissions = [permitted ''keys'' [''create'', ''read'', ''update'', ''sign''],
       permitted ''certificates'' [''issue'', ''revoke''], (''max_key_size'', DInt 2048)],
     tc_Subject = ''organization-municipality'', tc_JWTID = ''dev-jti-municipality''\<rparr>"

definition department_config :: token_config where
  "department_config = \<lparr>tc_Name = ''Department Branch'', tc_KID = depPublicKey, tc_TenantID = celayaTenantId,
     tc_OwnerType = ''ORGANIZATION'', tc_OwnerID = celayaDepOrganizationId,
     tc_OrganizationID = Some celayaDepOrganizationId, tc_ParentKeyID = Some devKeyCelayaTenantId,
     tc_UserID = celayaDepUserId, tc_CertLevel = 2, tc_MaxCertLevel = 1, tc_CanCertify = True,
     tc_CertificationPath = devKeyRootId @ devKeyCelayaTenantId,
     tc_Permissions = [permitted ''keys'' [''read'', ''sign''], permitted ''documents'' [''sign'', ''validate'']],
     tc_Subject = ''organization-department'', tc_JWTID = ''dev-jti-department''\<rparr>"

definition user_config :: token_config where
  "user_config = \<lparr>tc_Name = ''End User'', tc_KID = depPublicKey, tc_TenantID = celayaTenantId,
     tc_OwnerType = ''USER'', tc_OwnerID = celayaDirDepUserId, tc_OrganizationID = Some celayaDepOrganizationId,
     tc_ParentKeyID = Some devKeyCelayaDepId, tc_UserID = celayaDirDepUserId, tc_CertLevel = 3, tc_MaxCertLevel = 0,
     tc_CanCertify = False, tc_CertificationPath = devKeyRootId @ devKeyCelayaTenantId @ devKeyCelayaDepId,
     tc_Permissions = [permitted ''keys'' [''sign''], permitted ''documents'' [''sign'']],
     tc_Subject = ''end-user'', tc_JWTID = ''dev-jti-user''\<rparr>"

definition reseller_config :: token_config where
  "reseller_config = \<lparr>tc_Name = ''Reseller White-label'', tc_KID = depPublicKey, tc_TenantID = resellerTenantId,
     tc_OwnerType = ''TENANT'', tc_OwnerID = resellerTenantId, tc_OrganizationID = None, tc_ParentKeyID = None,
     tc_UserID = resellerUserId, tc_CertLevel = 0, tc_MaxCertLevel = 2, tc_CanCertify = True, tc_CertificationPath = '''',
     tc_Permissions = [permitted ''keys'' [''create'', ''read'', ''update'', ''delete'', ''sign''],
       permitted ''certificates'' [''issue'', ''revoke''], permitted ''white_label'' [''branding'', ''customize''],
       (''max_key_size'', DInt 2048)],
     tc_Subject = ''reseller-root'', tc_JWTID = ''dev-jti-reseller''\<rparr>"

definition token_configs :: "token_config list" where
  "token_configs = [root_config, municipality_config, department_config, user_config, reseller_config]"

text \<open>\<^verbatim>\<open>Unix()\<close>: whole seconds, rounded down. A day has 86400000000000 nanoseconds.\<close>

definition unix :: "time \<Rightarrow> int" where
  "unix t = t div 1000000000"

definition day :: time where
  "day = 86400000000000"

definition claims_of :: "token_config \<Rightarrow> time \<Rightarrow> time \<Rightarrow> dev_claims" where
  "claims_of config now1 now2 = \<lparr>dc_KID = tc_KID config, dc_TenantID = tc_TenantID config,
     dc_OwnerType = tc_OwnerType config, dc_OwnerID = tc_OwnerID config, dc_OrganizationID = tc_OrganizationID config,
     dc_ParentKeyID = tc_ParentKeyID config, dc_UserID = tc_UserID config, dc_CertLevel = tc_CertLevel config,
     dc_MaxCertLevel = tc_MaxCertLevel config, dc_CanCertify = tc_CanCertify config,
     dc_CertificationPath = tc_CertificationPath config, dc_Permissions = tc_Permissions config,
     dc_Issuer = ''identification-service'', dc_Subject = tc_Subject config, dc_Audience = ''hsm-service'',
     dc_ExpiresAt = unix (now1 + day), dc_IssuedAt = unix now2, dc_NotBefore = 0, dc_Id = tc_JWTID config\<rparr>"

text \<open>\<^verbatim>\<open>SignedString\<close> of golang-jwt on a header, claims and a key, and its parser at a time.\<close>

type_synonym 'sk jwt_signer = "jwt_header \<Rightarrow> dev_claims \<Rightarrow> 'sk \<Rightarrow> string + string"
type_synonym 'k jwt_checker = "string \<Rightarrow> 'k \<Rightarrow> time \<Rightarrow> string option"

definition generateToken :: "'sk jwt_signer \<Rightarrow> dev_env \<Rightarrow> token_config \<Rightarrow> 'sk \<Rightarrow> string dev_prog" where
  "generateToken sign e config privateKey =
     bindM (dev_now e) (\<lambda>now1. bindM (dev_now e) (\<lambda>now2.
     let claims = claims_of config now1 now2 in
     case sign \<lparr>jh_alg = ''RS256'', jh_rsa = True, jh_kid = Some (dc_KID claims)\<rparr> claims privateKey of
       Inl err \<Rightarrow> throw (PlainErr err)
     | Inr tok \<Rightarrow> ret tok))"

definition verifyToken :: "'k jwt_checker \<Rightarrow> dev_env \<Rightarrow> string \<Rightarrow> 'k \<Rightarrow> unit dev_prog" where
  "verifyToken check e tokenString publicKey =
     bindM (dev_now e) (\<lambda>now. case check tokenString publicKey now of
       Some err \<Rightarrow> throw (PlainErr err) | None \<Rightarrow> ret ())"

text \<open>Relative paths with and without \<^verbatim>\<open>./\<close> in front name the same file.\<close>

definition ReadFile :: "dev_env \<Rightarrow> string \<Rightarrow> string dev_prog" where
  "ReadFile e path =
     bindM (fs_call e) (\<lambda>_. bindM (getsM (\<lambda>s. map_of (dv_files s) (trim_prefix ''./'' path))) (\<lambda>r.
     case r of None \<Rightarrow> throw (PlainErr (''open '' @ path @ '': no such file or directory'')) | Some text \<Rightarrow> ret text))"

definition loadPrivateKey :: "('sk, 'k) rsa_lib \<Rightarrow> dev_env \<Rightarrow> 'sk dev_prog" where
  "loadPrivateKey L e =
     bindM (wrapErr (\<lambda>err. PlainErr (''failed to read private key file: '' @ error_text err))
       (ReadFile e ''./certs/private.pem'')) (\<lambda>privateKeyPEM.
     case rl_pem_decode L privateKeyPEM of
       None \<Rightarrow> throw (PlainErr ''failed to parse PEM block containing the private key'')
     | Some (_, blockBytes) \<Rightarrow>
         (case rl_parse_pkcs1 L blockBytes of
            Inr privateKey \<Rightarrow> ret privateKey
          | Inl _ \<Rightarrow>
              (case rl_parse_pkcs8 L blockBytes of
                 Inl err \<Rightarrow> throw (PlainErr (''failed to parse private key: '' @ err))
               | Inr (Inl ty) \<Rightarrow> panicM (''interface conversion: interface {} is '' @ ty @ '', not *rsa.PrivateKey'')
               | Inr (Inr privateKey) \<Rightarrow> ret privateKey)))"

definition issue_one :: "('sk, 'k) rsa_lib \<Rightarrow> 'sk jwt_signer \<Rightarrow> 'k jwt_checker \<Rightarrow> dev_env \<Rightarrow> 'sk \<Rightarrow> token_config \<Rightarrow> unit dev_prog" where
  "issue_one L sign check e privateKey config =
     tryM (generateToken sign e config privateKey) (\<lambda>_. ret ()) (\<lambda>tokenString.
     bindM (print (''=== '' @ tc_Name config @ '' ==='')) (\<lambda>_.
     bindM (print (''Token: '' @ tokenString)) (\<lambda>_.
     bindM (print '''') (\<lambda>_.
     bindM (tryM (verifyToken check e tokenString (rl_public L privateKey)) (\<lambda>_. ret ())
       (\<lambda>_. print '' Token verified successfully'')) (\<lambda>_.
     print ''---'')))))"

primrec issue_all :: "('sk, 'k) rsa_lib \<Rightarrow> 'sk jwt_signer \<Rightarrow> 'k jwt_checker \<Rightarrow> dev_env \<Rightarrow> 'sk \<Rightarrow> token_config list \<Rightarrow> unit dev_prog" where
  "issue_all L sign check e privateKey [] = ret ()"
| "issue_all L sign check e privateKey (config # configs) =
     bindM (issue_one L sign check e privateKey config) (\<lambda>_. issue_all L sign check e privateKey configs)"

definition jwt_main :: "('sk, 'k) rsa_lib \<Rightarrow> 'sk jwt_signer \<Rightarrow> 'k jwt_checker \<Rightarrow> dev_env \<Rightarrow> unit dev_prog" where
  "jwt_main L sign check e =
     bindM (loadPrivateKey L e) (\<lambda>privateKey. issue_all L sign check e privateKey token_configs)"

section \<open>A token's way to the service\<close>

text \<open>
  The claims as the service reads them from the JSON that the tool wrote: the struct tags of the two programs
  agree but for \<^verbatim>\<open>kid\<close>, which the service does not read; a zero date and an empty audience are left out, a
  string audience becomes a list of one, dates are whole seconds, and lists and numbers keep their values.
\<close>

definition service_claims :: "dev_claims \<Rightarrow> custom_claims" where
  "service_claims c = \<lparr>cc_TenantID = dc_TenantID c, cc_OwnerType = dc_OwnerType c, cc_OwnerID = dc_OwnerID c,
     cc_OrganizationID = dc_OrganizationID c, cc_ParentKeyID = dc_ParentKeyID c, cc_UserID = dc_UserID c,
     cc_CertLevel = dc_CertLevel c, cc_MaxCertLevel = dc_MaxCertLevel c, cc_CanCertify = dc_CanCertify c,
     cc_CertificationPath = dc_CertificationPath c, cc_Permissions = dc_Permissions c, cc_Issuer = dc_Issuer c,
     cc_Audience = (if dc_Audience c = '''' then [] else [dc_Audience c]),
     cc_ExpiresAt = (if dc_ExpiresAt c = 0 then None else Some (dc_ExpiresAt c * 1000000000)),
     cc_NotBefore = (if dc_NotBefore c = 0 then None else Some (dc_NotBefore c * 1000000000)),
     cc_ID = dc_Id c\<rparr>"

text \<open>
  What is relied on of golang-jwt: a token that was signed with a private key is parsed as valid, with its
  header and claims, when the key function returns the public key for the header, the algorithm is among the
  valid methods, and the clock, which the parser reads once, is neither before the date of issue nor at or after
  the expiry.
\<close>

definition issued_tokens_parse ::
  "('sk, 'k) rsa_lib \<Rightarrow> 'sk jwt_signer \<Rightarrow> 't env \<Rightarrow> ('t, 'k) jwt_parser \<Rightarrow> bool" where
  "issued_tokens_parse L sign e parse \<longleftrightarrow>
     (\<forall>h c sk tok ms kf s u. sign h c sk = Inr tok \<longrightarrow> jh_alg h \<in> set ms \<longrightarrow> kf h s = (Ok (rl_public L sk), u) \<longrightarrow>
        dc_NotBefore c = 0 \<longrightarrow> dc_IssuedAt c * 1000000000 \<le> now_at e (w_tick (app_world u)) \<longrightarrow>
        now_at e (w_tick (app_world u)) < dc_ExpiresAt c * 1000000000 \<longrightarrow>
        parse tok ms kf s = (Ok (True, service_claims c),
          u\<lparr>app_world := (app_world u)\<lparr>w_tick := Suc (w_tick (app_world u))\<rparr>\<rparr>))"

text \<open>What is relied on of \<^verbatim>\<open>crypto/x509\<close> and \<^verbatim>\<open>encoding/pem\<close>: what was encoded is read back.\<close>

definition key_encodings_read_back :: "('sk, 'k) rsa_lib \<Rightarrow> 'k auth_io \<Rightarrow> bool" where
  "key_encodings_read_back L io \<longleftrightarrow>
     (\<forall>sk. rl_parse_pkcs1 L (rl_marshal_private L sk) = Inr sk)
     \<and> (\<forall>pk. io_pkcs1 io (rl_marshal_public L pk) = Inr pk)
     \<and> (\<forall>ty bs. ty \<in> {''RSA PRIVATE KEY'', ''RSA PUBLIC KEY''} \<longrightarrow> rl_pem_decode L (pem_encode ty bs) = Some (ty, bs))"

text \<open>The service is started where the tool was: it reads the tool's files.\<close>

definition reads_files :: "('sk, 'k) rsa_lib \<Rightarrow> 'k auth_io \<Rightarrow> dev_state \<Rightarrow> bool" where
  "reads_files L io s \<longleftrightarrow>
     (\<forall>path text. map_of (dv_files s) (trim_prefix ''./'' path) = Some text \<longrightarrow> io_pem io path = Inr (rl_pem_decode L text))"

section \<open>Facts\<close>

lemma fs_call_iff [run_simps]:
  "fs_call e s = (Ok u, s') \<longleftrightarrow> de_fs e (dv_tick s) = None \<and> s' = s\<lparr>dv_tick := Suc (dv_tick s)\<rparr>"
  by (auto simp: fs_call_def run_simps split: option.split)

lemma must_say_Ok [run_simps]: "must_say message m s = (Ok x, s') \<longleftrightarrow> m s = (Ok x, s')"
  by (auto simp: must_say_def run_simps)

lemma GenerateKey_Ok [run_simps]:
  "GenerateKey L s = (Ok sk, s') \<longleftrightarrow> rl_generate L (dv_tick s) = Inr sk \<and> s' = s\<lparr>dv_tick := Suc (dv_tick s)\<rparr>"
  by (auto simp: GenerateKey_def run_simps split: sum.split)

lemma os_Create_Ok:
  "os_Create e dir name s = (Ok u, s') \<Longrightarrow> \<exists>k. s' = s\<lparr>dv_tick := k, dv_files := AList.update (dir @ ''/'' @ name) '''' (dv_files s)\<rparr>"
  by (auto simp: os_Create_def Let_def run_simps split: if_split_asm)

lemma pem_Encode_Ok:
  "pem_Encode e path ty bs s = (Ok u, s') \<Longrightarrow> \<exists>k. s' = s\<lparr>dv_tick := k, dv_files := AList.update path (pem_encode ty bs) (dv_files s)\<rparr>"
  by (auto simp: pem_Encode_def WriteFile_def run_simps)

lemma keys_main_files:
  assumes "keys_main L e s = (Ok (), s')"
  shows "\<exists>n sk. rl_generate L n = Inr sk
    \<and> map_of (dv_files s') ''certs/private.pem'' = Some (pem_encode ''RSA PRIVATE KEY'' (rl_marshal_private L sk))
    \<and> map_of (dv_files s') ''certs/public.pem'' = Some (pem_encode ''RSA PUBLIC KEY'' (rl_marshal_public L (rl_public L sk)))
    \<and> map_of (dv_files s') ''certs/jwks.json'' = Some ''''"
proof -
  obtain u0 sk u1 u2 u3 u4 u5 u6 where gen: "GenerateKey L u0 = (Ok sk, u1)"
    and f1: "os_Create e ''certs'' ''private.pem'' u1 = (Ok (), u2)"
    and f2: "pem_Encode e ''certs/private.pem'' ''RSA PRIVATE KEY'' (rl_marshal_private L sk) u2 = (Ok (), u3)"
    and f3: "os_Create e ''certs'' ''public.pem'' u3 = (Ok (), u4)"
    and f4: "pem_Encode e ''certs/public.pem'' ''RSA PUBLIC KEY'' (rl_marshal_public L (rl_public L sk)) u4 = (Ok (), u5)"
    and f5: "os_Create e ''certs'' ''jwks.json'' u5 = (Ok (), u6)" and s': "dv_files s' = dv_files u6"
    using assms unfolding keys_main_def by (fastforce simp: bindM_Ok must_say_Ok print_iff)
  note files = os_Create_Ok [OF f1] pem_Encode_Ok [OF f2] os_Create_Ok [OF f3] pem_Encode_Ok [OF f4] os_Create_Ok [OF f5]
  have "dv_files s' = AList.update ''certs/jwks.json'' '''' (AList.update ''certs/public.pem''
      (pem_encode ''RSA PUBLIC KEY'' (rl_marshal_public L (rl_public L sk))) (AList.update ''certs/public.pem'' ''''
      (AList.update ''certs/private.pem'' (pem_encode ''RSA PRIVATE KEY'' (rl_marshal_private L sk))
      (AList.update ''certs/private.pem'' '''' (dv_files u1)))))"
    using files by (clarsimp simp: s')
  then show ?thesis using gen by (auto simp: GenerateKey_Ok map_of_update)
qed

lemma dev_now_run [run_simps]: "dev_now e s = (Ok (de_now e (dv_tick s)), s\<lparr>dv_tick := Suc (dv_tick s)\<rparr>)"
  by (simp add: dev_now_def bindM_def dev_tick_def run_basic)

lemma generateToken_Ok:
  "generateToken sign e config sk s = (Ok tok, s') \<longleftrightarrow>
     sign \<lparr>jh_alg = ''RS256'', jh_rsa = True, jh_kid = Some (tc_KID config)\<rparr>
       (claims_of config (de_now e (dv_tick s)) (de_now e (Suc (dv_tick s)))) sk = Inr tok
     \<and> s' = s\<lparr>dv_tick := Suc (Suc (dv_tick s))\<rparr>"
  by (auto simp: generateToken_def run_simps Let_def claims_of_def split: sum.split_asm)

lemma loadPrivateKey_run:
  assumes "key_encodings_read_back L io" and "de_fs e (dv_tick s) = None"
    and "map_of (dv_files s) ''certs/private.pem'' = Some (pem_encode ''RSA PRIVATE KEY'' (rl_marshal_private L sk))"
  shows "loadPrivateKey L e s = (Ok sk, s\<lparr>dv_tick := Suc (dv_tick s)\<rparr>)"
  using assms
  by (simp add: loadPrivateKey_def ReadFile_def fs_call_def wrapErr_def catchM_def bindM_def dev_tick_def run_basic
      trim_prefix_def has_prefix_def key_encodings_read_back_def)

lemma NewKeyManager_run:
  assumes "key_encodings_read_back L io" and "reads_files L io s"
    and "map_of (dv_files s) ''certs/public.pem'' = Some (pem_encode ''RSA PUBLIC KEY'' (rl_marshal_public L pk))"
    and "ac_Mode cfg = ''development''" and "ac_PublicKeyPath cfg = ''./certs/public.pem''"
  shows "NewKeyManager e io cfg a = (Ok (), a\<lparr>km_keys := [(''dev-key'', pk)], km_lastFetch := zero_time\<rparr>)"
proof -
  have "io_pem io ''./certs/public.pem'' = Inr (Some (''RSA PUBLIC KEY'', rl_marshal_public L pk))"
    using assms(1,3) assms(2) [unfolded reads_files_def, rule_format, of "''./certs/public.pem''"]
    by (simp add: trim_prefix_def has_prefix_def key_encodings_read_back_def)
  then show ?thesis
    using assms(1,4,5)
    by (simp add: NewKeyManager_def loadInitialKeys_def loadFromPEMFile_def set_key_def wrapErr_def catchM_def bindM_def
        run_basic key_encodings_read_back_def)
qed

text \<open>The five configurations name an owner of a known type and no permission that \<^verbatim>\<open>HasPermission\<close> would see.\<close>

lemmas config_defs = token_configs_def root_config_def municipality_config_def department_config_def user_config_def
  reseller_config_def depPublicKey_def rootTenantId_def rootUserId_def celayaTenantId_def celayaTenantUserId_def
  celayaDepOrganizationId_def celayaDirDepUserId_def resellerTenantId_def

lemma token_configs_facts:
  assumes "cfg \<in> set token_configs"
  shows "tc_KID cfg = ''dev-key''" and "tc_TenantID cfg \<noteq> ''''" and "tc_OwnerID cfg \<noteq> ''''"
    and "OwnerType_IsValid (tc_OwnerType cfg)" and "(k, DStr p) \<notin> set (tc_Permissions cfg)"
  using assms by (auto simp: config_defs OwnerType_IsValid_def permitted_def)

lemma issued_tokens_parseD:
  assumes "issued_tokens_parse L sign e parse" and "sign h c sk = Inr tok" and "jh_alg h \<in> set ms"
    and "(kf :: jwt_header \<Rightarrow> ('t, 'k, 'k) app_prog) h s = (Ok (rl_public L sk), u)" and "dc_NotBefore c = 0"
    and "dc_IssuedAt c * 1000000000 \<le> now_at e (w_tick (app_world u))"
    and "now_at e (w_tick (app_world u)) < dc_ExpiresAt c * 1000000000"
  shows "parse tok ms kf s
    = (Ok (True, service_claims c), u\<lparr>app_world := (app_world u)\<lparr>w_tick := Suc (w_tick (app_world u))\<rparr>\<rparr>)"
  using assms unfolding issued_tokens_parse_def by blast

lemma GetKeyFunc_development:
  assumes "ac_Mode auth = ''development''" and "map_of (km_keys a) kid = Some pk"
  shows "GetKeyFunc e io auth \<lparr>jh_alg = alg, jh_rsa = True, jh_kid = Some kid\<rparr> a = (Ok pk, a)"
  using assms by (simp add: GetKeyFunc_def GetPublicKey_def bindM_def run_basic)

lemma whole_seconds: "unix t * 1000000000 \<le> t" "t - 1000000000 < unix t * 1000000000"
proof -
  have "t = unix t * 1000000000 + t mod 1000000000" unfolding unix_def by (rule div_mult_mod_eq [symmetric])
  moreover have "0 \<le> t mod 1000000000" "t mod 1000000000 < 1000000000" by simp_all
  ultimately show "unix t * 1000000000 \<le> t" "t - 1000000000 < unix t * 1000000000" by linarith+
qed

text \<open>The claims of a fresh token as the service's further checks see them.\<close>

lemma validateClaims_fresh:
  assumes "cfg \<in> set token_configs" and "now_at e (w_tick (app_world a)) \<le> now1 + day - 1000000000"
  shows "validateClaims e io \<lparr>va_issuer = ''identification-service'', va_audience = ''hsm-service''\<rparr>
     (service_claims (claims_of cfg now1 now2)) a
   = (Ok (), a\<lparr>app_world := (app_world a)\<lparr>w_tick := Suc (w_tick (app_world a))\<rparr>\<rparr>)"
  using assms(2) whole_seconds(2) [of "now1 + day"] token_configs_facts(2,3) [OF assms(1)]
  by (simp add: validateClaims_def service_claims_def claims_of_def bindM_def run_tick run_basic guardM_def)

lemma service_identity:
  assumes "cfg \<in> set token_configs" and "claims = service_claims (claims_of cfg now1 now2)"
  shows "Identity_Validate (createIdentityContext claims) = None"
    and "id_TenantID (createIdentityContext claims) = tc_TenantID cfg"
    and "id_OwnerType (createIdentityContext claims) = tc_OwnerType cfg"
    and "id_OwnerID (createIdentityContext claims) = tc_OwnerID cfg"
    and "\<not> HasPermission (createSessionContext claims) p"
  using token_configs_facts [OF assms(1)]
  by (auto simp: assms(2) createIdentityContext_def createSessionContext_def owner_type_of_def OwnerType_IsValid_def
      Identity_Validate_def service_claims_def claims_of_def HasPermission_def)

text \<open>A token of the tool, taken by a service that knows its key, at most a day less a second after it was made.\<close>

lemma ValidateToken_fresh:
  assumes parse: "issued_tokens_parse L sign e parse" and cfg: "cfg \<in> set token_configs"
    and tok: "generateToken sign d cfg sk s = (Ok tok, s')"
    and auth: "ac_Mode auth = ''development''" "map_of (km_keys a) ''dev-key'' = Some (rl_public L sk)"
    and clock: "de_now d (Suc (dv_tick s)) \<le> now_at e (w_tick (app_world a))"
      "now_at e (w_tick (app_world a)) \<le> now_at e (Suc (w_tick (app_world a)))"
      "now_at e (Suc (w_tick (app_world a))) \<le> de_now d (dv_tick s) + day - 1000000000"
  shows "\<exists>a'. ValidateToken e io auth parse \<lparr>va_issuer = ''identification-service'', va_audience = ''hsm-service''\<rparr> tok a
    = (Ok (service_claims (claims_of cfg (de_now d (dv_tick s)) (de_now d (Suc (dv_tick s))))), a')"
proof -
  let ?c = "claims_of cfg (de_now d (dv_tick s)) (de_now d (Suc (dv_tick s)))"
  let ?h = "\<lparr>jh_alg = ''RS256'', jh_rsa = True, jh_kid = Some (tc_KID cfg)\<rparr>"
  let ?a = "a\<lparr>app_world := (app_world a)\<lparr>w_tick := Suc (w_tick (app_world a))\<rparr>\<rparr>"
  have signed_tok: "sign ?h ?c sk = Inr tok" using tok by (simp add: generateToken_Ok)
  have key: "GetKeyFunc e io auth ?h a = (Ok (rl_public L sk), a)"
    using GetKeyFunc_development [OF auth] token_configs_facts(1) [OF cfg] by simp
  have "dc_IssuedAt ?c * 1000000000 \<le> now_at e (w_tick (app_world a))"
    "now_at e (w_tick (app_world a)) < dc_ExpiresAt ?c * 1000000000"
    using clock whole_seconds(1) [of "de_now d (Suc (dv_tick s))"] whole_seconds(2) [of "de_now d (dv_tick s) + day"]
    by (simp_all add: claims_of_def)
  moreover have "jh_alg ?h \<in> set valid_methods" "dc_NotBefore ?c = 0" by (simp_all add: valid_methods_def claims_of_def)
  ultimately have "parse tok valid_methods (GetKeyFunc e io auth) a = (Ok (True, service_claims ?c), ?a)"
    by (intro issued_tokens_parseD [where kf = "GetKeyFunc e io auth" and h = ?h and s = a, OF parse signed_tok _ key])
  moreover have "validateClaims e io \<lparr>va_issuer = ''identification-service'', va_audience = ''hsm-service''\<rparr> (service_claims ?c) ?a
    = (Ok (), ?a\<lparr>app_world := (app_world ?a)\<lparr>w_tick := Suc (w_tick (app_world ?a))\<rparr>\<rparr>)"
    by (rule validateClaims_fresh [OF cfg]) (use clock(3) in simp)
  ultimately show ?thesis by (simp add: ValidateToken_def wrapErr_def catchM_def bindM_def run_basic)
qed

text \<open>The tool goes through its configurations whatever the signer and the parser answer.\<close>

lemma issue_one_returns: "\<exists>s'. issue_one L sign check e sk cfg s = (Ok (), s')"
proof -
  have gen: "\<exists>t. generateToken sign e cfg sk s = (case sign \<lparr>jh_alg = ''RS256'', jh_rsa = True, jh_kid = Some (tc_KID cfg)\<rparr>
      (claims_of cfg (de_now e (dv_tick s)) (de_now e (Suc (dv_tick s)))) sk of Inl err \<Rightarrow> Err (PlainErr err) | Inr tok \<Rightarrow> Ok tok, t)"
    by (auto simp: generateToken_def bindM_def dev_now_run Let_def run_basic claims_of_def split: sum.split)
  have check: "\<exists>t. tryM (verifyToken check e tok pk) (\<lambda>_. ret ()) (\<lambda>_. print line) u = (Ok (), t)" for tok pk line u
    by (auto simp: verifyToken_def tryM_def bindM_def dev_now_run print_def run_basic split: option.split)
  obtain r t where "generateToken sign e cfg sk s = (r, t)" "\<forall>p. r \<noteq> Panic p"
    using gen by (auto split: sum.split_asm)
  then show ?thesis
  proof (cases r)
    case (Ok tok)
    let ?v = "t\<lparr>dv_out := dv_out t @ [''=== '' @ tc_Name cfg @ '' ==='', ''Token: '' @ tok, '''']\<rparr>"
    obtain u where "tryM (verifyToken check e tok (rl_public L sk)) (\<lambda>_. ret ()) (\<lambda>_. print '' Token verified successfully'') ?v = (Ok (), u)"
      using check by blast
    then show ?thesis using Ok \<open>generateToken sign e cfg sk s = (r, t)\<close> by (simp add: issue_one_def bindM_def print_def run_basic)
  qed (simp_all add: issue_one_def run_basic)
qed

lemma jwt_main_returns:
  assumes "loadPrivateKey L e s = (Ok sk, u)"
  shows "\<exists>s'. jwt_main L sign check e s = (Ok (), s')"
proof -
  have "\<exists>s'. issue_all L sign check e sk cfgs s = (Ok (), s')" for cfgs s
  proof (induction cfgs arbitrary: s)
    case (Cons cfg cfgs)
    obtain t where "issue_one L sign check e sk cfg s = (Ok (), t)" using issue_one_returns [of L sign check e sk cfg s] by blast
    then show ?case using Cons.IH [of t] by simp
  qed (simp add: run_basic)
  then show ?thesis using assms by (simp add: jwt_main_def)
qed

subsection \<open>A concrete reader of the files\<close>

text \<open>For the witnesses: PEM files as \<^verbatim>\<open>pem.Encode\<close> writes them, read again.\<close>

definition read_pem :: "string \<Rightarrow> (string \<times> bytes) option" where
  "read_pem text =
     (let rest = drop 11 text; ty = takeWhile (\<lambda>c. c \<noteq> CHR ''-'') rest;
          body = takeWhile (\<lambda>c. c \<noteq> CHR ''-'') (drop (length ty + 6) rest)
      in map_option (Pair ty) (base64_decode body))"

lemma base64_encode_no_dash: "CHR ''-'' \<notin> set (base64_encode bs)"
proof -
  have "b64_value (CHR ''-'') = None" by (simp add: b64_value_def)
  then have "b64_char n \<noteq> CHR ''-''" if "n < 64" for n
    using b64_value_char [OF that] by (metis option.distinct(1))
  then have "CHR ''-'' \<notin> set (quad_of n)" for n by (auto simp: quad_of_def dest: sym)
  then show ?thesis
    by (induction bs rule: base64_encode.induct) (auto dest!: in_set_takeD)
qed

lemma concat_chunks: "0 < n \<Longrightarrow> concat (chunks n xs) = xs"
  by (induction n xs rule: chunks.induct) (subst chunks.simps, auto)

lemma lines_without_breaks:
  "filter (\<lambda>c. c \<noteq> CHR 0x0A \<and> c \<noteq> CHR 0x0D) (concat (map (\<lambda>l. l @ [CHR 0x0A]) ls))
   = filter (\<lambda>c. c \<noteq> CHR 0x0A \<and> c \<noteq> CHR 0x0D) (concat ls)"
  by (induction ls) auto

lemma read_pem_encode:
  assumes "CHR ''-'' \<notin> set ty"
  shows "read_pem (pem_encode ty bs) = Some (ty, bs)"
proof -
  define body where "body = concat (map (\<lambda>l. l @ [CHR 0x0A]) (chunks 64 (base64_encode bs)))"
  define tail where "tail = ''-----END '' @ ty @ ''-----'' @ [CHR 0x0A]"
  have whole: "drop 11 (pem_encode ty bs) = ty @ ''-----'' @ [CHR 0x0A] @ body @ tail"
    by (simp add: pem_encode_def body_def tail_def)
  have ty: "takeWhile (\<lambda>c. c \<noteq> CHR ''-'') (ty @ ''-----'' @ [CHR 0x0A] @ body @ tail) = ty"
    using assms by (simp add: takeWhile_append takeWhile_eq_all_conv)
  have "set body \<subseteq> insert (CHR 0x0A) (set (concat (chunks 64 (base64_encode bs))))" by (auto simp: body_def)
  then have "CHR ''-'' \<notin> set body" using base64_encode_no_dash [of bs] by (auto simp: concat_chunks)
  then have body: "takeWhile (\<lambda>c. c \<noteq> CHR ''-'') (body @ tail) = body"
    by (simp add: tail_def takeWhile_append takeWhile_eq_all_conv)
  have "base64_decode body = base64_decode (base64_encode bs)"
    by (simp add: base64_decode_def body_def lines_without_breaks concat_chunks)
  then show ?thesis
    unfolding read_pem_def whole Let_def ty by (simp add: body base64_decode_encode)
qed

text \<open>Keys of one byte, and a signer and a parser that know one token.\<close>

definition sample_rsa :: "(byte, byte) rsa_lib" where
  "sample_rsa = \<lparr>rl_generate = \<lambda>_. Inr 5, rl_public = id, rl_marshal_private = \<lambda>k. [k], rl_marshal_public = \<lambda>k. [k],
     rl_parse_pkcs1 = \<lambda>bs. Inr (hd bs), rl_parse_pkcs8 = \<lambda>_. Inl '''', rl_pem_decode = read_pem\<rparr>"

definition sample_dev :: dev_env where
  "sample_dev = \<lparr>de_rand = \<lambda>k. Inr (\<lambda>i. of_nat (i + k)), de_fs = \<lambda>_. None, de_now = \<lambda>_. 0\<rparr>"

definition sample_files :: dev_state where
  "sample_files = \<lparr>dv_tick = 0, dv_out = [], dv_dirs = [], dv_files = []\<rparr>"

definition files_io :: "dev_state \<Rightarrow> byte auth_io" where
  "files_io s = \<lparr>io_pem = \<lambda>path. (case map_of (dv_files s) (trim_prefix ''./'' path) of
       None \<Rightarrow> Inl ''no such file'' | Some text \<Rightarrow> Inr (read_pem text)),
     io_pkcs1 = \<lambda>bs. Inr (hd bs), io_pkix = \<lambda>_. Inl '''', io_jwks = \<lambda>_. Inl ''connection refused'', io_time = \<lambda>_. ''''\<rparr>"

abbreviation issued_header :: jwt_header where
  "issued_header \<equiv> \<lparr>jh_alg = ''RS256'', jh_rsa = True, jh_kid = Some ''dev-key''\<rparr>"

definition sample_sign :: "byte jwt_signer" where
  "sample_sign h c sk =
     (if h = issued_header \<and> c = claims_of root_config 0 0 \<and> sk = 5 then Inr ''good'' else Inl ''not the sample'')"

definition sample_issued :: "('t, byte) jwt_parser" where
  "sample_issued tok ms kf =
     bindM (kf issued_header) (\<lambda>_. bindM (on_world tickM) (\<lambda>_.
     ret (tok = ''good'', service_claims (claims_of root_config 0 0))))"

lemma sample_contracts:
  "key_encodings_read_back sample_rsa (files_io s)" "reads_files sample_rsa (files_io s) s"
  "issued_tokens_parse sample_rsa sample_sign e sample_issued"
  by (auto simp: key_encodings_read_back_def reads_files_def issued_tokens_parse_def sample_rsa_def files_io_def
      read_pem_encode sample_sign_def sample_issued_def bindM_def on_world_def tickM_def run_basic split: if_split_asm)

lemma sample_keys: "\<exists>s. keys_main sample_rsa sample_dev sample_files = (Ok (), s)"
  by (simp add: keys_main_def Stat_IsNotExist_def tryM_def fs_call_def dev_tick_def sample_dev_def sample_files_def
      there_def Mkdir_def dropErr_def attempt_def must_say_def catchM_def GenerateKey_def sample_rsa_def os_Create_def
      Let_def pem_Encode_def WriteFile_def print_def bindM_def run_basic)

section \<open>Properties\<close>

text \<open>
  When \<^verbatim>\<open>generate-keys\<close> ends, \<^verbatim>\<open>generate-jwt\<close> loads the private key of the new pair, and a service in the mode
  \<^verbatim>\<open>development\<close> with the default path of its configuration starts with exactly the public key, under the id
  \<^verbatim>\<open>dev-key\<close>. The file \<^verbatim>\<open>jwks.json\<close>, announced for the identity service, is empty.
\<close>

theorem generated_keys_are_read_back:
  assumes "key_encodings_read_back L io" and "keys_main L d s0 = (Ok (), s)" and "reads_files L io s"
    and "ac_Mode auth = ''development''" and "ac_PublicKeyPath auth = ''./certs/public.pem''" and "de_fs d (dv_tick s) = None"
  shows "\<exists>sk s1. loadPrivateKey L d s = (Ok sk, s1)
    \<and> NewKeyManager e io auth a = (Ok (), a\<lparr>km_keys := [(''dev-key'', rl_public L sk)], km_lastFetch := zero_time\<rparr>)
    \<and> map_of (dv_files s) ''certs/jwks.json'' = Some ''''"
  using keys_main_files [OF assms(2)] loadPrivateKey_run [where e = d and s = s, OF assms(1,6)] NewKeyManager_run [OF assms(1,3) _ assms(4,5)]
  by blast

theorem generated_keys_are_read_back_witness:
  "\<exists>s s1. keys_main sample_rsa sample_dev sample_files = (Ok (), s) \<and> loadPrivateKey sample_rsa sample_dev s = (Ok 5, s1)
     \<and> fst (NewKeyManager sample_env (files_io s) \<lparr>ac_Mode = ''development'', ac_PublicKeyPath = ''./certs/public.pem'',
         ac_JWKSUrl = '''', ac_JWKSCacheMinutes = 60\<rparr> \<lparr>app_world = fresh_world sample_token, km_keys = [], km_lastFetch = 0\<rparr>) = Ok ()"
proof -
  obtain s where s: "keys_main sample_rsa sample_dev sample_files = (Ok (), s)" using sample_keys by blast
  have fs: "de_fs sample_dev (dv_tick s) = None" by (simp add: sample_dev_def)
  have "map_of (dv_files s) ''certs/private.pem'' = Some (pem_encode ''RSA PRIVATE KEY'' (rl_marshal_private sample_rsa 5))"
    using keys_main_files [OF s] by (auto simp: sample_rsa_def)
  then have "loadPrivateKey sample_rsa sample_dev s = (Ok 5, s\<lparr>dv_tick := Suc (dv_tick s)\<rparr>)"
    by (rule loadPrivateKey_run [OF sample_contracts(1) fs])
  then show ?thesis
    using s generated_keys_are_read_back [OF sample_contracts(1) s sample_contracts(2), where auth = "\<lparr>ac_Mode = ''development'',
        ac_PublicKeyPath = ''./certs/public.pem'', ac_JWKSUrl = '''', ac_JWKSCacheMinutes = 60\<rparr>" and e = sample_env
        and a = "\<lparr>app_world = fresh_world sample_token, km_keys = [], km_lastFetch = 0\<rparr>"] fs by auto
qed

text \<open>
  C24. The developer's chain works: after \<^verbatim>\<open>generate-keys\<close>, every one of the five tokens that \<^verbatim>\<open>generate-jwt\<close> signs
  is accepted by a service in the mode \<^verbatim>\<open>development\<close> for a day less a second, and gives a valid identity with the
  tenant, the owner type and the owner of its configuration. None of them grants a permission that
  \<^verbatim>\<open>HasPermission\<close> finds, as their permissions are lists.
\<close>

theorem development_tokens_are_accepted:
  assumes "key_encodings_read_back L io" and "issued_tokens_parse L sign e parse"
    and "keys_main L d s0 = (Ok (), s)" and "reads_files L io s"
    and "ac_Mode auth = ''development''" and "ac_PublicKeyPath auth = ''./certs/public.pem''"
    and "NewKeyManager e io auth a0 = (Ok (), a)"
    and "loadPrivateKey L d s = (Ok sk, s1)" and "de_fs d (dv_tick s) = None"
    and "cfg \<in> set token_configs" and "generateToken sign d cfg sk s1 = (Ok tok, s2)"
    and "de_now d (Suc (dv_tick s1)) \<le> now_at e (w_tick (app_world a))"
    and "now_at e (w_tick (app_world a)) \<le> now_at e (Suc (w_tick (app_world a)))"
    and "now_at e (Suc (w_tick (app_world a))) \<le> de_now d (dv_tick s1) + day - 1000000000"
  shows "\<exists>claims a'. ValidateToken e io auth parse \<lparr>va_issuer = ''identification-service'', va_audience = ''hsm-service''\<rparr> tok a
      = (Ok claims, a')
    \<and> Identity_Validate (createIdentityContext claims) = None
    \<and> id_TenantID (createIdentityContext claims) = tc_TenantID cfg
    \<and> id_OwnerType (createIdentityContext claims) = tc_OwnerType cfg
    \<and> id_OwnerID (createIdentityContext claims) = tc_OwnerID cfg
    \<and> \<not> HasPermission (createSessionContext claims) p"
proof -
  obtain sk' where priv: "map_of (dv_files s) ''certs/private.pem'' = Some (pem_encode ''RSA PRIVATE KEY'' (rl_marshal_private L sk'))"
    and pub: "map_of (dv_files s) ''certs/public.pem'' = Some (pem_encode ''RSA PUBLIC KEY'' (rl_marshal_public L (rl_public L sk')))"
    using keys_main_files [OF assms(3)] by blast
  have "sk = sk'" using loadPrivateKey_run [OF assms(1,9) priv] assms(8) by simp
  then have "map_of (km_keys a) ''dev-key'' = Some (rl_public L sk)"
    using NewKeyManager_run [OF assms(1,4) pub assms(5,6), of e a0] assms(7) by auto
  then show ?thesis
    using ValidateToken_fresh [OF assms(2,10,11,5) _ assms(12,13,14), of io] service_identity [OF assms(10) refl]
    by blast
qed

theorem development_tokens_are_accepted_witness:
  "\<exists>s s1 a a' claims. generateToken sample_sign sample_dev root_config 5 s1 = (Ok ''good'', s)
     \<and> ValidateToken (sample_env\<lparr>now_at := \<lambda>_. 0\<rparr>) (files_io s1) \<lparr>ac_Mode = ''development'',
         ac_PublicKeyPath = ''./certs/public.pem'', ac_JWKSUrl = '''', ac_JWKSCacheMinutes = 60\<rparr> sample_issued
         \<lparr>va_issuer = ''identification-service'', va_audience = ''hsm-service''\<rparr> ''good'' a = (Ok claims, a')
     \<and> id_TenantID (createIdentityContext claims) = rootTenantId"
proof -
  let ?e = "sample_env\<lparr>now_at := \<lambda>_. 0\<rparr>"
  let ?auth = "\<lparr>ac_Mode = ''development'', ac_PublicKeyPath = ''./certs/public.pem'', ac_JWKSUrl = '''', ac_JWKSCacheMinutes = 60\<rparr>"
  let ?a0 = "\<lparr>app_world = fresh_world sample_token, km_keys = [], km_lastFetch = 0\<rparr>"
  let ?a = "?a0\<lparr>km_keys := [(''dev-key'', 5)], km_lastFetch := zero_time\<rparr>"
  obtain s where s: "keys_main sample_rsa sample_dev sample_files = (Ok (), s)" using sample_keys by blast
  let ?s1 = "s\<lparr>dv_tick := Suc (dv_tick s)\<rparr>"
  have fs: "de_fs sample_dev (dv_tick s) = None" and now: "de_now sample_dev n = 0" for n by (simp_all add: sample_dev_def)
  have key: "map_of (dv_files s) ''certs/private.pem'' = Some (pem_encode ''RSA PRIVATE KEY'' (rl_marshal_private sample_rsa 5))"
    "map_of (dv_files s) ''certs/public.pem'' = Some (pem_encode ''RSA PUBLIC KEY'' (rl_marshal_public sample_rsa 5))"
    using keys_main_files [OF s] by (auto simp: sample_rsa_def)
  have load: "loadPrivateKey sample_rsa sample_dev s = (Ok 5, ?s1)"
    by (rule loadPrivateKey_run [OF sample_contracts(1) fs key(1)])
  have start: "NewKeyManager ?e (files_io s) ?auth ?a0 = (Ok (), ?a)"
    using NewKeyManager_run [where e = ?e and a = ?a0 and cfg = ?auth, OF sample_contracts(1,2) key(2)] by simp
  have root: "root_config \<in> set token_configs" "tc_KID root_config = ''dev-key''" "tc_TenantID root_config = rootTenantId"
    by (simp_all add: token_configs_def root_config_def depPublicKey_def)
  obtain s2 where tok: "generateToken sample_sign sample_dev root_config 5 ?s1 = (Ok ''good'', s2)"
    by (simp add: generateToken_Ok sample_sign_def root now)
  have "\<exists>claims a'. ValidateToken ?e (files_io s) ?auth sample_issued
      \<lparr>va_issuer = ''identification-service'', va_audience = ''hsm-service''\<rparr> ''good'' ?a = (Ok claims, a')
    \<and> id_TenantID (createIdentityContext claims) = rootTenantId"
    using development_tokens_are_accepted [OF sample_contracts(1,3) s sample_contracts(2) _ _ start load fs root(1) tok]
    by (simp add: now day_def root(3)) blast
  moreover have "files_io s = files_io ?s1" by (simp add: files_io_def)
  ultimately show ?thesis using tok by metis
qed



end
