(* ===== verification/Spec2Isabelle.thy ===== *)
theory Spec2Isabelle
  imports Api_Lifecycle Auth_Service Health_Check Dev_Tokens
begin

text \<open>
  A model of hsm-service, a Go service that keeps tenants' keys in PKCS#11 tokens and signs, verifies,
  encrypts and decrypts with them over HTTP.

  \<^bold>\<open>How the program runs.\<close> A request passes the middlewares (\<^verbatim>\<open>internal/interfaces/http\<close>): its metadata go into
  the context, panics are caught, the bearer token is validated (\<^verbatim>\<open>internal/interfaces/auth\<close>). Its handler calls a
  service of \<^verbatim>\<open>internal/application/services\<close>. A service reads the tenant and the slot from MySQL, asks the HSM
  manager for the slot's client, which drives the token over PKCS#11, stores rows, and sends audit events to a
  worker that records them. At the start, and when a tenant gets a slot, the PIN of a token is generated, sealed
  with AES-256-GCM under a data key that is itself wrapped by one of the AES key managers, and stored; the
  bootstrapper opens the tokens again from these rows.

  \<^bold>\<open>How it is modelled.\<close> A function that may fail, panic and change state is a program of type \<open>('s, 'e, 'a) prog\<close>
  (theory \<open>Prelude\<close>): from a state to an outcome \<open>Ok\<close>, \<open>Err\<close> or \<open>Panic\<close> and the next state, composed with
  \<open>bindM\<close>, \<open>catchM\<close>, \<open>tryM\<close>, \<open>deferM\<close> as the code composes calls, error tests and deferred calls. The state is the
  record \<open>world\<close> (theory \<open>World\<close>): the tables as lists of rows, the token, the process-wide PKCS#11 variables, the
  clients, the caches of the key managers, the shared details of predefined errors, the audit events sent, and a
  counter of calls to the outside. The outside is the record \<open>env\<close>: the clock, randomness, the Kubernetes API and
  the failures of the database as functions of that counter, the PKCS#11 library as functions on an abstract token.
  Every theorem holds for every environment unless a hypothesis says otherwise.

  \<^bold>\<open>Theories.\<close>
  \<^item> \<open>Prelude\<close>: programs, their laws, and the locale \<open>effect\<close>: a reflexive, transitive relation between states that
    the combinators preserve; it carries the frame lemmas (interpreted as \<open>same\<close>, \<open>grows\<close>, \<open>cache\<close>).
  \<^item> \<open>Go_Strings\<close>, \<open>Go_Crypto\<close>, \<open>Go_Sha256\<close>, \<open>Go_Der\<close>, \<open>Go_Net\<close>: what the code uses of Go's standard library, written
    out: strings and numerals, base64, AES and GCM, SHA-256, the DER of public keys, IP addresses, headers.
  \<^item> \<open>Exceptions\<close>, \<open>Domain\<close>: \<^verbatim>\<open>internal/domain\<close>, one record per struct, one definition per method.
  \<^item> \<open>Crypto\<close>: \<^verbatim>\<open>pkg/crypto\<close>, with the locale \<open>aead\<close> interpreted on GCM: what is sealed opens, a changed tag does not.
  \<^item> \<open>Secrets\<close>: \<^verbatim>\<open>internal/infrastructure/secrets\<close>, the local, Kubernetes and Vault key managers and the auditing
    adapter; the locale \<open>key_wrapping\<close> is interpreted on each of them, and its extension \<open>stable_key_wrapping\<close>,
    in which other calls come in between, on the adapter.
  \<^item> \<open>Storage\<close>: the MySQL repositories, with the locale \<open>key_repository\<close>.
  \<^item> \<open>Pkcs11\<close>, \<open>Hsm_Client\<close>, \<open>Hsm_Manager\<close>: \<^verbatim>\<open>internal/infrastructure/hsm\<close>, the context behind \<^verbatim>\<open>sync.Once\<close> and the
    session pool, the client of a slot, the manager of the clients (locale \<open>client_registry\<close>) and the bootstrapper.
  \<^item> \<open>Service_Helpers\<close>, \<open>Key_Service\<close>, \<open>Signing_Service\<close>, \<open>Crypto_Service\<close>, \<open>Hsm_Key_Service\<close>, \<open>Slot_Service\<close>,
    \<open>Auth_Service\<close>: the services, one theory per file.
  \<^item> \<open>Key_Lifecycle\<close>: the services together. A step is any call of any of them, with what its caller learns; the
    specification is a vault, a plain set of stored keys with the changes and uses the calls promise. The locale
    \<open>kept\<close> carries an invariant along a run, its extension \<open>refined\<close> a simulation; they are interpreted on the
    services, and on the vault for what follows from the promises alone.
  \<^item> \<open>Request\<close>, \<open>Audit_Events\<close>, \<open>Audit_Worker\<close>: \<^verbatim>\<open>pkg/request\<close> and \<^verbatim>\<open>internal/infrastructure/audit\<close>: a request's metadata, the
    event built from them, the recorders and the worker. The worker is a system of interleaved actions of senders,
    three goroutines and callers of \<^verbatim>\<open>Close\<close>; the locale \<open>fifo_buffer\<close> says what it promises and is interpreted on it.
  \<^item> \<open>Jwt\<close>, \<open>Http\<close>, \<open>Handlers\<close>: \<^verbatim>\<open>internal/interfaces\<close>, the validation of tokens, the middlewares, the handlers, the
    table of routes and the way of a request through all of them.
  \<^item> \<open>App_Config\<close>, \<open>Mysql_Dsn\<close>, \<open>Logger\<close>, \<open>Startup\<close>, \<open>Health_Check\<close>: the configuration, the connection string,
    \<^verbatim>\<open>pkg/logger\<close>, \<^verbatim>\<open>cmd/api/main.go\<close> with its order of opening, serving and closing, and \<^verbatim>\<open>pkg/health\<close>.
    \<open>Startup\<close> puts the other theories together:
    its \<open>main\<close> runs the bootstrapper, serves requests through the chain of \<open>Handlers\<close> and closes the manager of
    \<open>Hsm_Manager\<close> and the worker of \<open>Audit_Worker\<close>.
  \<^item> \<open>Api_Lifecycle\<close>: any sequence of requests to the routes, followed from the middlewares down to the rows of keys.
  \<^item> \<open>Dev_Crypto\<close>, \<open>Dev_Tokens\<close>: the developers' programs under \<^verbatim>\<open>scripts\<close>: encrypting and wrapping by hand, a master key
    in a file, a key pair in PEM files, and signed tokens. They are compared with \<open>Crypto\<close>, \<open>Secrets\<close> and \<open>Jwt\<close>, which
    read what they write.
  \<^item> \<open>Sample\<close>: a concrete software token and environment that the witnesses run on.

  \<^bold>\<open>What the lemmas show.\<close> Encryption, wrapping and the sealed PIN of a slot are round trips through every key
  manager. The PKCS#11 library is initialised once, and what is left when it has been finalised. A created key is
  one valid row of the tenant with which its tenant can sign if it is a key for signing, and a failed creation leaves
  no row and deletes the generated private key. Signatures and verdicts come only from active signing keys of the caller's tenant, over HTTP only
  for a valid token of that tenant. Over any sequence of service calls the stored keys are a vault: only creations
  add to it, only a deletion for the tenant takes out, a deleted key is never usable again, other tenants cannot
  touch it, and what is stored stays well-formed. Over any sequence of requests the new rows are those of the
  answers 201 of one route, one for each, and belong to whom a signed token names. Operations are audited and tracked whatever
  their outcome. Every audit event is accounted for: dropped because the channel was full, waiting, recorded and then in the
  table or at the audit service once, or given up because the recorder failed. With the hybrid or the database
  strategy, a database that answers and calls that are not slow, the workers bring every event that was sent into one of the
  two as long as the worker is not closed; and closing ends. Provisioning a
  slot leaves a row that boots with its PIN, or rolls back. Claims come only from signed, current tokens, and every
  request is answered. Going down, the process closes the audit worker twice and panics. The developers' chain fits
  together: the keys one tool writes are read by the next and by the service, which takes the tokens for a day.

  \<^bold>\<open>Bounds.\<close> Loops of the code run over lists and are structural recursions here. The audit channel holds 1000 events
  and three goroutines read it, as the constants of \<^verbatim>\<open>worker.go\<close> say. Integers of the code that are measured or
  compared keep their width where it matters (slot numbers are 64-bit words, a duration wraps at 64 bits); sizes and lengths
  are \<^typ>\<open>nat\<close> or \<^typ>\<open>int\<close>. An attempt to record an audit event has five seconds in all (\<open>recordAuditEvent\<close>): the record
  \<open>audit_sink\<close> carries the time it has used, each call of the database or the audit service takes as long as the environment
  says, and one that is broken off may have been done all the same; those events are kept apart (\<open>sk_unconfirmed\<close>).

  \<^bold>\<open>Not modelled.\<close> The entries written to the log; JSON encoding; the SQL text of statements (each method is what its statement means on
  rows); the mutexes of clients and manager, which order whole calls; concurrent requests (they are served one after the
  other; only the audit worker is modelled as interleaved); the deadlines of contexts other than the worker's, such as the
  thirty seconds of the bootstrap (an expired one shows as a failed database or Kubernetes call, which the environment may
  decide at any call); the adapters of \<^verbatim>\<open>internal/infrastructure/security\<close>, whose
  methods are commented out; the interfaces under \<^verbatim>\<open>ports\<close>, whose methods are those of the components that implement
  them, and the data carriers under \<^verbatim>\<open>application/dtos\<close>, which nothing uses; shell scripts and the test. Gin, golang-jwt, viper, the PKCS#11 library, softhsm2-util, Kubernetes, the database driver and
  the audit service are parameters.
\<close>

end
